(* ===== verification/Mym_Prelude.thy ===== *)
theory Mym_Prelude
  imports Main "HOL-Library.Word"
begin

text \<open>
  Vocabulary shared by every theory of the development: bytes and machine integers, the ways a
  call into the program can end other than by returning (a MATLAB error, or behaviour that the C++
  standard leaves undefined), the sequencing of fallible steps, and the C string functions of
  \<open>string.h\<close>, \<open>strings.h\<close> and \<open>ctype.h\<close> that \<open>src/src/mym.cpp\<close> calls.

  A pointer into a buffer is the list of the bytes from the pointer to the end of the allocated
  object: advancing the pointer is \<open>drop\<close>, and a read that needs more bytes than are left is the
  value \<open>Read_out_of_bounds\<close>, never an unspecified list element.
\<close>

unbundle bit_operations_syntax

section \<open>Machine types\<close>

type_synonym byte = "8 word"
type_synonym mwSize = "64 word"    \<comment> \<open>\<open>size_t\<close> of the four 64-bit builds under distribution/\<close>

definition INT_MAX :: nat where
  "INT_MAX = 2147483647"

definition bytes_of :: "string \<Rightarrow> byte list" where
  "bytes_of s = map of_char s"

section \<open>Results: values, MATLAB errors, undefined behaviour\<close>

datatype fault =
    Read_out_of_bounds
  | Write_out_of_bounds
  | Null_dereference
  | Use_after_free
  | Signed_overflow
  | Conversion_overflow
  | Uninitialised_read
  | Bad_format
  | Misaligned_access
  | Assertion_failed

text \<open>
  \<open>MexErrMsgTxt\<close> and \<open>MexErrMsgIdAndTxt\<close> are the two error exits of the MEX interface the program
  uses; \<open>Out_of_memory\<close> is the error exit of \<open>mxCalloc\<close> when it is asked for more than any machine
  has; \<open>Undefined\<close> marks executions to which the C++ standard gives no meaning.
\<close>

datatype merror =
    MexErrMsgTxt string
  | MexErrMsgIdAndTxt string string
  | Out_of_memory
  | Undefined fault

type_synonym 'a res = "merror + 'a"

abbreviation ret :: "'a \<Rightarrow> 'a res" where
  "ret \<equiv> Inr"

abbreviation mexErrMsgTxt :: "string \<Rightarrow> 'a res" where
  "mexErrMsgTxt s \<equiv> Inl (MexErrMsgTxt s)"

abbreviation mexErrMsgIdAndTxt :: "string \<Rightarrow> string \<Rightarrow> 'a res" where
  "mexErrMsgIdAndTxt i s \<equiv> Inl (MexErrMsgIdAndTxt i s)"

abbreviation undefined_behaviour :: "fault \<Rightarrow> 'a res" where
  "undefined_behaviour f \<equiv> Inl (Undefined f)"

fun is_undefined :: "'a res \<Rightarrow> bool" where
  "is_undefined (Inl (Undefined _)) = True"
| "is_undefined _ = False"

definition bindE :: "'a res \<Rightarrow> ('a \<Rightarrow> 'b res) \<Rightarrow> 'b res" where
  "bindE m f = (case m of Inl e \<Rightarrow> Inl e | Inr x \<Rightarrow> f x)"

lemma bindE_simps [simp]:
  "bindE (Inl e) f = Inl e"
  "bindE (Inr x) f = f x"
  by (simp_all add: bindE_def)

lemma bindE_cong [fundef_cong]:
  "m = m' \<Longrightarrow> (\<And>x. m' = Inr x \<Longrightarrow> f x = f' x) \<Longrightarrow> bindE m f = bindE m' f'"
  by (cases m') simp_all

lemma bindE_eq_Inr: "bindE m f = Inr y \<longleftrightarrow> (\<exists>x. m = Inr x \<and> f x = Inr y)"
  by (cases m) simp_all

lemma bindE_eq_Inl: "bindE m f = Inl e \<longleftrightarrow> m = Inl e \<or> (\<exists>x. m = Inr x \<and> f x = Inl e)"
  by (cases m) simp_all

lemma bindE_assoc: "bindE (bindE m f) g = bindE m (\<lambda>x. bindE (f x) g)"
  by (cases m) simp_all

lemma bindE_ret [simp]: "bindE m Inr = m"
  by (cases m) simp_all

lemma bindE_if: "bindE (if b then m else n) f = (if b then bindE m f else bindE n f)"
  by simp

lemma if_ret_error [simp]:
  "(if b then Inl e else m) = Inr y \<longleftrightarrow> \<not> b \<and> m = Inr y"
  "(if b then m else Inl e) = Inr y \<longleftrightarrow> b \<and> m = Inr y"
  by auto

text \<open>A guard that ends the run with the given error unless the condition holds.\<close>

definition requireE :: "bool \<Rightarrow> merror \<Rightarrow> unit res" where
  "requireE b e = (if b then Inr () else Inl e)"

lemma requireE_simps [simp]:
  "requireE True e = Inr ()"
  "requireE False e = Inl e"
  "requireE b e = Inr () \<longleftrightarrow> b"
  by (simp_all add: requireE_def)

section \<open>Reading and writing memory\<close>

text \<open>\<open>memread n p\<close> is a \<open>memcpy\<close> of \<open>n\<close> bytes from \<open>p\<close>, with the advanced pointer.\<close>

definition memread :: "nat \<Rightarrow> byte list \<Rightarrow> (byte list \<times> byte list) res" where
  "memread n p = (if n \<le> length p then Inr (take n p, drop n p)
                  else undefined_behaviour Read_out_of_bounds)"

lemma memread_append [simp]: "length xs = n \<Longrightarrow> memread n (xs @ p) = Inr (xs, p)"
  by (auto simp: memread_def)

lemma memread_all [simp]: "length xs = n \<Longrightarrow> memread n xs = Inr (xs, [])"
  by (auto simp: memread_def)

lemma memread_Inr: "memread n p = Inr (xs, q) \<longleftrightarrow> n \<le> length p \<and> xs = take n p \<and> q = drop n p"
  by (auto simp: memread_def)

lemma memread_short: "length p < n \<Longrightarrow> memread n p = undefined_behaviour Read_out_of_bounds"
  by (simp add: memread_def)

text \<open>
  \<open>emit nb w bs\<close> writes \<open>bs\<close> at the running pointer of a buffer of \<open>nb\<close> bytes of which \<open>w\<close> have been
  written already.
\<close>

definition emit :: "nat \<Rightarrow> byte list \<Rightarrow> byte list \<Rightarrow> byte list res" where
  "emit nb w bs = (if length w + length bs \<le> nb then Inr (w @ bs)
                   else undefined_behaviour Write_out_of_bounds)"

lemma emit_ok [simp]: "length w + length bs \<le> nb \<Longrightarrow> emit nb w bs = Inr (w @ bs)"
  by (simp add: emit_def)

lemma emit_Inr: "emit nb w bs = Inr v \<longleftrightarrow> length w + length bs \<le> nb \<and> v = w @ bs"
  by (auto simp: emit_def)

text \<open>\<open>overwrite dst src\<close> is a \<open>memcpy\<close> to the start of an existing object.\<close>

definition overwrite :: "'a list \<Rightarrow> 'a list \<Rightarrow> 'a list res" where
  "overwrite dst src = (if length src \<le> length dst then Inr (src @ drop (length src) dst)
                        else undefined_behaviour Write_out_of_bounds)"

lemma overwrite_same [simp]: "length src = length dst \<Longrightarrow> overwrite dst src = Inr src"
  by (simp add: overwrite_def)

section \<open>C strings\<close>

definition tolower :: "byte \<Rightarrow> byte" where
  "tolower b = (if 65 \<le> b \<and> b \<le> 90 then b + 32 else b)"

definition isspace :: "byte \<Rightarrow> bool" where
  "isspace b \<longleftrightarrow> b = 32 \<or> (9 \<le> b \<and> b \<le> 13)"

definition isdigit :: "byte \<Rightarrow> bool" where
  "isdigit b \<longleftrightarrow> 48 \<le> b \<and> b \<le> 57"

text \<open>\<open>cstr p\<close> reads the C string at \<open>p\<close>; its length is \<open>strlen\<close>.\<close>

fun cstr :: "byte list \<Rightarrow> byte list res" where
  "cstr [] = undefined_behaviour Read_out_of_bounds"
| "cstr (b # p) = (if b = 0 then Inr [] else bindE (cstr p) (\<lambda>s. Inr (b # s)))"

definition no_nul :: "byte list \<Rightarrow> bool" where
  "no_nul s \<longleftrightarrow> 0 \<notin> set s"

lemma no_nul_simps [simp]:
  "no_nul []"
  "no_nul (b # s) \<longleftrightarrow> b \<noteq> 0 \<and> no_nul s"
  "no_nul (s @ t) \<longleftrightarrow> no_nul s \<and> no_nul t"
  by (auto simp: no_nul_def)

lemma cstr_append [simp]: "no_nul s \<Longrightarrow> cstr (s @ 0 # p) = Inr s"
  by (induction s) auto

lemma cstr_Inr: "cstr p = Inr s \<Longrightarrow> no_nul s \<and> (\<exists>q. p = s @ 0 # q)"
  by (induction p arbitrary: s) (auto simp: bindE_eq_Inr split: if_splits)

text \<open>
  \<open>strcmp (p, lit) == 0\<close> and \<open>strcasecmp (p, lit) == 0\<close> for a pointer \<open>p\<close> and a literal (its bytes
  without the final NUL). The comparison reads \<open>p\<close> up to the first difference only.
\<close>

fun strcmp_eq :: "byte list \<Rightarrow> byte list \<Rightarrow> bool res" where
  "strcmp_eq [] lit = undefined_behaviour Read_out_of_bounds"
| "strcmp_eq (b # p) [] = Inr (b = 0)"
| "strcmp_eq (b # p) (l # lit) = (if b \<noteq> l then Inr False else strcmp_eq p lit)"

fun strcasecmp_eq :: "byte list \<Rightarrow> byte list \<Rightarrow> bool res" where
  "strcasecmp_eq [] lit = undefined_behaviour Read_out_of_bounds"
| "strcasecmp_eq (b # p) [] = Inr (b = 0)"
| "strcasecmp_eq (b # p) (l # lit) =
     (if tolower b \<noteq> tolower l then Inr False else strcasecmp_eq p lit)"

lemma strcmp_eq_match [simp]: "strcmp_eq (lit @ 0 # p) lit = Inr True"
  by (induction lit) auto

lemma strcmp_eq_Inr_True:
  "strcmp_eq p lit = Inr True \<longleftrightarrow> (\<exists>q. p = lit @ 0 # q)"
  by (induction p lit rule: strcmp_eq.induct) auto

end
