(* ===== verification/Mym_Bytes.thy ===== *)
theory Mym_Bytes
  imports Mym_Prelude
begin

text \<open>
  Fixed width integers in memory: the macros \<open>WRITE_UINT64\<close>, \<open>WRITE_UINT64S\<close>, \<open>READ_UINT\<close> and
  \<open>READ_UINTS\<close> of \<open>src/src/mym.cpp\<close>, and \<open>safe_read_64uint\<close> and \<open>safe_read_32uint\<close> which they call.
  Every shipped build (x86-64, arm64) stores integers with the least significant byte first. The
  locale \<open>codec\<close> is the contract between the writers and the readers: a reader applied to what the
  writer wrote returns the value and leaves the pointer just behind it. It is interpreted on the
  64-bit and the 32-bit integers here and on NUL-terminated names below.
\<close>

section \<open>The reader/writer contract\<close>

text \<open>A reader called \<open>n\<close> times in a row, the loop of \<open>safe_read_64uint\<close> and its kin.\<close>

fun decode_many :: "(byte list \<Rightarrow> ('a \<times> byte list) res) \<Rightarrow> nat \<Rightarrow> byte list \<Rightarrow> ('a list \<times> byte list) res" where
  "decode_many dec 0 p = Inr ([], p)"
| "decode_many dec (Suc n) p =
     bindE (dec p) (\<lambda>(x, q). bindE (decode_many dec n q) (\<lambda>(xs, r). Inr (x # xs, r)))"

lemma decode_many_length: "decode_many dec n p = Inr (xs, q) \<Longrightarrow> length xs = n"
  by (induction n arbitrary: p xs q) (fastforce simp: bindE_eq_Inr)+

text \<open>
  \<open>cut_off x f\<close>: the reader \<open>f\<close>, given only a proper prefix of \<open>x\<close>, reads past the end of the buffer.
\<close>

definition cut_off :: "byte list \<Rightarrow> (byte list \<Rightarrow> 'a res) \<Rightarrow> bool" where
  "cut_off x f \<longleftrightarrow> (\<forall>m<length x. f (take m x) = undefined_behaviour Read_out_of_bounds)"

lemma cut_offI: "(\<And>m. m < length x \<Longrightarrow> f (take m x) = undefined_behaviour Read_out_of_bounds) \<Longrightarrow> cut_off x f"
  by (simp add: cut_off_def)

lemma cut_offD: "cut_off x f \<Longrightarrow> m < length x \<Longrightarrow> f (take m x) = undefined_behaviour Read_out_of_bounds"
  by (simp add: cut_off_def)

lemma cut_off_Nil [simp]: "cut_off [] f"
  by (simp add: cut_off_def)

lemma cut_off_Cons:
  assumes "f [] = undefined_behaviour Read_out_of_bounds" and "cut_off x (\<lambda>p. f (b # p))"
  shows "cut_off (b # x) f"
proof (rule cut_offI)
  fix m
  assume "m < length (b # x)"
  with assms show "f (take m (b # x)) = undefined_behaviour Read_out_of_bounds"
    by (cases m) (auto simp: cut_off_def)
qed

lemma cut_off_append:
  assumes "\<And>m. m < length x \<Longrightarrow> f (take m x) = undefined_behaviour Read_out_of_bounds"
    and "\<And>m. m < length y \<Longrightarrow> f (x @ take m y) = undefined_behaviour Read_out_of_bounds"
  shows "cut_off (x @ y) f"
proof (rule cut_offI)
  fix m
  assume "m < length (x @ y)"
  then show "f (take m (x @ y)) = undefined_behaviour Read_out_of_bounds"
    using assms(1) [of m] assms(2) [of "m - length x"] by (cases "m < length x") auto
qed

lemma cut_off_bind:
  assumes "cut_off x dec" and "\<And>p. dec (x @ p) = Inr (g p)" and "cut_off y (\<lambda>p. f (g p))"
  shows "cut_off (x @ y) (\<lambda>p. bindE (dec p) f)"
  using assms by (intro cut_off_append) (simp_all add: cut_off_def)

lemma cut_off_bind_end: "cut_off x dec \<Longrightarrow> cut_off x (\<lambda>p. bindE (dec p) f)"
  by (simp add: cut_off_def)

lemma cut_off_memread: "length x = n \<Longrightarrow> cut_off x (memread n)"
  by (simp add: cut_off_def memread_def)

locale codec =
  fixes enc :: "'a \<Rightarrow> byte list"
    and dec :: "byte list \<Rightarrow> ('a \<times> byte list) res"
    and ok :: "'a \<Rightarrow> bool"
  assumes dec_enc: "ok x \<Longrightarrow> dec (enc x @ p) = Inr (x, p)"
begin

lemma dec_enc_end: "ok x \<Longrightarrow> dec (enc x) = Inr (x, [])"
  using dec_enc [of x "[]"] by simp

lemma prefix_free:
  assumes "ok x" and "ok y" and eq: "enc x @ p = enc y @ q"
  shows "x = y \<and> p = q"
proof -
  have "Inr (x, p) = dec (enc y @ q)" using dec_enc [OF \<open>ok x\<close>, of p] eq by simp
  also have "\<dots> = Inr (y, q)" using \<open>ok y\<close> by (rule dec_enc)
  finally show ?thesis by simp
qed

lemma enc_inj: "ok x \<Longrightarrow> ok y \<Longrightarrow> enc x = enc y \<Longrightarrow> x = y"
  using prefix_free [of x y "[]" "[]"] by simp

lemma decode_many_enc:
  "list_all ok xs \<Longrightarrow> decode_many dec (length xs) (concat (map enc xs) @ p) = Inr (xs, p)"
  by (induction xs) (simp_all add: dec_enc)

end

text \<open>Fixed width: every value takes the same number of bytes, and a reader never takes fewer.\<close>

locale fixed_codec = codec +
  fixes width :: nat
  assumes length_enc: "length (enc x) = width"
    and dec_shape: "dec p = Inr (x, q) \<Longrightarrow> width \<le> length p \<and> q = drop width p"
    and dec_short: "length p < width \<Longrightarrow> dec p = undefined_behaviour Read_out_of_bounds"
begin

lemma length_enc_many: "length (concat (map enc xs)) = width * length xs"
  by (induction xs) (simp_all add: length_enc)

lemma decode_many_shape:
  "decode_many dec n p = Inr (xs, q) \<Longrightarrow> n * width \<le> length p \<and> q = drop (n * width) p"
proof (induction n arbitrary: p xs q)
  case 0
  then show ?case by simp
next
  case (Suc n)
  then obtain x p' xs' where d: "dec p = Inr (x, p')" and m: "decode_many dec n p' = Inr (xs', q)"
    by (auto simp: bindE_eq_Inr)
  from dec_shape [OF d] Suc.IH [OF m] show ?case by (auto simp: add.commute)
qed

end

text \<open>
  A codec whose reader needs every byte of the encoding. The fixed width codecs are of this kind.
\<close>

locale prefix_codec = codec +
  assumes cut_enc: "ok x \<Longrightarrow> cut_off (enc x) dec"
begin

lemma cut_enc_many: "list_all ok xs \<Longrightarrow> cut_off (concat (map enc xs)) (decode_many dec (length xs))"
proof (induction xs)
  case Nil
  then show ?case by simp
next
  case (Cons x xs)
  then have "cut_off (enc x @ concat (map enc xs)) (\<lambda>p. bindE (dec p)
      (\<lambda>(x, q). bindE (decode_many dec (length xs) q) (\<lambda>(xs, r). Inr (x # xs, r))))"
    by (intro cut_off_bind [where g = "Pair x"]) (simp_all add: cut_enc dec_enc cut_off_bind_end)
  then show ?case by simp
qed

end

sublocale fixed_codec \<subseteq> prefix_codec
  by unfold_locales (simp add: cut_off_def dec_short length_enc)

section \<open>Little-endian integers\<close>

fun le_bytes :: "nat \<Rightarrow> nat \<Rightarrow> byte list" where
  "le_bytes 0 x = []"
| "le_bytes (Suc n) x = word_of_nat (x mod 256) # le_bytes n (x div 256)"

fun le_nat :: "byte list \<Rightarrow> nat" where
  "le_nat [] = 0"
| "le_nat (b # bs) = unat b + 256 * le_nat bs"

lemma le_bytes_numeral:
  "le_bytes (numeral k) x = word_of_nat (x mod 256) # le_bytes (pred_numeral k) (x div 256)"
  by (simp only: numeral_eq_Suc le_bytes.simps)

lemma length_le_bytes [simp]: "length (le_bytes n x) = n"
  by (induction n arbitrary: x) simp_all

lemma unat_byte_mod: "unat (word_of_nat (x mod 256) :: byte) = x mod 256"
  by (simp add: unat_of_nat)

lemma le_nat_le_bytes: "le_nat (le_bytes n x) = x mod 256 ^ n"
proof (induction n arbitrary: x)
  case 0
  then show ?case by simp
next
  case (Suc n)
  have "x mod 256 ^ Suc n = x mod 256 + 256 * ((x div 256) mod 256 ^ n)"
    by (simp add: mod_mult2_eq)
  with Suc show ?case by (simp add: unat_byte_mod)
qed

lemma le_nat_bound: "le_nat bs < 256 ^ length bs"
proof (induction bs)
  case Nil
  then show ?case by simp
next
  case (Cons b bs)
  have "unat b < 256" using unsigned_less [of b, where ?'a = nat] by simp
  with Cons show ?case by simp
qed

definition uint64_bytes :: "64 word \<Rightarrow> byte list" where
  "uint64_bytes w = le_bytes 8 (unat w)"

definition uint32_bytes :: "32 word \<Rightarrow> byte list" where
  "uint32_bytes w = le_bytes 4 (unat w)"

definition read_uint64 :: "byte list \<Rightarrow> (64 word \<times> byte list) res" where
  "read_uint64 p = bindE (memread 8 p) (\<lambda>(bs, q). Inr (word_of_nat (le_nat bs), q))"

definition read_uint32 :: "byte list \<Rightarrow> (32 word \<times> byte list) res" where
  "read_uint32 p = bindE (memread 4 p) (\<lambda>(bs, q). Inr (word_of_nat (le_nat bs), q))"

lemma length_uint_bytes [simp]:
  "length (uint64_bytes w) = 8"
  "length (uint32_bytes v) = 4"
  by (simp_all add: uint64_bytes_def uint32_bytes_def)

lemma uint64_le_nat: "word_of_nat (le_nat (uint64_bytes w)) = w"
proof -
  have "unat w < 256 ^ 8" using unsigned_less [of w, where ?'a = nat] by simp
  then show ?thesis by (simp add: uint64_bytes_def le_nat_le_bytes)
qed

lemma uint32_le_nat: "word_of_nat (le_nat (uint32_bytes w)) = w"
proof -
  have "unat w < 256 ^ 4" using unsigned_less [of w, where ?'a = nat] by simp
  then show ?thesis by (simp add: uint32_bytes_def le_nat_le_bytes)
qed

interpretation u64: fixed_codec uint64_bytes read_uint64 "\<lambda>_. True" 8
  by unfold_locales
    (auto simp: read_uint64_def uint64_le_nat memread_Inr memread_short bindE_eq_Inr)

interpretation u32: fixed_codec uint32_bytes read_uint32 "\<lambda>_. True" 4
  by unfold_locales
    (auto simp: read_uint32_def uint32_le_nat memread_Inr memread_short bindE_eq_Inr)

lemmas read_uint_codec [simp] = u64.dec_enc [OF TrueI] u32.dec_enc [OF TrueI]
  u64.dec_enc_end [OF TrueI] u32.dec_enc_end [OF TrueI]

section \<open>Writing\<close>

definition WRITE_UINT64 :: "nat \<Rightarrow> byte list \<Rightarrow> 64 word \<Rightarrow> byte list res" where
  "WRITE_UINT64 nb w v = emit nb w (uint64_bytes v)"

definition WRITE_UINT64S :: "nat \<Rightarrow> byte list \<Rightarrow> 64 word list \<Rightarrow> nat \<Rightarrow> byte list res" where
  "WRITE_UINT64S nb w vs n =
     (if n \<le> length vs then emit nb w (concat (map uint64_bytes (take n vs)))
      else undefined_behaviour Read_out_of_bounds)"

section \<open>Reading sizes\<close>

text \<open>\<open>castMask\<close> for an \<open>mwSize\<close> of \<open>sz\<close> bytes: all bits of that width.\<close>

definition castMask :: "nat \<Rightarrow> 64 word" where
  "castMask sz = (if sz < 8 then mask (8 * sz) else NOT 0)"

definition checkMask :: "nat \<Rightarrow> 64 word" where
  "checkMask sz = NOT (castMask sz)"

definition size_limit_msg :: string where
  "size_limit_msg = ''This dataset exceeds the size limitations of the current platform (e.g. reading huge matrices on 32 bit machines)''"

definition safe_read_64_step :: "nat \<Rightarrow> byte list \<Rightarrow> (mwSize \<times> byte list) res" where
  "safe_read_64_step sz p = bindE (read_uint64 p) (\<lambda>(val, q).
     if val AND checkMask sz \<noteq> 0 then mexErrMsgTxt size_limit_msg
     else Inr (val AND castMask sz, q))"

definition safe_read_32_step :: "byte list \<Rightarrow> (mwSize \<times> byte list) res" where
  "safe_read_32_step p = bindE (read_uint32 p) (\<lambda>(val, q). Inr (ucast val, q))"

definition safe_read_64uint :: "nat \<Rightarrow> nat \<Rightarrow> byte list \<Rightarrow> mwSize list res" where
  "safe_read_64uint sz n src = bindE (decode_many (safe_read_64_step sz) n src) (\<lambda>(dst, q). Inr dst)"

definition safe_read_32uint :: "nat \<Rightarrow> byte list \<Rightarrow> mwSize list res" where
  "safe_read_32uint n src = bindE (decode_many safe_read_32_step n src) (\<lambda>(dst, q). Inr dst)"

text \<open>\<open>sizeof (mwSize)\<close> of the 64-bit builds.\<close>

definition sizeof_mwSize :: nat where
  "sizeof_mwSize = 8"

definition READ_UINTS :: "bool \<Rightarrow> nat \<Rightarrow> byte list \<Rightarrow> (mwSize list \<times> byte list) res" where
  "READ_UINTS use32 n src =
     (if use32 then bindE (safe_read_32uint n src) (\<lambda>dst. Inr (dst, drop (n * 4) src))
      else bindE (safe_read_64uint sizeof_mwSize n src) (\<lambda>dst. Inr (dst, drop (n * 8) src)))"

definition READ_UINT :: "bool \<Rightarrow> byte list \<Rightarrow> (mwSize \<times> byte list) res" where
  "READ_UINT use32 src =
     (if use32 then bindE (safe_read_32uint 1 src) (\<lambda>dst. Inr (hd dst, drop 4 src))
      else bindE (safe_read_64uint sizeof_mwSize 1 src) (\<lambda>dst. Inr (hd dst, drop 8 src)))"

subsection \<open>What the readers return\<close>

lemma masks_64: "castMask 8 = NOT 0" "checkMask 8 = 0"
  by (simp_all add: castMask_def checkMask_def)

lemma masks_32: "castMask 4 = mask 32" "checkMask 4 = NOT (mask 32)"
  by (simp_all add: castMask_def checkMask_def)

lemma safe_read_64_step_8: "safe_read_64_step 8 = read_uint64"
  by (auto simp: safe_read_64_step_def masks_64 bindE_def fun_eq_iff split: sum.splits)

lemma safe_read_32_step_shape:
  "safe_read_32_step p = Inr (x, q) \<Longrightarrow> 4 \<le> length p \<and> q = drop 4 p"
  using u32.dec_shape by (fastforce simp: safe_read_32_step_def bindE_eq_Inr)

definition dim32_bytes :: "mwSize \<Rightarrow> byte list" where
  "dim32_bytes d = uint32_bytes (ucast d)"

lemma ucast_down_up: "unat (d :: mwSize) < 2 ^ 32 \<Longrightarrow> ucast (ucast d :: 32 word) = d"
  by (simp add: word_unat_eq_iff unsigned_ucast_eq unsigned_take_bit_eq take_bit_nat_eq_self)

interpretation d32: prefix_codec dim32_bytes safe_read_32_step "\<lambda>d. unat d < 2 ^ 32"
  by unfold_locales
    (simp_all add: dim32_bytes_def safe_read_32_step_def ucast_down_up cut_off_def u32.dec_short)

lemma READ_UINTS_64: "READ_UINTS False n p = decode_many read_uint64 n p"
  using u64.decode_many_shape
  by (fastforce simp: READ_UINTS_def safe_read_64uint_def sizeof_mwSize_def safe_read_64_step_8
      bindE_def split: sum.splits)

lemma READ_UINT_64: "READ_UINT False p = read_uint64 p"
  using u64.dec_shape
  by (fastforce simp: READ_UINT_def safe_read_64uint_def sizeof_mwSize_def safe_read_64_step_8
      bindE_def split: sum.splits)

lemma READ_UINT_encoded [simp]: "READ_UINT False (uint64_bytes v @ p) = Inr (v, p)"
  by (simp add: READ_UINT_64)

lemma READ_UINTS_encoded [simp]:
  "n = length vs \<Longrightarrow> READ_UINTS False n (concat (map uint64_bytes vs) @ p) = Inr (vs, p)"
  by (simp add: READ_UINTS_64 u64.decode_many_enc list_all_iff)

lemma READ_UINT_shorter: "READ_UINT u p = Inr (v, q) \<Longrightarrow> length q < length p"
  using u64.dec_shape safe_read_32_step_shape
  by (fastforce simp: READ_UINT_def safe_read_64uint_def safe_read_32uint_def sizeof_mwSize_def
      safe_read_64_step_8 bindE_eq_Inr split: if_splits)

lemma READ_UINTS_shorter: "READ_UINTS u n p = Inr (vs, q) \<Longrightarrow> length q \<le> length p"
  by (auto simp: READ_UINTS_def bindE_eq_Inr split: if_splits)

lemma READ_UINTS_length: "READ_UINTS u n p = Inr (vs, q) \<Longrightarrow> length vs = n"
  by (auto simp: READ_UINTS_def safe_read_64uint_def safe_read_32uint_def bindE_eq_Inr
      dest: decode_many_length split: if_splits)

end
