(* ===== verification/Mym_MxArray.thy ===== *)
theory Mym_MxArray
  imports Mym_Bytes
begin

text \<open>
  The MATLAB values the program handles and the interface it reaches them through. MATLAB itself is
  not part of the repository: a value is described by what the accessors of its matrix interface
  return for it (dimensions, class, data bytes, fields, cells), and every function of that
  interface whose result is chosen by MATLAB - the numbers behind \<open>mxClassID\<close> and \<open>mxComplexity\<close>,
  the element sizes, the arrays that the creation routines return - is a field of the record
  \<open>mexenv\<close>, a parameter of the model. \<open>matlab_api\<close> states what the documentation of these routines
  promises, and is a named hypothesis of the theorems that need it.
\<close>

section \<open>Values\<close>

datatype mxClassID =
    mxUNKNOWN_CLASS | mxCELL_CLASS | mxSTRUCT_CLASS | mxLOGICAL_CLASS | mxCHAR_CLASS
  | mxVOID_CLASS | mxDOUBLE_CLASS | mxSINGLE_CLASS | mxINT8_CLASS | mxUINT8_CLASS
  | mxINT16_CLASS | mxUINT16_CLASS | mxINT32_CLASS | mxUINT32_CLASS | mxINT64_CLASS
  | mxUINT64_CLASS | mxFUNCTION_CLASS | mxOBJECT_CLASS

datatype mxComplexity = mxREAL | mxCOMPLEX

text \<open>
  Numeric, character and logical arrays carry their data as bytes (\<open>mxGetData\<close>, \<open>mxGetImagData\<close>);
  a sparse matrix carries rows, columns, \<open>nzmax\<close>, the index arrays \<open>jc\<close> and \<open>ir\<close> and the data of
  the allocated elements. An element of a cell or structure array is \<open>None\<close> where \<open>mxGetCell\<close> or
  \<open>mxGetFieldByNumber\<close> returns NULL; the elements of a structure array are listed element by
  element, the fields of one element next to each other.
\<close>

datatype mxArray =
    MxDense "mwSize list" mxClassID "byte list" "byte list option"
  | MxSparse mwSize mwSize mwSize mxClassID "mwSize list" "mwSize list" "byte list" "byte list option"
  | MxStruct "mwSize list" "byte list list" "mxArray option list"
  | MxCell "mwSize list" "mxArray option list"
  | MxOther "mwSize list" mxClassID

abbreviation empty_double :: mxArray where
  "empty_double \<equiv> MxDense [0, 0] mxDOUBLE_CLASS [] None"

section \<open>Accessors\<close>

definition nelems :: "mwSize list \<Rightarrow> nat" where
  "nelems ds = prod_list (map unat ds)"

fun mxGetDimensions :: "mxArray \<Rightarrow> mwSize list" where
  "mxGetDimensions (MxDense ds c re im) = ds"
| "mxGetDimensions (MxSparse m n nz c jc ir re im) = [m, n]"
| "mxGetDimensions (MxStruct ds fs es) = ds"
| "mxGetDimensions (MxCell ds es) = ds"
| "mxGetDimensions (MxOther ds c) = ds"

definition mxGetNumberOfDimensions :: "mxArray \<Rightarrow> nat" where
  "mxGetNumberOfDimensions a = length (mxGetDimensions a)"

definition mxGetNumberOfElements :: "mxArray \<Rightarrow> nat" where
  "mxGetNumberOfElements a = nelems (mxGetDimensions a)"

definition mxGetM :: "mxArray \<Rightarrow> mwSize" where
  "mxGetM a = (case mxGetDimensions a of [] \<Rightarrow> 0 | d # ds \<Rightarrow> d)"

definition mxGetN :: "mxArray \<Rightarrow> mwSize" where
  "mxGetN a = (case mxGetDimensions a of [] \<Rightarrow> 0 | d # ds \<Rightarrow> prod_list ds)"

fun mxGetClassID :: "mxArray \<Rightarrow> mxClassID" where
  "mxGetClassID (MxDense ds c re im) = c"
| "mxGetClassID (MxSparse m n nz c jc ir re im) = c"
| "mxGetClassID (MxStruct ds fs es) = mxSTRUCT_CLASS"
| "mxGetClassID (MxCell ds es) = mxCELL_CLASS"
| "mxGetClassID (MxOther ds c) = c"

fun mxGetData :: "mxArray \<Rightarrow> byte list" where
  "mxGetData (MxDense ds c re im) = re"
| "mxGetData (MxSparse m n nz c jc ir re im) = re"
| "mxGetData _ = []"

fun imag_part :: "mxArray \<Rightarrow> byte list option" where
  "imag_part (MxDense ds c re im) = im"
| "imag_part (MxSparse m n nz c jc ir re im) = im"
| "imag_part _ = None"

definition mxIsComplex :: "mxArray \<Rightarrow> bool" where
  "mxIsComplex a \<longleftrightarrow> imag_part a \<noteq> None"

definition mxGetImagData :: "mxArray \<Rightarrow> byte list res" where
  "mxGetImagData a = (case imag_part a of None \<Rightarrow> undefined_behaviour Null_dereference
                      | Some im \<Rightarrow> Inr im)"

fun mxGetNzmax :: "mxArray \<Rightarrow> mwSize" where
  "mxGetNzmax (MxSparse m n nz c jc ir re im) = nz"
| "mxGetNzmax _ = 0"

fun mxGetJc :: "mxArray \<Rightarrow> mwSize list" where
  "mxGetJc (MxSparse m n nz c jc ir re im) = jc"
| "mxGetJc _ = []"

fun mxGetIr :: "mxArray \<Rightarrow> mwSize list" where
  "mxGetIr (MxSparse m n nz c jc ir re im) = ir"
| "mxGetIr _ = []"

fun mxFieldNames :: "mxArray \<Rightarrow> byte list list" where
  "mxFieldNames (MxStruct ds fs es) = fs"
| "mxFieldNames _ = []"

fun mxElements :: "mxArray \<Rightarrow> mxArray option list" where
  "mxElements (MxStruct ds fs es) = es"
| "mxElements (MxCell ds es) = es"
| "mxElements _ = []"

definition numeric_class :: "mxClassID \<Rightarrow> bool" where
  "numeric_class c \<longleftrightarrow> c \<in> {mxDOUBLE_CLASS, mxSINGLE_CLASS, mxINT8_CLASS, mxUINT8_CLASS,
     mxINT16_CLASS, mxUINT16_CLASS, mxINT32_CLASS, mxUINT32_CLASS, mxINT64_CLASS, mxUINT64_CLASS}"

definition mxIsNumeric :: "mxArray \<Rightarrow> bool" where
  "mxIsNumeric a \<longleftrightarrow> numeric_class (mxGetClassID a)"

definition mxIsClass :: "mxArray \<Rightarrow> mxClassID \<Rightarrow> bool" where
  "mxIsClass a c \<longleftrightarrow> mxGetClassID a = c"

abbreviation mxIsChar :: "mxArray \<Rightarrow> bool" where "mxIsChar a \<equiv> mxIsClass a mxCHAR_CLASS"
abbreviation mxIsLogical :: "mxArray \<Rightarrow> bool" where "mxIsLogical a \<equiv> mxIsClass a mxLOGICAL_CLASS"
abbreviation mxIsCell :: "mxArray \<Rightarrow> bool" where "mxIsCell a \<equiv> mxIsClass a mxCELL_CLASS"
abbreviation mxIsStruct :: "mxArray \<Rightarrow> bool" where "mxIsStruct a \<equiv> mxIsClass a mxSTRUCT_CLASS"

fun mxIsSparse :: "mxArray \<Rightarrow> bool" where
  "mxIsSparse (MxSparse m n nz c jc ir re im) = True"
| "mxIsSparse _ = False"

definition mxIsEmpty :: "mxArray \<Rightarrow> bool" where
  "mxIsEmpty a \<longleftrightarrow> mxGetNumberOfElements a = 0"

definition complexity_of :: "mxArray \<Rightarrow> mxComplexity" where
  "complexity_of a = (if mxIsComplex a then mxCOMPLEX else mxREAL)"

section \<open>Stores into an array\<close>

fun put_data :: "byte list \<Rightarrow> mxArray \<Rightarrow> mxArray res" where
  "put_data bs (MxDense ds c re im) = bindE (overwrite re bs) (\<lambda>re'. Inr (MxDense ds c re' im))"
| "put_data bs (MxSparse m n nz c jc ir re im) =
     bindE (overwrite re bs) (\<lambda>re'. Inr (MxSparse m n nz c jc ir re' im))"
| "put_data bs _ = undefined_behaviour Null_dereference"

fun put_imag :: "byte list \<Rightarrow> mxArray \<Rightarrow> mxArray res" where
  "put_imag bs (MxDense ds c re (Some im)) =
     bindE (overwrite im bs) (\<lambda>im'. Inr (MxDense ds c re (Some im')))"
| "put_imag bs (MxSparse m n nz c jc ir re (Some im)) =
     bindE (overwrite im bs) (\<lambda>im'. Inr (MxSparse m n nz c jc ir re (Some im')))"
| "put_imag bs _ = undefined_behaviour Null_dereference"

fun put_jc :: "mwSize list \<Rightarrow> mxArray \<Rightarrow> mxArray res" where
  "put_jc js (MxSparse m n nz c jc ir re im) =
     bindE (overwrite jc js) (\<lambda>jc'. Inr (MxSparse m n nz c jc' ir re im))"
| "put_jc js _ = undefined_behaviour Null_dereference"

fun put_ir :: "mwSize list \<Rightarrow> mxArray \<Rightarrow> mxArray res" where
  "put_ir is (MxSparse m n nz c jc ir re im) =
     bindE (overwrite ir is) (\<lambda>ir'. Inr (MxSparse m n nz c jc ir' re im))"
| "put_ir is _ = undefined_behaviour Null_dereference"

text \<open>\<open>mxSetCell\<close> and \<open>mxSetFieldByNumber\<close>, by position in the list of elements.\<close>

fun put_element :: "nat \<Rightarrow> mxArray \<Rightarrow> mxArray \<Rightarrow> mxArray res" where
  "put_element i x (MxStruct ds fs es) =
     (if i < length es then Inr (MxStruct ds fs (es[i := Some x]))
      else undefined_behaviour Write_out_of_bounds)"
| "put_element i x (MxCell ds es) =
     (if i < length es then Inr (MxCell ds (es[i := Some x]))
      else undefined_behaviour Write_out_of_bounds)"
| "put_element i x _ = undefined_behaviour Null_dereference"

section \<open>The surroundings of the program\<close>

text \<open>
  \<open>getenv32\<close> is the value of the environment variable MYM_USE_32BIT_DIMS; \<open>on_windows\<close> selects the
  definitions of \<open>mym.h\<close> lines 77 to 88, which make the case insensitive comparisons case sensitive;
  \<open>catches\<close> says whether the error exit of the MEX interface is an exception that a C++
  \<open>catch (...)\<close> stops.
\<close>

record mexenv =
  getenv32 :: "byte list option"
  on_windows :: bool
  catches :: bool
  class_code :: "mxClassID \<Rightarrow> 32 word"
  complexity_code :: "mxComplexity \<Rightarrow> 32 word"
  elem_size :: "mxClassID \<Rightarrow> nat"
  create_numeric :: "mwSize list \<Rightarrow> 32 word \<Rightarrow> 32 word \<Rightarrow> mxArray res"
  create_sparse :: "mwSize \<Rightarrow> mwSize \<Rightarrow> mwSize \<Rightarrow> 32 word \<Rightarrow> mxArray res"
  create_sparse_logical :: "mwSize \<Rightarrow> mwSize \<Rightarrow> mwSize \<Rightarrow> mxArray res"
  create_struct :: "mwSize list \<Rightarrow> byte list list \<Rightarrow> mxArray res"
  create_cell :: "mwSize list \<Rightarrow> mxArray res"

definition strcasecmp_words :: "bool \<Rightarrow> byte list \<Rightarrow> byte list \<Rightarrow> bool" where
  "strcasecmp_words win s t \<longleftrightarrow> (if win then s = t else map tolower s = map tolower t)"

definition use32bitdims :: "mexenv \<Rightarrow> bool" where
  "use32bitdims E = (case getenv32 E of None \<Rightarrow> False
     | Some v \<Rightarrow> strcasecmp_words (on_windows E) v (bytes_of ''true''))"

section \<open>Well-formed values\<close>

definition plain_class :: "mxClassID \<Rightarrow> bool" where
  "plain_class c \<longleftrightarrow> numeric_class c \<or> c = mxCHAR_CLASS \<or> c = mxLOGICAL_CLASS"

text \<open>At least two dimensions and no trailing dimension of 1 behind them, as MATLAB keeps them.\<close>

definition dims_ok :: "mwSize list \<Rightarrow> bool" where
  "dims_ok ds \<longleftrightarrow> 2 \<le> length ds \<and> length ds \<le> INT_MAX \<and> (2 < length ds \<longrightarrow> last ds \<noteq> 1)"

definition opt_all :: "bool option list \<Rightarrow> bool" where
  "opt_all bs \<longleftrightarrow> Some False \<notin> set bs"

lemma opt_all_map [simp]:
  "opt_all (map (map_option f) es) \<longleftrightarrow> (\<forall>a. Some a \<in> set es \<longrightarrow> f a)"
  by (induction es) (auto simp: opt_all_def eq_commute [of "Some False"])

primrec mx_ok :: "mexenv \<Rightarrow> mxArray \<Rightarrow> bool" where
  "mx_ok E (MxDense ds c re im) \<longleftrightarrow> dims_ok ds \<and> plain_class c
     \<and> length re = elem_size E c * nelems ds
     \<and> (case im of None \<Rightarrow> True | Some i \<Rightarrow> length i = length re \<and> numeric_class c)"
| "mx_ok E (MxSparse m n nz c jc ir re im) \<longleftrightarrow> (c = mxDOUBLE_CLASS \<or> c = mxLOGICAL_CLASS)
     \<and> 0 < nz \<and> length jc = unat n + 1 \<and> length ir = unat nz
     \<and> length re = elem_size E c * unat nz
     \<and> (case im of None \<Rightarrow> True | Some i \<Rightarrow> length i = length re \<and> c = mxDOUBLE_CLASS)"
| "mx_ok E (MxStruct ds fs es) \<longleftrightarrow> dims_ok ds \<and> distinct fs \<and> list_all no_nul fs
     \<and> length es = nelems ds * length fs
     \<and> nelems ds \<le> INT_MAX \<and> length fs \<le> INT_MAX \<and> nelems ds * length fs \<le> INT_MAX
     \<and> (nelems ds \<le> 1 \<or> fs \<noteq> []) \<and> opt_all (map (map_option (mx_ok E)) es)"
| "mx_ok E (MxCell ds es) \<longleftrightarrow> dims_ok ds \<and> length es = nelems ds \<and> nelems ds \<le> INT_MAX
     \<and> opt_all (map (map_option (mx_ok E)) es)"
| "mx_ok E (MxOther ds c) \<longleftrightarrow> False"

lemma empty_double_ok [simp]: "mx_ok E empty_double"
  by (simp add: dims_ok_def plain_class_def numeric_class_def nelems_def INT_MAX_def)

section \<open>What MATLAB documents about the creation routines\<close>

definition zeros :: "nat \<Rightarrow> byte list" where
  "zeros n = replicate n 0"

lemma length_zeros [simp]: "length (zeros n) = n"
  by (simp add: zeros_def)

definition if_complex :: "mxComplexity \<Rightarrow> 'a \<Rightarrow> 'a option" where
  "if_complex x v = (if x = mxCOMPLEX then Some v else None)"

definition matlab_api :: "mexenv \<Rightarrow> bool" where
  "matlab_api E \<longleftrightarrow> inj (class_code E)
   \<and> complexity_code E mxREAL \<noteq> complexity_code E mxCOMPLEX
   \<and> elem_size E mxUINT8_CLASS = 1
   \<and> (\<forall>ds c x. dims_ok ds \<longrightarrow> plain_class c \<longrightarrow> (x = mxCOMPLEX \<longrightarrow> numeric_class c) \<longrightarrow>
        create_numeric E ds (class_code E c) (complexity_code E x) =
          Inr (MxDense ds c (zeros (elem_size E c * nelems ds))
                 (if_complex x (zeros (elem_size E c * nelems ds)))))
   \<and> (\<forall>m n z x. 0 < z \<longrightarrow> create_sparse E m n z (complexity_code E x) =
          Inr (MxSparse m n z mxDOUBLE_CLASS (replicate (unat n + 1) 0) (replicate (unat z) 0)
                 (zeros (elem_size E mxDOUBLE_CLASS * unat z))
                 (if_complex x (zeros (elem_size E mxDOUBLE_CLASS * unat z)))))
   \<and> (\<forall>m n z. 0 < z \<longrightarrow> create_sparse_logical E m n z =
          Inr (MxSparse m n z mxLOGICAL_CLASS (replicate (unat n + 1) 0) (replicate (unat z) 0)
                 (zeros (elem_size E mxLOGICAL_CLASS * unat z)) None))
   \<and> (\<forall>ds fs. dims_ok ds \<longrightarrow> distinct fs \<longrightarrow> create_struct E ds fs =
          Inr (MxStruct ds fs (replicate (nelems ds * length fs) None)))
   \<and> (\<forall>ds. dims_ok ds \<longrightarrow> create_cell E ds = Inr (MxCell ds (replicate (nelems ds) None)))"

text \<open>The promises as separate rules, for the proofs that use them.\<close>

lemma matlab_class_code: "matlab_api E \<Longrightarrow> class_code E c = class_code E d \<longleftrightarrow> c = d"
  by (auto simp: matlab_api_def inj_eq)

lemma matlab_complexity_code:
  "matlab_api E \<Longrightarrow> complexity_code E x = complexity_code E y \<longleftrightarrow> x = y"
  by (cases x; cases y) (auto simp: matlab_api_def)

lemma matlab_uint8_size: "matlab_api E \<Longrightarrow> elem_size E mxUINT8_CLASS = 1"
  by (simp add: matlab_api_def)

lemma matlab_create_numeric:
  "matlab_api E \<Longrightarrow> dims_ok ds \<Longrightarrow> plain_class c \<Longrightarrow> x = mxCOMPLEX \<longrightarrow> numeric_class c \<Longrightarrow>
   create_numeric E ds (class_code E c) (complexity_code E x) =
     Inr (MxDense ds c (zeros (elem_size E c * nelems ds))
            (if_complex x (zeros (elem_size E c * nelems ds))))"
  by (simp add: matlab_api_def)

lemma matlab_create_sparse:
  "matlab_api E \<Longrightarrow> 0 < z \<Longrightarrow> create_sparse E m n z (complexity_code E x) =
     Inr (MxSparse m n z mxDOUBLE_CLASS (replicate (unat n + 1) 0) (replicate (unat z) 0)
            (zeros (elem_size E mxDOUBLE_CLASS * unat z))
            (if_complex x (zeros (elem_size E mxDOUBLE_CLASS * unat z))))"
  "matlab_api E \<Longrightarrow> 0 < z \<Longrightarrow> create_sparse_logical E m n z =
     Inr (MxSparse m n z mxLOGICAL_CLASS (replicate (unat n + 1) 0) (replicate (unat z) 0)
            (zeros (elem_size E mxLOGICAL_CLASS * unat z)) None)"
  by (simp_all add: matlab_api_def)

lemma matlab_create_struct:
  "matlab_api E \<Longrightarrow> dims_ok ds \<Longrightarrow> distinct fs \<Longrightarrow> create_struct E ds fs =
     Inr (MxStruct ds fs (replicate (nelems ds * length fs) None))"
  by (simp add: matlab_api_def)

lemma matlab_create_cell:
  "matlab_api E \<Longrightarrow> dims_ok ds \<Longrightarrow> create_cell E ds = Inr (MxCell ds (replicate (nelems ds) None))"
  by (simp add: matlab_api_def)

section \<open>The interface with its documented numbers\<close>

text \<open>
  An instance of the record, with the values of MATLAB's public header \<open>matrix.h\<close> (they also appear
  in the stored blob of \<open>src/tests/TestExternal.m\<close>: 6 for a double and 4 for a char array). The
  witnesses evaluate the program on it; no theorem is about it alone.
\<close>

fun doc_class_code :: "mxClassID \<Rightarrow> 32 word" where
  "doc_class_code mxUNKNOWN_CLASS = 0"
| "doc_class_code mxCELL_CLASS = 1"
| "doc_class_code mxSTRUCT_CLASS = 2"
| "doc_class_code mxLOGICAL_CLASS = 3"
| "doc_class_code mxCHAR_CLASS = 4"
| "doc_class_code mxVOID_CLASS = 5"
| "doc_class_code mxDOUBLE_CLASS = 6"
| "doc_class_code mxSINGLE_CLASS = 7"
| "doc_class_code mxINT8_CLASS = 8"
| "doc_class_code mxUINT8_CLASS = 9"
| "doc_class_code mxINT16_CLASS = 10"
| "doc_class_code mxUINT16_CLASS = 11"
| "doc_class_code mxINT32_CLASS = 12"
| "doc_class_code mxUINT32_CLASS = 13"
| "doc_class_code mxINT64_CLASS = 14"
| "doc_class_code mxUINT64_CLASS = 15"
| "doc_class_code mxFUNCTION_CLASS = 16"
| "doc_class_code mxOBJECT_CLASS = 18"

definition all_classes :: "mxClassID list" where
  "all_classes = [mxUNKNOWN_CLASS, mxCELL_CLASS, mxSTRUCT_CLASS, mxLOGICAL_CLASS, mxCHAR_CLASS,
     mxVOID_CLASS, mxDOUBLE_CLASS, mxSINGLE_CLASS, mxINT8_CLASS, mxUINT8_CLASS, mxINT16_CLASS,
     mxUINT16_CLASS, mxINT32_CLASS, mxUINT32_CLASS, mxINT64_CLASS, mxUINT64_CLASS,
     mxFUNCTION_CLASS, mxOBJECT_CLASS]"

fun doc_elem_size :: "mxClassID \<Rightarrow> nat" where
  "doc_elem_size mxDOUBLE_CLASS = 8"
| "doc_elem_size mxINT64_CLASS = 8"
| "doc_elem_size mxUINT64_CLASS = 8"
| "doc_elem_size mxSINGLE_CLASS = 4"
| "doc_elem_size mxINT32_CLASS = 4"
| "doc_elem_size mxUINT32_CLASS = 4"
| "doc_elem_size mxINT16_CLASS = 2"
| "doc_elem_size mxUINT16_CLASS = 2"
| "doc_elem_size mxCHAR_CLASS = 2"
| "doc_elem_size mxINT8_CLASS = 1"
| "doc_elem_size mxUINT8_CLASS = 1"
| "doc_elem_size mxLOGICAL_CLASS = 1"
| "doc_elem_size _ = 8"

definition doc_complexity_code :: "mxComplexity \<Rightarrow> 32 word" where
  "doc_complexity_code x = (case x of mxREAL \<Rightarrow> 0 | mxCOMPLEX \<Rightarrow> 1)"

text \<open>Dimensions as MATLAB keeps them: padded to two with 1, trailing 1 dropped.\<close>

fun drop_trailing_ones :: "mwSize list \<Rightarrow> mwSize list" where
  "drop_trailing_ones ds =
     (if 2 < length ds \<and> last ds = 1 then drop_trailing_ones (butlast ds) else ds)"

declare drop_trailing_ones.simps [simp del]

definition doc_dims :: "mwSize list \<Rightarrow> mwSize list" where
  "doc_dims ds = (case ds of [] \<Rightarrow> [0, 0] | [d] \<Rightarrow> [d, 1] | _ \<Rightarrow> drop_trailing_ones ds)"

definition doc_create_numeric :: "mwSize list \<Rightarrow> 32 word \<Rightarrow> 32 word \<Rightarrow> mxArray res" where
  "doc_create_numeric ds k x = (case find (\<lambda>c. doc_class_code c = k) all_classes of
     None \<Rightarrow> mexErrMsgTxt ''Unknown class'' | Some c \<Rightarrow>
       (let n = doc_elem_size c * nelems (doc_dims ds)
        in Inr (MxDense (doc_dims ds) c (zeros n) (if x = 1 then Some (zeros n) else None))))"

definition doc_env :: mexenv where
  "doc_env = \<lparr>
     getenv32 = None, on_windows = False, catches = False,
     class_code = doc_class_code, complexity_code = doc_complexity_code, elem_size = doc_elem_size,
     create_numeric = doc_create_numeric,
     create_sparse = (\<lambda>m n z x. Inr (MxSparse m n (max 1 z) mxDOUBLE_CLASS
       (replicate (unat n + 1) 0) (replicate (unat (max 1 z)) 0) (zeros (8 * unat (max 1 z)))
       (if x = 1 then Some (zeros (8 * unat (max 1 z))) else None))),
     create_sparse_logical = (\<lambda>m n z. Inr (MxSparse m n (max 1 z) mxLOGICAL_CLASS
       (replicate (unat n + 1) 0) (replicate (unat (max 1 z)) 0) (zeros (unat (max 1 z))) None)),
     create_struct = (\<lambda>ds fs. Inr (MxStruct (doc_dims ds) fs
       (replicate (nelems (doc_dims ds) * length fs) None))),
     create_cell = (\<lambda>ds. Inr (MxCell (doc_dims ds) (replicate (nelems (doc_dims ds)) None))) \<rparr>"

lemma drop_trailing_ones_id: "(2 < length ds \<longrightarrow> last ds \<noteq> 1) \<Longrightarrow> drop_trailing_ones ds = ds"
  by (subst drop_trailing_ones.simps) auto

lemma doc_dims_ok: "dims_ok ds \<Longrightarrow> doc_dims ds = ds"
  by (auto simp: dims_ok_def doc_dims_def intro!: drop_trailing_ones_id split: list.splits if_splits)

lemma find_doc_class: "find (\<lambda>c. doc_class_code c = doc_class_code k) all_classes = Some k"
  by (cases k) (simp_all add: all_classes_def)

lemma doc_class_code_inj: "inj doc_class_code"
proof (rule injI)
  fix c d
  assume "doc_class_code c = doc_class_code d"
  then show "c = d" by (metis find_doc_class option.inject)
qed

lemma doc_env_simps [simp]:
  "getenv32 doc_env = None" "on_windows doc_env = False" "catches doc_env = False"
  "class_code doc_env = doc_class_code" "complexity_code doc_env = doc_complexity_code"
  "elem_size doc_env = doc_elem_size" "create_numeric doc_env = doc_create_numeric"
  by (simp_all add: doc_env_def)

lemma doc_env_matlab: "matlab_api doc_env"
proof -
  have "(max 1 z :: mwSize) = z" if "0 < z" for z
    using that by (simp add: max_def word_le_nat_alt word_less_nat_alt)
  then show ?thesis
    by (auto simp: matlab_api_def doc_env_def doc_class_code_inj doc_create_numeric_def
        find_doc_class doc_dims_ok doc_complexity_code_def if_complex_def Let_def
        split: mxComplexity.splits)
qed

end
