(* ===== verification/Mym_CString.thy ===== *)
theory Mym_CString
  imports Mym_MxArray
begin

text \<open>
  The functions of \<open>string.h\<close> and \<open>strings.h\<close> on whole C strings, written over the bytes before the
  final NUL, and the helper \<open>isSubstringFountAtTheBeginningCaseInsenstive\<close> of \<open>src/src/mym.cpp\<close>. A
  flag says whether the program runs on Windows, where \<open>mym.h\<close> lines 82 to 86 define the
  case-insensitive functions by the case-sensitive ones.
\<close>

text \<open>The byte a pointer into the string points to.\<close>

definition at0 :: "byte list \<Rightarrow> byte" where
  "at0 s = (case s of [] \<Rightarrow> 0 | b # _ \<Rightarrow> b)"

lemma at0_simps [simp]: "at0 [] = 0" "at0 (b # s) = b"
  by (simp_all add: at0_def)

text \<open>\<open>strstr\<close>: the offset of the first occurrence.\<close>

fun strstr :: "byte list \<Rightarrow> byte list \<Rightarrow> nat option" where
  "strstr [] l = (if l = [] then Some 0 else None)"
| "strstr (b # s) l = (if take (length l) (b # s) = l then Some 0 else map_option Suc (strstr s l))"

text \<open>\<open>strstr (s + i, l)\<close>, the result as an offset into \<open>s\<close>.\<close>

definition strstr_from :: "byte list \<Rightarrow> nat \<Rightarrow> byte list \<Rightarrow> nat option" where
  "strstr_from s i l = map_option ((+) i) (strstr (drop i s) l)"

definition strcasestr :: "bool \<Rightarrow> byte list \<Rightarrow> byte list \<Rightarrow> nat option" where
  "strcasestr win s l = (if win then strstr s l else strstr (map tolower s) (map tolower l))"

definition strncasecmp_words :: "bool \<Rightarrow> byte list \<Rightarrow> byte list \<Rightarrow> nat \<Rightarrow> bool" where
  "strncasecmp_words win s t n \<longleftrightarrow> strcasecmp_words win (take n s) (take n t)"

fun isSubstringFountAtTheBeginningCaseInsenstive :: "byte list \<Rightarrow> byte list \<Rightarrow> bool" where
  "isSubstringFountAtTheBeginningCaseInsenstive s [] = True"
| "isSubstringFountAtTheBeginningCaseInsenstive s (c # subString) =
     (if tolower (at0 s) \<noteq> tolower c then False
      else isSubstringFountAtTheBeginningCaseInsenstive (tl s) subString)"

section \<open>Laws\<close>

lemma strstr_Some:
  "strstr s l = Some i \<Longrightarrow> i \<le> length s \<and> take (length l) (drop i s) = l"
  by (induction s l arbitrary: i rule: strstr.induct) (auto split: if_splits)

lemma strstr_first: "strstr s l = Some i \<Longrightarrow> j < i \<Longrightarrow> take (length l) (drop j s) \<noteq> l"
proof (induction s l arbitrary: i j rule: strstr.induct)
  case (2 b s l)
  then show ?case by (cases j) (auto split: if_splits)
qed (auto split: if_splits)

lemma strstr_None: "strstr s l = None \<Longrightarrow> take (length l) (drop j s) \<noteq> l"
proof (induction s l arbitrary: j rule: strstr.induct)
  case (2 b s l)
  then show ?case by (cases j) (auto split: if_splits)
qed (auto split: if_splits)

text \<open>For a single character: the first position that holds it.\<close>

lemma strstr_char_Some:
  "strstr s [c] = Some i \<longleftrightarrow> i < length s \<and> s ! i = c \<and> c \<notin> set (take i s)"
proof (induction s arbitrary: i)
  case (Cons b s)
  then show ?case by (cases i) auto
qed simp

lemma strstr_char_None: "strstr s [c] = None \<longleftrightarrow> c \<notin> set s"
  by (induction s) auto

lemma strstr_from_char:
  "strstr_from s i [c] = Some k \<longleftrightarrow> i \<le> k \<and> k < length s \<and> s ! k = c \<and> c \<notin> set (take (k - i) (drop i s))"
proof -
  have "strstr_from s i [c] = Some k \<longleftrightarrow> i \<le> k \<and> strstr (drop i s) [c] = Some (k - i)"
    by (auto simp: strstr_from_def)
  then show ?thesis by (auto simp: strstr_char_Some)
qed

lemma strstr_from_append:
  "c \<notin> set u \<Longrightarrow> strstr_from (p @ u @ c # q) (length p) [c] = Some (length p + length u)"
  by (simp add: strstr_from_char nth_append)

lemma strstr_from_char_None: "strstr_from s i [c] = None \<longleftrightarrow> c \<notin> set (drop i s)"
  by (simp add: strstr_from_def strstr_char_None)

lemma strcasestr_found:
  "strcasestr win s l \<noteq> None \<longleftrightarrow>
     (\<exists>j. strcasecmp_words win (take (length l) (drop j s)) l)"
proof -
  have *: "strstr s l \<noteq> None \<longleftrightarrow> (\<exists>j. take (length l) (drop j s) = l)" for s l
    using strstr_Some [of s l] strstr_None [of s l] by fastforce
  show ?thesis
    using * [of s l] * [of "map tolower s" "map tolower l"]
    by (auto simp: strcasestr_def strcasecmp_words_def take_map drop_map)
qed

lemma prefix_ci:
  "no_nul l \<Longrightarrow> isSubstringFountAtTheBeginningCaseInsenstive s l \<longleftrightarrow>
     map tolower (take (length l) s) = map tolower l"
proof (induction s l rule: isSubstringFountAtTheBeginningCaseInsenstive.induct)
  case (2 s c l)
  have "tolower c \<noteq> 0" if "c \<noteq> 0"
  proof (cases "65 \<le> c \<and> c \<le> 90")
    case True
    then have "65 \<le> unat c" "unat c \<le> 90" by (simp_all add: word_le_nat_alt)
    then have "unat (c + 32) = unat c + 32" by (simp add: unat_word_ariths)
    then have "unat (c + 32) \<noteq> 0" by simp
    then have "c + 32 \<noteq> 0" by (metis unsigned_0)
    with True show ?thesis by (simp add: tolower_def)
  qed (use that in \<open>auto simp: tolower_def\<close>)
  then show ?case using 2 by (cases s) (auto simp: tolower_def)
qed simp

end
