(* ===== verification/Mym_Utf8.thy ===== *)
theory Mym_Utf8
  imports Mym_Prelude
begin

text \<open>
  The conversions between the bytes of a text column and the UTF-8 strings that MATLAB exchanges,
  \<open>hex2char\<close> (fetched columns) and \<open>char2hex\<close> (the {S} placeholder) of \<open>src/src/mym.cpp\<close>. Both
  write into a buffer of a size fixed before the loop; every store is checked against it. The loop
  counters are \<open>unsigned int\<close>: a column is at most 1 GB in MySQL's protocol, so they do not wrap,
  and they are natural numbers here.
\<close>

section \<open>The code\<close>

definition u8 :: "32 word \<Rightarrow> byte" where
  "u8 v = ucast v"

text \<open>
  The body of the loop of \<open>hex2char\<close> for the value \<open>pnt[a]\<close>: the bytes stored at
  \<open>result_pnt[a + offset]\<close> and behind it. The indices of one iteration follow those of the one
  before. The value has type \<open>uint8_t\<close>, so that all branches after the second are out of reach.
\<close>

definition hex2char_step :: "byte \<Rightarrow> byte list res" where
  "hex2char_step b = (let c = ucast b :: 32 word in
     if c \<le> 0x7F then Inr [u8 c]
     else if c \<le> 0x7FF then Inr [u8 (drop_bit 6 c + 0xC0), u8 ((c AND 0x3F) + 0x80)]
     else if 0xD800 \<le> c \<and> c \<le> 0xDFFF
     then mexErrMsgIdAndTxt ''mYm:Deserialization:UTF8'' ''Invalid block of UTF8 detected.''
     else if c \<le> 0xFFFF
     then Inr [u8 (drop_bit 12 c + 0xE0), u8 ((drop_bit 6 c AND 0x3F) + 0x80),
               u8 ((c AND 0x3F) + 0x80)]
     else if c \<le> 0x10FFFF
     then Inr [u8 (drop_bit 18 c + 0xF0), u8 ((drop_bit 12 c AND 0x3F) + 0x80),
               u8 ((drop_bit 6 c AND 0x3F) + 0x80), u8 ((c AND 0x3F) + 0x80)]
     else undefined_behaviour Uninitialised_read)"

fun hex2char_loop :: "nat \<Rightarrow> nat \<Rightarrow> byte list \<Rightarrow> byte list \<Rightarrow> byte list res" where
  "hex2char_loop cap 0 pnt w = emit cap w [0]"
| "hex2char_loop cap (Suc n) pnt w =
     bindE (memread 1 pnt) (\<lambda>(b, pnt).
     bindE (hex2char_step (hd b)) (\<lambda>u.
     bindE (emit cap w u) (\<lambda>w. hex2char_loop cap n pnt w)))"

definition hex2char :: "byte list \<Rightarrow> nat \<Rightarrow> byte list res" where
  "hex2char original_val char_length = hex2char_loop (char_length * 4) char_length original_val []"

text \<open>
  The loop of \<open>char2hex\<close>; its list argument is the part \<open>original_val[a], ..., original_val[vlength - 1]\<close>
  that is still to be converted.
\<close>

function (sequential) char2hex_loop :: "nat \<Rightarrow> byte list \<Rightarrow> byte list \<Rightarrow> byte list res" where
  "char2hex_loop cap [] w = emit cap w [0]"
| "char2hex_loop cap (u0 # p) w = (let c = (ucast :: byte \<Rightarrow> 32 word) in
     if u0 AND 0xF8 = 0xF0 \<and> 3 \<le> length p
     then bindE (emit cap w [u8 (push_bit 18 (c u0 - 0xF0) + push_bit 12 (c (p ! 0) - 0x80)
                                  + push_bit 6 (c (p ! 1) - 0x80) + (c (p ! 2) - 0x80))])
            (\<lambda>w. char2hex_loop cap (drop 3 p) w)
     else if u0 AND 0xF0 = 0xE0 \<and> 2 \<le> length p
     then if u0 = 0xED \<and> p ! 0 AND 0xA0 = 0xA0
          then mexErrMsgIdAndTxt ''mYm:Serialization:UTF8'' ''Invalid block of UTF8 detected.''
          else bindE (emit cap w [u8 (push_bit 12 (c u0 - 0xE0) + push_bit 6 (c (p ! 0) - 0x80)
                                       + (c (p ! 1) - 0x80))])
                 (\<lambda>w. char2hex_loop cap (drop 2 p) w)
     else if u0 AND 0xE0 = 0xC0 \<and> 1 \<le> length p
     then bindE (emit cap w [u8 (push_bit 6 (c u0 - 0xC0) + (c (p ! 0) - 0x80))])
            (\<lambda>w. char2hex_loop cap (drop 1 p) w)
     else bindE (emit cap w [u0]) (\<lambda>w. char2hex_loop cap p w))"
  by pat_completeness auto
termination
  by (relation "measure (\<lambda>(cap, p, w). length p)") auto

definition char2hex :: "byte list \<Rightarrow> nat \<Rightarrow> nat \<Rightarrow> byte list res" where
  "char2hex original_val vlength char_length =
     bindE (memread vlength original_val) (\<lambda>(p, _). char2hex_loop char_length p [])"

declare char2hex_loop.simps(2) [simp del]

section \<open>UTF-8\<close>

definition utf8_encode :: "nat \<Rightarrow> byte list" where
  "utf8_encode cp = map word_of_nat (
     if cp < 0x80 then [cp]
     else if cp < 0x800 then [0xC0 + cp div 64, 0x80 + cp mod 64]
     else if cp < 0x10000 then [0xE0 + cp div 4096, 0x80 + cp div 64 mod 64, 0x80 + cp mod 64]
     else [0xF0 + cp div 262144, 0x80 + cp div 4096 mod 64, 0x80 + cp div 64 mod 64,
           0x80 + cp mod 64])"

definition scalar_value :: "nat \<Rightarrow> bool" where
  "scalar_value cp \<longleftrightarrow> cp < 0x110000 \<and> \<not> (0xD800 \<le> cp \<and> cp \<le> 0xDFFF)"

definition utf8 :: "nat list \<Rightarrow> byte list" where
  "utf8 cps = concat (map utf8_encode cps)"

lemma utf8_simps [simp]: "utf8 [] = []" "utf8 (cp # cps) = utf8_encode cp @ utf8 cps"
  by (simp_all add: utf8_def)

section \<open>Bytes and masks\<close>

lemma and_not_mask: "(b AND NOT (mask n) :: byte) = push_bit n (drop_bit n b)"
  by (rule bit_eqI) (auto simp: bit_simps)

lemma unat_clear_low: "unat (b AND NOT (mask n) :: byte) = unat b div 2 ^ n * 2 ^ n"
proof -
  have "unat b div 2 ^ n * 2 ^ n \<le> unat b" by (simp add: div_times_less_eq_dividend)
  moreover have "unat b < 256" using unsigned_less [of b, where ?'a = nat] by simp
  ultimately have "unat b div 2 ^ n * 2 ^ n < 256" and "unat b < 256" by linarith+
  then show ?thesis
    unfolding and_not_mask unsigned_push_bit_eq unsigned_drop_bit_eq
    by (simp add: push_bit_eq_mult drop_bit_eq_div take_bit_eq_mod mod_less)
qed

lemma high_masks: "(0xF8 :: byte) = NOT (mask 3)" "(0xF0 :: byte) = NOT (mask 4)"
    "(0xE0 :: byte) = NOT (mask 5)"
  by (simp_all add: mask_eq_exp_minus_1)

lemma unat_masks:
  fixes b :: byte
  shows "unat (b AND 0xF8) = unat b div 8 * 8" "unat (b AND 0xF0) = unat b div 16 * 16"
    "unat (b AND 0xE0) = unat b div 32 * 32"
  unfolding high_masks unat_clear_low by simp_all

lemma div_times_interval:
  assumes "0 < (k :: nat)"
  shows "n div k * k = q * k \<longleftrightarrow> q * k \<le> n \<and> n < q * k + k"
proof -
  have "n div k * k = q * k \<longleftrightarrow> q \<le> n div k \<and> n div k < Suc q" using assms by auto
  then show ?thesis
    using assms by (simp add: less_eq_div_iff_mult_less_eq div_less_iff_less_mult add.commute)
qed

lemma lead_masks:
  fixes b :: byte
  shows "b AND 0xF8 = 0xF0 \<longleftrightarrow> 240 \<le> unat b \<and> unat b < 248"
    and "b AND 0xF0 = 0xE0 \<longleftrightarrow> 224 \<le> unat b \<and> unat b < 240"
    and "b AND 0xE0 = 0xC0 \<longleftrightarrow> 192 \<le> unat b \<and> unat b < 224"
    and "b AND 0xE0 = 0x80 \<longleftrightarrow> 128 \<le> unat b \<and> unat b < 160"
  using unat_masks [of b] div_times_interval [of 8 "unat b" 30] div_times_interval [of 16 "unat b" 14]
    div_times_interval [of 32 "unat b" 6] div_times_interval [of 32 "unat b" 4]
  by (simp_all add: word_unat_eq_iff del: unsigned_and_eq)

lemma not_surrogate_mask:
  fixes b :: byte
  assumes "128 \<le> unat b" "unat b < 160"
  shows "b AND 0xA0 \<noteq> 0xA0"
proof -
  have "b AND 0xE0 = 0x80" using assms by (simp add: lead_masks)
  moreover have "b AND 0xA0 = (b AND 0xE0) AND 0xA0" by (simp add: and.assoc)
  ultimately show ?thesis by simp
qed

lemma u8_of_nat: "u8 (word_of_nat n) = word_of_nat n"
  by (simp add: u8_def word_unat_eq_iff unsigned_ucast_eq unsigned_take_bit_eq unat_of_nat
      take_bit_eq_mod mod_mod_cancel)

lemma ucast_byte_of_nat: "n < 256 \<Longrightarrow> (ucast (word_of_nat n :: byte) :: 32 word) = word_of_nat n"
  by (simp add: word_unat_eq_iff unsigned_ucast_eq unat_of_nat take_bit_nat_eq_self)

lemma unat_byte_of_nat: "n < 256 \<Longrightarrow> unat (word_of_nat n :: byte) = n"
  by (simp add: unat_of_nat)

lemmas byte_of_nat = lead_masks ucast_byte_of_nat unat_byte_of_nat

section \<open>\<open>char2hex\<close> decodes UTF-8\<close>

lemma push_bit_of_nat: "push_bit n (word_of_nat x :: 32 word) = word_of_nat (x * 2 ^ n)"
  by (simp add: push_bit_eq_mult)

lemma minus_of_nat: "(word_of_nat (k + x) :: 32 word) - word_of_nat k = word_of_nat x"
  by simp

lemma char2hex_ascii:
  assumes "cp < 0x80"
  shows "char2hex_loop cap (utf8_encode cp @ p) w =
     bindE (emit cap w [word_of_nat cp]) (char2hex_loop cap p)"
  using assms by (simp add: utf8_encode_def char2hex_loop.simps(2) Let_def byte_of_nat)

lemma char2hex_two:
  assumes "0x80 \<le> cp" "cp < 0x800"
  shows "char2hex_loop cap (utf8_encode cp @ p) w =
     bindE (emit cap w [word_of_nat cp]) (char2hex_loop cap p)"
proof -
  define x y where "x = cp div 64" and "y = cp mod 64"
  then have xy: "x < 32" "y < 64" "cp = x * 64 + y" using assms by auto
  have u: "u8 (push_bit 6 (ucast (word_of_nat (192 + x) :: byte) - 0xC0)
          + (ucast (word_of_nat (128 + y) :: byte) - 0x80)) = word_of_nat cp"
    using xy by (simp only: ucast_byte_of_nat) (simp add: push_bit_eq_mult flip: u8_of_nat)
  have "utf8_encode cp = [word_of_nat (192 + x), word_of_nat (128 + y)]"
    using assms by (simp add: utf8_encode_def x_def y_def)
  moreover have "unat (word_of_nat (192 + x) :: byte) = 192 + x"
    using xy by (intro unat_byte_of_nat) simp
  ultimately show ?thesis
    using xy(1,2) by (simp add: char2hex_loop.simps(2) Let_def lead_masks u del: of_nat_add)
qed

lemma div64: "cp div 4096 = cp div 64 div 64" "cp div 262144 = cp div 4096 div 64" for cp :: nat
  by (simp_all flip: div_mult2_eq)

lemma char2hex_three:
  assumes "0x800 \<le> cp" "cp < 0x10000" "scalar_value cp"
  shows "char2hex_loop cap (utf8_encode cp @ p) w =
     bindE (emit cap w [word_of_nat cp]) (char2hex_loop cap p)"
proof -
  define x y z where "x = cp div 4096" and "y = cp div 64 mod 64" and "z = cp mod 64"
  have "cp = cp div 64 * 64 + z" "cp div 64 = x * 64 + y"
    unfolding x_def y_def z_def div64 by (rule div_mult_mod_eq [symmetric])+
  then have cp: "cp = x * 4096 + y * 64 + z" by linarith
  have xyz: "x < 16" "y < 64" "z < 64" using assms by (simp_all add: x_def y_def z_def)
  have sur: "x = 13 \<longrightarrow> y < 32" using assms(3) cp xyz by (auto simp: scalar_value_def)
  have u: "u8 (push_bit 12 (ucast (word_of_nat (224 + x) :: byte) - 0xE0)
          + push_bit 6 (ucast (word_of_nat (128 + y) :: byte) - 0x80)
          + (ucast (word_of_nat (128 + z) :: byte) - 0x80)) = word_of_nat cp"
    using xyz cp by (simp only: ucast_byte_of_nat) (simp add: push_bit_eq_mult flip: u8_of_nat)
  have enc: "utf8_encode cp = [word_of_nat (224 + x), word_of_nat (128 + y), word_of_nat (128 + z)]"
    using assms by (simp add: utf8_encode_def x_def y_def z_def)
  have b: "unat (word_of_nat (224 + x) :: byte) = 224 + x" "unat (word_of_nat (128 + y) :: byte) = 128 + y"
    using xyz by (intro unat_byte_of_nat; simp)+
  have "\<not> (word_of_nat (224 + x) = (0xED :: byte) \<and> (word_of_nat (128 + y) :: byte) AND 0xA0 = 0xA0)"
  proof (rule notI, elim conjE)
    assume "word_of_nat (224 + x) = (0xED :: byte)" and m: "(word_of_nat (128 + y) :: byte) AND 0xA0 = 0xA0"
    then have "224 + x = 0xED" using b(1) by (simp only: word_unat_eq_iff) simp
    then have "y < 32" using sur by simp
    then show False using not_surrogate_mask [of "word_of_nat (128 + y)"] m b(2) by linarith
  qed
  then show ?thesis
    using xyz b by (auto simp add: enc char2hex_loop.simps(2) Let_def lead_masks u simp del: of_nat_add)
qed

lemma char2hex_four:
  assumes "0x10000 \<le> cp" "scalar_value cp"
  shows "char2hex_loop cap (utf8_encode cp @ p) w =
     bindE (emit cap w [word_of_nat cp]) (char2hex_loop cap p)"
proof -
  define x y z t where "x = cp div 262144" and "y = cp div 4096 mod 64" and "z = cp div 64 mod 64"
    and "t = cp mod 64"
  have "cp = cp div 64 * 64 + t" "cp div 64 = cp div 4096 * 64 + z" "cp div 4096 = x * 64 + y"
    unfolding x_def y_def z_def t_def div64 by (rule div_mult_mod_eq [symmetric])+
  then have cp: "cp = x * 262144 + y * 4096 + z * 64 + t" by linarith
  have xyz: "x < 8" "y < 64" "z < 64" "t < 64"
    using assms by (simp_all add: x_def y_def z_def t_def scalar_value_def)
  have u: "u8 (push_bit 18 (ucast (word_of_nat (240 + x) :: byte) - 0xF0)
          + push_bit 12 (ucast (word_of_nat (128 + y) :: byte) - 0x80)
          + push_bit 6 (ucast (word_of_nat (128 + z) :: byte) - 0x80)
          + (ucast (word_of_nat (128 + t) :: byte) - 0x80)) = word_of_nat cp"
    using xyz cp by (simp only: ucast_byte_of_nat) (simp add: push_bit_eq_mult flip: u8_of_nat)
  have enc: "utf8_encode cp = [word_of_nat (240 + x), word_of_nat (128 + y), word_of_nat (128 + z),
      word_of_nat (128 + t)]"
    using assms by (simp add: utf8_encode_def x_def y_def z_def t_def)
  have "unat (word_of_nat (240 + x) :: byte) = 240 + x" using xyz by (intro unat_byte_of_nat) simp
  then show ?thesis
    using xyz by (simp add: enc char2hex_loop.simps(2) Let_def lead_masks u del: of_nat_add)
qed

lemma char2hex_step:
  "scalar_value cp \<Longrightarrow> char2hex_loop cap (utf8_encode cp @ p) w =
     bindE (emit cap w [word_of_nat cp]) (char2hex_loop cap p)"
  by (cases "cp < 0x80"; cases "cp < 0x800"; cases "cp < 0x10000")
    (simp_all add: char2hex_ascii char2hex_two char2hex_three char2hex_four)

lemma char2hex_loop_utf8:
  "list_all scalar_value cps \<Longrightarrow> length w + length cps < cap \<Longrightarrow>
   char2hex_loop cap (utf8 cps) w = Inr (w @ map word_of_nat cps @ [0])"
  by (induction cps arbitrary: w) (simp_all add: char2hex_step)

lemma char2hex_utf8:
  "list_all scalar_value cps \<Longrightarrow> length cps < cap \<Longrightarrow>
   char2hex (utf8 cps @ tail) (length (utf8 cps)) cap = Inr (map word_of_nat cps @ [0])"
  by (simp add: char2hex_def char2hex_loop_utf8)

text \<open>On every input: the result has one byte per converted sequence, and the buffer suffices.\<close>

lemma char2hex_loop_bound:
  "length w + length p < cap \<Longrightarrow> \<not> is_undefined (char2hex_loop cap p w)"
proof (induction cap p w rule: char2hex_loop.induct)
  case (2 cap u0 p w)
  then show ?case
    by (simp add: char2hex_loop.simps(2) [of cap u0 p w] Let_def)
qed simp

section \<open>\<open>hex2char\<close> encodes Latin-1\<close>

lemma hex2char_step_eq: "hex2char_step b = Inr (utf8_encode (unat b))"
proof -
  define n where "n = unat b"
  have n: "n < 256" using unsigned_less [of b, where ?'a = nat] by (simp add: n_def)
  have c: "(ucast b :: 32 word) = word_of_nat n"
    using n by (simp add: n_def word_unat_eq_iff unsigned_ucast_eq take_bit_nat_eq_self)
  have u: "unat (word_of_nat n :: 32 word) = n" using n by (simp add: unat_of_nat)
  have le: "(word_of_nat n :: 32 word) \<le> k \<longleftrightarrow> n \<le> unat k" for k
    by (simp only: word_le_nat_alt u)
  show ?thesis
  proof (cases "n < 128")
    case True
    then show ?thesis
      by (simp add: hex2char_step_def Let_def c le u8_of_nat utf8_encode_def flip: n_def)
  next
    case False
    have "drop_bit 6 (word_of_nat n :: 32 word) = word_of_nat (n div 64)"
      unfolding word_unat_eq_iff unsigned_drop_bit_eq u using n
      by (simp add: drop_bit_eq_div unat_of_nat take_bit_nat_eq_self)
    moreover have "(word_of_nat n :: 32 word) AND 0x3F = word_of_nat (n mod 64)"
    proof -
      have "(0x3F :: 32 word) = mask 6" by (simp add: mask_eq_exp_minus_1)
      then have "(word_of_nat n :: 32 word) AND 0x3F = take_bit 6 (word_of_nat n)"
        by (simp only: take_bit_eq_mask)
      moreover have "unat (take_bit 6 (word_of_nat n :: 32 word)) = unat (word_of_nat (n mod 64) :: 32 word)"
        unfolding unsigned_take_bit_eq u by (simp add: take_bit_eq_mod unat_of_nat)
      ultimately show ?thesis by (simp only: word_unat_eq_iff)
    qed
    moreover have "u8 (word_of_nat (n div 64) + 0xC0) = word_of_nat (0xC0 + n div 64)"
      "u8 (word_of_nat (n mod 64) + 0x80) = word_of_nat (0x80 + n mod 64)"
      by (simp_all add: add.commute flip: u8_of_nat)
    ultimately show ?thesis
      using False n by (simp add: hex2char_step_def Let_def c le utf8_encode_def flip: n_def)
  qed
qed

text \<open>The output of a run over a string of Latin-1 bytes.\<close>

definition latin1_utf8 :: "byte list \<Rightarrow> byte list" where
  "latin1_utf8 s = utf8 (map unat s)"

lemma length_utf8_encode: "1 \<le> length (utf8_encode cp)" "cp < 256 \<Longrightarrow> length (utf8_encode cp) \<le> 2"
  by (simp_all add: utf8_encode_def)

lemma length_latin1: "length (latin1_utf8 s) \<le> 2 * length s"
proof (induction s)
  case Nil
  then show ?case by (simp add: latin1_utf8_def)
next
  case (Cons b s)
  have "unat b < 256" using unsigned_less [of b, where ?'a = nat] by simp
  from length_utf8_encode(2) [OF this] Cons show ?case by (simp add: latin1_utf8_def)
qed

lemma hex2char_loop_ok:
  "length w + length (latin1_utf8 s) < cap \<Longrightarrow>
   hex2char_loop cap (length s) (s @ tail) w = Inr (w @ latin1_utf8 s @ [0])"
  by (induction s arbitrary: w) (simp_all add: latin1_utf8_def memread_def hex2char_step_eq)

text \<open>A column of at least one byte is converted; for an empty one, the final zero has no room.\<close>

lemma hex2char_ok:
  assumes "s \<noteq> []"
  shows "hex2char (s @ tail) (length s) = Inr (latin1_utf8 s @ [0])"
proof -
  have "0 < length s" using assms by simp
  then have "length [] + length (latin1_utf8 s) < length s * 4"
    unfolding list.size using length_latin1 [of s] by linarith
  from hex2char_loop_ok [OF this] show ?thesis by (simp add: hex2char_def)
qed

lemma hex2char_empty: "hex2char p 0 = undefined_behaviour Write_out_of_bounds"
  by (simp add: hex2char_def emit_def)

lemma scalar_latin1: "list_all scalar_value (map unat (s :: byte list))"
proof -
  have "scalar_value (unat b)" for b :: byte
    using unsigned_less [of b, where ?'a = nat] by (simp add: scalar_value_def)
  then show ?thesis by (simp add: list_all_iff)
qed

lemma char2hex_latin1:
  "length s < cap \<Longrightarrow> char2hex (latin1_utf8 s @ tail) (length (latin1_utf8 s)) cap = Inr (s @ [0])"
  using char2hex_utf8 [OF scalar_latin1, of s cap tail] by (simp add: latin1_utf8_def comp_def)

end
