(* ===== verification/Mym_Decimal.thy ===== *)
theory Mym_Decimal
  imports Mym_Prelude
begin

text \<open>
  Numbers as text: the conversions of \<open>printf\<close> and \<open>atoi\<close> that \<open>serializeString\<close>, \<open>hostport\<close> and the
  field conversions of \<open>src/src/mym.cpp\<close> use, on exact values. A binary floating point number is
  decoded from its IEEE 754 bits into a sign, a significand and an exponent; formatting it with a
  number of decimals rounds the exact quotient to the nearest value, ties to even.
\<close>

section \<open>Rounding a quotient\<close>

text \<open>The integer nearest to \<open>n / d\<close>, ties to even.\<close>

definition round_half_even :: "nat \<Rightarrow> nat \<Rightarrow> nat" where
  "round_half_even n d = (let q = n div d; r = n mod d in
     if 2 * r < d then q else if d < 2 * r then q + 1 else if even q then q else q + 1)"

lemma round_half_even_error:
  assumes "0 < d"
  shows "2 * (round_half_even n d * d) \<le> 2 * n + d" "2 * n \<le> 2 * (round_half_even n d * d) + d"
proof -
  define q r where "q = n div d" and "r = n mod d"
  have n: "n = q * d + r" and "r < d" using assms by (simp_all add: q_def r_def)
  then have "round_half_even n d = q \<and> 2 * r \<le> d \<or> round_half_even n d = q + 1 \<and> d \<le> 2 * r"
    by (auto simp: round_half_even_def Let_def simp flip: q_def r_def)
  then show "2 * (round_half_even n d * d) \<le> 2 * n + d" "2 * n \<le> 2 * (round_half_even n d * d) + d"
    using \<open>r < d\<close> by (auto simp: n distrib_right)
qed

lemma round_half_even_1: "round_half_even n 1 = n"
  by (simp add: round_half_even_def)

text \<open>The number of binary digits.\<close>

fun bits :: "nat \<Rightarrow> nat" where
  "bits n = (if n = 0 then 0 else Suc (bits (n div 2)))"

declare bits.simps [simp del]

lemma bits_bounds: "0 < n \<Longrightarrow> 2 ^ (bits n - 1) \<le> n \<and> n < 2 ^ bits n \<and> 0 < bits n"
proof (induction n rule: bits.induct)
  case (1 n)
  show ?case
  proof (cases "n div 2 = 0")
    case True
    with 1 have "n = 1" by auto
    then show ?thesis by (simp add: bits.simps)
  next
    case False
    then have h: "2 ^ (bits (n div 2) - 1) \<le> n div 2" "n div 2 < 2 ^ bits (n div 2)"
      "0 < bits (n div 2)" and n: "n \<noteq> 0" using 1 by auto
    have b: "bits n = Suc (bits (n div 2))" using n by (simp add: bits.simps [of n])
    obtain k where k: "bits (n div 2) = Suc k" using h(3) by (cases "bits (n div 2)") auto
    show ?thesis using h unfolding b k by simp linarith
  qed
qed

section \<open>Decimal digits\<close>

definition digit :: "nat \<Rightarrow> byte" where
  "digit n = word_of_nat (48 + n)"

fun dec :: "nat \<Rightarrow> byte list" where
  "dec n = (if n < 10 then [digit n] else dec (n div 10) @ [digit (n mod 10)])"

declare dec.simps [simp del]

fun pad_digits :: "nat \<Rightarrow> nat \<Rightarrow> byte list" where
  "pad_digits 0 n = []"
| "pad_digits (Suc k) n = pad_digits k (n div 10) @ [digit (n mod 10)]"

lemma length_pad_digits [simp]: "length (pad_digits k n) = k"
  by (induction k arbitrary: n) simp_all

text \<open>The value of a string of digits, read from the left.\<close>

definition digit_val :: "byte \<Rightarrow> nat" where
  "digit_val b = unat b - 48"

definition dec_val :: "byte list \<Rightarrow> nat" where
  "dec_val s = foldl (\<lambda>v b. 10 * v + digit_val b) 0 s"

lemma digit_facts [simp]: "n < 10 \<Longrightarrow> isdigit (digit n)" "n < 10 \<Longrightarrow> digit_val (digit n) = n"
proof -
  assume "n < 10"
  then have "unat (digit n) = 48 + n" unfolding digit_def by (simp add: unat_of_nat del: of_nat_add)
  with \<open>n < 10\<close> show "isdigit (digit n)" "digit_val (digit n) = n"
    by (simp_all add: isdigit_def digit_val_def word_le_nat_alt)
qed

lemma dec_digits: "list_all isdigit (dec n)" "dec n \<noteq> []"
proof (induction n rule: dec.induct)
  case (1 n)
  {
    case 1
    with "1.IH" show ?case by (subst dec.simps) simp
  next
    case 2
    show ?case by (subst dec.simps) simp
  }
qed

lemma dec_val_snoc [simp]: "dec_val (s @ [b]) = 10 * dec_val s + digit_val b"
  by (simp add: dec_val_def)

lemma dec_val_dec: "dec_val (dec n) = n"
proof (induction n rule: dec.induct)
  case (1 n)
  show ?case
  proof (cases "n < 10")
    case True
    then show ?thesis by (subst dec.simps) (simp add: dec_val_def)
  next
    case False
    with 1 have "dec_val (dec (n div 10) @ [digit (n mod 10)]) = n" by simp
    with False show ?thesis by (subst dec.simps) simp
  qed
qed

lemma dec_val_pad: "dec_val (pad_digits k n) = n mod 10 ^ k"
proof (induction k arbitrary: n)
  case 0
  then show ?case by (simp add: dec_val_def)
next
  case (Suc k)
  have "10 * (n div 10 mod 10 ^ k) + n mod 10 = n mod (10 * 10 ^ k)"
    by (simp add: mod_mult2_eq)
  with Suc show ?case by simp
qed

lemma length_dec: "n < 10 ^ k \<Longrightarrow> 0 < k \<Longrightarrow> length (dec n) \<le> k"
proof (induction k arbitrary: n)
  case 0
  then show ?case by simp
next
  case (Suc k)
  show ?case
  proof (cases "n < 10")
    case True
    then show ?thesis by (subst dec.simps) simp
  next
    case False
    then have "k \<noteq> 0" using Suc.prems by (cases k) auto
    moreover have "n div 10 < 10 ^ k" using Suc.prems by (simp add: less_mult_imp_div_less mult.commute)
    ultimately have "length (dec (n div 10)) \<le> k" using Suc.IH by simp
    with False show ?thesis by (subst dec.simps) simp
  qed
qed

section \<open>\<open>int\<close> in text\<close>

definition in_int :: "int \<Rightarrow> bool" where
  "in_int v \<longleftrightarrow> -2147483648 \<le> v \<and> v \<le> 2147483647"

text \<open>\<open>sprintf (p, "%d", v)\<close>\<close>

definition sprintf_d :: "int \<Rightarrow> byte list" where
  "sprintf_d v = (if v < 0 then 45 # dec (nat (- v)) else dec (nat v))"

text \<open>
  \<open>atoi\<close> on the bytes of a C string: white space, an optional sign and digits; a value that an
  \<open>int\<close> cannot hold has no defined result.
\<close>

definition atoi :: "byte list \<Rightarrow> int res" where
  "atoi s = (let s = dropWhile isspace s;
                 neg = (s \<noteq> [] \<and> hd s = 45);
                 s = (if s \<noteq> [] \<and> (hd s = 45 \<or> hd s = 43) then tl s else s);
                 n = int (dec_val (takeWhile isdigit s));
                 v = (if neg then - n else n)
             in if in_int v then Inr v else undefined_behaviour Conversion_overflow)"

lemma isdigit_not_special: "isdigit b \<Longrightarrow> \<not> isspace b \<and> b \<noteq> 45 \<and> b \<noteq> 43"
  by (auto simp: isdigit_def isspace_def word_le_nat_alt)

lemma takeWhile_digits: "list_all isdigit s \<Longrightarrow> p = [] \<or> \<not> isdigit (hd p) \<Longrightarrow> takeWhile isdigit (s @ p) = s"
  by (induction s) (auto simp: takeWhile_eq_Nil_iff)

lemma atoi_digits:
  assumes "list_all isdigit s" "s \<noteq> []" "p = [] \<or> \<not> isdigit (hd p)" "in_int (int (dec_val s))"
  shows "atoi (s @ p) = Inr (int (dec_val s))"
proof -
  obtain b t where s: "s = b # t" using assms(2) by (cases s) auto
  then have "\<not> isspace b \<and> b \<noteq> 45 \<and> b \<noteq> 43" using assms(1) isdigit_not_special by simp
  then show ?thesis
    using assms takeWhile_digits [of s p] by (simp add: atoi_def Let_def s)
qed

text \<open>What \<open>%d\<close> prints, \<open>atoi\<close> reads.\<close>

lemma atoi_sprintf_d:
  assumes v: "in_int v" and p: "p = [] \<or> \<not> isdigit (hd p)"
  shows "atoi (sprintf_d v @ p) = Inr v"
proof (cases "v < 0")
  case True
  have "takeWhile isdigit (dec (nat (- v)) @ p) = dec (nat (- v))"
    using dec_digits p by (intro takeWhile_digits)
  then show ?thesis
    using True v by (simp add: atoi_def sprintf_d_def Let_def dec_val_dec isspace_def)
next
  case False
  then show ?thesis
    using v atoi_digits [OF dec_digits p, of "nat v"] by (simp add: sprintf_d_def dec_val_dec)
qed

section \<open>Floating point numbers\<close>

text \<open>\<open>Fin s m e\<close> is \<open>(-1)^s m 2^e\<close>.\<close>

datatype real_val = Fin bool nat int | Infinity bool | NaN bool

definition double_of_bits :: "64 word \<Rightarrow> real_val" where
  "double_of_bits w = (let s = bit w 63; e = unat (take_bit 11 (drop_bit 52 w)); f = unat (take_bit 52 w) in
     if e = 2047 then (if f = 0 then Infinity s else NaN s)
     else if e = 0 then Fin s f (- 1074)
     else Fin s (2 ^ 52 + f) (int e - 1075))"

definition float_of_bits :: "32 word \<Rightarrow> real_val" where
  "float_of_bits w = (let s = bit w 31; e = unat (take_bit 8 (drop_bit 23 w)); f = unat (take_bit 23 w) in
     if e = 255 then (if f = 0 then Infinity s else NaN s)
     else if e = 0 then Fin s f (- 149)
     else Fin s (2 ^ 23 + f) (int e - 150))"

text \<open>The magnitude of a finite value as a fraction.\<close>

definition num_part :: "nat \<Rightarrow> int \<Rightarrow> nat" where
  "num_part m e = m * 2 ^ nat e"

definition den_part :: "int \<Rightarrow> nat" where
  "den_part e = 2 ^ nat (- e)"

lemma den_part_pos [simp]: "0 < den_part e"
  by (simp add: den_part_def)

text \<open>
  \<open>floor\<close>, for which only finite results matter here, and the conversion \<open>(int) value\<close>, which
  truncates and has no defined result when the truncated value does not fit.
\<close>

definition floor_val :: "real_val \<Rightarrow> real_val" where
  "floor_val v = (case v of
     Fin s m e \<Rightarrow> (let q = num_part m e div den_part e; r = num_part m e mod den_part e
                   in Fin s (if s \<and> r \<noteq> 0 then q + 1 else q) 0)
   | v \<Rightarrow> v)"

definition int_of_val :: "real_val \<Rightarrow> int res" where
  "int_of_val v = (case v of
     Fin s m e \<Rightarrow> (let q = int (num_part m e div den_part e); i = (if s then - q else q)
                   in if in_int i then Inr i else undefined_behaviour Conversion_overflow)
   | _ \<Rightarrow> undefined_behaviour Conversion_overflow)"

text \<open>\<open>sprintf (p, "%.*f", k, v)\<close>\<close>

definition sign_text :: "bool \<Rightarrow> byte list" where
  "sign_text s = (if s then [45] else [])"

definition fixed_point :: "nat \<Rightarrow> nat \<Rightarrow> byte list" where
  "fixed_point k n = dec (n div 10 ^ k) @ (if k = 0 then [] else 46 # pad_digits k (n mod 10 ^ k))"

definition scaled :: "nat \<Rightarrow> nat \<Rightarrow> int \<Rightarrow> nat" where
  "scaled k m e = round_half_even (num_part m e * 10 ^ k) (den_part e)"

definition sprintf_f :: "nat \<Rightarrow> real_val \<Rightarrow> byte list" where
  "sprintf_f k v = (case v of
     Fin s m e \<Rightarrow> sign_text s @ fixed_point k (scaled k m e)
   | Infinity s \<Rightarrow> sign_text s @ bytes_of ''inf''
   | NaN s \<Rightarrow> sign_text s @ bytes_of ''nan'')"

text \<open>The value that a text with \<open>k\<close> decimals denotes, in units of \<open>10^-k\<close>.\<close>

definition fixed_val :: "byte list \<Rightarrow> nat" where
  "fixed_val s = dec_val (filter isdigit s)"

lemma dec_val_append: "dec_val (s @ t) = dec_val s * 10 ^ length t + dec_val t"
proof (induction t rule: rev_induct)
  case (snoc b t)
  have "dec_val (s @ t @ [b]) = 10 * dec_val (s @ t) + digit_val b"
    using dec_val_snoc [of "s @ t" b] by simp
  with snoc show ?case by (simp add: algebra_simps)
qed (simp add: dec_val_def)

lemma pad_digits_are: "list_all isdigit (pad_digits k n)"
  by (induction k arbitrary: n) simp_all

lemma fixed_val_point: "fixed_val (fixed_point k n) = n"
proof -
  have f: "filter isdigit s = s" if "list_all isdigit s" for s
    using that by (simp add: filter_id_conv list_all_iff)
  have "\<not> isdigit 46" by (simp add: isdigit_def)
  then show ?thesis
    by (simp add: fixed_val_def fixed_point_def f dec_digits pad_digits_are dec_val_append
        dec_val_pad dec_val_dec div_mult_mod_eq) (simp add: dec_val_def)
qed

text \<open>The text is the value to within half a unit in the last printed place.\<close>

lemma sprintf_f_error:
  assumes "sprintf_f k (Fin s m e) = t"
  shows "2 * (fixed_val t * den_part e) \<le> 2 * (num_part m e * 10 ^ k) + den_part e"
    and "2 * (num_part m e * 10 ^ k) \<le> 2 * (fixed_val t * den_part e) + den_part e"
proof -
  have "\<not> isdigit 45" by (simp add: isdigit_def)
  then have "fixed_val t = scaled k m e"
    using fixed_val_point [of k "scaled k m e"] assms
    by (auto simp: sprintf_f_def sign_text_def fixed_val_def)
  then show "2 * (fixed_val t * den_part e) \<le> 2 * (num_part m e * 10 ^ k) + den_part e"
    and "2 * (num_part m e * 10 ^ k) \<le> 2 * (fixed_val t * den_part e) + den_part e"
    using round_half_even_error [of "den_part e" "num_part m e * 10 ^ k"] by (simp_all add: scaled_def)
qed

section \<open>Integers as doubles\<close>

text \<open>The conversion \<open>(double) n\<close>, to nearest, as the bits of the result.\<close>

definition double_of_nat :: "nat \<Rightarrow> 64 word" where
  "double_of_nat n = (if n = 0 then 0 else
     let k = bits n - 1;
         m = (if k \<le> 52 then n * 2 ^ (52 - k) else round_half_even n (2 ^ (k - 52)))
     in word_of_nat ((1023 + k) * 2 ^ 52 + (m - 2 ^ 52)))"

lemma double_fields:
  assumes "E < 2047" "0 < E" "F < 2 ^ 52"
  shows "double_of_bits (word_of_nat (E * 2 ^ 52 + F)) = Fin False (2 ^ 52 + F) (int E - 1075)"
proof -
  let ?w = "word_of_nat (E * 2 ^ 52 + F) :: 64 word"
  have "E * 2 ^ 52 + F < 2 ^ 63" using assms by simp
  then have w: "unat ?w = E * 2 ^ 52 + F" by (simp add: unat_of_nat del: of_nat_add of_nat_mult)
  have d: "unat (drop_bit n ?w) = (E * 2 ^ 52 + F) div 2 ^ n" for n
    unfolding unsigned_drop_bit_eq w using \<open>E * 2 ^ 52 + F < 2 ^ 63\<close>
    by (simp add: drop_bit_eq_div take_bit_nat_eq_self)
  have "unat (take_bit 52 ?w) = F"
    unfolding unsigned_take_bit_eq w using assms by (simp add: take_bit_eq_mod)
  moreover have "unat (take_bit 11 (drop_bit 52 ?w)) = E"
    unfolding unsigned_take_bit_eq d using assms by (simp add: take_bit_eq_mod)
  moreover have "\<not> bit ?w 63"
  proof -
    have "unat (drop_bit 63 ?w) = 0" using \<open>E * 2 ^ 52 + F < 2 ^ 63\<close> by (simp only: d) simp
    then have "drop_bit 63 ?w = 0" by (simp only: unat_eq_0 [symmetric])
    then show ?thesis by (simp add: bit_iff_odd_drop_bit)
  qed
  ultimately show ?thesis using assms by (simp only: double_of_bits_def Let_def) simp
qed

text \<open>Exact up to \<open>2^53\<close>.\<close>

lemma double_of_nat_exact:
  assumes "n < 2 ^ 53"
  shows "\<exists>m e. double_of_bits (double_of_nat n) = Fin False m e \<and> num_part m e = n * den_part e"
proof (cases "n = 0")
  case True
  then show ?thesis by (simp add: double_of_nat_def double_of_bits_def num_part_def)
next
  case False
  define k where "k = bits n - 1"
  have b: "2 ^ k \<le> n" "n < 2 ^ Suc k" using bits_bounds [of n] False by (simp_all add: k_def)
  then have "(2 :: nat) ^ k < 2 ^ 53" using assms by linarith
  then have k: "k \<le> 52" using power_less_imp_less_exp [of "2 :: nat" k 53] by simp
  define F where "F = n * 2 ^ (52 - k) - 2 ^ 52"
  have p: "(2 :: nat) ^ 52 = 2 ^ k * 2 ^ (52 - k)" "(2 :: nat) ^ 53 = 2 ^ Suc k * 2 ^ (52 - k)"
    using k by (simp_all only: power_add [symmetric]) simp_all
  have "2 ^ 52 \<le> n * 2 ^ (52 - k)" "n * 2 ^ (52 - k) < 2 ^ 53"
    unfolding p using b by (intro mult_le_mono1 mult_less_mono1; simp)+
  then have F: "F < 2 ^ 52" "2 ^ 52 + F = n * 2 ^ (52 - k)" by (simp_all add: F_def)
  have "double_of_nat n = word_of_nat ((1023 + k) * 2 ^ 52 + F)"
    using False k by (simp only: double_of_nat_def Let_def if_False k_def [symmetric] if_True F_def)
  then have "double_of_bits (double_of_nat n) = Fin False (n * 2 ^ (52 - k)) (int (1023 + k) - 1075)"
    using double_fields [of "1023 + k" F] k F by (simp only:)
  moreover have "nat (int (1023 + k) - 1075) = 0" "nat (- (int (1023 + k) - 1075)) = 52 - k" using k by auto
  ultimately show ?thesis by (simp add: num_part_def den_part_def)
qed

end
