(* ===== verification/Mym_Text.thy ===== *)
theory Mym_Text
  imports Mym_Utf8 Mym_Decimal Mym_MxArray
begin

text \<open>
  The serializers behind the placeholders {S}, {B} and {F}: \<open>serializeString\<close>, \<open>serializeBinary\<close>,
  \<open>serializeFile\<close> and \<open>file_length\<close> of \<open>src/src/mym.cpp\<close>, and \<open>getstring\<close>. What they ask of MATLAB and
  of the file system is a field of the record \<open>host\<close>.
\<close>

section \<open>The surroundings\<close>

text \<open>
  \<open>array_to_string\<close> is \<open>mxArrayToString\<close>, the characters of the C string it returns without the
  final NUL, and \<open>create_string\<close> is \<open>mxCreateString\<close> on the characters of a C string. \<open>get_string a n\<close> is \<open>mxGetString\<close> with a buffer of \<open>n\<close> bytes: whether it reports a
  failure, and the C string in the buffer afterwards. \<open>read_file\<close> is the content of the named file,
  if it can be opened.
\<close>

record host =
  array_to_string :: "mxArray \<Rightarrow> byte list"
  create_string :: "byte list \<Rightarrow> mxArray"
  get_string :: "mxArray \<Rightarrow> nat \<Rightarrow> bool \<times> byte list"
  read_file :: "byte list \<Rightarrow> byte list option"

section \<open>\<open>getstring\<close>\<close>

text \<open>The conversion of an \<open>mwSize\<close> to \<open>int\<close> keeps the low 32 bits.\<close>

definition to_int :: "mwSize \<Rightarrow> int" where
  "to_int v = sint (ucast v :: 32 word)"

text \<open>
  \<open>int llen = (int) mxGetM (a) * (int) mxGetN (a) * sizeof (mxChar) + 1\<close>: the first product is one of
  \<open>int\<close>s, the rest is computed in \<open>size_t\<close> and converted back.
\<close>

definition string_room :: "mxArray \<Rightarrow> int res" where
  "string_room a = (let mn = to_int (mxGetM a) * to_int (mxGetN a) in
     if in_int mn then Inr (to_int (word_of_int mn * 2 + 1)) else undefined_behaviour Signed_overflow)"

definition getstring :: "host \<Rightarrow> mxArray \<Rightarrow> byte list res" where
  "getstring H a =
     bindE (string_room a) (\<lambda>llen.
     if llen < 0 then Inl Out_of_memory
     else (case get_string H a (nat llen) of
        (failed, c) \<Rightarrow> if failed then mexErrMsgTxt ''Can't copy string in getstring()'' else Inr c))"

section \<open>\<open>serializeString\<close>\<close>

definition dims2 :: "mxArray \<Rightarrow> (mwSize \<times> mwSize) res" where
  "dims2 a = (case mxGetDimensions a of d0 # d1 # _ \<Rightarrow> Inr (d0, d1)
              | _ \<Rightarrow> undefined_behaviour Read_out_of_bounds)"

text \<open>\<open>std::max<size_t> (pdims[0], pdims[1])\<close>\<close>

definition max_dim :: "mxArray \<Rightarrow> nat res" where
  "max_dim a = bindE (dims2 a) (\<lambda>(d0, d1). Inr (max (unat d0) (unat d1)))"

text \<open>\<open>(n_dims!=2) || !((pdims[0]==1) || (pdims[1]==1))\<close>\<close>

definition not_vector :: "mxArray \<Rightarrow> bool res" where
  "not_vector a = bindE (dims2 a) (\<lambda>(d0, d1).
     Inr (mxGetNumberOfDimensions a \<noteq> 2 \<or> \<not> (d0 = 1 \<or> d1 = 1)))"

definition val_of_int :: "int \<Rightarrow> real_val" where
  "val_of_int i = Fin (i < 0) (nat \<bar>i\<bar>) 0"

definition char_msg :: string where
  "char_msg = ''String placeholders only accept CHAR 1-by-M arrays or M-by-1!''"

text \<open>
  The branch for \<open>mxIsChar\<close>: the converted text, of which \<open>length\<close> bytes are passed on. The buffer
  has \<open>length + 1\<close> bytes; bytes behind the text have never been written.
\<close>

definition string_of_chars :: "host \<Rightarrow> mxArray \<Rightarrow> nat \<Rightarrow> byte list res" where
  "string_of_chars H a len =
     bindE (not_vector a) (\<lambda>bad.
     if bad then mexErrMsgTxt char_msg
     else let p_buf = array_to_string H a in
       bindE (char2hex (p_buf @ [0]) (length p_buf) (len + 1)) (\<lambda>w.
       if len \<le> length w then Inr (take len w) else undefined_behaviour Uninitialised_read))"

text \<open>The value of a numeric scalar, and whether it is printed as an integer regardless of the argument.\<close>

definition scalar_value_of :: "mxArray \<Rightarrow> (real_val \<times> bool) res" where
  "scalar_value_of a = (let p = mxGetData a in
     if mxIsClass a mxDOUBLE_CLASS
     then bindE (read_uint64 p) (\<lambda>(w, _). Inr (double_of_bits w, False))
     else if mxIsClass a mxSINGLE_CLASS
     then bindE (read_uint32 p) (\<lambda>(w, _). Inr (float_of_bits w, False))
     else if mxIsClass a mxINT8_CLASS
     then bindE (memread 1 p) (\<lambda>(b, _). Inr (val_of_int (sint (hd b)), True))
     else if mxIsClass a mxINT32_CLASS
     then bindE (read_uint32 p) (\<lambda>(w, _). Inr (val_of_int (sint w), True))
     else if mxIsClass a mxUINT8_CLASS
     then bindE (memread 1 p) (\<lambda>(b, _). Inr (val_of_int (uint (hd b)), True))
     else if mxIsClass a mxUINT32_CLASS
     then bindE (read_uint32 p) (\<lambda>(w, _). Inr (val_of_int (uint w), True))
     else if mxIsLogical a
     then bindE (memread 1 p) (\<lambda>(b, _). Inr (val_of_int (if hd b \<noteq> 0 then 1 else 0), True))
     else mexErrMsgTxt ''Unsupported type, the supported types are (U)INT 8 and 32, FLOAT and DOUBLE'')"

text \<open>The size of the buffer that \<open>sprintf\<close> writes to, and the call: text, NUL, length of the text.\<close>

definition scalar_buf :: nat where
  "scalar_buf = 512"

definition print_to :: "nat \<Rightarrow> byte list \<Rightarrow> byte list res" where
  "print_to cap s = bindE (emit cap [] (s @ [0])) (\<lambda>_. Inr s)"

definition string_of_scalar :: "mxArray \<Rightarrow> byte list \<Rightarrow> nat \<Rightarrow> byte list res" where
  "string_of_scalar a rpArg len =
     (if len \<noteq> 1 then mexErrMsgTxt ''Only scalars are accepted!''
      else if mxIsComplex a then mexErrMsgTxt ''Complex scalars are not supported''
      else bindE (scalar_value_of a) (\<lambda>(value, conv_to_int).
        let as_int = (rpArg \<noteq> [] \<and> hd rpArg = of_char (CHR ''i''));
            value = (if as_int then floor_val value else value);
            conv_to_int = (conv_to_int \<or> as_int)
        in if conv_to_int
           then bindE (int_of_val value) (\<lambda>i. print_to scalar_buf (sprintf_d i))
           else bindE (atoi rpArg) (\<lambda>n.
             if n \<le> 0 then print_to scalar_buf (sprintf_f 6 value)
             else print_to scalar_buf (sprintf_f (nat n) value))))"

text \<open>
  \<open>serializeString\<close>: the argument \<open>rpArg\<close> is the C string between the placeholder letter and the
  closing brace. A negative precision counts for \<open>sprintf\<close> as none, that is 6.
\<close>

definition serializeString :: "host \<Rightarrow> mxArray \<Rightarrow> byte list \<Rightarrow> byte list res" where
  "serializeString H a rpArg =
     bindE (max_dim a) (\<lambda>len.
     if mxIsEmpty a then Inr []
     else if mxIsChar a then string_of_chars H a len
     else if mxIsNumeric a \<or> mxIsLogical a then string_of_scalar a rpArg len
     else mexErrMsgTxt ''Only char string and non-complex scalar are supported'')"

section \<open>\<open>serializeBinary\<close> and \<open>serializeFile\<close>\<close>

definition serializeBinary :: "mxArray \<Rightarrow> byte list res" where
  "serializeBinary a = bindE (memread (mxGetNumberOfElements a) (mxGetData a)) (\<lambda>(d, _). Inr d)"

text \<open>\<open>ftell\<close> returns a \<open>long\<close>, which \<open>file_length\<close> converts to \<open>int\<close>.\<close>

definition file_length :: "byte list \<Rightarrow> int" where
  "file_length f = to_int (word_of_nat (length f))"

definition serializeFile :: "host \<Rightarrow> mxArray \<Rightarrow> byte list res" where
  "serializeFile H a =
     bindE (max_dim a) (\<lambda>len.
     let p_name = snd (get_string H a (len + 1)) in
     case read_file H p_name of
       None \<Rightarrow> mexErrMsgTxt ''Could not open file''
     | Some f \<Rightarrow> (if file_length f < 0 then Inl Out_of_memory
                  else Inr (take (nat (file_length f)) f)))"

section \<open>Character arrays\<close>

text \<open>
  For a character row or column whose text has \<open>n\<close> characters, the result is the low byte of each
  character.
\<close>

lemma string_of_chars_ok:
  assumes "not_vector a = Inr False" and "array_to_string H a = utf8 cps"
    and "list_all scalar_value cps" and "length cps = n"
  shows "string_of_chars H a n = Inr (map word_of_nat cps)"
  using assms by (simp add: string_of_chars_def Let_def char2hex_utf8)

text \<open>Characters outside the basic plane take two places of the array but one byte of the result.\<close>

lemma string_of_chars_short:
  assumes "not_vector a = Inr False" and "array_to_string H a = utf8 cps"
    and "list_all scalar_value cps" and "length cps + 1 < n"
  shows "string_of_chars H a n = undefined_behaviour Uninitialised_read"
  using assms by (simp add: string_of_chars_def Let_def char2hex_utf8)

section \<open>Scalars\<close>

lemma length_sprintf_d:
  assumes "in_int v"
  shows "length (sprintf_d v) \<le> 11"
proof -
  have "nat v \<le> 2147483648" "nat (- v) \<le> 2147483648" using assms by (simp_all add: in_int_def nat_le_iff)
  then have "nat v < 10 ^ 10" "nat (- v) < 10 ^ 10" by simp_all
  then have "length (dec (nat v)) \<le> 10" "length (dec (nat (- v))) \<le> 10" by (simp_all only: length_dec)
  then show ?thesis by (simp add: sprintf_d_def)
qed

lemma print_to_ok: "length s < cap \<Longrightarrow> print_to cap s = Inr s"
  by (simp add: print_to_def)

lemma print_int_ok: "in_int v \<Longrightarrow> print_to scalar_buf (sprintf_d v) = Inr (sprintf_d v)"
  using length_sprintf_d [of v] by (simp add: print_to_ok scalar_buf_def)

lemma int_of_val_of_int: "in_int i \<Longrightarrow> int_of_val (val_of_int i) = Inr i"
  by (auto simp: int_of_val_def val_of_int_def num_part_def den_part_def Let_def)

lemma int_of_val_too_big: "\<not> in_int i \<Longrightarrow> int_of_val (val_of_int i) = undefined_behaviour Conversion_overflow"
  by (auto simp: int_of_val_def val_of_int_def num_part_def den_part_def Let_def)

lemma floor_val_of_int: "floor_val (val_of_int i) = val_of_int i"
  by (simp add: floor_val_def val_of_int_def num_part_def den_part_def Let_def)

text \<open>A finite double is below \<open>2^1024\<close>, so that its integer part has at most 309 digits.\<close>

lemma double_bound:
  assumes "double_of_bits w = Fin s m e"
  shows "num_part m e < 2 ^ 1024 * den_part e"
proof -
  define E F where "E = unat (take_bit 11 (drop_bit 52 w))" and "F = unat (take_bit 52 w)"
  have "F < 2 ^ 52" "E < 2 ^ 11"
    unfolding E_def F_def unsigned_take_bit_eq by (rule take_bit_nat_less_exp)+
  then have "m < 2 ^ 53 \<and> e \<le> 971"
    using assms unfolding double_of_bits_def Let_def E_def [symmetric] F_def [symmetric]
    by (auto split: if_splits)
  then have "m < 2 ^ 53" "nat e \<le> 971" by auto
  then have "(2 :: nat) ^ nat e \<le> 2 ^ 971" by (intro power_increasing) simp_all
  with \<open>m < 2 ^ 53\<close> have "m * 2 ^ nat e < 2 ^ 53 * 2 ^ 971" by (intro mult_less_le_imp_less) simp_all
  also have "\<dots> = 2 ^ 1024" by (simp flip: power_add)
  also have "\<dots> \<le> 2 ^ 1024 * den_part e" by (simp add: den_part_def)
  finally show ?thesis by (simp add: num_part_def)
qed

lemma scaled_bound:
  assumes "num_part m e < 2 ^ 1024 * den_part e"
  shows "scaled k m e div 10 ^ k < 10 ^ 309"
proof -
  let ?d = "den_part e"
  have "2 * (scaled k m e * ?d) \<le> 2 * (num_part m e * 10 ^ k) + ?d"
    unfolding scaled_def by (rule round_half_even_error) simp
  also have "\<dots> \<le> 2 * ((2 ^ 1024 * ?d) * 10 ^ k) + ?d"
    using assms by (intro add_mono mult_le_mono) simp_all
  finally have "(2 * scaled k m e) * ?d \<le> (2 * (2 ^ 1024 * 10 ^ k) + 1) * ?d"
    by (simp only: distrib_left distrib_right mult_1 mult_1_right ac_simps)
  then have "2 * scaled k m e \<le> 2 * (2 ^ 1024 * 10 ^ k) + 1" by (simp only: mult_le_cancel2 den_part_pos)
  then have "scaled k m e \<le> 2 ^ 1024 * 10 ^ k" by linarith
  then have "scaled k m e div 10 ^ k \<le> 2 ^ 1024"
    using div_le_mono [of "scaled k m e" "2 ^ 1024 * 10 ^ k" "10 ^ k"] by simp
  also have "\<dots> < 10 ^ 309" by simp
  finally show ?thesis .
qed

lemma length_sprintf_f:
  assumes "double_of_bits w = Fin s m e"
  shows "length (sprintf_f k (Fin s m e)) \<le> 311 + k"
proof -
  have "length (dec (scaled k m e div 10 ^ k)) \<le> 309"
    using scaled_bound [OF double_bound [OF assms], of k] by (intro length_dec) simp_all
  then show ?thesis by (cases "k = 0") (simp_all add: sprintf_f_def fixed_point_def sign_text_def)
qed

lemma length_sprintf_f_low: "k < length (sprintf_f k (Fin s m e)) \<or> k = 0"
  by (simp add: sprintf_f_def fixed_point_def)

text \<open>The buffer of 512 bytes is enough for up to 200 decimals, and too small from 511 on.\<close>

lemma double_text_fits:
  assumes "double_of_bits w = Fin s m e" and "k \<le> 200"
  shows "print_to scalar_buf (sprintf_f k (Fin s m e)) = Inr (sprintf_f k (Fin s m e))"
  using length_sprintf_f [OF assms(1), of k] assms(2) by (simp add: print_to_ok scalar_buf_def)

lemma double_text_overflow:
  "511 \<le> k \<Longrightarrow> print_to scalar_buf (sprintf_f k (Fin s m e)) = undefined_behaviour Write_out_of_bounds"
  using length_sprintf_f_low [of k s m e] by (auto simp: print_to_def emit_def scalar_buf_def)

text \<open>A 1-by-1 array.\<close>

definition scalar_array :: "mxClassID \<Rightarrow> byte list \<Rightarrow> mxArray" where
  "scalar_array c bs = MxDense [1, 1] c bs None"

lemma serializeString_scalar:
  assumes "numeric_class c"
  shows "serializeString H (scalar_array c bs) arg = string_of_scalar (scalar_array c bs) arg 1"
proof -
  have "c \<noteq> mxCHAR_CLASS" using assms by (auto simp: numeric_class_def)
  with assms show ?thesis
    by (simp add: serializeString_def scalar_array_def max_dim_def dims2_def mxIsEmpty_def
        mxGetNumberOfElements_def nelems_def mxIsClass_def mxIsNumeric_def)
qed

lemma scalar_value_double:
  "scalar_value_of (scalar_array mxDOUBLE_CLASS (uint64_bytes w)) = Inr (double_of_bits w, False)"
  by (simp add: scalar_value_of_def scalar_array_def mxIsClass_def)

lemma scalar_value_int32:
  "scalar_value_of (scalar_array mxINT32_CLASS (uint32_bytes w)) = Inr (val_of_int (sint w), True)"
  by (simp add: scalar_value_of_def scalar_array_def mxIsClass_def)

lemma scalar_value_uint32:
  "scalar_value_of (scalar_array mxUINT32_CLASS (uint32_bytes w)) = Inr (val_of_int (uint w), True)"
  by (simp add: scalar_value_of_def scalar_array_def mxIsClass_def)

lemma scalar_array_real [simp]: "\<not> mxIsComplex (scalar_array c bs)"
  by (simp add: scalar_array_def mxIsComplex_def)

text \<open>\<open>int32\<close> and \<open>uint32\<close> values; the latter fail above \<open>INT_MAX\<close>.\<close>

lemma in_int_sint: "in_int (sint (w :: 32 word))"
  using sint_greater_eq [of w] sint_less [of w] by (simp add: in_int_def)

lemma serialize_int32:
  "serializeString H (scalar_array mxINT32_CLASS (uint32_bytes w)) arg = Inr (sprintf_d (sint w))"
  by (simp add: serializeString_scalar numeric_class_def string_of_scalar_def scalar_value_int32 Let_def
      floor_val_of_int int_of_val_of_int in_int_sint print_int_ok)

lemma serialize_uint32:
  "serializeString H (scalar_array mxUINT32_CLASS (uint32_bytes w)) arg =
     (if uint w \<le> 2147483647 then Inr (sprintf_d (uint w)) else undefined_behaviour Conversion_overflow)"
proof -
  have "0 \<le> uint w" by simp
  then have "in_int (uint w) \<longleftrightarrow> uint w \<le> 2147483647" unfolding in_int_def by linarith
  then show ?thesis
    by (simp add: serializeString_scalar numeric_class_def string_of_scalar_def scalar_value_uint32 Let_def
        floor_val_of_int int_of_val_of_int int_of_val_too_big print_int_ok)
qed

text \<open>A finite double with \<open>k\<close> decimals asked for in the placeholder.\<close>

lemma dec_not_i: "dec k \<noteq> [] \<and> hd (dec k) \<noteq> 105"
proof -
  have "isdigit (hd (dec k))" using dec_digits [of k] by (metis hd_in_set list_all_iff)
  then show ?thesis using dec_digits(2) by (auto simp: isdigit_def word_le_nat_alt)
qed

lemma serialize_double:
  assumes "double_of_bits w = Fin s m e" and "0 < k" "k \<le> 2147483647"
  shows "serializeString H (scalar_array mxDOUBLE_CLASS (uint64_bytes w)) (dec k) =
     print_to scalar_buf (sprintf_f k (Fin s m e))"
proof -
  have "atoi (dec k) = Inr (int k)"
    using atoi_digits [OF dec_digits, of "[]" k] assms by (simp add: dec_val_dec in_int_def)
  then show ?thesis
    using assms dec_not_i [of k]
    by (simp add: serializeString_scalar numeric_class_def string_of_scalar_def scalar_value_double Let_def)
qed

lemma serialize_double_default:
  assumes "double_of_bits w = Fin s m e"
  shows "serializeString H (scalar_array mxDOUBLE_CLASS (uint64_bytes w)) [] = Inr (sprintf_f 6 (Fin s m e))"
  using double_text_fits [OF assms, of 6] assms
  by (simp add: serializeString_scalar numeric_class_def string_of_scalar_def scalar_value_double Let_def
      atoi_def dec_val_def in_int_def)

end
