(* ===== verification/Mym_Serialize.thy ===== *)
theory Mym_Serialize
  imports Mym_MxArray
begin

text \<open>
  The serializers \<open>serializeArray\<close>, \<open>serializeSparse\<close>, \<open>serializeStruct\<close> and \<open>serializeCell\<close> of
  \<open>src/src/mym.cpp\<close>. Each one computes the size of its output first, allocates a buffer of that
  size and then writes through a running pointer; the model keeps the computed size and checks
  every write against it. \<open>encode\<close> is the format the functions implement, written without
  buffers; \<open>serialize_field_encode\<close> and its kin are the refinement.
\<close>

section \<open>Identifiers of the format\<close>

definition ID_MATLAB :: "byte list" where "ID_MATLAB = bytes_of ''mYm''"
definition LEN_ID_MATLAB :: nat where "LEN_ID_MATLAB = length ID_MATLAB"
definition ID_ARRAY :: byte where "ID_ARRAY = of_char (CHR ''A'')"
definition ID_SPARSE :: byte where "ID_SPARSE = of_char (CHR ''P'')"
definition ID_CELL :: byte where "ID_CELL = of_char (CHR ''C'')"
definition ID_STRUCT :: byte where "ID_STRUCT = of_char (CHR ''S'')"

lemma id_values:
  "ID_MATLAB = [109, 89, 109]" "LEN_ID_MATLAB = 3"
  "ID_ARRAY = 65" "ID_SPARSE = 80" "ID_CELL = 67" "ID_STRUCT = 83"
  by (simp_all add: ID_MATLAB_def LEN_ID_MATLAB_def bytes_of_def ID_ARRAY_def ID_SPARSE_def
      ID_CELL_def ID_STRUCT_def)

definition overflow_msg :: string where
  "overflow_msg = ''Oops, I haven't allocated enough memory, BEWARE''"

section \<open>The code\<close>

text \<open>The optional header, \<open>memcpy (p_work, ID_MATLAB, LEN_ID_MATLAB)\<close> and a zero byte.\<close>

definition put_head :: "nat \<Rightarrow> bool \<Rightarrow> byte list res" where
  "put_head nb rhead = (if rhead then bindE (emit nb [] ID_MATLAB) (\<lambda>w. emit nb w [0]) else Inr [])"

definition head_size :: "bool \<Rightarrow> nat" where
  "head_size rhead = (if rhead then LEN_ID_MATLAB + 1 else 0)"

definition put_dims :: "nat \<Rightarrow> byte list \<Rightarrow> mxArray \<Rightarrow> byte list res" where
  "put_dims nb w a = bindE (WRITE_UINT64 nb w (word_of_nat (mxGetNumberOfDimensions a)))
     (\<lambda>w. WRITE_UINT64S nb w (mxGetDimensions a) (mxGetNumberOfDimensions a))"

definition put_class :: "mexenv \<Rightarrow> nat \<Rightarrow> byte list \<Rightarrow> mxArray \<Rightarrow> byte list res" where
  "put_class E nb w a = bindE (emit nb w (uint32_bytes (class_code E (mxGetClassID a))))
     (\<lambda>w. emit nb w (uint32_bytes (complexity_code E (complexity_of a))))"

text \<open>\<open>memcpy\<close> of the first \<open>n\<close> bytes of a data area to the running pointer.\<close>

definition put_area :: "nat \<Rightarrow> byte list \<Rightarrow> nat \<Rightarrow> byte list \<Rightarrow> byte list res" where
  "put_area nb w n area = bindE (memread n area) (\<lambda>(d, _). emit nb w d)"

definition serializeArray :: "mexenv \<Rightarrow> mxArray \<Rightarrow> bool \<Rightarrow> byte list res" where
  "serializeArray E a rhead =
    (let ndims = mxGetNumberOfDimensions a;
         one = elem_size E (mxGetClassID a) * mxGetNumberOfElements a;
         n_bytes_data = (if complexity_of a \<noteq> mxCOMPLEX then one else one * 2);
         nb = 1 + 8 + ndims * 8 + 4 + 4 + n_bytes_data + head_size rhead
     in bindE (put_head nb rhead) (\<lambda>w.
        bindE (emit nb w [ID_ARRAY]) (\<lambda>w.
        bindE (put_dims nb w a) (\<lambda>w.
        bindE (put_class E nb w a) (\<lambda>w.
        bindE (if complexity_of a = mxCOMPLEX
               then bindE (put_area nb w (n_bytes_data div 2) (mxGetData a)) (\<lambda>w.
                    bindE (mxGetImagData a) (\<lambda>im. put_area nb w (n_bytes_data div 2) im))
               else put_area nb w n_bytes_data (mxGetData a)) (\<lambda>w.
        if nb < length w then mexErrMsgTxt overflow_msg else Inr w))))))"

definition serializeSparse :: "mexenv \<Rightarrow> mxArray \<Rightarrow> bool \<Rightarrow> byte list res" where
  "serializeSparse E a rhead =
    (let columns = mxGetN a;
         nzmax = mxGetNzmax a;
         n_bytes_jc = 8 * (unat columns + 1);
         n_bytes_ir = 8 * unat nzmax;
         n_bytes_data = elem_size E (mxGetClassID a) * unat nzmax;
         n_bytes_imag = (if complexity_of a = mxCOMPLEX then n_bytes_data else 0);
         nb = 1 + 3 * 8 + 4 + 4 + n_bytes_jc + n_bytes_ir + n_bytes_data + n_bytes_imag
              + head_size rhead
     in bindE (put_head nb rhead) (\<lambda>w.
        bindE (emit nb w [ID_SPARSE]) (\<lambda>w.
        bindE (WRITE_UINT64 nb w (mxGetM a)) (\<lambda>w.
        bindE (WRITE_UINT64 nb w columns) (\<lambda>w.
        bindE (WRITE_UINT64 nb w nzmax) (\<lambda>w.
        bindE (put_class E nb w a) (\<lambda>w.
        bindE (WRITE_UINT64S nb w (mxGetJc a) (unat columns + 1)) (\<lambda>w.
        bindE (WRITE_UINT64S nb w (mxGetIr a) (unat nzmax)) (\<lambda>w.
        bindE (put_area nb w n_bytes_data (mxGetData a)) (\<lambda>w.
        bindE (if complexity_of a = mxCOMPLEX
               then bindE (mxGetImagData a) (\<lambda>im. put_area nb w n_bytes_imag im)
               else Inr w) (\<lambda>w.
        if nb < length w then mexErrMsgTxt overflow_msg else Inr w)))))))))))"

text \<open>The loops that write the field names and the length-prefixed partial serializations.\<close>

fun put_names :: "nat \<Rightarrow> byte list \<Rightarrow> byte list list \<Rightarrow> byte list res" where
  "put_names nb w [] = Inr w"
| "put_names nb w (f # fs) =
     bindE (emit nb w f) (\<lambda>w. bindE (emit nb w [0]) (\<lambda>w. put_names nb w fs))"

fun put_frames :: "nat \<Rightarrow> byte list \<Rightarrow> byte list list \<Rightarrow> byte list res" where
  "put_frames nb w [] = Inr w"
| "put_frames nb w (s # ss) =
     bindE (WRITE_UINT64 nb w (word_of_nat (length s))) (\<lambda>w.
     bindE (emit nb w s) (\<lambda>w. put_frames nb w ss))"

text \<open>
  A loop \<open>for (int i = 0; i < n; i++)\<close> against a \<open>size_t\<close> bound counts past INT_MAX when \<open>n\<close> is
  larger, which the language leaves undefined.
\<close>

definition int_loop :: "nat \<Rightarrow> unit res" where
  "int_loop n = requireE (n \<le> INT_MAX) (Undefined Signed_overflow)"

text \<open>
  The final loop \<open>for (int i = 1; i < nelts; i++) mxFree (pser[i])\<close>, where \<open>pser\<close> has \<open>n\<close> entries.
\<close>

definition free_tail :: "nat \<Rightarrow> nat \<Rightarrow> unit res" where
  "free_tail nelts n = requireE (nelts \<le> 1 \<or> nelts \<le> n) (Undefined Read_out_of_bounds)"

text \<open>What \<open>serializeStruct\<close> and \<open>serializeCell\<close> do once the elements have been serialized.\<close>

definition assemble_struct :: "mxArray \<Rightarrow> bool \<Rightarrow> byte list list \<Rightarrow> byte list res" where
  "assemble_struct a rhead pser =
    (let ndims = mxGetNumberOfDimensions a;
         fields = mxFieldNames a;
         nfields = length fields;
         nelts = mxGetNumberOfElements a;
         nb = 1 + 8 + ndims * 8 + head_size rhead + 4
              + sum_list (map (\<lambda>f. length f + 1) fields)
              + sum_list (map (\<lambda>s. length s + 8) pser)
     in bindE (put_head nb rhead) (\<lambda>w.
        bindE (emit nb w [ID_STRUCT]) (\<lambda>w.
        bindE (put_dims nb w a) (\<lambda>w.
        bindE (emit nb w (uint32_bytes (word_of_nat nfields))) (\<lambda>w.
        bindE (put_names nb w fields) (\<lambda>w.
        bindE (int_loop (nfields * nelts)) (\<lambda>_.
        bindE (put_frames nb w pser) (\<lambda>w.
        if length w \<noteq> nb then mexErrMsgTxt overflow_msg
        else bindE (free_tail nelts (nelts * nfields)) (\<lambda>_. Inr w)))))))))"

definition assemble_cell :: "mxArray \<Rightarrow> bool \<Rightarrow> byte list list \<Rightarrow> byte list res" where
  "assemble_cell a rhead pser =
    (let ndims = mxGetNumberOfDimensions a;
         nelts = mxGetNumberOfElements a;
         nb = 1 + (1 + ndims) * 8 + head_size rhead + sum_list (map (\<lambda>s. length s + 8) pser)
     in bindE (put_head nb rhead) (\<lambda>w.
        bindE (emit nb w [ID_CELL]) (\<lambda>w.
        bindE (put_dims nb w a) (\<lambda>w.
        bindE (put_frames nb w pser) (\<lambda>w.
        if length w \<noteq> nb then mexErrMsgTxt overflow_msg
        else bindE (free_tail nelts nelts) (\<lambda>_. Inr w))))))"

lemma size_mxElements: "size_list (size_option size) (mxElements a) \<le> size a"
  by (cases a) simp_all

text \<open>
  \<open>serialize_field\<close> is the if-chain in the body of both element loops (with the NULL element
  replaced by an empty double), \<open>serialize_fields\<close> the loops themselves.
\<close>

function (sequential)
  serialize_field :: "mexenv \<Rightarrow> mxArray option \<Rightarrow> byte list res" and
  serialize_fields :: "mexenv \<Rightarrow> mxArray option list \<Rightarrow> byte list list res" and
  serializeStruct :: "mexenv \<Rightarrow> mxArray \<Rightarrow> bool \<Rightarrow> byte list res" and
  serializeCell :: "mexenv \<Rightarrow> mxArray \<Rightarrow> bool \<Rightarrow> byte list res"
where
  "serialize_field E None = serializeArray E empty_double False"
| "serialize_field E (Some pf) =
     (if mxIsSparse pf then serializeSparse E pf False
      else if mxIsNumeric pf \<or> mxIsLogical pf \<or> mxIsChar pf then serializeArray E pf False
      else if mxIsStruct pf then serializeStruct E pf False
      else if mxIsCell pf then serializeCell E pf False
      else mexErrMsgTxt ''unsupported type'')"
| "serialize_fields E [] = Inr []"
| "serialize_fields E (pf # pfs) =
     bindE (serialize_field E pf) (\<lambda>s. bindE (serialize_fields E pfs) (\<lambda>ss. Inr (s # ss)))"
| "serializeStruct E a rhead =
     bindE (int_loop (mxGetNumberOfElements a)) (\<lambda>_.
     bindE (serialize_fields E (mxElements a)) (\<lambda>pser. assemble_struct a rhead pser))"
| "serializeCell E a rhead =
     bindE (int_loop (mxGetNumberOfElements a)) (\<lambda>_.
     bindE (serialize_fields E (mxElements a)) (\<lambda>pser. assemble_cell a rhead pser))"
  by pat_completeness auto
termination
  by (relation "measure (\<lambda>x. case x of
        Inl (Inl (E, pf)) \<Rightarrow> 2 * size_option size pf
      | Inl (Inr (E, pfs)) \<Rightarrow> 2 * size_list (size_option size) pfs
      | Inr (Inl (E, a, h)) \<Rightarrow> Suc (2 * size a)
      | Inr (Inr (E, a, h)) \<Rightarrow> Suc (2 * size a))") (auto simp: size_mxElements less_Suc_eq_le)

declare serializeStruct.simps [simp del] serializeCell.simps [simp del]

section \<open>The format\<close>

text \<open>
  The format over the way a size is written: \<open>uint64_bytes\<close> for everything the program writes,
  \<open>dim32_bytes\<close> for the blobs of old 32-bit builds, which the readers accept when the
  environment asks for 32-bit dimensions.
\<close>

type_synonym size_writer = "mwSize \<Rightarrow> byte list"

definition head_image :: "bool \<Rightarrow> byte list" where
  "head_image rhead = (if rhead then ID_MATLAB @ [0] else [])"

definition dims_image :: "size_writer \<Rightarrow> mwSize list \<Rightarrow> byte list" where
  "dims_image szb ds = szb (word_of_nat (length ds)) @ concat (map szb ds)"

definition class_image :: "mexenv \<Rightarrow> mxClassID \<Rightarrow> byte list option \<Rightarrow> byte list" where
  "class_image E c im = uint32_bytes (class_code E c)
     @ uint32_bytes (complexity_code E (if im = None then mxREAL else mxCOMPLEX))"

definition data_image :: "byte list \<Rightarrow> byte list option \<Rightarrow> byte list" where
  "data_image re im = re @ (case im of None \<Rightarrow> [] | Some i \<Rightarrow> i)"

definition array_image :: "size_writer \<Rightarrow> mexenv \<Rightarrow> mwSize list \<Rightarrow> mxClassID \<Rightarrow> byte list \<Rightarrow>
    byte list option \<Rightarrow> byte list" where
  "array_image szb E ds c re im =
     ID_ARRAY # dims_image szb ds @ class_image E c im @ data_image re im"

definition sparse_image :: "size_writer \<Rightarrow> mexenv \<Rightarrow> mwSize \<Rightarrow> mwSize \<Rightarrow> mwSize \<Rightarrow> mxClassID \<Rightarrow>
    mwSize list \<Rightarrow> mwSize list \<Rightarrow> byte list \<Rightarrow> byte list option \<Rightarrow> byte list" where
  "sparse_image szb E m n nz c jc ir re im =
     ID_SPARSE # szb m @ szb n @ szb nz @ class_image E c im
     @ concat (map szb jc) @ concat (map szb ir) @ data_image re im"

definition frame :: "size_writer \<Rightarrow> byte list \<Rightarrow> byte list" where
  "frame szb s = szb (word_of_nat (length s)) @ s"

definition name_image :: "byte list \<Rightarrow> byte list" where
  "name_image f = f @ [0]"

definition struct_image :: "size_writer \<Rightarrow> mwSize list \<Rightarrow> byte list list \<Rightarrow> byte list list \<Rightarrow> byte list" where
  "struct_image szb ds fs ss = ID_STRUCT # dims_image szb ds @ uint32_bytes (word_of_nat (length fs))
     @ concat (map name_image fs) @ concat (map (frame szb) ss)"

definition cell_image :: "size_writer \<Rightarrow> mwSize list \<Rightarrow> byte list list \<Rightarrow> byte list" where
  "cell_image szb ds ss = ID_CELL # dims_image szb ds @ concat (map (frame szb) ss)"

definition or_empty :: "size_writer \<Rightarrow> mexenv \<Rightarrow> byte list option \<Rightarrow> byte list" where
  "or_empty szb E s =
     (case s of None \<Rightarrow> array_image szb E [0, 0] mxDOUBLE_CLASS [] None | Some s \<Rightarrow> s)"

primrec encode_as :: "size_writer \<Rightarrow> mexenv \<Rightarrow> mxArray \<Rightarrow> byte list" where
  "encode_as szb E (MxDense ds c re im) = array_image szb E ds c re im"
| "encode_as szb E (MxSparse m n nz c jc ir re im) = sparse_image szb E m n nz c jc ir re im"
| "encode_as szb E (MxStruct ds fs es) =
     struct_image szb ds fs (map (or_empty szb E) (map (map_option (encode_as szb E)) es))"
| "encode_as szb E (MxCell ds es) =
     cell_image szb ds (map (or_empty szb E) (map (map_option (encode_as szb E)) es))"
| "encode_as szb E (MxOther ds c) = []"

abbreviation encode :: "mexenv \<Rightarrow> mxArray \<Rightarrow> byte list" where
  "encode \<equiv> encode_as uint64_bytes"

definition filled :: "mxArray option \<Rightarrow> mxArray" where
  "filled pf = (case pf of None \<Rightarrow> empty_double | Some a \<Rightarrow> a)"

lemma filled_simps [simp]: "filled None = empty_double" "filled (Some a) = a"
  by (simp_all add: filled_def)

definition encode_opt :: "size_writer \<Rightarrow> mexenv \<Rightarrow> mxArray option \<Rightarrow> byte list" where
  "encode_opt szb E pf = encode_as szb E (filled pf)"

lemma or_empty_map:
  "map (or_empty szb E) (map (map_option (encode_as szb E)) es) = map (encode_opt szb E) es"
  by (auto simp: or_empty_def encode_opt_def filled_def split: option.splits)

section \<open>The code writes the format\<close>

lemma length_dims_image [simp]: "length (dims_image uint64_bytes ds) = 8 + 8 * length ds"
  by (simp add: dims_image_def u64.length_enc_many)

lemma length_head_image [simp]: "length (head_image h) = head_size h"
  by (simp add: head_image_def head_size_def LEN_ID_MATLAB_def)

lemma put_head_ok [simp]: "head_size h \<le> nb \<Longrightarrow> put_head nb h = Inr (head_image h)"
  by (cases h) (simp_all add: put_head_def head_image_def head_size_def id_values)

lemma put_dims_ok [simp]:
  "length w + (8 + 8 * length (mxGetDimensions a)) \<le> nb \<Longrightarrow>
   put_dims nb w a = Inr (w @ dims_image uint64_bytes (mxGetDimensions a))"
  by (simp add: put_dims_def WRITE_UINT64_def WRITE_UINT64S_def mxGetNumberOfDimensions_def
      dims_image_def u64.length_enc_many)

lemma put_class_ok [simp]:
  "length w + 8 \<le> nb \<Longrightarrow>
   put_class E nb w a = Inr (w @ uint32_bytes (class_code E (mxGetClassID a))
                               @ uint32_bytes (complexity_code E (complexity_of a)))"
  by (simp add: put_class_def)

lemma put_area_ok [simp]:
  "length area = n \<Longrightarrow> length w + n \<le> nb \<Longrightarrow> put_area nb w n area = Inr (w @ area)"
  by (simp add: put_area_def)

lemma put_names_ok:
  "length w + sum_list (map (\<lambda>f. length f + 1) fs) \<le> nb \<Longrightarrow>
   put_names nb w fs = Inr (w @ concat (map name_image fs))"
  by (induction fs arbitrary: w) (simp_all add: name_image_def)

lemma put_frames_ok:
  "length w + sum_list (map (\<lambda>s. length s + 8) ss) \<le> nb \<Longrightarrow>
   put_frames nb w ss = Inr (w @ concat (map (frame uint64_bytes) ss))"
  by (induction ss arbitrary: w) (simp_all add: frame_def WRITE_UINT64_def)

lemma length_names: "length (concat (map name_image fs)) = sum_list (map (\<lambda>f. length f + 1) fs)"
  by (induction fs) (simp_all add: name_image_def)

lemma length_frames: "length (concat (map (frame uint64_bytes) ss)) = sum_list (map (\<lambda>s. length s + 8) ss)"
  by (induction ss) (simp_all add: frame_def)

lemma serializeArray_image:
  assumes "length re = elem_size E c * nelems ds"
    and "case im of None \<Rightarrow> True | Some i \<Rightarrow> length i = length re"
  shows "serializeArray E (MxDense ds c re im) h = Inr (head_image h @ array_image uint64_bytes E ds c re im)"
proof (cases im)
  case None
  with assms show ?thesis
    by (simp add: serializeArray_def Let_def complexity_of_def mxIsComplex_def array_image_def class_image_def data_image_def
        mxGetNumberOfDimensions_def mxGetNumberOfElements_def)
next
  case (Some i)
  with assms show ?thesis
    by (simp add: serializeArray_def Let_def complexity_of_def mxIsComplex_def array_image_def class_image_def data_image_def
        mxGetNumberOfDimensions_def mxGetNumberOfElements_def mxGetImagData_def)
qed

lemma serializeSparse_image:
  assumes "length jc = unat n + 1" and "length ir = unat nz"
    and "length re = elem_size E c * unat nz"
    and "case im of None \<Rightarrow> True | Some i \<Rightarrow> length i = length re"
  shows "serializeSparse E (MxSparse m n nz c jc ir re im) h =
         Inr (head_image h @ sparse_image uint64_bytes E m n nz c jc ir re im)"
proof (cases im)
  case None
  with assms show ?thesis
    by (simp add: serializeSparse_def Let_def complexity_of_def mxIsComplex_def sparse_image_def class_image_def data_image_def
        mxGetM_def mxGetN_def WRITE_UINT64_def WRITE_UINT64S_def u64.length_enc_many)
next
  case (Some i)
  with assms show ?thesis
    by (simp add: serializeSparse_def Let_def complexity_of_def mxIsComplex_def sparse_image_def class_image_def data_image_def
        mxGetM_def mxGetN_def mxGetImagData_def WRITE_UINT64_def WRITE_UINT64S_def
        u64.length_enc_many)
qed

lemma assemble_struct_image:
  assumes "nelems ds * length fs \<le> INT_MAX" and "nelems ds \<le> 1 \<or> fs \<noteq> []"
  shows "assemble_struct (MxStruct ds fs es) h ss = Inr (head_image h @ struct_image uint64_bytes ds fs ss)"
proof -
  have "nelems ds \<le> 1 \<or> nelems ds \<le> nelems ds * length fs"
    using assms(2) by (cases fs) auto
  with assms(1) show ?thesis
    by (simp add: assemble_struct_def Let_def struct_image_def mxGetNumberOfDimensions_def
        mxGetNumberOfElements_def put_names_ok put_frames_ok length_names length_frames
        int_loop_def free_tail_def mult.commute)
qed

lemma assemble_cell_image:
  "assemble_cell (MxCell ds es) h ss = Inr (head_image h @ cell_image uint64_bytes ds ss)"
  by (simp add: assemble_cell_def Let_def cell_image_def mxGetNumberOfDimensions_def
      mxGetNumberOfElements_def put_frames_ok length_frames free_tail_def)

lemma serialize_fields_map:
  "(\<And>a. Some a \<in> set es \<Longrightarrow> serialize_field E (Some a) = Inr (encode E a)) \<Longrightarrow>
   serialize_fields E es = Inr (map (encode_opt uint64_bytes E) es)"
proof (induction es)
  case Nil
  then show ?case by simp
next
  case (Cons e es)
  have "serialize_field E e = Inr (encode_opt uint64_bytes E e)"
  proof (cases e)
    case None
    then show ?thesis
      using serializeArray_image [of "[]" E mxDOUBLE_CLASS "[0, 0]" None False]
      by (simp add: encode_opt_def nelems_def head_image_def)
  next
    case (Some a)
    with Cons.prems [of a] show ?thesis by (simp add: encode_opt_def)
  qed
  with Cons show ?case by simp
qed

lemma dense_not_sparse:
  "plain_class c \<Longrightarrow> numeric_class c \<or> c = mxLOGICAL_CLASS \<or> c = mxCHAR_CLASS"
  by (auto simp: plain_class_def)

lemma serialize_struct_step:
  assumes ok: "mx_ok E (MxStruct ds fs es)"
    and el: "serialize_fields E es = Inr (map (encode_opt uint64_bytes E) es)"
  shows "serializeStruct E (MxStruct ds fs es) h =
         Inr (head_image h @ encode E (MxStruct ds fs es))"
  using ok el
  by (simp add: serializeStruct.simps int_loop_def mxGetNumberOfElements_def assemble_struct_image
      or_empty_map del: opt_all_map map_map)

lemma serialize_cell_step:
  assumes ok: "mx_ok E (MxCell ds es)"
    and el: "serialize_fields E es = Inr (map (encode_opt uint64_bytes E) es)"
  shows "serializeCell E (MxCell ds es) h = Inr (head_image h @ encode E (MxCell ds es))"
  using ok el
  by (simp add: serializeCell.simps int_loop_def mxGetNumberOfElements_def assemble_cell_image
      or_empty_map del: opt_all_map map_map)

lemma serialize_field_encode:
  "mx_ok E a \<Longrightarrow> serialize_field E (Some a) = Inr (encode E a)"
proof (induction a)
  case (MxDense ds c re im)
  then show ?case
    by (auto simp: mxIsNumeric_def mxIsClass_def serializeArray_image head_image_def
        dest: dense_not_sparse split: option.splits)
next
  case (MxSparse m n nz c jc ir re im)
  then show ?case
    by (auto simp: serializeSparse_image head_image_def split: option.splits)
next
  case (MxStruct ds fs es)
  have "serialize_field E (Some a) = Inr (encode E a)" if "Some a \<in> set es" for a
    using MxStruct.IH [OF that, of a] MxStruct.prems that by (simp del: serialize_field.simps)
  from serialize_struct_step [OF MxStruct.prems serialize_fields_map [OF this]] show ?case
    by (simp add: mxIsNumeric_def mxIsClass_def numeric_class_def head_image_def)
next
  case (MxCell ds es)
  have "serialize_field E (Some a) = Inr (encode E a)" if "Some a \<in> set es" for a
    using MxCell.IH [OF that, of a] MxCell.prems that by (simp del: serialize_field.simps)
  from serialize_cell_step [OF MxCell.prems serialize_fields_map [OF this]] show ?case
    by (simp add: mxIsNumeric_def mxIsClass_def numeric_class_def head_image_def)
next
  case (MxOther ds c)
  then show ?case by simp
qed

lemma serialize_fields_encode:
  "\<forall>a. Some a \<in> set es \<longrightarrow> mx_ok E a \<Longrightarrow> serialize_fields E es = Inr (map (encode_opt uint64_bytes E) es)"
  by (intro serialize_fields_map serialize_field_encode) simp

end
