(* ===== verification/Mym_Deserialize.thy ===== *)
theory Mym_Deserialize
  imports Mym_Serialize
begin

text \<open>
  The readers \<open>deserializeArray\<close>, \<open>deserializeSparse\<close>, \<open>deserializeStruct\<close> and \<open>deserializeCell\<close> of
  \<open>src/src/mym.cpp\<close>. They take the length of the blob but never look at it, so the model has no
  argument for it: every read is checked against the end of the buffer only, and one that runs
  past it is \<open>Read_out_of_bounds\<close>. The recursion is total on every input, because each call starts
  strictly further into the buffer.

  The locale \<open>size_reader\<close> is the contract between the writer of a size and the macros that read
  it; the round trip is proved once inside it and holds for the 64-bit format, which the program
  writes, and for the 32-bit format of old builds, which it still reads.
\<close>

section \<open>The code\<close>

definition read_dims :: "bool \<Rightarrow> byte list \<Rightarrow> (mwSize list \<times> byte list) res" where
  "read_dims u p = bindE (READ_UINT u p) (\<lambda>(ndims, p). READ_UINTS u (unat ndims) p)"

definition read_class :: "byte list \<Rightarrow> (32 word \<times> 32 word \<times> byte list) res" where
  "read_class p = bindE (read_uint32 p) (\<lambda>(class_id, p).
     bindE (read_uint32 p) (\<lambda>(complexity, p). Inr (class_id, complexity, p)))"

text \<open>The end of \<open>deserializeArray\<close> and \<open>deserializeSparse\<close>: real part and, if there is one, imaginary part.\<close>

definition read_data :: "bool \<Rightarrow> nat \<Rightarrow> byte list \<Rightarrow> mxArray \<Rightarrow> mxArray res" where
  "read_data is_complex n p p_array =
     bindE (memread n p) (\<lambda>(d, p).
     bindE (put_data d p_array) (\<lambda>p_array.
     if is_complex then bindE (memread n p) (\<lambda>(d, p). put_imag d p_array) else Inr p_array))"

definition deserializeArray :: "mexenv \<Rightarrow> byte list \<Rightarrow> mxArray res" where
  "deserializeArray E p =
     bindE (read_dims (use32bitdims E) p) (\<lambda>(pdims, p).
     bindE (read_class p) (\<lambda>(class_id, complexity, p).
     bindE (create_numeric E pdims class_id complexity) (\<lambda>p_array.
     read_data (complexity = complexity_code E mxCOMPLEX)
       (elem_size E (mxGetClassID p_array) * mxGetNumberOfElements p_array) p p_array)))"

definition deserializeSparse :: "mexenv \<Rightarrow> byte list \<Rightarrow> mxArray res" where
  "deserializeSparse E p =
     (let u = use32bitdims E in
     bindE (READ_UINT u p) (\<lambda>(rows, p).
     bindE (READ_UINT u p) (\<lambda>(columns, p).
     bindE (READ_UINT u p) (\<lambda>(nzmax, p).
     bindE (read_class p) (\<lambda>(class_id, complexity, p).
     bindE (if class_id = class_code E mxLOGICAL_CLASS
            then create_sparse_logical E rows columns nzmax
            else create_sparse E rows columns nzmax complexity) (\<lambda>p_array.
     bindE (READ_UINTS u (unat (columns + 1)) p) (\<lambda>(jc, p).
     bindE (put_jc jc p_array) (\<lambda>p_array.
     bindE (READ_UINTS u (unat nzmax) p) (\<lambda>(ir, p).
     bindE (put_ir ir p_array) (\<lambda>p_array.
     read_data (complexity = complexity_code E mxCOMPLEX)
       (elem_size E (mxGetClassID p_array) * unat nzmax) p p_array))))))))))"

definition read_name :: "byte list \<Rightarrow> (byte list \<times> byte list) res" where
  "read_name p = bindE (cstr p) (\<lambda>s. Inr (s, drop (length s + 1) p))"

lemma read_name_shorter: "read_name p = Inr (s, q) \<Longrightarrow> length q \<le> length p"
  by (auto simp: read_name_def bindE_eq_Inr)

lemma read_names_shorter: "decode_many read_name n p = Inr (ss, q) \<Longrightarrow> length q \<le> length p"
proof (induction n arbitrary: p ss)
  case 0
  then show ?case by simp
next
  case (Suc n)
  then show ?case
    by (auto simp: bindE_eq_Inr dest!: read_name_shorter) (meson order_trans)
qed

lemma read_uint32_shorter: "read_uint32 p = Inr (v, q) \<Longrightarrow> length q \<le> length p"
  using u32.dec_shape by fastforce

text \<open>The product of the dimensions, in the arithmetic of \<open>mwSize\<close>.\<close>

definition count_elements :: "mwSize list \<Rightarrow> mwSize" where
  "count_elements pdims = foldl (*) 1 pdims"

text \<open>
  \<open>deserialize_field\<close> is the if-chain on \<open>*p_serial\<close> in the element loops; \<open>deser_elements\<close> is those
  loops, over the elements \<open>k, ..., n - 1\<close> of the array \<open>ps\<close>. After element \<open>lim - 1\<close> the loop
  counter, an \<open>int\<close>, cannot be incremented.
\<close>

function (sequential)
  deserialize_field :: "mexenv \<Rightarrow> byte list \<Rightarrow> mxArray res" and
  deser_elements :: "mexenv \<Rightarrow> nat \<Rightarrow> nat \<Rightarrow> nat \<Rightarrow> byte list \<Rightarrow> mxArray \<Rightarrow> mxArray res" and
  deserializeStruct :: "mexenv \<Rightarrow> byte list \<Rightarrow> mxArray res" and
  deserializeCell :: "mexenv \<Rightarrow> byte list \<Rightarrow> mxArray res"
where
  "deserialize_field E [] = undefined_behaviour Read_out_of_bounds"
| "deserialize_field E (b # p) =
     (if b = ID_ARRAY then deserializeArray E p
      else if b = ID_SPARSE then deserializeSparse E p
      else if b = ID_STRUCT then deserializeStruct E p
      else if b = ID_CELL then deserializeCell E p
      else mexErrMsgTxt ''Unknow type'')"
| "deser_elements E lim k n p ps =
     (if k < n
      then bindE (READ_UINT (use32bitdims E) p) (\<lambda>(nbytes, p).
           bindE (deserialize_field E p) (\<lambda>pf.
           bindE (put_element k pf ps) (\<lambda>ps.
           if Suc k = lim then undefined_behaviour Signed_overflow
           else deser_elements E lim (Suc k) n (drop (unat nbytes) p) ps)))
      else Inr ps)"
| "deserializeStruct E p =
     bindE (READ_UINT (use32bitdims E) p) (\<lambda>(ndims, p).
     bindE (READ_UINTS (use32bitdims E) (unat ndims) p) (\<lambda>(pdims, p).
     bindE (int_loop (unat ndims)) (\<lambda>_.
     let nelts = unat (count_elements pdims) in
     bindE (read_uint32 p) (\<lambda>(nf, p).
     bindE (requireE (0 \<le> sint nf) Out_of_memory) (\<lambda>_.
     let nfields = unat nf in
     bindE (decode_many read_name nfields p) (\<lambda>(field_names, q).
     bindE (create_struct E pdims field_names) (\<lambda>ps.
     bindE (requireE (nfields = 0 \<longrightarrow> nelts \<le> INT_MAX) (Undefined Signed_overflow)) (\<lambda>_.
     deser_elements E (Suc INT_MAX * nfields) 0 (nelts * nfields) q ps))))))))"
| "deserializeCell E p =
     bindE (READ_UINT (use32bitdims E) p) (\<lambda>(ndims, p).
     bindE (READ_UINTS (use32bitdims E) (unat ndims) p) (\<lambda>(pdims, p).
     bindE (int_loop (unat ndims)) (\<lambda>_.
     let nelts = unat (count_elements pdims) in
     bindE (create_cell E pdims) (\<lambda>ps.
     deser_elements E (Suc INT_MAX) 0 nelts p ps))))"
  by pat_completeness auto
termination
  by (relation "measure (\<lambda>x. case x of
        Inl (Inl (E, p)) \<Rightarrow> length p
      | Inl (Inr (E, lim, k, n, p, ps)) \<Rightarrow> length p
      | Inr (Inl (E, p)) \<Rightarrow> length p
      | Inr (Inr (E, p)) \<Rightarrow> length p)")
    (auto dest!: READ_UINT_shorter READ_UINTS_shorter read_names_shorter read_uint32_shorter)

declare deser_elements.simps [simp del] deserializeStruct.simps [simp del]
  deserializeCell.simps [simp del]

section \<open>What comes back\<close>

text \<open>
  A value as it is after a round trip: the elements for which MATLAB returned NULL have become
  empty double arrays.
\<close>

primrec canon :: "mxArray \<Rightarrow> mxArray" where
  "canon (MxDense ds c re im) = MxDense ds c re im"
| "canon (MxSparse m n nz c jc ir re im) = MxSparse m n nz c jc ir re im"
| "canon (MxStruct ds fs es) = MxStruct ds fs (map (\<lambda>e. Some (filled e)) (map (map_option canon) es))"
| "canon (MxCell ds es) = MxCell ds (map (\<lambda>e. Some (filled e)) (map (map_option canon) es))"
| "canon (MxOther ds c) = MxOther ds c"

lemma filled_canon: "filled (map_option canon e) = canon (filled e)"
  by (cases e) simp_all

lemma canon_elements:
  "map (\<lambda>e. Some (filled e)) (map (map_option canon) es) = map (\<lambda>e. Some (canon (filled e))) es"
  by (simp add: filled_canon)

text \<open>Every size written for the value is one that the size writer can represent.\<close>

primrec sizes_ok :: "size_writer \<Rightarrow> (mwSize \<Rightarrow> bool) \<Rightarrow> mexenv \<Rightarrow> mxArray \<Rightarrow> bool" where
  "sizes_ok szb ok E (MxDense ds c re im) \<longleftrightarrow> list_all ok (word_of_nat (length ds) # ds)"
| "sizes_ok szb ok E (MxSparse m n nz c jc ir re im) \<longleftrightarrow>
     list_all ok [m, n, nz] \<and> list_all ok jc \<and> list_all ok ir \<and> length jc < 2 ^ 64"
| "sizes_ok szb ok E (MxStruct ds fs es) \<longleftrightarrow> list_all ok (word_of_nat (length ds) # ds)
     \<and> list_all (\<lambda>e. length (encode_opt szb E e) < 2 ^ 64
          \<and> ok (word_of_nat (length (encode_opt szb E e)))) es
     \<and> opt_all (map (map_option (sizes_ok szb ok E)) es)"
| "sizes_ok szb ok E (MxCell ds es) \<longleftrightarrow> list_all ok (word_of_nat (length ds) # ds)
     \<and> list_all (\<lambda>e. length (encode_opt szb E e) < 2 ^ 64
          \<and> ok (word_of_nat (length (encode_opt szb E e)))) es
     \<and> opt_all (map (map_option (sizes_ok szb ok E)) es)"
| "sizes_ok szb ok E (MxOther ds c) \<longleftrightarrow> True"

section \<open>Reading back what was written\<close>

lemma cstr_unterminated: "no_nul s \<Longrightarrow> cstr s = undefined_behaviour Read_out_of_bounds"
  by (induction s) auto

lemma no_nul_take: "no_nul s \<Longrightarrow> no_nul (take n s)"
  by (auto simp: no_nul_def dest: in_set_takeD)

interpretation name: prefix_codec name_image read_name no_nul
proof unfold_locales
  fix f p
  assume f: "no_nul f"
  then show "read_name (name_image f @ p) = Inr (f, p)"
    by (simp add: name_image_def read_name_def)
  have "take m (name_image f) = take m f" if "m < length (name_image f)" for m
    using that by (simp add: name_image_def)
  then show "cut_off (name_image f) read_name"
    using f by (simp add: cut_off_def read_name_def cstr_unterminated no_nul_take)
qed

lemma read_class_image [simp]:
  "read_class (class_image E c im @ p) =
     Inr (class_code E c, complexity_code E (if im = None then mxREAL else mxCOMPLEX), p)"
  by (simp add: read_class_def class_image_def)

text \<open>\<open>has_room a n im\<close>: the new array \<open>a\<close> has room for real data of \<open>n\<close> bytes and for \<open>im\<close>.\<close>

definition filled_data :: "mxArray \<Rightarrow> byte list \<Rightarrow> byte list option \<Rightarrow> mxArray" where
  "filled_data a re im = (case a of MxDense ds c re' im' \<Rightarrow> MxDense ds c re im
     | MxSparse m n nz c jc ir re' im' \<Rightarrow> MxSparse m n nz c jc ir re im | a \<Rightarrow> a)"

definition has_room :: "mxArray \<Rightarrow> nat \<Rightarrow> byte list option \<Rightarrow> bool" where
  "has_room a n im \<longleftrightarrow> (case a of MxDense ds c re' im' \<Rightarrow> length re' = n \<and> rel_option (\<lambda>i j. length i = n \<and> length j = n) im im'
     | MxSparse m nn nz c jc ir re' im' \<Rightarrow> length re' = n \<and> rel_option (\<lambda>i j. length i = n \<and> length j = n) im im'
     | _ \<Rightarrow> False)"

lemma read_data_image:
  "length re = n \<Longrightarrow> has_room a n im \<Longrightarrow> b \<longleftrightarrow> im \<noteq> None \<Longrightarrow>
   read_data b n (data_image re im @ q) a = Inr (filled_data a re im)"
  by (cases a; cases im)
    (auto simp: has_room_def read_data_def data_image_def filled_data_def option_rel_Some1)

lemma cut_off_data:
  assumes n: "length re = n" and a: "has_room a n im" and b: "b \<longleftrightarrow> im \<noteq> None"
  shows "cut_off (data_image re im) (\<lambda>p. read_data b n p a)"
proof (cases im)
  case None
  with n b show ?thesis
    by (simp add: data_image_def read_data_def cut_off_bind_end cut_off_memread)
next
  case (Some i)
  then have i: "length i = n" and put: "\<exists>a'. put_data re a = Inr a'"
    using a n by (auto simp: has_room_def option_rel_Some1 split: mxArray.splits)
  have "cut_off (re @ i) (\<lambda>p. read_data b n p a)"
    unfolding read_data_def using n i put b Some
    by (intro cut_off_bind [where g = "Pair re"]) (auto simp: cut_off_memread cut_off_bind_end)
  with Some show ?thesis by (simp add: data_image_def)
qed

lemma unat_word_of_nat: "n < 2 ^ 64 \<Longrightarrow> unat (word_of_nat n :: mwSize) = n"
  by (simp add: unat_of_nat)

lemma dims_length: "dims_ok ds \<Longrightarrow> unat (word_of_nat (length ds) :: mwSize) = length ds"
  by (rule unat_word_of_nat) (simp add: dims_ok_def INT_MAX_def)

lemma unat_prod_le: "unat (x * y :: mwSize) \<le> unat x * unat y"
  by (simp add: unat_word_ariths)

lemma count_elements_prod: "count_elements ds = prod_list ds"
proof -
  have "foldl (*) x ds = x * prod_list ds" for x :: mwSize
    by (induction ds arbitrary: x) (simp_all add: mult.assoc)
  then show ?thesis by (simp add: count_elements_def)
qed

lemma unat_prod_list: "unat (prod_list ds :: mwSize) = prod_list (map unat ds) mod 2 ^ 64"
  by (induction ds) (simp_all add: unat_word_ariths mod_mult_right_eq)

lemma count_elements_nelems: "nelems ds \<le> INT_MAX \<Longrightarrow> unat (count_elements ds) = nelems ds"
  by (simp add: count_elements_prod unat_prod_list nelems_def INT_MAX_def)

lemma unat_Suc_word: "length jc = Suc (unat n) \<Longrightarrow> length jc < 2 ^ 64 \<Longrightarrow> unat (n + 1 :: mwSize) = length jc"
  by (simp add: unat_word_ariths)

lemma sint_nfields:
  "n \<le> INT_MAX \<Longrightarrow> 0 \<le> sint (word_of_nat n :: 32 word)"
  "n \<le> INT_MAX \<Longrightarrow> unat (word_of_nat n :: 32 word) = n"
  by (simp_all add: INT_MAX_def signed_of_nat signed_take_bit_int_eq_self unat_of_nat)

lemma length_dim32s: "length (concat (map dim32_bytes vs)) = 4 * length vs"
  by (induction vs) (simp_all add: dim32_bytes_def)

text \<open>The facts that the proofs about containers take from their well-formedness.\<close>

lemma struct_facts:
  assumes "mx_ok E (MxStruct ds fs es)"
  shows "dims_ok ds" "length ds \<le> INT_MAX" "nelems ds \<le> INT_MAX" "length fs \<le> INT_MAX"
    "length es = nelems ds * length fs" "distinct fs" "list_all no_nul fs"
    "es = [] \<or> length es < Suc INT_MAX * length fs"
proof -
  show "dims_ok ds" "length ds \<le> INT_MAX" "nelems ds \<le> INT_MAX" "length fs \<le> INT_MAX"
    "length es = nelems ds * length fs" "distinct fs" "list_all no_nul fs"
    using assms by (simp_all add: dims_ok_def)
  show "es = [] \<or> length es < Suc INT_MAX * length fs"
  proof (cases fs)
    case Nil
    with assms show ?thesis by simp
  next
    case (Cons f gs)
    have "nelems ds * length fs \<le> INT_MAX * length fs" using assms by (intro mult_le_mono1) simp
    with Cons assms show ?thesis by simp
  qed
qed

lemma cell_facts:
  assumes "mx_ok E (MxCell ds es)"
  shows "dims_ok ds" "length ds \<le> INT_MAX" "nelems ds \<le> INT_MAX" "length es = nelems ds"
  using assms by (simp_all add: dims_ok_def)

locale size_reader =
  fixes use32 :: bool
    and szb :: size_writer
    and ok :: "mwSize \<Rightarrow> bool"
  assumes read_size: "ok v \<Longrightarrow> READ_UINT use32 (szb v @ p) = Inr (v, p)"
    and read_sizes: "list_all ok vs \<Longrightarrow>
      READ_UINTS use32 (length vs) (concat (map szb vs) @ p) = Inr (vs, p)"
    and cut_size: "ok v \<Longrightarrow> cut_off (szb v) (READ_UINT use32)"
    and cut_sizes: "list_all ok vs \<Longrightarrow> cut_off (concat (map szb vs)) (READ_UINTS use32 (length vs))"
    and ok_small: "ok 0" "ok 2"
begin

lemma read_dims_image:
  "dims_ok ds \<Longrightarrow> list_all ok (word_of_nat (length ds) # ds) \<Longrightarrow>
   read_dims use32 (dims_image szb ds @ p) = Inr (ds, p)"
  using read_sizes [of ds p] by (simp add: read_dims_def dims_image_def read_size dims_length)

text \<open>The array that \<open>mxCreateNumericArray\<close> returns for the header of an encoded array.\<close>

definition new_dense :: "mexenv \<Rightarrow> mwSize list \<Rightarrow> mxClassID \<Rightarrow> byte list option \<Rightarrow> mxArray" where
  "new_dense E ds c im = (let z = zeros (elem_size E c * nelems ds)
                          in MxDense ds c z (map_option (\<lambda>_. z) im))"

lemma create_new_dense:
  assumes "matlab_api E" and "mx_ok E (MxDense ds c re im)"
  shows "create_numeric E ds (class_code E c) (complexity_code E (if im = None then mxREAL else mxCOMPLEX))
         = Inr (new_dense E ds c im)"
  using assms by (cases im) (simp_all add: matlab_create_numeric new_dense_def if_complex_def Let_def)

lemma new_dense_room:
  "mx_ok E (MxDense ds c re im) \<Longrightarrow> has_room (new_dense E ds c im) (length re) im"
  "filled_data (new_dense E ds c im) re im = MxDense ds c re im"
  "mxGetClassID (new_dense E ds c im) = c" "mxGetNumberOfElements (new_dense E ds c im) = nelems ds"
  by (auto simp: new_dense_def has_room_def filled_data_def Let_def mxGetNumberOfElements_def
      split: option.splits)

lemma complex_code_iff:
  "matlab_api E \<Longrightarrow> complexity_code E (if im = None then mxREAL else mxCOMPLEX) =
     complexity_code E mxCOMPLEX \<longleftrightarrow> im \<noteq> None"
  by (auto simp: matlab_complexity_code)

lemma array_roundtrip:
  assumes api: "matlab_api E" and "use32bitdims E = use32" and ok: "mx_ok E (MxDense ds c re im)"
    and "list_all ok (word_of_nat (length ds) # ds)"
  shows "deserialize_field E (array_image szb E ds c re im @ q) = Inr (MxDense ds c re im)"
proof -
  have n: "length re = elem_size E c * nelems ds" and "dims_ok ds" using ok by simp_all
  with assms show ?thesis
    using read_data_image [OF refl new_dense_room(1) [OF ok], of "im \<noteq> None" q]
    by (simp add: array_image_def deserializeArray_def read_dims_image create_new_dense [OF api ok]
        complex_code_iff new_dense_room(2-) del: mx_ok.simps)
qed

text \<open>The sparse matrix that is filled in, with its index arrays as far as they have been read.\<close>

definition new_sparse :: "mexenv \<Rightarrow> mwSize \<Rightarrow> mwSize \<Rightarrow> mwSize \<Rightarrow> mxClassID \<Rightarrow> byte list option \<Rightarrow>
    mwSize list \<Rightarrow> mwSize list \<Rightarrow> mxArray" where
  "new_sparse E m n nz c im jc ir = (let z = zeros (elem_size E c * unat nz)
                                     in MxSparse m n nz c jc ir z (map_option (\<lambda>_. z) im))"

lemma create_new_sparse:
  assumes "matlab_api E" and "mx_ok E (MxSparse m n nz c jc ir re im)"
  shows "(if class_code E c = class_code E mxLOGICAL_CLASS then create_sparse_logical E m n nz
          else create_sparse E m n nz (complexity_code E (if im = None then mxREAL else mxCOMPLEX)))
         = Inr (new_sparse E m n nz c im (replicate (unat n + 1) 0) (replicate (unat nz) 0))"
  using assms
  by (cases im) (auto simp: matlab_create_sparse matlab_class_code new_sparse_def if_complex_def Let_def)

lemma new_sparse_room:
  "mx_ok E (MxSparse m n nz c jc ir re im) \<Longrightarrow> has_room (new_sparse E m n nz c im jc' ir') (length re) im"
  "filled_data (new_sparse E m n nz c im jc ir) re im = MxSparse m n nz c jc ir re im"
  "mxGetClassID (new_sparse E m n nz c im jc' ir') = c"
  "length jc = length jc' \<Longrightarrow>
   put_jc jc (new_sparse E m n nz c im jc' ir') = Inr (new_sparse E m n nz c im jc ir')"
  "length ir = length ir' \<Longrightarrow>
   put_ir ir (new_sparse E m n nz c im jc' ir') = Inr (new_sparse E m n nz c im jc' ir)"
  by (auto simp: new_sparse_def has_room_def filled_data_def Let_def split: option.splits)

lemma sparse_facts:
  assumes "mx_ok E (MxSparse m n nz c jc ir re im)"
    and "sizes_ok szb ok E (MxSparse m n nz c jc ir re im)"
  shows "unat (n + 1) = Suc (unat n)" "length jc = Suc (unat n)" "length ir = unat nz"
    "length re = elem_size E c * unat nz" "ok m" "ok n" "ok nz" "list_all ok jc" "list_all ok ir"
  using assms unat_Suc_word [of jc n] by auto

lemma sparse_roundtrip:
  assumes api: "matlab_api E" and u: "use32bitdims E = use32"
    and ok: "mx_ok E (MxSparse m n nz c jc ir re im)"
    and sz: "sizes_ok szb ok E (MxSparse m n nz c jc ir re im)"
  shows "deserialize_field E (sparse_image szb E m n nz c jc ir re im @ q) =
         Inr (MxSparse m n nz c jc ir re im)"
proof -
  note f = sparse_facts [OF ok sz]
  have ids: "ID_SPARSE \<noteq> ID_ARRAY" by (simp add: id_values)
  have reads: "READ_UINTS use32 (Suc (unat n)) (concat (map szb jc) @ p) = Inr (jc, p)"
    "READ_UINTS use32 (unat nz) (concat (map szb ir) @ p) = Inr (ir, p)" for p
    using f read_sizes [of ir p] read_sizes [of jc p] by simp_all
  show ?thesis
    using f read_data_image [OF refl new_sparse_room(1) [OF ok], of "im \<noteq> None" q]
    by (simp add: sparse_image_def deserializeSparse_def ids u read_size reads Let_def
        create_new_sparse [OF api ok] complex_code_iff [OF api] new_sparse_room(2-)
        del: mx_ok.simps split del: if_split)
qed

text \<open>
  The element loop, for either kind of container: \<open>mk es\<close> is the container with elements \<open>es\<close>.
\<close>

lemma elements_roundtrip:
  assumes mk: "\<And>k x xs. k < length xs \<Longrightarrow> put_element k x (mk xs) = Inr (mk (xs[k := Some x]))"
    and u: "use32bitdims E = use32"
    and el: "\<And>e q. e \<in> set es \<Longrightarrow>
      deserialize_field E (encode_opt szb E e @ q) = Inr (canon (filled e))"
    and len: "list_all (\<lambda>e. length (encode_opt szb E e) < 2 ^ 64
      \<and> ok (word_of_nat (length (encode_opt szb E e)))) es"
    and lim: "es = [] \<or> length done + length es < lim"
  shows "deser_elements E lim (length done) (length done + length es)
           (concat (map (frame szb) (map (encode_opt szb E) es)) @ q)
           (mk (done @ replicate (length es) None)) =
         Inr (mk (done @ map (\<lambda>e. Some (canon (filled e))) es))"
  using el len lim
proof (induction es arbitrary: "done")
  case Nil
  then show ?case by (simp add: deser_elements.simps)
next
  case (Cons e es)
  let ?s = "encode_opt szb E e"
  let ?rest = "concat (map (frame szb) (map (encode_opt szb E) es)) @ q"
  let ?v = "Some (canon (filled e))"
  have size: "READ_UINT use32 (szb (word_of_nat (length ?s)) @ p) = Inr (word_of_nat (length ?s), p)"
    and n: "unat (word_of_nat (length ?s) :: mwSize) = length ?s" for p
    using Cons.prems(2) by (simp_all add: read_size unat_word_of_nat)
  have d: "deserialize_field E (?s @ ?rest) = Inr (canon (filled e))"
    using Cons.prems(1) [of e ?rest] by simp
  have put: "put_element (length done) (canon (filled e)) (mk (done @ replicate (Suc (length es)) None))
      = Inr (mk ((done @ [?v]) @ replicate (length es) None))"
    using mk [of "length done" "done @ replicate (Suc (length es)) None" "canon (filled e)"] by simp
  have ih: "deser_elements E lim (length (done @ [?v])) (length (done @ [?v]) + length es) ?rest
      (mk ((done @ [?v]) @ replicate (length es) None)) =
      Inr (mk ((done @ [?v]) @ map (\<lambda>e. Some (canon (filled e))) es))"
    using Cons.prems by (intro Cons.IH) auto
  have "Suc (length done) \<noteq> lim" using Cons.prems(3) by simp
  with size n d put ih show ?case
    by (subst deser_elements.simps) (simp add: u frame_def)
qed

lemma struct_roundtrip:
  assumes api: "matlab_api E" and u: "use32bitdims E = use32"
    and ok: "mx_ok E (MxStruct ds fs es)" and sz: "sizes_ok szb ok E (MxStruct ds fs es)"
    and el: "\<And>e q. e \<in> set es \<Longrightarrow>
      deserialize_field E (encode_opt szb E e @ q) = Inr (canon (filled e))"
  shows "deserialize_field E (struct_image szb ds fs (map (encode_opt szb E) es) @ q) =
         Inr (canon (MxStruct ds fs es))"
proof -
  note f = struct_facts [OF ok]
  have ids: "ID_STRUCT \<noteq> ID_ARRAY" "ID_STRUCT \<noteq> ID_SPARSE" by (simp_all add: id_values)
  have loop: "deser_elements E (Suc INT_MAX * length fs) 0 (nelems ds * length fs)
      (concat (map (frame szb) (map (encode_opt szb E) es)) @ q)
      (MxStruct ds fs (replicate (nelems ds * length fs) None)) =
      Inr (MxStruct ds fs (map (\<lambda>e. Some (canon (filled e))) es))"
    using elements_roundtrip [of "MxStruct ds fs" E es "[]" "Suc INT_MAX * length fs" q] u el sz f
    by simp
  have names: "decode_many read_name (length fs) (concat (map name_image fs) @ p) = Inr (fs, p)" for p
    by (rule name.decode_many_enc [OF f(7)])
  have dims: "READ_UINT use32 (szb (word_of_nat (length ds)) @ p) = Inr (word_of_nat (length ds), p)"
    "READ_UINTS use32 (length ds) (concat (map szb ds) @ p) = Inr (ds, p)" for p
    using sz read_sizes [of ds p] by (simp_all add: read_size)
  show ?thesis
    using loop
    by (simp add: struct_image_def dims_image_def ids deserializeStruct.simps u dims dims_length f
        int_loop_def Let_def count_elements_nelems sint_nfields names matlab_create_struct api
        canon_elements del: map_map)
qed

lemma cell_roundtrip:
  assumes api: "matlab_api E" and u: "use32bitdims E = use32"
    and ok: "mx_ok E (MxCell ds es)" and sz: "sizes_ok szb ok E (MxCell ds es)"
    and el: "\<And>e q. e \<in> set es \<Longrightarrow>
      deserialize_field E (encode_opt szb E e @ q) = Inr (canon (filled e))"
  shows "deserialize_field E (cell_image szb ds (map (encode_opt szb E) es) @ q) =
         Inr (canon (MxCell ds es))"
proof -
  note f = cell_facts [OF ok]
  have ids: "ID_CELL \<noteq> ID_ARRAY" "ID_CELL \<noteq> ID_SPARSE" "ID_CELL \<noteq> ID_STRUCT"
    by (simp_all add: id_values)
  have loop: "deser_elements E (Suc INT_MAX) 0 (nelems ds)
      (concat (map (frame szb) (map (encode_opt szb E) es)) @ q)
      (MxCell ds (replicate (nelems ds) None)) =
      Inr (MxCell ds (map (\<lambda>e. Some (canon (filled e))) es))"
    using elements_roundtrip [of "MxCell ds" E es "[]" "Suc INT_MAX" q] u el sz f
    by simp
  have dims: "READ_UINT use32 (szb (word_of_nat (length ds)) @ p) = Inr (word_of_nat (length ds), p)"
    "READ_UINTS use32 (length ds) (concat (map szb ds) @ p) = Inr (ds, p)" for p
    using sz read_sizes [of ds p] by (simp_all add: read_size)
  show ?thesis
    using loop
    by (simp add: cell_image_def dims_image_def ids deserializeCell.simps u dims dims_length f
        int_loop_def Let_def count_elements_nelems matlab_create_cell api canon_elements
        del: map_map)
qed

lemma empty_roundtrip:
  "matlab_api E \<Longrightarrow> use32bitdims E = use32 \<Longrightarrow>
   deserialize_field E (array_image szb E [0, 0] mxDOUBLE_CLASS [] None @ q) = Inr empty_double"
  by (rule array_roundtrip) (simp_all add: ok_small del: mx_ok.simps)

lemma element_roundtrip:
  assumes "matlab_api E" and "use32bitdims E = use32"
    and "\<And>a. e = Some a \<Longrightarrow> deserialize_field E (encode_as szb E a @ q) = Inr (canon a)"
  shows "deserialize_field E (encode_opt szb E e @ q) = Inr (canon (filled e))"
  using assms by (cases e) (simp_all add: encode_opt_def empty_roundtrip)

lemma field_roundtrip:
  assumes "matlab_api E" and "use32bitdims E = use32"
  shows "mx_ok E a \<Longrightarrow> sizes_ok szb ok E a \<Longrightarrow>
         deserialize_field E (encode_as szb E a @ q) = Inr (canon a)"
proof (induction a arbitrary: q)
  case (MxDense ds c re im)
  with array_roundtrip [OF assms MxDense.prems(1)] show ?case by simp
next
  case (MxSparse m n nz c jc ir re im)
  with sparse_roundtrip [OF assms MxSparse.prems] show ?case by simp
next
  case (MxStruct ds fs es)
  have "deserialize_field E (encode_opt szb E e @ q) = Inr (canon (filled e))" if "e \<in> set es" for e q
    using MxStruct.IH [OF that] MxStruct.prems that by (intro element_roundtrip assms) auto
  from struct_roundtrip [OF assms MxStruct.prems this] show ?case
    by (simp add: or_empty_map del: map_map)
next
  case (MxCell ds es)
  have "deserialize_field E (encode_opt szb E e @ q) = Inr (canon (filled e))" if "e \<in> set es" for e q
    using MxCell.IH [OF that] MxCell.prems that by (intro element_roundtrip assms) auto
  from cell_roundtrip [OF assms MxCell.prems this] show ?case
    by (simp add: or_empty_map del: map_map)
next
  case (MxOther ds c)
  then show ?case by simp
qed

end

lemma READ_64_fun: "READ_UINT False = read_uint64" "READ_UINTS False n = decode_many read_uint64 n"
  by (simp_all add: fun_eq_iff READ_UINT_64 READ_UINTS_64)

interpretation size64: size_reader False uint64_bytes "\<lambda>v. True"
  by unfold_locales (simp_all add: READ_UINT_64 READ_UINTS_64 u64.cut_enc u64.cut_enc_many
    u64.decode_many_enc list_all_iff READ_64_fun)

interpretation size32: size_reader True dim32_bytes "\<lambda>v. unat v < 2 ^ 32"
proof unfold_locales
  fix v :: mwSize and p
  assume v: "unat v < 2 ^ 32"
  then show "READ_UINT True (dim32_bytes v @ p) = Inr (v, p)"
    using d32.decode_many_enc [of "[v]" p]
    by (simp add: READ_UINT_def safe_read_32uint_def dim32_bytes_def)
  show "cut_off (dim32_bytes v) (READ_UINT True)"
    using d32.cut_enc_many [of "[v]"] v
    by (simp add: cut_off_def READ_UINT_def safe_read_32uint_def)
next
  fix vs :: "mwSize list" and p
  assume vs: "list_all (\<lambda>v. unat v < 2 ^ 32) vs"
  then show "READ_UINTS True (length vs) (concat (map dim32_bytes vs) @ p) = Inr (vs, p)"
    using d32.decode_many_enc [of vs p]
    by (simp add: READ_UINTS_def safe_read_32uint_def length_dim32s)
  show "cut_off (concat (map dim32_bytes vs)) (READ_UINTS True (length vs))"
    using d32.cut_enc_many [OF vs] by (simp add: cut_off_def READ_UINTS_def safe_read_32uint_def)
qed simp_all

end
