(* ===== verification/Mym_BlobLaws.thy ===== *)
theory Mym_BlobLaws
  imports Mym_Deserialize
begin

text \<open>
  Consequences for the format: a truncated serialization is always read past its end, and two
  values with the same serialization are the same after a round trip. The 64-bit round trip, with
  the size conditions reduced to one about the whole blob, is stated here for the other theories.
\<close>

section \<open>Truncated blobs\<close>

context size_reader
begin

lemma cut_off_dims:
  assumes "dims_ok ds" and "list_all ok (word_of_nat (length ds) # ds)"
  shows "cut_off (dims_image szb ds) (read_dims use32)"
proof -
  have "cut_off (szb (word_of_nat (length ds)) @ concat (map szb ds))
      (\<lambda>p. bindE (READ_UINT use32 p) (\<lambda>(ndims, p). READ_UINTS use32 (unat ndims) p))"
    using assms
    by (intro cut_off_bind [where g = "Pair (word_of_nat (length ds))"])
      (simp_all add: cut_size read_size cut_sizes dims_length)
  then show ?thesis by (simp add: dims_image_def read_dims_def [abs_def])
qed

lemma cut_off_class: "cut_off (class_image E c im) read_class"
  unfolding class_image_def read_class_def [abs_def]
  by (rule cut_off_bind [where g = "Pair (class_code E c)"])
    (simp_all add: u32.cut_enc cut_off_bind_end)

lemma cut_off_array:
  assumes api: "matlab_api E" and u: "use32bitdims E = use32" and ok: "mx_ok E (MxDense ds c re im)"
    and sz: "list_all ok (word_of_nat (length ds) # ds)"
  shows "cut_off (array_image szb E ds c re im) (deserialize_field E)"
proof -
  have n: "length re = elem_size E c * nelems ds" and d: "dims_ok ds" using ok by simp_all
  let ?g = "\<lambda>p. (class_code E c, complexity_code E (if im = None then mxREAL else mxCOMPLEX), p)"
  have "cut_off (dims_image szb ds @ class_image E c im @ data_image re im) (deserializeArray E)"
    unfolding deserializeArray_def [abs_def] u
    apply (rule cut_off_bind [where g = "Pair ds"])
      apply (rule cut_off_dims [OF d sz])
     apply (rule read_dims_image [OF d sz])
    apply (simp only: prod.case)
    apply (rule cut_off_bind [where g = ?g])
      apply (rule cut_off_class)
     apply (rule read_class_image)
    using cut_off_data [OF n new_dense_room(1) [OF ok, unfolded n], of "im \<noteq> None"]
    apply (simp add: create_new_dense [OF api ok] complex_code_iff [OF api] new_dense_room(2-)
        del: mx_ok.simps split del: if_split)
    done
  then show ?thesis by (simp add: array_image_def cut_off_Cons)
qed

lemma cut_off_sparse:
  assumes api: "matlab_api E" and u: "use32bitdims E = use32"
    and ok: "mx_ok E (MxSparse m n nz c jc ir re im)"
    and sz: "sizes_ok szb ok E (MxSparse m n nz c jc ir re im)"
  shows "cut_off (sparse_image szb E m n nz c jc ir re im) (deserialize_field E)"
proof -
  note f = sparse_facts [OF ok sz]
  have ids: "ID_SPARSE \<noteq> ID_ARRAY" by (simp add: id_values)
  let ?g = "\<lambda>p. (class_code E c, complexity_code E (if im = None then mxREAL else mxCOMPLEX), p)"
  have jc: "READ_UINTS use32 (Suc (unat n)) (concat (map szb jc) @ p) = Inr (jc, p)"
    and ir: "READ_UINTS use32 (unat nz) (concat (map szb ir) @ p) = Inr (ir, p)"
    and cjc: "cut_off (concat (map szb jc)) (READ_UINTS use32 (Suc (unat n)))"
    and cir: "cut_off (concat (map szb ir)) (READ_UINTS use32 (unat nz))" for p
    using f read_sizes [of ir p] read_sizes [of jc p] cut_sizes [of jc] cut_sizes [of ir]
    by simp_all
  have "cut_off (szb m @ szb n @ szb nz @ class_image E c im @ concat (map szb jc)
      @ concat (map szb ir) @ data_image re im) (deserializeSparse E)"
    unfolding deserializeSparse_def [abs_def] u Let_def
    apply (rule cut_off_bind [OF cut_size read_size], simp_all only: f prod.case)+
    apply (rule cut_off_bind [where g = ?g])
      apply (rule cut_off_class)
     apply (rule read_class_image)
    apply (simp only: prod.case create_new_sparse [OF api ok] bindE_simps)
    apply (rule cut_off_bind [OF cjc jc])
    apply (simp add: f new_sparse_room(4) split del: if_split)
    apply (rule cut_off_bind [OF cir ir])
    using cut_off_data [OF refl new_sparse_room(1) [OF ok], of "im \<noteq> None"] f(4)
    apply (simp add: f new_sparse_room(2-) complex_code_iff [OF api] del: mx_ok.simps split del: if_split)
    done
  then show ?thesis by (simp add: sparse_image_def cut_off_Cons ids)
qed

lemma cut_off_elements:
  assumes mk: "\<And>k x xs. k < length xs \<Longrightarrow> put_element k x (mk xs) = Inr (mk (xs[k := Some x]))"
    and u: "use32bitdims E = use32"
    and el: "\<And>e q. e \<in> set es \<Longrightarrow>
      deserialize_field E (encode_opt szb E e @ q) = Inr (canon (filled e))"
    and cut: "\<And>e. e \<in> set es \<Longrightarrow> cut_off (encode_opt szb E e) (deserialize_field E)"
    and len: "list_all (\<lambda>e. length (encode_opt szb E e) < 2 ^ 64
      \<and> ok (word_of_nat (length (encode_opt szb E e)))) es"
    and lim: "es = [] \<or> length done + length es < lim"
  shows "cut_off (concat (map (frame szb) (map (encode_opt szb E) es)))
           (\<lambda>p. deser_elements E lim (length done) (length done + length es) p
             (mk (done @ replicate (length es) None)))"
  using el cut len lim
proof (induction es arbitrary: "done")
  case Nil
  then show ?case by simp
next
  case (Cons e es)
  let ?s = "encode_opt szb E e" and ?rest = "concat (map (frame szb) (map (encode_opt szb E) es))"
  let ?v = "Some (canon (filled e))" and ?n = "Suc (length done + length es)"
  have size: "READ_UINT use32 (szb (word_of_nat (length ?s)) @ p) = Inr (word_of_nat (length ?s), p)"
    and csize: "cut_off (szb (word_of_nat (length ?s))) (READ_UINT use32)"
    and n: "unat (word_of_nat (length ?s) :: mwSize) = length ?s" for p
    using Cons.prems(3) by (simp_all add: read_size cut_size unat_word_of_nat)
  have put: "put_element (length done) (canon (filled e)) (mk (done @ replicate (Suc (length es)) None))
      = Inr (mk ((done @ [?v]) @ replicate (length es) None))"
    using mk [of "length done" "done @ replicate (Suc (length es)) None" "canon (filled e)"] by simp
  have ih: "cut_off ?rest (\<lambda>p. deser_elements E lim (length (done @ [?v]))
      (length (done @ [?v]) + length es) p (mk ((done @ [?v]) @ replicate (length es) None)))"
    using Cons.prems by (intro Cons.IH) auto
  have lim: "Suc (length done) \<noteq> lim" using Cons.prems(4) by simp
  have "cut_off (?s @ ?rest) (\<lambda>p. bindE (deserialize_field E p) (\<lambda>pf.
      bindE (put_element (length done) pf (mk (done @ replicate (Suc (length es)) None))) (\<lambda>ps.
      if Suc (length done) = lim then undefined_behaviour Signed_overflow
      else deser_elements E lim (Suc (length done)) ?n (drop (length ?s) p) ps)))"
  proof (rule cut_off_append, goal_cases)
    case (1 m)
    then show ?case using cut_offD [OF Cons.prems(2) [of e]] by simp
  next
    case (2 m)
    then show ?case
      using cut_offD [OF ih] Cons.prems(1) [of e "take m ?rest"] put lim by simp
  qed
  then have "cut_off (szb (word_of_nat (length ?s)) @ ?s @ ?rest) (\<lambda>p. bindE (READ_UINT use32 p)
      (\<lambda>(nbytes, p). bindE (deserialize_field E p) (\<lambda>pf.
      bindE (put_element (length done) pf (mk (done @ replicate (Suc (length es)) None))) (\<lambda>ps.
      if Suc (length done) = lim then undefined_behaviour Signed_overflow
      else deser_elements E lim (Suc (length done)) ?n (drop (unat nbytes) p) ps))))"
    by (intro cut_off_bind [where g = "Pair (word_of_nat (length ?s))"])
      (simp_all only: prod.case csize size n)
  then show ?case
    by (subst deser_elements.simps) (simp add: u frame_def cong: if_cong)
qed

lemma cut_off_struct:
  assumes api: "matlab_api E" and u: "use32bitdims E = use32"
    and ok: "mx_ok E (MxStruct ds fs es)" and sz: "sizes_ok szb ok E (MxStruct ds fs es)"
    and el: "\<And>e q. e \<in> set es \<Longrightarrow>
      deserialize_field E (encode_opt szb E e @ q) = Inr (canon (filled e))"
    and cut: "\<And>e. e \<in> set es \<Longrightarrow> cut_off (encode_opt szb E e) (deserialize_field E)"
  shows "cut_off (struct_image szb ds fs (map (encode_opt szb E) es)) (deserialize_field E)"
proof -
  note f = struct_facts [OF ok]
  have ids: "ID_STRUCT \<noteq> ID_ARRAY" "ID_STRUCT \<noteq> ID_SPARSE" by (simp_all add: id_values)
  have loop: "cut_off (concat (map (frame szb) (map (encode_opt szb E) es)))
     (\<lambda>p. deser_elements E (Suc INT_MAX * length fs) 0 (nelems ds * length fs) p
       (MxStruct ds fs (replicate (nelems ds * length fs) None)))"
    using cut_off_elements [of "MxStruct ds fs" E es "[]" "Suc INT_MAX * length fs"] u el cut sz f
    by simp
  have dsz: "ok (word_of_nat (length ds))" "list_all ok ds" using sz by simp_all
  have "cut_off (szb (word_of_nat (length ds)) @ concat (map szb ds)
      @ uint32_bytes (word_of_nat (length fs)) @ concat (map name_image fs)
      @ concat (map (frame szb) (map (encode_opt szb E) es))) (deserializeStruct E)"
    unfolding deserializeStruct.simps [abs_def] u Let_def
    apply (rule cut_off_bind [OF cut_size read_size], simp_all only: dsz prod.case dims_length f)
    apply (rule cut_off_bind [OF cut_sizes read_sizes], simp_all only: dsz prod.case)
    apply (simp add: int_loop_def f count_elements_nelems)
    apply (rule cut_off_bind [OF u32.cut_enc [OF TrueI] u32.dec_enc [OF TrueI]])
    apply (simp add: f sint_nfields)
    apply (rule cut_off_bind [OF name.cut_enc_many name.decode_many_enc], simp_all only: f prod.case)
    using loop
    apply (simp add: matlab_create_struct api f)
    done
  then show ?thesis by (simp add: struct_image_def dims_image_def cut_off_Cons ids)
qed

lemma cut_off_cell:
  assumes api: "matlab_api E" and u: "use32bitdims E = use32"
    and ok: "mx_ok E (MxCell ds es)" and sz: "sizes_ok szb ok E (MxCell ds es)"
    and el: "\<And>e q. e \<in> set es \<Longrightarrow>
      deserialize_field E (encode_opt szb E e @ q) = Inr (canon (filled e))"
    and cut: "\<And>e. e \<in> set es \<Longrightarrow> cut_off (encode_opt szb E e) (deserialize_field E)"
  shows "cut_off (cell_image szb ds (map (encode_opt szb E) es)) (deserialize_field E)"
proof -
  note f = cell_facts [OF ok]
  have ids: "ID_CELL \<noteq> ID_ARRAY" "ID_CELL \<noteq> ID_SPARSE" "ID_CELL \<noteq> ID_STRUCT"
    by (simp_all add: id_values)
  have loop: "cut_off (concat (map (frame szb) (map (encode_opt szb E) es)))
     (\<lambda>p. deser_elements E (Suc INT_MAX) 0 (nelems ds) p
       (MxCell ds (replicate (nelems ds) None)))"
    using cut_off_elements [of "MxCell ds" E es "[]" "Suc INT_MAX"] u el cut sz f
    by simp
  have dsz: "ok (word_of_nat (length ds))" "list_all ok ds" using sz by simp_all
  have "cut_off (szb (word_of_nat (length ds)) @ concat (map szb ds)
      @ concat (map (frame szb) (map (encode_opt szb E) es))) (deserializeCell E)"
    unfolding deserializeCell.simps [abs_def] u Let_def
    apply (rule cut_off_bind [OF cut_size read_size], simp_all only: dsz prod.case dims_length f)
    apply (rule cut_off_bind [OF cut_sizes read_sizes], simp_all only: dsz prod.case)
    using loop
    apply (simp add: int_loop_def f count_elements_nelems matlab_create_cell api)
    done
  then show ?thesis by (simp add: cell_image_def dims_image_def cut_off_Cons ids)
qed

lemma cut_off_element:
  assumes "matlab_api E" and "use32bitdims E = use32"
    and "\<And>a. e = Some a \<Longrightarrow> cut_off (encode_as szb E a) (deserialize_field E)"
  shows "cut_off (encode_opt szb E e) (deserialize_field E)"
proof (cases e)
  case None
  then show ?thesis
    using cut_off_array [OF assms(1,2), of "[0, 0]" mxDOUBLE_CLASS "[]" None]
    by (simp add: encode_opt_def ok_small del: mx_ok.simps)
next
  case (Some a)
  with assms(3) show ?thesis by (simp add: encode_opt_def)
qed

lemma field_cut_off:
  assumes "matlab_api E" and "use32bitdims E = use32"
  shows "mx_ok E a \<Longrightarrow> sizes_ok szb ok E a \<Longrightarrow> cut_off (encode_as szb E a) (deserialize_field E)"
proof (induction a)
  case (MxDense ds c re im)
  with cut_off_array [OF assms MxDense.prems(1)] show ?case by simp
next
  case (MxSparse m n nz c jc ir re im)
  with cut_off_sparse [OF assms MxSparse.prems] show ?case by simp
next
  case (MxStruct ds fs es)
  have "deserialize_field E (encode_opt szb E e @ q) = Inr (canon (filled e))" if "e \<in> set es" for e q
    using MxStruct.prems that by (intro element_roundtrip field_roundtrip assms) auto
  moreover have "cut_off (encode_opt szb E e) (deserialize_field E)" if "e \<in> set es" for e
    using MxStruct.IH [OF that] MxStruct.prems that by (intro cut_off_element assms) auto
  ultimately show ?case
    using cut_off_struct [OF assms MxStruct.prems] by (simp add: or_empty_map del: map_map)
next
  case (MxCell ds es)
  have "deserialize_field E (encode_opt szb E e @ q) = Inr (canon (filled e))" if "e \<in> set es" for e q
    using MxCell.prems that by (intro element_roundtrip field_roundtrip assms) auto
  moreover have "cut_off (encode_opt szb E e) (deserialize_field E)" if "e \<in> set es" for e
    using MxCell.IH [OF that] MxCell.prems that by (intro cut_off_element assms) auto
  ultimately show ?case
    using cut_off_cell [OF assms MxCell.prems] by (simp add: or_empty_map del: map_map)
next
  case (MxOther ds c)
  then show ?case by simp
qed

end

section \<open>The 64-bit format\<close>

lemma length_frame_le: "e \<in> set es \<Longrightarrow> length (f e) \<le> length (concat (map (frame uint64_bytes) (map f es)))"
  by (induction es) (auto simp: frame_def)

lemma length_sizes: "length (concat (map uint64_bytes vs)) = 8 * length vs"
  by (simp add: u64.length_enc_many)

text \<open>For the 64-bit format all size conditions follow from the size of the whole.\<close>

lemma sizes_ok_64: "length (encode E a) < 2 ^ 64 \<Longrightarrow> sizes_ok uint64_bytes (\<lambda>_. True) E a"
proof (induction a)
  case (MxDense ds c re im)
  then show ?case by (simp add: list_all_iff)
next
  case (MxSparse m n nz c jc ir re im)
  then show ?case by (simp add: sparse_image_def length_sizes list_all_iff)
next
  case (MxStruct ds fs es)
  have small: "length (encode_opt uint64_bytes E e) < 2 ^ 64" if "e \<in> set es" for e
    using MxStruct.prems length_frame_le [OF that, of "encode_opt uint64_bytes E"]
    by (simp add: struct_image_def or_empty_map del: map_map)
  have "sizes_ok uint64_bytes (\<lambda>_. True) E a" if "Some a \<in> set es" for a
    using MxStruct.IH [OF that, of a] small [OF that] by (simp add: encode_opt_def)
  with small show ?case by (simp add: list_all_iff)
next
  case (MxCell ds es)
  have small: "length (encode_opt uint64_bytes E e) < 2 ^ 64" if "e \<in> set es" for e
    using MxCell.prems length_frame_le [OF that, of "encode_opt uint64_bytes E"]
    by (simp add: cell_image_def or_empty_map del: map_map)
  have "sizes_ok uint64_bytes (\<lambda>_. True) E a" if "Some a \<in> set es" for a
    using MxCell.IH [OF that, of a] small [OF that] by (simp add: encode_opt_def)
  with small show ?case by (simp add: list_all_iff)
next
  case (MxOther ds c)
  then show ?case by simp
qed

text \<open>The conditions under which a value survives storage, for a fixed environment.\<close>

definition storable :: "mexenv \<Rightarrow> mxArray \<Rightarrow> bool" where
  "storable E a \<longleftrightarrow> matlab_api E \<and> \<not> use32bitdims E \<and> mx_ok E a \<and> length (encode E a) < 2 ^ 64"

text \<open>
  A reader that may normalise the value (\<open>view\<close>) and does not report how much it has read: the
  contract of \<open>deserialize_field\<close> towards \<open>deserialize\<close> and the element loops.
\<close>

locale lossy_codec =
  fixes enc :: "'a \<Rightarrow> byte list"
    and dec :: "byte list \<Rightarrow> 'b res"
    and ok :: "'a \<Rightarrow> bool"
    and view :: "'a \<Rightarrow> 'b"
  assumes dec_enc: "ok x \<Longrightarrow> dec (enc x @ p) = Inr (view x)"
    and cut_enc: "ok x \<Longrightarrow> cut_off (enc x) dec"
begin

lemma dec_enc_end: "ok x \<Longrightarrow> dec (enc x) = Inr (view x)"
  using dec_enc [of x "[]"] by simp

lemma same_view: "ok x \<Longrightarrow> ok y \<Longrightarrow> enc x @ p = enc y @ q \<Longrightarrow> view x = view y"
  using dec_enc [of x p] dec_enc [of y q] by simp

text \<open>No encoding is a proper prefix of another.\<close>

lemma prefix_free:
  assumes x: "ok x" and y: "ok y" and eq: "enc x @ p = enc y"
  shows "p = []"
proof (rule ccontr)
  assume "p \<noteq> []"
  then have "length (enc x) < length (enc y)" and "take (length (enc x)) (enc y) = enc x"
    using eq by (auto simp flip: eq)
  then show False using cut_offD [OF cut_enc [OF y]] dec_enc_end [OF x] by fastforce
qed

end

interpretation blob: lossy_codec "encode E" "deserialize_field E" "storable E" canon for E
proof unfold_locales
  fix a p
  assume a: "storable E a"
  then show "deserialize_field E (encode E a @ p) = Inr (canon a)"
    by (auto simp: storable_def intro!: size64.field_roundtrip sizes_ok_64)
  from a show "cut_off (encode E a) (deserialize_field E)"
    by (auto simp: storable_def intro!: size64.field_cut_off sizes_ok_64)
qed

end
