(* ===== verification/Mym_Zlib.thy ===== *)
theory Mym_Zlib
  imports Mym_Bytes Mym_Decimal
begin

text \<open>
  The compression step that the MYSQL command and the serialize command apply to every field
  (\<open>src/src/mym.cpp\<close>, the two copies of the block after "compress field"), with the decision
  whether the gain is worth it computed in single precision as the code does. zlib is not part of
  the repository: \<open>compressBound\<close>, \<open>compress\<close> and \<open>uncompress\<close> are parameters, and \<open>zlib_api\<close>
  states what its manual promises of them.
\<close>

section \<open>zlib\<close>

text \<open>
  \<open>z_compress cap x\<close> and \<open>z_uncompress cap n src\<close> return what is written to the destination, of
  which \<open>cap\<close> bytes are available, or \<open>None\<close> for any result other than \<open>Z_OK\<close>; \<open>n\<close> is the source
  length that the caller states.
\<close>

record zlib =
  z_bound :: "nat \<Rightarrow> nat"
  z_compress :: "nat \<Rightarrow> byte list \<Rightarrow> byte list option"
  z_uncompress :: "nat \<Rightarrow> nat \<Rightarrow> byte list \<Rightarrow> byte list option"

definition zlib_api :: "zlib \<Rightarrow> bool" where
  "zlib_api Z \<longleftrightarrow>
     (\<forall>cap x. z_bound Z (length x) \<le> cap \<longrightarrow> z_compress Z cap x \<noteq> None)
   \<and> (\<forall>cap x out. z_compress Z cap x = Some out \<longrightarrow> length out \<le> cap \<and> out \<noteq> [])
   \<and> (\<forall>cap x out room n rest. z_compress Z cap x = Some out \<longrightarrow> length x \<le> room
        \<longrightarrow> length out \<le> n \<longrightarrow> z_uncompress Z room n (out @ rest) = Some x)"

lemma zlib_uncompress:
  "zlib_api Z \<Longrightarrow> z_compress Z cap x = Some out \<Longrightarrow> length x \<le> room \<Longrightarrow> length out \<le> n \<Longrightarrow>
   z_uncompress Z room n (out @ rest) = Some x"
  by (simp add: zlib_api_def)

section \<open>Single precision\<close>

text \<open>
  The scale of the quotient \<open>n / d\<close>: \<open>n 2^u / (d 2^v)\<close> lies between \<open>2^23\<close> and \<open>2^24\<close>, the
  significands of a normalised single precision number.
\<close>

definition fl_scale :: "nat \<Rightarrow> nat \<Rightarrow> nat \<times> nat" where
  "fl_scale n d = (let u = bits d + 24 - bits n; v = bits n - (bits d + 24) in
     if n * 2 ^ u < d * 2 ^ v * 2 ^ 24 then (u, v)
     else if 0 < u then (u - 1, v) else (u, v + 1))"

text \<open>\<open>fl_div n d\<close> is the single precision quotient, as numerator and denominator.\<close>

definition fl_div :: "nat \<Rightarrow> nat \<Rightarrow> nat \<times> nat" where
  "fl_div n d = (let (u, v) = fl_scale n d
                 in (round_half_even (n * 2 ^ u) (d * 2 ^ v) * 2 ^ v, 2 ^ u))"

text \<open>Conversion of an integer to single precision.\<close>

definition fl_nat :: "nat \<Rightarrow> nat" where
  "fl_nat n = (let (a, b) = fl_div n 1 in a div b)"

definition fl_less :: "nat \<times> nat \<Rightarrow> nat \<times> nat \<Rightarrow> bool" where
  "fl_less x y \<longleftrightarrow> fst x * snd y < fst y * snd x"

subsection \<open>Rounding errors\<close>

lemma fl_scale_large:
  assumes "0 < n" "0 < d" "fl_scale n d = (u, v)"
  shows "2 ^ 23 * (d * 2 ^ v) \<le> n * 2 ^ u"
proof -
  let ?k = "bits n" and ?l = "bits d"
  have n: "2 ^ (?k - 1) \<le> n" "0 < ?k" and d: "d < 2 ^ ?l" "0 < ?l"
    using bits_bounds assms by auto
  let ?u = "?l + 24 - ?k" and ?v = "?k - (?l + 24)"
  have "(?k - 1) + ?u = 23 + (?l + ?v)" using n(2) by simp
  then have pow: "(2::nat) ^ (?k - 1) * 2 ^ ?u = 2 ^ 23 * (2 ^ ?l * 2 ^ ?v)"
    by (simp only: power_add [symmetric])
  have big: "2 ^ 23 * (d * 2 ^ ?v) \<le> n * 2 ^ ?u"
  proof -
    have "2 ^ 23 * (d * 2 ^ ?v) \<le> 2 ^ 23 * (2 ^ ?l * 2 ^ ?v)"
      using d(1) by simp
    also have "\<dots> = 2 ^ (?k - 1) * 2 ^ ?u" using pow by simp
    also have "\<dots> \<le> n * 2 ^ ?u" using n(1) by simp
    finally show ?thesis .
  qed
  show ?thesis
  proof (cases "n * 2 ^ ?u < d * 2 ^ ?v * 2 ^ 24")
    case True
    with big assms(3) show ?thesis by (simp add: fl_scale_def Let_def)
  next
    case False
    then have ge: "d * 2 ^ ?v * 2 ^ 24 \<le> n * 2 ^ ?u" by simp
    show ?thesis
    proof (cases ?u)
      case 0
      with False ge assms(3) show ?thesis by (auto simp: fl_scale_def Let_def)
    next
      case (Suc w)
      with False ge assms(3) show ?thesis by (auto simp: fl_scale_def Let_def)
    qed
  qed
qed

lemma fl_div_error:
  assumes "0 < n" "0 < d" "fl_div n d = (a, b)"
  shows "2 ^ 24 * (a * d) \<le> (2 ^ 24 + 1) * (n * b)" "(2 ^ 24 - 1) * (n * b) \<le> 2 ^ 24 * (a * d)"
    and "0 < b"
proof -
  obtain u v where s: "fl_scale n d = (u, v)" by fastforce
  let ?N = "n * 2 ^ u" and ?D = "d * 2 ^ v"
  have ab: "a = round_half_even ?N ?D * 2 ^ v" "b = 2 ^ u"
    using assms(3) s by (auto simp: fl_div_def)
  have ad: "a * d = round_half_even ?N ?D * ?D" and nb: "n * b = ?N"
    by (simp_all add: ab)
  have "0 < ?D" using assms(2) by simp
  note err = round_half_even_error [OF this, of ?N]
  have large: "2 ^ 23 * ?D \<le> ?N" using fl_scale_large [OF assms(1,2) s] .
  show "2 ^ 24 * (a * d) \<le> (2 ^ 24 + 1) * (n * b)" "(2 ^ 24 - 1) * (n * b) \<le> 2 ^ 24 * (a * d)"
    unfolding ad nb using err large by simp_all
  show "0 < b" by (simp add: ab)
qed

lemma fl_scale_one_side: "fl_scale n d = (u, v) \<Longrightarrow> u = 0 \<or> v = 0"
  by (auto simp: fl_scale_def Let_def split: if_splits)

lemma fl_nat_exact_div:
  assumes "fl_div n 1 = (a, b)"
  shows "a = fl_nat n * b"
proof -
  obtain u v where s: "fl_scale n 1 = (u, v)" by fastforce
  have ab: "a = round_half_even (n * 2 ^ u) (2 ^ v) * 2 ^ v" "b = 2 ^ u"
    using assms s by (auto simp: fl_div_def)
  have "fl_nat n = a div b" by (simp add: fl_nat_def assms [unfolded One_nat_def])
  moreover from fl_scale_one_side [OF s] have "b dvd a"
    by (auto simp: ab round_half_even_1 [unfolded One_nat_def])
  ultimately show ?thesis by simp
qed

lemma fl_nat_small: "0 < n \<Longrightarrow> n < 2 ^ 24 \<Longrightarrow> fl_nat n = n"
proof -
  assume n: "0 < n" "n < 2 ^ 24"
  obtain u v where s: "fl_scale n 1 = (u, v)" by fastforce
  have "2 ^ (bits n - 1) < (2::nat) ^ 24" using bits_bounds [OF n(1)] n(2) by linarith
  then have "bits n - 1 < 24" by (rule power_less_imp_less_exp [rotated]) simp
  then have "bits n < 25" by simp
  moreover have "bits 1 = 1" by (simp add: bits.simps)
  ultimately have "v = 0" using s by (auto simp: fl_scale_def Let_def split: if_splits)
  with s show "fl_nat n = n"
    by (simp add: fl_nat_def fl_div_def round_half_even_1 [unfolded One_nat_def])
qed

lemma fl_nat_0 [simp]: "fl_nat 0 = 0"
proof -
  obtain u v where "fl_scale 0 1 = (u, v)" by fastforce
  then show ?thesis by (simp add: fl_nat_def fl_div_def round_half_even_def)
qed

lemma fl_nat_error: "100 * fl_nat n \<le> 101 * n" "99 * n \<le> 100 * fl_nat n"
proof -
  have "100 * fl_nat n \<le> 101 * n \<and> 99 * n \<le> 100 * fl_nat n"
  proof (cases "n = 0")
    case False
    obtain a b where ab: "fl_div n 1 = (a, b)" by fastforce
    note e = fl_div_error [OF _ _ ab] and a = fl_nat_exact_div [OF ab]
    have "2 ^ 24 * fl_nat n * b \<le> (2 ^ 24 + 1) * n * b"
      and "(2 ^ 24 - 1) * n * b \<le> 2 ^ 24 * fl_nat n * b" and "0 < b"
      using e False by (simp_all add: a ac_simps)
    then have "2 ^ 24 * fl_nat n \<le> (2 ^ 24 + 1) * n" "(2 ^ 24 - 1) * n \<le> 2 ^ 24 * fl_nat n"
      by simp_all
    then show ?thesis by simp
  qed simp
  then show "100 * fl_nat n \<le> 101 * n" "99 * n \<le> 100 * fl_nat n" by simp_all
qed

section \<open>The compression step\<close>

definition ZLIB_ID :: "byte list" where "ZLIB_ID = bytes_of ''ZL123''"
definition LEN_ZLIB_ID :: nat where "LEN_ZLIB_ID = length ZLIB_ID"
definition MIN_LEN_ZLIB :: nat where "MIN_LEN_ZLIB = 1000"

text \<open>\<open>1.1f\<close>, the single precision number nearest to 11 / 10.\<close>

definition MIN_CMP_RATE_ZLIB :: "nat \<times> nat" where
  "MIN_CMP_RATE_ZLIB = fl_div 11 10"

definition fl_add :: "nat \<Rightarrow> nat \<Rightarrow> nat" where
  "fl_add x y = fl_nat (x + y)"

text \<open>\<open>plen[i] / (LEN_ZLIB_ID + 1.f + sizeof (_uint64) + len)\<close>\<close>

definition cmp_rate :: "nat \<Rightarrow> nat \<Rightarrow> nat \<times> nat" where
  "cmp_rate plen len =
     fl_div (fl_nat plen) (fl_add (fl_add (fl_add (fl_nat LEN_ZLIB_ID) 1) (fl_nat 8)) (fl_nat len))"

text \<open>
  One iteration for a field \<open>pd\<close>: the new bytes of the field and the new size of the scratch buffer
  \<open>pcmp\<close>, which is enlarged when zlib asks for more. \<open>err\<close> is the error of the command the block
  belongs to.
\<close>

definition compress_field ::
  "zlib \<Rightarrow> merror \<Rightarrow> bool \<Rightarrow> nat \<Rightarrow> byte list \<Rightarrow> (byte list \<times> nat) res" where
  "compress_field Z err pec cmp_buf_len pd =
    (if pec \<and> MIN_LEN_ZLIB < length pd
     then let max_len = z_bound Z (length pd);
              cmp_buf_len = (if cmp_buf_len < max_len then max_len else cmp_buf_len)
          in case z_compress Z cmp_buf_len pd of
               None \<Rightarrow> Inl err
             | Some pcmp \<Rightarrow>
                 if fl_less MIN_CMP_RATE_ZLIB (cmp_rate (length pd) (length pcmp))
                 then let len_old = length pd;
                          plen = LEN_ZLIB_ID + 1 + 8 + length pcmp
                      in bindE (emit plen [] ZLIB_ID) (\<lambda>w.
                         bindE (emit plen w [0]) (\<lambda>w.
                         bindE (WRITE_UINT64 plen w (word_of_nat len_old)) (\<lambda>w.
                         bindE (emit plen w pcmp) (\<lambda>w. Inr (w, cmp_buf_len)))))
                 else Inr (pd, cmp_buf_len)
     else Inr (pd, cmp_buf_len))"

lemma zlib_id_values: "ZLIB_ID = [90, 76, 49, 50, 51]" "LEN_ZLIB_ID = 5"
  by (simp_all add: ZLIB_ID_def LEN_ZLIB_ID_def bytes_of_def)

definition packed_image :: "byte list \<Rightarrow> byte list \<Rightarrow> byte list" where
  "packed_image pd pcmp = ZLIB_ID @ [0] @ uint64_bytes (word_of_nat (length pd)) @ pcmp"

lemma packed_image_emits:
  "bindE (emit (LEN_ZLIB_ID + 1 + 8 + length pcmp) [] ZLIB_ID) (\<lambda>w.
   bindE (emit (LEN_ZLIB_ID + 1 + 8 + length pcmp) w [0]) (\<lambda>w.
   bindE (WRITE_UINT64 (LEN_ZLIB_ID + 1 + 8 + length pcmp) w (word_of_nat (length pd))) (\<lambda>w.
   bindE (emit (LEN_ZLIB_ID + 1 + 8 + length pcmp) w pcmp) (\<lambda>w. Inr (w, n))))) =
   Inr (packed_image pd pcmp, n)"
  by (simp add: WRITE_UINT64_def packed_image_def zlib_id_values)

lemma compress_field_eq:
  fixes Z n pd
  defines "n' \<equiv> if n < z_bound Z (length pd) then z_bound Z (length pd) else n"
  assumes "pec \<and> MIN_LEN_ZLIB < length pd"
  shows "compress_field Z err pec n pd = (case z_compress Z n' pd of None \<Rightarrow> Inl err
     | Some pcmp \<Rightarrow> if fl_less MIN_CMP_RATE_ZLIB (cmp_rate (length pd) (length pcmp))
         then Inr (packed_image pd pcmp, n') else Inr (pd, n'))"
  using assms(2) by (simp only: compress_field_def Let_def packed_image_emits n'_def if_True simp_thms)

lemma compress_field_skip:
  "\<not> (pec \<and> MIN_LEN_ZLIB < length pd) \<Longrightarrow> compress_field Z err pec n pd = Inr (pd, n)"
  by (simp only: compress_field_def if_False)

text \<open>The two outcomes of a successful step.\<close>

lemma compress_field_cases:
  assumes "compress_field Z err pec n pd = Inr (pd', n')"
  obtains (plain) "pd' = pd"
  | (packed) pcmp where "z_compress Z n' pd = Some pcmp" "pd' = packed_image pd pcmp"
      "MIN_LEN_ZLIB < length pd"
      "fl_less MIN_CMP_RATE_ZLIB (cmp_rate (length pd) (length pcmp))"
proof (cases "pec \<and> MIN_LEN_ZLIB < length pd")
  case True
  let ?n = "if n < z_bound Z (length pd) then z_bound Z (length pd) else n"
  have step: "(case z_compress Z ?n pd of None \<Rightarrow> Inl err
     | Some pcmp \<Rightarrow> if fl_less MIN_CMP_RATE_ZLIB (cmp_rate (length pd) (length pcmp))
         then Inr (packed_image pd pcmp, ?n) else Inr (pd, ?n)) = Inr (pd', n')"
    using assms True compress_field_eq [of pec pd Z err n] by simp
  show ?thesis
  proof (cases "z_compress Z ?n pd")
    case None
    with step show ?thesis by simp
  next
    case (Some pcmp)
    show ?thesis
    proof (cases "fl_less MIN_CMP_RATE_ZLIB (cmp_rate (length pd) (length pcmp))")
      case gt: True
      with step Some have "pd' = packed_image pd pcmp" "n' = ?n" by simp_all
      with Some gt True show ?thesis by (intro packed [of pcmp]) simp_all
    next
      case False
      with step Some have "pd' = pd" by simp
      then show ?thesis by (rule plain)
    qed
  qed
next
  case False
  from compress_field_skip [OF this] assms have "pd' = pd" by simp
  then show ?thesis by (rule plain)
qed

lemma compress_field_total:
  assumes "zlib_api Z"
  obtains pd' n' where "compress_field Z err pec n pd = Inr (pd', n')"
proof -
  let ?n = "if n < z_bound Z (length pd) then z_bound Z (length pd) else n"
  have "z_bound Z (length pd) \<le> ?n" by simp
  then obtain pcmp where pcmp: "z_compress Z ?n pd = Some pcmp"
    using assms unfolding zlib_api_def by blast
  have "\<exists>pd' n'. compress_field Z err pec n pd = Inr (pd', n')"
  proof (cases "pec \<and> MIN_LEN_ZLIB < length pd")
    case True
    with pcmp show ?thesis by (simp add: compress_field_eq)
  next
    case False
    from compress_field_skip [OF this] show ?thesis by blast
  qed
  with that show ?thesis by blast
qed

subsection \<open>A field never grows\<close>

lemma min_rate_bound: "MIN_CMP_RATE_ZLIB = (9227469 * 2 ^ 0, 2 ^ 23)"
proof -
  have "bits 1 = 1" by (simp add: bits.simps [of 0] bits.simps [of "Suc 0"])
  then have "bits 2 = 2" by (simp add: bits.simps [of 2])
  then have "bits 5 = 3" by (simp add: bits.simps [of 5])
  then have "bits 10 = 4" "bits 11 = 4" by (simp_all add: bits.simps [of 10] bits.simps [of 11])
  then have "fl_scale 11 10 = (23, 0)" by (simp add: fl_scale_def)
  then show ?thesis by (simp add: MIN_CMP_RATE_ZLIB_def fl_div_def round_half_even_def)
qed

lemma rate_arith:
  fixes P D L m :: nat
  assumes "99 * (14 + L) \<le> 100 * D" "99 * len \<le> 100 * L" "100 * P \<le> 101 * m" "m \<le> 14 + len"
  shows "9801 * P \<le> 10201 * D"
proof -
  have "9801 * (14 + len) \<le> 9900 * (14 + L)" using assms(2) by (simp add: distrib_left)
  then have "9801 * (14 + len) \<le> 10000 * D" using assms(1) by (simp add: distrib_left)
  then have "9801 * m \<le> 10000 * D" using assms(4) by simp
  then show ?thesis using assms(3) by simp
qed

lemma quotient_arith:
  fixes X Y W :: nat
  assumes "2 ^ 24 * X \<le> (2 ^ 24 + 1) * Y" "9801 * Y \<le> 10201 * W"
  shows "980100 * X \<le> 1030301 * W"
  using assms by simp

lemma rate_gt_imp_smaller:
  assumes "fl_less MIN_CMP_RATE_ZLIB (cmp_rate plen len)"
  shows "LEN_ZLIB_ID + 1 + 8 + len < plen"
proof (rule ccontr)
  assume "\<not> LEN_ZLIB_ID + 1 + 8 + len < plen"
  then have plen: "plen \<le> 14 + len" by (simp add: zlib_id_values)
  let ?P = "fl_nat plen" and ?L = "fl_nat len"
  let ?D = "fl_nat (14 + ?L)"
  have rate: "cmp_rate plen len = fl_div ?P ?D"
    by (simp add: cmp_rate_def fl_add_def zlib_id_values fl_nat_small)
  obtain a b where ab: "fl_div ?P ?D = (a, b)" by fastforce
  have gt: "9227469 * b < a * 8388608"
    using assms by (simp add: rate ab fl_less_def min_rate_bound)
  have D: "99 * (14 + ?L) \<le> 100 * ?D" and L: "99 * len \<le> 100 * ?L" and P: "100 * ?P \<le> 101 * plen"
    by (rule fl_nat_error)+
  have "?P \<noteq> 0"
  proof
    assume "?P = 0"
    then have "a = 0" using ab by (auto simp: fl_div_def round_half_even_def split: prod.splits)
    with gt show False by simp
  qed
  then have pos: "0 < ?P" "0 < ?D" using D by simp_all
  note e = fl_div_error [OF pos ab]
  have "9801 * ?P \<le> 10201 * ?D" using rate_arith [OF D L P plen] .
  then have "9801 * (?P * b) \<le> 10201 * (?D * b)"
    using mult_le_mono1 [of "9801 * ?P" "10201 * ?D" b] by (simp only: mult.assoc)
  from quotient_arith [OF e(1) this] have "(980100 * a) * ?D \<le> (1030301 * b) * ?D"
    by (simp only: ac_simps)
  then have "980100 * a \<le> 1030301 * b" using pos(2) by (simp only: mult_le_cancel2)
  with gt e(3) show False by linarith
qed

lemma compress_field_shrinks:
  assumes "compress_field Z err pec n pd = Inr (pd', n')"
  shows "length pd' \<le> length pd"
  using assms
proof (cases rule: compress_field_cases)
  case (packed pcmp)
  then have "length pd' = LEN_ZLIB_ID + 1 + 8 + length pcmp"
    by (simp add: packed_image_def zlib_id_values)
  with rate_gt_imp_smaller [OF packed(4)] show ?thesis by simp
qed simp

end
