(* ===== verification/Mym_Blob.thy ===== *)
theory Mym_Blob
  imports Mym_BlobLaws Mym_Zlib
begin

text \<open>
  \<open>deserialize\<close> of \<open>src/src/mym.cpp\<close>, the entry point for every BLOB that is fetched and for the
  deserialize command: undo the compression if there was one, refuse the dj0 format, and read a
  serialized value or fall back to the raw bytes. A blob is a pointer into memory together with its
  stated length; \<open>None\<close> is the NULL pointer of an SQL NULL.
\<close>

section \<open>The code\<close>

text \<open>The header \<open>mym.h\<close> turns \<open>strcasecmp\<close> into \<open>strcmp\<close> on Windows.\<close>

definition strcasecmp_on :: "mexenv \<Rightarrow> byte list \<Rightarrow> byte list \<Rightarrow> bool res" where
  "strcasecmp_on E p lit = (if on_windows E then strcmp_eq p lit else strcasecmp_eq p lit)"

text \<open>
  \<open>mxCalloc (len)\<close>, then \<open>uncompress\<close> into it; the stated source length is that of the whole blob
  although the source pointer has been advanced past the header.
\<close>

definition unpack :: "mexenv \<Rightarrow> zlib \<Rightarrow> byte list \<Rightarrow> nat \<Rightarrow> (byte list \<times> nat) res" where
  "unpack E Z rpSerial rlength =
     bindE (strcmp_eq rpSerial ZLIB_ID) (\<lambda>compressed.
     if compressed
     then bindE (READ_UINT (use32bitdims E) (drop (LEN_ZLIB_ID + 1) rpSerial)) (\<lambda>(len, p_serial).
          case z_uncompress Z (unat (len AND 0xFFFFFFFF)) rlength p_serial of
            Some out \<Rightarrow> Inr (out @ zeros (unat len - length out), unat len)
          | None \<Rightarrow> Inr (rpSerial, rlength))
     else Inr (rpSerial, rlength))"

text \<open>"we return a memory dump in UINT8 format"\<close>

definition memory_dump :: "mexenv \<Rightarrow> byte list \<Rightarrow> nat \<Rightarrow> mxArray res" where
  "memory_dump E p_serial n =
     bindE (create_numeric E [word_of_nat n, 1] (class_code E mxUINT8_CLASS) (complexity_code E mxREAL))
       (\<lambda>p_res. bindE (memread n p_serial) (\<lambda>(d, _). put_data d p_res))"

text \<open>\<open>try { ... } catch (...)\<close>: stops a MATLAB error if that is an exception.\<close>

definition try_catch :: "mexenv \<Rightarrow> 'a res \<Rightarrow> 'a \<Rightarrow> 'a res" where
  "try_catch E m h = (case m of
     Inl e \<Rightarrow> if catches E \<and> \<not> is_undefined m then Inr h else Inl e
   | Inr x \<Rightarrow> Inr x)"

definition known_ids :: "byte list" where
  "known_ids = [ID_ARRAY, ID_SPARSE, ID_STRUCT, ID_CELL]"

text \<open>The part inside the try block: \<open>None\<close> when \<open>could_not_deserialize\<close> is set again.\<close>

definition deserialize_body :: "mexenv \<Rightarrow> byte list \<Rightarrow> (mxArray option \<times> byte list) res" where
  "deserialize_body E p_serial =
     bindE (memread 1 p_serial) (\<lambda>(b, _).
     if hd b \<in> set known_ids
     then bindE (deserialize_field E p_serial) (\<lambda>a. Inr (Some a, p_serial))
     else Inr (None, p_serial))"

definition dj0_msg :: string where
  "dj0_msg = ''Blob data ingested utilizing DataJoint-Python version >=0.12 not yet supported.''"

definition deserialize :: "mexenv \<Rightarrow> zlib \<Rightarrow> byte list option \<Rightarrow> nat \<Rightarrow> mxArray res" where
  "deserialize E Z rpSerial rlength = (case rpSerial of
     None \<Rightarrow> create_numeric E [] (class_code E mxCHAR_CLASS) (complexity_code E mxREAL)
   | Some p \<Rightarrow>
       bindE (unpack E Z p rlength) (\<lambda>(p_serial, len).
       bindE (strcasecmp_on E p_serial (bytes_of ''dj0'')) (\<lambda>dj0.
       if dj0 then mexErrMsgIdAndTxt ''mYm:CrossPlatform:Compatibility'' dj0_msg
       else bindE (strcmp_eq p_serial ID_MATLAB) (\<lambda>mym.
       if mym
       then bindE (try_catch E (deserialize_body E (drop (LEN_ID_MATLAB + 1) p_serial)) (None, p))
              (\<lambda>(r, p_serial). case r of Some a \<Rightarrow> Inr a | None \<Rightarrow> memory_dump E p_serial len)
       else memory_dump E p_serial len))))"

section \<open>Laws\<close>

lemma strcmp_eq_other:
  "length lit < length p \<Longrightarrow> \<forall>q. p \<noteq> lit @ 0 # q \<Longrightarrow> strcmp_eq p lit = Inr False"
  by (induction p lit rule: strcmp_eq.induct) auto

lemma unpack_mym [simp]: "unpack E Z (109 # p) n = Inr (109 # p, n)"
  by (simp add: unpack_def zlib_id_values)

lemma and_low32: "(w :: mwSize) AND 0xFFFFFFFF = take_bit 32 w"
  using take_bit_eq_mask [of 32 w] by (simp add: mask_eq_exp_minus_1)

lemma unpack_packed:
  assumes "zlib_api Z" and "\<not> use32bitdims E" and "z_compress Z cap pd = Some pcmp"
    and len: "length pd < 2 ^ 32" and "length pcmp \<le> n"
  shows "unpack E Z (packed_image pd pcmp @ tail) n = Inr (pd, length pd)"
proof -
  let ?len = "word_of_nat (length pd) :: mwSize"
  have "unat (?len AND 0xFFFFFFFF) = length pd" and "unat ?len = length pd"
    using len by (simp_all add: and_low32 unsigned_take_bit_eq unat_of_nat take_bit_nat_eq_self)
  with assms show ?thesis
    by (simp add: unpack_def packed_image_def zlib_id_values zlib_uncompress zeros_def)
qed

lemma head_image_True: "head_image True = [109, 89, 109, 0]"
  by (simp add: head_image_def id_values)

lemma strcasecmp_on_mym [simp]: "strcasecmp_on E (109 # p) (bytes_of ''dj0'') = Inr False"
  by (simp add: strcasecmp_on_def bytes_of_def tolower_def)

lemma encode_first: "mx_ok E a \<Longrightarrow> \<exists>b s. encode E a = b # s \<and> b \<in> set known_ids"
  by (cases a) (simp_all add: array_image_def sparse_image_def struct_image_def cell_image_def
      known_ids_def)

lemma deserialize_body_encode:
  assumes "storable E a"
  shows "deserialize_body E (encode E a @ q) = Inr (Some (canon a), encode E a @ q)"
proof -
  obtain b s where "encode E a = b # s" "b \<in> set known_ids"
    using encode_first [of E a] assms unfolding storable_def by blast
  then show ?thesis
    using blob.dec_enc [OF assms, of q]
    by (simp add: deserialize_body_def memread_def del: deserialize_field.simps)
qed

lemma deserialize_header:
  "deserialize E Z (Some (head_image True @ p)) n =
     bindE (try_catch E (deserialize_body E p) (None, head_image True @ p))
       (\<lambda>(r, p_serial). case r of Some a \<Rightarrow> Inr a | None \<Rightarrow> memory_dump E p_serial n)"
  by (simp add: deserialize_def head_image_True id_values)

lemma deserialize_plain:
  assumes "storable E a"
  shows "deserialize E Z (Some (head_image True @ encode E a @ tail)) n = Inr (canon a)"
  using deserialize_body_encode [OF assms]
  by (simp only: deserialize_header) (simp add: try_catch_def)

text \<open>The stored form of a value as the {M} placeholder leaves it, compressed or not.\<close>

definition stored :: "mexenv \<Rightarrow> mxArray \<Rightarrow> byte list" where
  "stored E a = head_image True @ encode E a"

lemma deserialize_packed:
  assumes "zlib_api Z" and a: "storable E a" and "z_compress Z cap (stored E a) = Some pcmp"
    and "length (stored E a) < 2 ^ 32" and "length pcmp \<le> n"
  shows "deserialize E Z (Some (packed_image (stored E a) pcmp @ tail)) n = Inr (canon a)"
proof -
  have unp: "unpack E Z (packed_image (stored E a) pcmp @ tail) n =
      Inr (stored E a, length (stored E a))"
    using assms by (intro unpack_packed) (simp_all add: storable_def)
  have mym: "strcmp_eq (stored E a) ID_MATLAB = Inr True"
      "strcasecmp_on E (stored E a) (bytes_of ''dj0'') = Inr False"
      "drop (Suc LEN_ID_MATLAB) (stored E a) = encode E a"
    by (simp_all add: stored_def head_image_True id_values)
  show ?thesis
    using deserialize_body_encode [OF a, of "[]"]
    by (simp add: deserialize_def unp mym try_catch_def)
qed

text \<open>Whatever the compression step decided, the value comes back.\<close>

lemma deserialize_compressed:
  assumes Z: "zlib_api Z" and a: "storable E a" and small: "length (stored E a) < 2 ^ 32"
    and c: "compress_field Z err pec cap (stored E a) = Inr (blob, cap')"
  shows "deserialize E Z (Some (blob @ tail)) (length blob) = Inr (canon a)"
  using c
proof (cases rule: compress_field_cases)
  case plain
  then show ?thesis using deserialize_plain [OF a] by (simp add: stored_def)
next
  case (packed pcmp)
  then show ?thesis
    using deserialize_packed [OF Z a packed(1) small] by (simp add: packed_image_def)
qed

section \<open>Blobs that are not serialized values\<close>

text \<open>\<open>unmarked\<close>: none of the three markers that \<open>deserialize\<close> looks for is at the pointer.\<close>

definition unmarked :: "mexenv \<Rightarrow> byte list \<Rightarrow> bool" where
  "unmarked E p \<longleftrightarrow> strcmp_eq p ZLIB_ID = Inr False
     \<and> strcasecmp_on E p (bytes_of ''dj0'') = Inr False \<and> strcmp_eq p ID_MATLAB = Inr False"

lemma memory_dump_ok:
  assumes E: "matlab_api E" and n: "n < 2 ^ 64" "n \<le> length p"
  shows "memory_dump E p n = Inr (MxDense [word_of_nat n, 1] mxUINT8_CLASS (take n p) None)"
proof -
  have "dims_ok [word_of_nat n, 1]" by (simp add: dims_ok_def INT_MAX_def)
  moreover have "nelems [word_of_nat n, 1] = n"
    using n(1) by (simp add: nelems_def unat_of_nat)
  ultimately show ?thesis
    using n(2) matlab_uint8_size [OF E]
    by (simp add: memory_dump_def matlab_create_numeric [OF E] plain_class_def numeric_class_def
        memread_def if_complex_def)
qed

lemma memory_dump_short:
  assumes E: "matlab_api E" and n: "n < 2 ^ 64" "length p < n"
  shows "memory_dump E p n = undefined_behaviour Read_out_of_bounds"
proof -
  have "dims_ok [word_of_nat n, 1]" by (simp add: dims_ok_def INT_MAX_def)
  then show ?thesis
    using n(2) by (simp add: memory_dump_def matlab_create_numeric [OF E] plain_class_def
        numeric_class_def memread_short)
qed

lemma deserialize_unmarked:
  assumes "matlab_api E" and "unmarked E p" and "n < 2 ^ 64" "n \<le> length p"
  shows "deserialize E Z (Some p) n = Inr (MxDense [word_of_nat n, 1] mxUINT8_CLASS (take n p) None)"
  using assms by (simp add: deserialize_def unpack_def unmarked_def memory_dump_ok)

lemma deserialize_dj0:
  assumes "map tolower d = bytes_of ''dj0''" and "\<not> on_windows E"
  shows "deserialize E Z (Some (d @ 0 # p)) n =
     mexErrMsgIdAndTxt ''mYm:CrossPlatform:Compatibility'' dj0_msg"
proof -
  obtain x y z where d: "d = [x, y, z]" and "tolower x = 100" "tolower y = 106" "tolower z = 48"
    using assms(1) by (auto simp: bytes_of_def map_eq_Cons_conv)
  then have "x \<noteq> 90" and "strcasecmp_eq (d @ 0 # p) (bytes_of ''dj0'') = Inr True"
    by (auto simp: bytes_of_def tolower_def)
  then show ?thesis
    using assms(2) d by (simp add: deserialize_def unpack_def zlib_id_values strcasecmp_on_def)
qed

text \<open>
  A blob with the marker of a serialized value but an unknown type byte: the pointer stays behind
  the marker, the length does not shrink, and the dump reads past the end of the column.
\<close>

lemma deserialize_unknown_id:
  assumes "matlab_api E" and "b \<notin> set known_ids" and "n = length (head_image True @ b # p)"
    and "n < 2 ^ 64" and "length tail < 4"
  shows "deserialize E Z (Some (head_image True @ b # p @ tail)) n =
     undefined_behaviour Read_out_of_bounds"
  using assms by (simp only: deserialize_header)
    (simp add: deserialize_body_def memread_def try_catch_def memory_dump_short head_image_True)

text \<open>Truncated blobs: no length of a proper prefix saves the readers.\<close>

lemma deserialize_body_cut: 
  assumes "storable E a"
  shows "cut_off (encode E a) (deserialize_body E)"
proof (rule cut_offI)
  fix m
  assume m: "m < length (encode E a)"
  obtain b s where bs: "encode E a = b # s" "b \<in> set known_ids"
    using encode_first [of E a] assms unfolding storable_def by blast
  show "deserialize_body E (take m (encode E a)) = undefined_behaviour Read_out_of_bounds"
  proof (cases m)
    case 0
    then show ?thesis by (simp add: deserialize_body_def memread_def)
  next
    case (Suc k)
    have "deserialize_field E (take m (encode E a)) = undefined_behaviour Read_out_of_bounds"
      using cut_offD [OF blob.cut_enc [OF assms] m] .
    then show ?thesis
      using bs Suc by (simp add: deserialize_body_def memread_def del: deserialize_field.simps)
  qed
qed

lemma deserialize_cut:
  assumes a: "storable E a" and k: "k < length (stored E a)"
  shows "deserialize E Z (Some (take k (stored E a))) n = undefined_behaviour Read_out_of_bounds"
proof (cases "k < 4")
  case True
  then have "k = 0 \<or> k = 1 \<or> k = 2 \<or> k = 3" by auto
  then show ?thesis
    by (auto simp: stored_def head_image_True deserialize_def unpack_def zlib_id_values id_values
        strcasecmp_on_def bytes_of_def tolower_def)
next
  case False
  then obtain j where "k = 4 + j" using le_Suc_ex [of 4 k] by auto
  then have "k = Suc (Suc (Suc (Suc j)))" by simp
  then have "take k (stored E a) = head_image True @ take (k - 4) (encode E a)"
    by (simp add: stored_def head_image_True)
  moreover have "deserialize_body E (take (k - 4) (encode E a)) = undefined_behaviour Read_out_of_bounds"
    using cut_offD [OF deserialize_body_cut [OF a]] k False by (simp add: stored_def head_image_True)
  ultimately show ?thesis by (simp add: deserialize_header try_catch_def)
qed

end
