(* ===== verification/Mym_Placeholder.thy ===== *)
theory Mym_Placeholder
  imports Mym_CString Mym_Text Mym_Blob
begin

text \<open>
  Placeholders: how a query with {M}, {S}, {B}, {F} and their variants is scanned, how the
  serializer of each placeholder is chosen (\<open>getSerialFct\<close>), and how the arguments are serialized
  and compressed. The code exists twice in \<open>mexFunction\<close> of \<open>src/src/mym.cpp\<close>, for MySQL commands
  and for the serialize command; the two copies differ in the errors they raise.

  A query is a C string and given by the bytes before its NUL; a pointer into it is an offset.
\<close>

section \<open>The code\<close>

definition PH_OPEN :: "byte list" where "PH_OPEN = bytes_of ''{''"
definition PH_CLOSE :: "byte list" where "PH_CLOSE = bytes_of ''}''"
definition PH_BINARY :: byte where "PH_BINARY = of_char (CHR ''B'')"
definition PH_FILE :: byte where "PH_FILE = of_char (CHR ''F'')"
definition PH_MATLAB :: byte where "PH_MATLAB = of_char (CHR ''M'')"
definition PH_STRING :: byte where "PH_STRING = of_char (CHR ''S'')"
definition PRE_NO_COMPRESSION :: byte where "PRE_NO_COMPRESSION = of_char (CHR ''u'')"

lemma ph_values:
  "PH_OPEN = [123]" "PH_CLOSE = [125]" "PH_BINARY = 66" "PH_FILE = 70" "PH_MATLAB = 77"
  "PH_STRING = 83" "PRE_NO_COMPRESSION = 117"
  by (simp_all add: PH_OPEN_def PH_CLOSE_def PH_BINARY_def PH_FILE_def PH_MATLAB_def PH_STRING_def
      PRE_NO_COMPRESSION_def bytes_of_def)

text \<open>The functions a \<open>pfserial\<close> can point to.\<close>

datatype serial_fct =
    SerializeArray | SerializeCell | SerializeStruct | SerializeBinary | SerializeFile | SerializeString

definition binary_msg :: string where
  "binary_msg = ''Binary placeholders only accept UINT8 1-by-M or M-by-1 arrays!''"

definition file_msg :: string where
  "file_msg = ''String placeholders only accept CHAR 1-by-M or M-by-1 arrays!''"

text \<open>\<open>rpt\<close> points behind the opening brace. The results are \<open>rpf\<close> and \<open>rpec\<close>.\<close>

definition getSerialFct :: "byte list \<Rightarrow> mxArray \<Rightarrow> (serial_fct \<times> bool) res" where
  "getSerialFct rpt a =
    (let no_compression = (at0 rpt = PRE_NO_COMPRESSION);
         pt = (if no_compression then tl rpt else rpt)
     in bindE
       (if at0 pt = PH_MATLAB
        then if mxIsNumeric a \<or> mxIsChar a \<or> mxIsLogical a then Inr (SerializeArray, True)
             else if mxIsCell a then Inr (SerializeCell, True)
             else if mxIsStruct a then Inr (SerializeStruct, True)
             else mexErrMsgTxt ''Matlab placeholder only support array, structure, or cell''
        else if at0 pt = PH_BINARY \<or> at0 pt = PH_FILE
        then if at0 pt = PH_BINARY
             then bindE (not_vector a) (\<lambda>bad.
                  if bad \<or> \<not> mxIsClass a mxUINT8_CLASS then mexErrMsgTxt binary_msg
                  else Inr (SerializeBinary, True))
             else bindE (not_vector a) (\<lambda>bad.
                  if bad \<or> \<not> mxIsChar a then mexErrMsgTxt file_msg
                  else Inr (SerializeFile, True))
        else if at0 pt = PH_STRING then Inr (SerializeString, False)
        else mexErrMsgTxt ''Unknow placeholders!'')
       (\<lambda>(rpf, rpec). Inr (rpf, if no_compression then False else rpec)))"

text \<open>
  The loop that fills \<open>po\<close> and \<open>pc\<close>, from offset \<open>i\<close> on, for at most \<open>n\<close> more placeholders. Further
  ones in the query are not looked at.
\<close>

fun find_placeholders :: "merror \<Rightarrow> byte list \<Rightarrow> nat \<Rightarrow> nat \<Rightarrow> (nat \<times> nat) list res" where
  "find_placeholders unclosed query 0 i = Inr []"
| "find_placeholders unclosed query (Suc n) i =
     (case strstr_from query i PH_OPEN of
        None \<Rightarrow> Inr []
      | Some po \<Rightarrow> (case strstr_from query (po + 1) PH_CLOSE of
            None \<Rightarrow> Inl unclosed
          | Some pc \<Rightarrow> bindE (find_placeholders unclosed query n (pc + 1))
                         (\<lambda>r. Inr ((po, pc) # r))))"

text \<open>
  One placeholder: its offset \<open>po[i]\<close> and size \<open>ps[i]\<close>, the in-string argument \<open>pa[i]\<close> (which ends at
  the closing brace, where the code writes a NUL), \<open>pf[i]\<close> and \<open>pec[i]\<close>.
\<close>

record placeholder =
  ph_po :: nat
  ph_ps :: nat
  ph_pa :: "byte list"
  ph_pf :: serial_fct
  ph_pec :: bool

definition read_placeholder :: "byte list \<Rightarrow> nat \<times> nat \<Rightarrow> mxArray \<Rightarrow> placeholder res" where
  "read_placeholder query p a = (case p of (po, pc) \<Rightarrow>
     bindE (getSerialFct (drop (po + length PH_OPEN) query) a) (\<lambda>(pf, pec).
     Inr \<lparr>ph_po = po, ph_ps = pc - po + length PH_OPEN,
          ph_pa = take (pc - (po + length PH_OPEN + 1)) (drop (po + length PH_OPEN + 1) query),
          ph_pf = pf, ph_pec = pec\<rparr>))"

fun read_placeholders :: "byte list \<Rightarrow> (nat \<times> nat) list \<Rightarrow> mxArray list \<Rightarrow> placeholder list res" where
  "read_placeholders query (p # ps) (a # as) =
     bindE (read_placeholder query p a) (\<lambda>ph.
     bindE (read_placeholders query ps as) (\<lambda>phs. Inr (ph # phs)))"
| "read_placeholders query _ _ = Inr []"

text \<open>The call through \<open>pf[i]\<close>, with \<open>rhead\<close> true.\<close>

definition run_serial :: "mexenv \<Rightarrow> host \<Rightarrow> serial_fct \<Rightarrow> mxArray \<Rightarrow> byte list \<Rightarrow> byte list res" where
  "run_serial E H pf a pa = (case pf of
     SerializeArray \<Rightarrow> serializeArray E a True
   | SerializeCell \<Rightarrow> serializeCell E a True
   | SerializeStruct \<Rightarrow> serializeStruct E a True
   | SerializeBinary \<Rightarrow> serializeBinary a
   | SerializeFile \<Rightarrow> serializeFile H a
   | SerializeString \<Rightarrow> serializeString H a pa)"

text \<open>The loop "serialize individual field"; \<open>cap\<close> is \<open>cmp_buf_len\<close>.\<close>

fun serialize_fields_of ::
  "mexenv \<Rightarrow> host \<Rightarrow> zlib \<Rightarrow> merror \<Rightarrow> nat \<Rightarrow> placeholder list \<Rightarrow> mxArray list \<Rightarrow> byte list list res" where
  "serialize_fields_of E H Z err cap (ph # phs) (a # as) =
     bindE (run_serial E H (ph_pf ph) a (ph_pa ph)) (\<lambda>pd.
     bindE (compress_field Z err (ph_pec ph) cap pd) (\<lambda>(pd, cap).
     bindE (serialize_fields_of E H Z err cap phs as) (\<lambda>pds. Inr (pd # pds))))"
| "serialize_fields_of E H Z err cap _ _ = Inr []"

definition cmp_buf_len0 :: nat where
  "cmp_buf_len0 = 10000"

section \<open>Scanning a well-formed query\<close>

text \<open>A query as text segments, each followed by the inside of a placeholder, and a last segment.\<close>

type_synonym query_parts = "(byte list \<times> byte list) list"

fun query_text :: "query_parts \<Rightarrow> byte list \<Rightarrow> byte list" where
  "query_text [] rest = rest"
| "query_text ((seg, inner) # ps) rest = seg @ PH_OPEN @ inner @ PH_CLOSE @ query_text ps rest"

definition parts_ok :: "query_parts \<Rightarrow> bool" where
  "parts_ok ps \<longleftrightarrow> (\<forall>(seg, inner) \<in> set ps. 123 \<notin> set seg \<and> 125 \<notin> set inner)"

lemma parts_ok_simps [simp]:
  "parts_ok []"
  "parts_ok ((seg, inner) # ps) \<longleftrightarrow> 123 \<notin> set seg \<and> 125 \<notin> set inner \<and> parts_ok ps"
  by (auto simp: parts_ok_def)

fun positions :: "nat \<Rightarrow> query_parts \<Rightarrow> (nat \<times> nat) list" where
  "positions i [] = []"
| "positions i ((seg, inner) # ps) =
     (i + length seg, i + length seg + 1 + length inner)
     # positions (i + length seg + length inner + 2) ps"

lemma find_placeholders_parts:
  "parts_ok ps \<Longrightarrow> 123 \<notin> set rest \<or> n = length ps \<Longrightarrow> length ps \<le> n \<Longrightarrow>
   find_placeholders e (p @ query_text ps rest) n (length p) = Inr (positions (length p) ps)"
proof (induction ps arbitrary: n p)
  case Nil
  have "strstr_from (p @ rest) (length p) PH_OPEN = None" if "123 \<notin> set rest"
    using that by (simp add: ph_values strstr_from_char_None)
  with Nil show ?case by (cases n) auto
next
  case (Cons part ps)
  obtain seg inner where part: "part = (seg, inner)" by (cases part)
  obtain m where n: "n = Suc m" using Cons.prems by (cases n) auto
  let ?q = "p @ query_text (part # ps) rest"
  have o: "strstr_from ?q (length p) PH_OPEN = Some (length p + length seg)"
    using Cons.prems strstr_from_append [of 123 seg p] by (simp add: part ph_values)
  have c: "strstr_from ?q (length p + length seg + 1) PH_CLOSE = Some (length p + length seg + 1 + length inner)"
    using Cons.prems strstr_from_append [of 125 inner "p @ seg @ [123]"] by (simp add: part ph_values)
  have "find_placeholders e ((p @ seg @ PH_OPEN @ inner @ PH_CLOSE) @ query_text ps rest) m
      (length (p @ seg @ PH_OPEN @ inner @ PH_CLOSE)) =
    Inr (positions (length (p @ seg @ PH_OPEN @ inner @ PH_CLOSE)) ps)"
    using Cons.prems n by (intro Cons.IH) (auto simp: part)
  then show ?case
    using o c by (simp add: n part ph_values add.assoc)
qed

lemma length_positions [simp]: "length (positions i ps) = length ps"
  by (induction i ps rule: positions.induct) simp_all

text \<open>Whatever the query: the result has at most as many entries as there are arguments.\<close>

lemma find_placeholders_length: "find_placeholders e q n i = Inr ps \<Longrightarrow> length ps \<le> n"
  by (induction n arbitrary: i ps) (auto simp: bindE_eq_Inr split: option.splits)

text \<open>The positions are increasing and inside the query, and hold the braces.\<close>

fun placed :: "byte list \<Rightarrow> nat \<Rightarrow> (nat \<times> nat) list \<Rightarrow> bool" where
  "placed q i [] = True"
| "placed q i ((po, pc) # r) \<longleftrightarrow> i \<le> po \<and> po < pc \<and> pc < length q \<and> q ! po = 123 \<and> q ! pc = 125
     \<and> placed q (pc + 1) r"

lemma find_placeholders_placed: "find_placeholders e q n i = Inr ps \<Longrightarrow> placed q i ps"
proof (induction n arbitrary: i ps)
  case (Suc n)
  show ?case
  proof (cases "strstr_from q i PH_OPEN")
    case None
    then show ?thesis using Suc.prems by simp
  next
    case (Some po)
    then obtain pc r where pc: "strstr_from q (po + 1) PH_CLOSE = Some pc" and ps: "ps = (po, pc) # r"
        and "find_placeholders e q n (pc + 1) = Inr r"
      using Suc.prems by (auto simp: bindE_eq_Inr split: option.splits)
    then have "placed q (pc + 1) r" using Suc.IH by blast
    then show ?thesis using Some pc ps by (auto simp: ph_values strstr_from_char)
  qed
qed simp

end
