(* ===== verification/Mym_Query.thy ===== *)
theory Mym_Query
  imports Mym_Placeholder
begin

text \<open>
  From the arguments of a MySQL command to the text that is sent to the server: the branch \<open>CMD\<close> of
  \<open>mexFunction\<close> in \<open>src/src/mym.cpp\<close> up to \<open>mysql_query\<close>, with
  \<open>removeWhiteSpaceAtTheBeginning\<close>. \<open>mysql_real_escape_string\<close> belongs to the client library
  and is the parameter \<open>esc\<close>; \<open>escape_api\<close> is what the manual of MySQL says of it.
\<close>

section \<open>The code\<close>

subsection \<open>Query flags\<close>

definition ML_FLAG_BIGINT_TO_DOUBLE :: "byte list" where
  "ML_FLAG_BIGINT_TO_DOUBLE = bytes_of ''bigint_to_double''"

definition is_flag :: "mexenv \<Rightarrow> host \<Rightarrow> mxArray \<Rightarrow> bool res" where
  "is_flag E H a = bindE (getstring H a) (\<lambda>s.
     Inr (strcasecmp_words (on_windows E) s ML_FLAG_BIGINT_TO_DOUBLE))"

text \<open>The loop from the last argument towards the query string; the list is given in that order.\<close>

fun count_flags :: "mexenv \<Rightarrow> host \<Rightarrow> mxArray list \<Rightarrow> nat res" where
  "count_flags E H [] = Inr 0"
| "count_flags E H (a # as) =
     (if mxIsChar a
      then bindE (is_flag E H a) (\<lambda>f. if f then bindE (count_flags E H as) (\<lambda>n. Inr (Suc n)) else Inr 0)
      else Inr 0)"

text \<open>"Adjust placeholders based on the number of flags present": the new \<open>nb_flags\<close>.\<close>

definition count_msg :: string where
  "count_msg = ''The number of placeholders differs from that of additional arguments!''"

definition adjust_flags :: "nat \<Rightarrow> nat \<Rightarrow> nat \<Rightarrow> nat res" where
  "adjust_flags nac expected nb_flags =
     (if nac < expected \<and> expected - nb_flags \<le> nac then Inr (expected - nac)
      else if nac \<noteq> expected then mexErrMsgTxt count_msg
      else Inr nb_flags)"

text \<open>"Process flags", over the last \<open>nb_flags\<close> arguments: whether FLAG_BIGINT_TO_DOUBLE gets set.\<close>

fun process_flags :: "mexenv \<Rightarrow> host \<Rightarrow> mxArray list \<Rightarrow> bool res" where
  "process_flags E H [] = Inr False"
| "process_flags E H (a # as) =
     bindE (is_flag E H a) (\<lambda>f. bindE (process_flags E H as) (\<lambda>g. Inr (f \<or> g)))"

subsection \<open>The new query\<close>

text \<open>
  The loop that copies the text between the placeholders and the escaped fields into \<open>nq\<close>, a buffer
  of \<open>cap\<close> bytes; \<open>w\<close> has been written, \<open>poq\<close> is the offset in the old query. The escape function
  writes a NUL behind its output, which the next copy overwrites.
\<close>

fun build_query :: "(byte list \<Rightarrow> byte list) \<Rightarrow> nat \<Rightarrow> byte list \<Rightarrow> nat \<Rightarrow> placeholder list \<Rightarrow>
    byte list list \<Rightarrow> byte list \<Rightarrow> byte list res" where
  "build_query esc cap query poq (ph # phs) (pd # pds) w =
     bindE (memread (ph_po ph - poq) (drop poq query)) (\<lambda>(seg, _).
     bindE (emit cap w seg) (\<lambda>w.
     bindE (emit cap w (esc pd @ [0])) (\<lambda>_.
     build_query esc cap query (ph_po ph + ph_ps ph) phs pds (w @ esc pd))))"
| "build_query esc cap query poq _ _ w = emit cap w (drop poq query @ [0])"

definition new_query :: "(byte list \<Rightarrow> byte list) \<Rightarrow> byte list \<Rightarrow> placeholder list \<Rightarrow> byte list list \<Rightarrow>
    byte list res" where
  "new_query esc query phs pds =
     (let nb = sum_list (map length pds)
      in build_query esc (2 * nb + length query + 1) query 0 phs pds [])"

definition not_closed :: merror where
  "not_closed = MexErrMsgTxt ''Placeholders are not correctly closed!''"

definition compression_failed :: merror where
  "compression_failed = MexErrMsgTxt ''Compression failed''"

text \<open>
  "PLACEHOLDER PROCESSING": the number of placeholders, the number of flags and the query. \<open>args\<close>
  are the arguments behind the query string.
\<close>

definition substitute :: "mexenv \<Rightarrow> host \<Rightarrow> zlib \<Rightarrow> (byte list \<Rightarrow> byte list) \<Rightarrow> byte list \<Rightarrow>
    mxArray list \<Rightarrow> (nat \<times> nat \<times> byte list) res" where
  "substitute E H Z esc query args =
     bindE (count_flags E H (rev args)) (\<lambda>nb_flags.
     let expected = length args in
     if expected = 0 then Inr (0, nb_flags, query)
     else bindE (find_placeholders not_closed query expected 0) (\<lambda>pos.
          let nac = length pos in
          bindE (adjust_flags nac expected nb_flags) (\<lambda>nb_flags.
          bindE (read_placeholders query pos args) (\<lambda>phs.
          bindE (serialize_fields_of E H Z compression_failed cmp_buf_len0 phs args) (\<lambda>pds.
          bindE (new_query esc query phs pds) (\<lambda>nq.
          bindE (cstr nq) (\<lambda>query. Inr (nac, nb_flags, query))))))))"

subsection \<open>White space\<close>

text \<open>
  \<open>removeWhiteSpaceAtTheBeginning (char* string)\<close> gets the pointer by value. \<open>Live s\<close> is an allocated
  string, \<open>Freed\<close> a block that has been given back; the first component of the result is the block
  the caller's pointer still points to, the second what the local pointer points to at the end.
\<close>

datatype block = Live "byte list" | Freed

fun skip_blanks :: "byte list \<Rightarrow> byte list" where
  "skip_blanks [] = []"
| "skip_blanks (b # s) = (if b \<noteq> 32 then b # s else skip_blanks s)"

definition removeWhiteSpaceAtTheBeginning :: "byte list \<Rightarrow> block \<times> block" where
  "removeWhiteSpaceAtTheBeginning s =
     (if s = [] \<or> \<not> isspace (at0 s) then (Live s, Live s)
      else let sanitizeString = skip_blanks (tl s) in (Freed, Live sanitizeString))"

definition strlen_block :: "block \<Rightarrow> byte list res" where
  "strlen_block b = (case b of Live s \<Rightarrow> Inr s | Freed \<Rightarrow> undefined_behaviour Use_after_free)"

subsection \<open>Curly brackets in CREATE and ALTER\<close>

definition brackets_msg :: string where
  "brackets_msg = ''The query contains placeholders, but no additional arguments!''"

text \<open>
  The loop over the characters; \<open>prev\<close> is \<open>query[i - 1]\<close>, if there is one, \<open>w\<close> the output so far in a
  buffer of \<open>cap\<close> bytes. An escaped bracket replaces the backslash before it.
\<close>

fun parse_brackets :: "nat \<Rightarrow> byte option \<Rightarrow> byte list \<Rightarrow> byte list \<Rightarrow> byte list res" where
  "parse_brackets cap prev [] w = bindE (emit cap w [0]) (\<lambda>_. Inr w)"
| "parse_brackets cap prev (b # s) w =
     (case prev of
        Some p \<Rightarrow>
          (if b = 123 \<or> b = 125
           then if p \<noteq> 92 then mexErrMsgTxt brackets_msg
                else parse_brackets cap (Some b) s (butlast w @ [b])
           else bindE (emit cap w [b]) (\<lambda>w. parse_brackets cap (Some b) s w))
      | None \<Rightarrow> bindE (emit cap w [b]) (\<lambda>w. parse_brackets cap (Some b) s w))"

definition create_or_alter :: "byte list \<Rightarrow> bool" where
  "create_or_alter query \<longleftrightarrow>
     isSubstringFountAtTheBeginningCaseInsenstive query (bytes_of ''CREATE'')
     \<or> isSubstringFountAtTheBeginningCaseInsenstive query (bytes_of ''ALTER'')"

definition brackets :: "byte list \<Rightarrow> byte list res" where
  "brackets query = (if create_or_alter query then parse_brackets (length query) None query []
                     else Inr query)"

subsection \<open>The whole preparation\<close>

text \<open>The query to send, whether it goes through \<open>mysql_real_query\<close>, and the flag.\<close>

record prepared =
  sql :: "byte list"
  real_query :: bool
  bigint_to_double :: bool

definition prepare :: "mexenv \<Rightarrow> host \<Rightarrow> zlib \<Rightarrow> (byte list \<Rightarrow> byte list) \<Rightarrow> byte list \<Rightarrow>
    mxArray list \<Rightarrow> prepared res" where
  "prepare E H Z esc query args =
     bindE (substitute E H Z esc query args) (\<lambda>(nac, nb_flags, query).
     bindE (strlen_block (fst (removeWhiteSpaceAtTheBeginning query))) (\<lambda>query.
     bindE (brackets query) (\<lambda>query.
     bindE (process_flags E H (drop (length args - nb_flags) args)) (\<lambda>flag.
     Inr \<lparr>sql = query, real_query = (nac \<noteq> 0), bigint_to_double = flag\<rparr>))))"

section \<open>The new query\<close>

text \<open>
  \<open>mysql_real_escape_string\<close>: at most two bytes for each one, none of them NUL.
\<close>

definition escape_api :: "(byte list \<Rightarrow> byte list) \<Rightarrow> bool" where
  "escape_api esc \<longleftrightarrow> (\<forall>x. length (esc x) \<le> 2 * length x \<and> no_nul (esc x))"

lemma escape_apiD: "escape_api esc \<Longrightarrow> length (esc x) \<le> 2 * length x" "escape_api esc \<Longrightarrow> no_nul (esc x)"
  by (simp_all add: escape_api_def)

text \<open>The text that is meant: each placeholder replaced by its escaped field.\<close>

fun expanded :: "(byte list \<Rightarrow> byte list) \<Rightarrow> byte list \<Rightarrow> nat \<Rightarrow> placeholder list \<Rightarrow> byte list list \<Rightarrow> byte list" where
  "expanded esc query poq (ph # phs) (pd # pds) =
     take (ph_po ph - poq) (drop poq query) @ esc pd
     @ expanded esc query (ph_po ph + ph_ps ph) phs pds"
| "expanded esc query poq _ _ = drop poq query"

text \<open>Placeholders in order and inside the query.\<close>

fun in_order :: "nat \<Rightarrow> nat \<Rightarrow> placeholder list \<Rightarrow> bool" where
  "in_order n i [] \<longleftrightarrow> i \<le> n"
| "in_order n i (ph # phs) \<longleftrightarrow> i \<le> ph_po ph \<and> ph_po ph \<le> n \<and> in_order n (ph_po ph + ph_ps ph) phs"

lemma in_order_le: "in_order n i phs \<Longrightarrow> i \<le> n"
  by (cases phs) auto

lemma build_query_ok:
  assumes esc: "escape_api esc"
  shows "in_order (length query) poq phs \<Longrightarrow> length pds = length phs \<Longrightarrow>
    length w + 2 * sum_list (map length pds) + (length query - poq) + 1 \<le> cap \<Longrightarrow>
    build_query esc cap query poq phs pds w = Inr (w @ expanded esc query poq phs pds @ [0])"
proof (induction phs arbitrary: poq pds w)
  case Nil
  then show ?case by simp
next
  case (Cons ph phs)
  obtain pd pds' where pds: "pds = pd # pds'" using Cons.prems by (cases pds) auto
  let ?seg = "take (ph_po ph - poq) (drop poq query)"
  have o: "poq \<le> ph_po ph" "ph_po ph + ph_ps ph \<le> length query"
    using Cons.prems in_order_le by (auto dest: in_order_le)
  have "build_query esc cap query (ph_po ph + ph_ps ph) phs pds' (w @ ?seg @ esc pd) =
    Inr ((w @ ?seg @ esc pd) @ expanded esc query (ph_po ph + ph_ps ph) phs pds' @ [0])"
    using Cons.prems o escape_apiD(1) [OF esc, of pd] by (intro Cons.IH) (auto simp: pds)
  then show ?case
    using Cons.prems o escape_apiD(1) [OF esc, of pd] by (simp add: pds memread_def)
qed

lemma new_query_ok:
  "escape_api esc \<Longrightarrow> in_order (length query) 0 phs \<Longrightarrow> length pds = length phs \<Longrightarrow>
   new_query esc query phs pds = Inr (expanded esc query 0 phs pds @ [0])"
  by (simp add: new_query_def Let_def build_query_ok)

lemma no_nul_slice: "no_nul q \<Longrightarrow> no_nul (take n q)" "no_nul q \<Longrightarrow> no_nul (drop n q)"
  by (auto simp: no_nul_def dest: in_set_takeD in_set_dropD)

lemma no_nul_expanded:
  "escape_api esc \<Longrightarrow> no_nul query \<Longrightarrow> no_nul (expanded esc query poq phs pds)"
  by (induction esc query poq phs pds rule: expanded.induct)
    (simp_all add: escape_apiD no_nul_slice)

text \<open>What the scan delivers is in order.\<close>

lemma read_placeholders_in_order:
  "placed query i pos \<Longrightarrow> i \<le> length query \<Longrightarrow> read_placeholders query pos as = Inr phs \<Longrightarrow>
   in_order (length query) i phs \<and> length phs = min (length pos) (length as)"
proof (induction query pos as arbitrary: i phs rule: read_placeholders.induct)
  case (1 query p ps a as)
  obtain po pc where p: "p = (po, pc)" by (cases p)
  from 1(4) obtain ph phs' where ph: "read_placeholder query p a = Inr ph"
      and phs': "read_placeholders query ps as = Inr phs'" and phs: "phs = ph # phs'"
    by (auto simp: bindE_eq_Inr)
  have o: "i \<le> po" "po < pc" "pc < length query" "placed query (pc + 1) ps" using 1(2) by (simp_all add: p)
  have "ph_po ph = po" "ph_po ph + ph_ps ph = pc + 1"
    using ph o by (auto simp: read_placeholder_def p ph_values bindE_eq_Inr)
  moreover have "in_order (length query) (pc + 1) phs' \<and> length phs' = min (length ps) (length as)"
    using 1(1) ph o phs' by (auto simp: p)
  ultimately show ?case using o by (simp add: phs)
qed auto

lemma serialize_fields_length:
  "serialize_fields_of E H Z err cap phs as = Inr pds \<Longrightarrow> length pds = min (length phs) (length as)"
  by (induction E H Z err cap phs as arbitrary: pds rule: serialize_fields_of.induct)
    (auto simp: bindE_eq_Inr)

text \<open>
  Once the fields have been serialized nothing can go wrong any more: the buffer suffices and the
  query that is sent is the old one with the fields in place.
\<close>

lemma new_query_fits:
  assumes esc: "escape_api esc" and q: "no_nul query"
    and pos: "find_placeholders e query n 0 = Inr pos" and n: "length pos \<le> length args"
    and phs: "read_placeholders query pos args = Inr phs"
    and pds: "serialize_fields_of E H Z err cap phs args = Inr pds"
  shows "bindE (new_query esc query phs pds) cstr = Inr (expanded esc query 0 phs pds)"
proof -
  have "in_order (length query) 0 phs" "length phs = length pos"
    using read_placeholders_in_order [OF find_placeholders_placed [OF pos] _ phs] n by auto
  moreover have "length pds = length phs" using serialize_fields_length [OF pds] calculation n by simp
  ultimately show ?thesis
    using cstr_append [OF no_nul_expanded [OF esc q, of 0 phs pds], of "[]"]
    by (simp add: new_query_ok [OF esc])
qed

section \<open>Clean-up of the query\<close>

lemma strlen_after_removal:
  "strlen_block (fst (removeWhiteSpaceAtTheBeginning s)) =
     (if s \<noteq> [] \<and> isspace (hd s) then undefined_behaviour Use_after_free else Inr s)"
  by (cases s) (simp_all add: removeWhiteSpaceAtTheBeginning_def strlen_block_def)

text \<open>Without brackets, the copy is as long as the query, and its NUL has no room.\<close>

definition bracket_free :: "byte list \<Rightarrow> bool" where
  "bracket_free s \<longleftrightarrow> 123 \<notin> set s \<and> 125 \<notin> set s"

lemma parse_brackets_free:
  "bracket_free s \<Longrightarrow> length w + length s = cap \<Longrightarrow>
   parse_brackets cap prev s w = undefined_behaviour Write_out_of_bounds"
proof (induction s arbitrary: w prev)
  case Nil
  then show ?case by (simp add: emit_def)
next
  case (Cons b s)
  then show ?case by (cases prev) (auto simp: bracket_free_def)
qed

lemma brackets_overflow:
  "create_or_alter q \<Longrightarrow> bracket_free q \<Longrightarrow> brackets q = undefined_behaviour Write_out_of_bounds"
  by (simp add: brackets_def parse_brackets_free)

text \<open>Text with every bracket escaped, given by the unescaped text.\<close>

fun escape_brackets :: "byte list \<Rightarrow> byte list" where
  "escape_brackets [] = []"
| "escape_brackets (b # s) = (if b = 123 \<or> b = 125 then 92 # b # escape_brackets s else b # escape_brackets s)"

lemma length_escape_brackets: "length s \<le> length (escape_brackets s)"
  by (induction s) simp_all

lemma length_escape_brackets_less:
  "\<not> bracket_free s \<Longrightarrow> length s < length (escape_brackets s)"
proof (induction s)
  case (Cons b s)
  then show ?case using length_escape_brackets [of s] by (auto simp: bracket_free_def)
qed (simp add: bracket_free_def)

lemma parse_brackets_escaped:
  "length w + length s < cap \<Longrightarrow> length w + length (escape_brackets s) \<le> cap \<Longrightarrow>
   parse_brackets cap (Some p) (escape_brackets s) w = Inr (w @ s)"
proof (induction s arbitrary: w p)
  case (Cons b s)
  then show ?case using length_escape_brackets [of s] by (auto simp: butlast_append)
qed simp

lemma create_first:
  "create_or_alter q \<Longrightarrow> \<exists>b s. q = b # s \<and> b \<noteq> 123 \<and> b \<noteq> 125 \<and> b \<noteq> 92"
  by (cases q) (auto simp: create_or_alter_def bytes_of_def tolower_def)

text \<open>The keywords start with a letter.\<close>

lemma tolower_eq: "tolower b = 99 \<Longrightarrow> b = 67 \<or> b = 99" "tolower b = 97 \<Longrightarrow> b = 65 \<or> b = 97"
  by (auto simp: tolower_def eq_diff_eq [symmetric] split: if_splits)

lemma create_letter:
  assumes "create_or_alter q"
  shows "\<exists>b s. q = b # s \<and> \<not> isspace b \<and> b \<noteq> 123 \<and> b \<noteq> 125"
proof -
  obtain b s where q: "q = b # s" using create_first [OF assms] by blast
  have "tolower 67 = 99" "tolower 65 = 97" by (simp_all add: tolower_def)
  then have "tolower b = 99 \<or> tolower b = 97"
    using assms by (auto simp: q create_or_alter_def bytes_of_def split: if_splits)
  then have "b \<in> {67, 99, 65, 97}" using tolower_eq by blast
  then show ?thesis by (auto simp: q isspace_def)
qed

lemma prefix_escape_brackets:
  "isSubstringFountAtTheBeginningCaseInsenstive s l \<Longrightarrow> \<forall>c\<in>set l. tolower c \<noteq> 123 \<and> tolower c \<noteq> 125 \<Longrightarrow>
   isSubstringFountAtTheBeginningCaseInsenstive (escape_brackets s) l"
proof (induction s l rule: isSubstringFountAtTheBeginningCaseInsenstive.induct)
  case (2 s c l)
  have t: "tolower (at0 s) = tolower c" "isSubstringFountAtTheBeginningCaseInsenstive (tl s) l"
    using 2(2) by (auto split: if_splits)
  have "tolower 123 = 123" "tolower 125 = 125" by (simp_all add: tolower_def)
  then have "at0 s \<noteq> 123" "at0 s \<noteq> 125" using t(1) 2(3) by auto
  moreover have "isSubstringFountAtTheBeginningCaseInsenstive (escape_brackets (tl s)) l"
    using 2(1) t 2(3) by simp
  ultimately show ?case using t(1) by (cases s) simp_all
qed simp

lemma keyword_letters:
  "\<forall>c\<in>set (bytes_of ''CREATE''). tolower c \<noteq> 123 \<and> tolower c \<noteq> 125"
  "\<forall>c\<in>set (bytes_of ''ALTER''). tolower c \<noteq> 123 \<and> tolower c \<noteq> 125"
  by (simp_all add: bytes_of_def tolower_def)

lemma brackets_escaped:
  assumes "create_or_alter q" and "\<not> bracket_free q"
  shows "brackets (escape_brackets q) = Inr q"
proof -
  obtain b s where q: "q = b # s" "b \<noteq> 123" "b \<noteq> 125" using create_first [OF assms(1)] by blast
  have c: "create_or_alter (escape_brackets q)"
    using assms(1) prefix_escape_brackets keyword_letters unfolding create_or_alter_def by blast
  show ?thesis
    using c length_escape_brackets_less [of s] assms(2) q
    by (simp add: brackets_def bracket_free_def parse_brackets_escaped)
qed

text \<open>Any query without arguments, apart from CREATE and ALTER, is sent as it is.\<close>

lemma prepare_plain:
  assumes "q = [] \<or> \<not> isspace (hd q)" and "\<not> create_or_alter q"
  shows "prepare E H Z esc q [] = Inr \<lparr>sql = q, real_query = False, bigint_to_double = False\<rparr>"
  using assms by (auto simp: prepare_def substitute_def strlen_after_removal brackets_def)

end
