(* ===== verification/Mym_Field.thy ===== *)
theory Mym_Field
  imports Mym_Decimal Mym_MxArray
begin

text \<open>
  Columns of a result set: the type codes of MySQL (\<open>src/mysqlclient/include/field_types.h\<close>), the
  classification \<open>IS_NUM\<close> and \<open>can_convert\<close>, the names \<open>typestr\<close>, and the conversions \<open>field2num\<close>
  and \<open>field2int\<close> of \<open>src/src/mym.cpp\<close> with the parts of \<open>sscanf\<close> they use.
\<close>

section \<open>Field types\<close>

datatype enum_field_types =
    MYSQL_TYPE_DECIMAL | MYSQL_TYPE_TINY | MYSQL_TYPE_SHORT | MYSQL_TYPE_LONG | MYSQL_TYPE_FLOAT
  | MYSQL_TYPE_DOUBLE | MYSQL_TYPE_NULL | MYSQL_TYPE_TIMESTAMP | MYSQL_TYPE_LONGLONG
  | MYSQL_TYPE_INT24 | MYSQL_TYPE_DATE | MYSQL_TYPE_TIME | MYSQL_TYPE_DATETIME | MYSQL_TYPE_YEAR
  | MYSQL_TYPE_NEWDATE | MYSQL_TYPE_VARCHAR | MYSQL_TYPE_BIT | MYSQL_TYPE_TIMESTAMP2
  | MYSQL_TYPE_DATETIME2 | MYSQL_TYPE_TIME2 | MYSQL_TYPE_TYPED_ARRAY | MYSQL_TYPE_INVALID
  | MYSQL_TYPE_BOOL | MYSQL_TYPE_JSON | MYSQL_TYPE_NEWDECIMAL | MYSQL_TYPE_ENUM | MYSQL_TYPE_SET
  | MYSQL_TYPE_TINY_BLOB | MYSQL_TYPE_MEDIUM_BLOB | MYSQL_TYPE_LONG_BLOB | MYSQL_TYPE_BLOB
  | MYSQL_TYPE_VAR_STRING | MYSQL_TYPE_STRING | MYSQL_TYPE_GEOMETRY

fun type_code :: "enum_field_types \<Rightarrow> nat" where
  "type_code MYSQL_TYPE_DECIMAL = 0"
| "type_code MYSQL_TYPE_TINY = 1"
| "type_code MYSQL_TYPE_SHORT = 2"
| "type_code MYSQL_TYPE_LONG = 3"
| "type_code MYSQL_TYPE_FLOAT = 4"
| "type_code MYSQL_TYPE_DOUBLE = 5"
| "type_code MYSQL_TYPE_NULL = 6"
| "type_code MYSQL_TYPE_TIMESTAMP = 7"
| "type_code MYSQL_TYPE_LONGLONG = 8"
| "type_code MYSQL_TYPE_INT24 = 9"
| "type_code MYSQL_TYPE_DATE = 10"
| "type_code MYSQL_TYPE_TIME = 11"
| "type_code MYSQL_TYPE_DATETIME = 12"
| "type_code MYSQL_TYPE_YEAR = 13"
| "type_code MYSQL_TYPE_NEWDATE = 14"
| "type_code MYSQL_TYPE_VARCHAR = 15"
| "type_code MYSQL_TYPE_BIT = 16"
| "type_code MYSQL_TYPE_TIMESTAMP2 = 17"
| "type_code MYSQL_TYPE_DATETIME2 = 18"
| "type_code MYSQL_TYPE_TIME2 = 19"
| "type_code MYSQL_TYPE_TYPED_ARRAY = 20"
| "type_code MYSQL_TYPE_INVALID = 243"
| "type_code MYSQL_TYPE_BOOL = 244"
| "type_code MYSQL_TYPE_JSON = 245"
| "type_code MYSQL_TYPE_NEWDECIMAL = 246"
| "type_code MYSQL_TYPE_ENUM = 247"
| "type_code MYSQL_TYPE_SET = 248"
| "type_code MYSQL_TYPE_TINY_BLOB = 249"
| "type_code MYSQL_TYPE_MEDIUM_BLOB = 250"
| "type_code MYSQL_TYPE_LONG_BLOB = 251"
| "type_code MYSQL_TYPE_BLOB = 252"
| "type_code MYSQL_TYPE_VAR_STRING = 253"
| "type_code MYSQL_TYPE_STRING = 254"
| "type_code MYSQL_TYPE_GEOMETRY = 255"

lemma type_code_inj: "type_code s = type_code t \<Longrightarrow> s = t"
  by (cases s; cases t; simp)

text \<open>C compares enumerators by their codes.\<close>

instantiation enum_field_types :: linorder
begin

definition less_eq_enum_field_types :: "enum_field_types \<Rightarrow> enum_field_types \<Rightarrow> bool" where
  "s \<le> t \<longleftrightarrow> type_code s \<le> type_code t"

definition less_enum_field_types :: "enum_field_types \<Rightarrow> enum_field_types \<Rightarrow> bool" where
  "s < t \<longleftrightarrow> type_code s < type_code t"

instance
  by standard
    (auto simp: less_eq_enum_field_types_def less_enum_field_types_def intro: type_code_inj)

end

definition IS_NUM :: "enum_field_types \<Rightarrow> bool" where
  "IS_NUM t \<longleftrightarrow> (t \<le> MYSQL_TYPE_INT24 \<and> t \<noteq> MYSQL_TYPE_TIMESTAMP)
     \<or> t = MYSQL_TYPE_YEAR \<or> t = MYSQL_TYPE_NEWDECIMAL"

definition can_convert :: "enum_field_types \<Rightarrow> bool" where
  "can_convert t \<longleftrightarrow> IS_NUM t \<and> t \<noteq> MYSQL_TYPE_DATE \<and> t \<noteq> MYSQL_TYPE_TIME
     \<and> t \<noteq> MYSQL_TYPE_DATETIME \<and> t \<noteq> MYSQL_TYPE_TIMESTAMP"

fun typestr :: "enum_field_types \<Rightarrow> string" where
  "typestr MYSQL_TYPE_DECIMAL = ''decimal''"
| "typestr MYSQL_TYPE_TINY = ''tiny''"
| "typestr MYSQL_TYPE_SHORT = ''short''"
| "typestr MYSQL_TYPE_LONG = ''long''"
| "typestr MYSQL_TYPE_FLOAT = ''float''"
| "typestr MYSQL_TYPE_DOUBLE = ''double''"
| "typestr MYSQL_TYPE_NULL = ''null''"
| "typestr MYSQL_TYPE_LONGLONG = ''longlong''"
| "typestr MYSQL_TYPE_INT24 = ''int24''"
| "typestr MYSQL_TYPE_YEAR = ''year''"
| "typestr MYSQL_TYPE_TIMESTAMP = ''timestamp''"
| "typestr MYSQL_TYPE_DATE = ''date''"
| "typestr MYSQL_TYPE_TIME = ''time''"
| "typestr MYSQL_TYPE_DATETIME = ''datetime''"
| "typestr MYSQL_TYPE_NEWDATE = ''newdate''"
| "typestr MYSQL_TYPE_ENUM = ''enum''"
| "typestr MYSQL_TYPE_SET = ''set''"
| "typestr MYSQL_TYPE_TINY_BLOB = ''tiny_blob''"
| "typestr MYSQL_TYPE_MEDIUM_BLOB = ''medium_blob''"
| "typestr MYSQL_TYPE_LONG_BLOB = ''long_blob''"
| "typestr MYSQL_TYPE_BLOB = ''blob''"
| "typestr MYSQL_TYPE_VAR_STRING = ''var_string''"
| "typestr MYSQL_TYPE_STRING = ''string''"
| "typestr MYSQL_TYPE_GEOMETRY = ''geometry''"
| "typestr _ = ''unknown''"

lemma can_convert_IS_NUM: "can_convert t = IS_NUM t"
  by (cases t) (simp_all add: can_convert_def IS_NUM_def less_eq_enum_field_types_def)

lemma IS_NUM_types:
  "IS_NUM t \<longleftrightarrow> t \<in> {MYSQL_TYPE_DECIMAL, MYSQL_TYPE_TINY, MYSQL_TYPE_SHORT, MYSQL_TYPE_LONG,
     MYSQL_TYPE_FLOAT, MYSQL_TYPE_DOUBLE, MYSQL_TYPE_NULL, MYSQL_TYPE_LONGLONG, MYSQL_TYPE_INT24,
     MYSQL_TYPE_YEAR, MYSQL_TYPE_NEWDECIMAL}"
  by (cases t) (simp_all add: IS_NUM_def less_eq_enum_field_types_def)

section \<open>Reading a \<open>double\<close>\<close>

text \<open>
  The double nearest to \<open>n / d\<close>, ties to even, as its bits. The exponent \<open>e\<close> is chosen such that
  the significand has 53 bits, or is that of the subnormal numbers.
\<close>

definition quotient_exponent :: "nat \<Rightarrow> nat \<Rightarrow> int" where
  "quotient_exponent n d = (let e = int (bits n) - int (bits d) - 53;
       e = (if n * 2 ^ nat (- e) < 2 ^ 53 * (d * 2 ^ nat e) then e else e + 1)
     in max (- 1074) e)"

definition nearest_double :: "nat \<Rightarrow> nat \<Rightarrow> nat" where
  "nearest_double n d = (if n = 0 then 0 else
     let e = quotient_exponent n d;
         m = round_half_even (n * 2 ^ nat (- e)) (d * 2 ^ nat e)
     in min (2047 * 2 ^ 52) (nat (e + 1074) * 2 ^ 52 + m))"

definition with_sign :: "bool \<Rightarrow> nat \<Rightarrow> 64 word" where
  "with_sign s b = word_of_nat ((if s then 2 ^ 63 else 0) + b)"

text \<open>
  \<open>sscanf (s, "%lf", &val)\<close> on decimal text: white space, sign, digits with an optional fraction, and
  an exponent if digits follow the letter. \<open>None\<close> stands for a result below 1. (The names of
  infinities and hexadecimal fractions, which no numeric column contains, are not modelled.)
\<close>

definition take_sign :: "byte list \<Rightarrow> bool \<times> byte list" where
  "take_sign s = (case s of [] \<Rightarrow> (False, [])
     | b # t \<Rightarrow> if b = 45 then (True, t) else if b = 43 then (False, t) else (False, s))"

definition exponent_of :: "byte list \<Rightarrow> int" where
  "exponent_of s = (case s of [] \<Rightarrow> 0
     | b # t \<Rightarrow> if b = 101 \<or> b = 69
                then (case take_sign t of (neg, u) \<Rightarrow>
                        (let v = int (dec_val (takeWhile isdigit u)) in if neg then - v else v))
                else 0)"

definition sscanf_lf :: "byte list \<Rightarrow> 64 word option" where
  "sscanf_lf s = (case take_sign (dropWhile isspace s) of (neg, s) \<Rightarrow>
     (let whole = takeWhile isdigit s;
          s = dropWhile isdigit s;
          (frac, s) = (if s \<noteq> [] \<and> hd s = 46 then (takeWhile isdigit (tl s), dropWhile isdigit (tl s))
                       else ([], s));
          n = dec_val (whole @ frac);
          x = exponent_of s - int (length frac)
      in if whole = [] \<and> frac = [] then None
         else Some (with_sign neg (nearest_double (n * 10 ^ nat x) (10 ^ nat (- x))))))"

text \<open>\<open>NaN\<close> is \<open>mxGetNaN ()\<close>, whose bits MATLAB chooses. The result tells whether a line was printed.\<close>

definition field2num :: "64 word \<Rightarrow> byte list option \<Rightarrow> enum_field_types \<Rightarrow> (64 word \<times> bool) res" where
  "field2num mxNaN s t = (case s of
     None \<Rightarrow> Inr (mxNaN, False)
   | Some s \<Rightarrow>
       if IS_NUM t
       then (case sscanf_lf s of None \<Rightarrow> Inr (mxNaN, True) | Some v \<Rightarrow> Inr (v, False))
       else mexErrMsgTxt ''Internal inconsistency'')"

section \<open>Reading a 64-bit integer\<close>

definition UNSIGNED_FLAG :: "32 word" where "UNSIGNED_FLAG = 32"
definition BINARY_FLAG :: "32 word" where "BINARY_FLAG = 128"

text \<open>
  \<open>sscanf\<close> with \<open>%lu\<close> and \<open>%ld\<close>, where \<open>long\<close> has 64 bits; \<open>%lu\<close> accepts a sign and negates in the
  arithmetic of the type. A number that the type cannot hold has no defined result. \<open>None\<close>: nothing
  was assigned.
\<close>

definition scan_integer :: "byte list \<Rightarrow> (bool \<times> nat) option" where
  "scan_integer s = (case take_sign (dropWhile isspace s) of (neg, s) \<Rightarrow>
     (let ds = takeWhile isdigit s in if ds = [] then None else Some (neg, dec_val ds)))"

definition sscanf_lu :: "byte list \<Rightarrow> 64 word option res" where
  "sscanf_lu s = (case scan_integer s of None \<Rightarrow> Inr None
     | Some (neg, n) \<Rightarrow> if 2 ^ 64 \<le> n then undefined_behaviour Conversion_overflow
                       else Inr (Some (if neg then - word_of_nat n else word_of_nat n)))"

definition sscanf_ld :: "byte list \<Rightarrow> 64 word option res" where
  "sscanf_ld s = (case scan_integer s of None \<Rightarrow> Inr None
     | Some (neg, n) \<Rightarrow> (let v = if neg then - int n else int n in
         if - (2 ^ 63) \<le> v \<and> v < 2 ^ 63 then Inr (Some (word_of_int v))
         else undefined_behaviour Conversion_overflow))"

text \<open>The value assigned to \<open>*val\<close>, if any.\<close>

definition field2int :: "byte list option \<Rightarrow> enum_field_types \<Rightarrow> 32 word \<Rightarrow> 64 word option res" where
  "field2int s t flags = (case s of
     None \<Rightarrow> mexErrMsgTxt ''Invalid value NULL in a BIGINT column.''
   | Some s \<Rightarrow>
       if IS_NUM t
       then (if flags AND UNSIGNED_FLAG \<noteq> 0 then sscanf_lu s else sscanf_ld s)
       else mexErrMsgTxt ''Internal inconsistency'')"

section \<open>Integers survive\<close>

text \<open>The text of an integer as MySQL sends it.\<close>

definition signed_text :: "64 word \<Rightarrow> byte list" where
  "signed_text v = sprintf_d (sint v)"

lemma dropWhile_space_dec: "dropWhile isspace (dec n @ p) = dec n @ p"
proof -
  obtain b t where s: "dec n = b # t" using dec_digits(2) [of n] by (cases "dec n") auto
  moreover have "isdigit b" using dec_digits(1) [of n] by (simp add: s)
  ultimately show ?thesis using isdigit_not_special by simp
qed

lemma take_sign_dec: "take_sign (dec n @ p) = (False, dec n @ p)"
proof -
  obtain b t where s: "dec n = b # t" using dec_digits(2) [of n] by (cases "dec n") auto
  moreover have "isdigit b" using dec_digits(1) [of n] by (simp add: s)
  ultimately show ?thesis using isdigit_not_special by (simp add: take_sign_def)
qed

lemma takeWhile_dec: "takeWhile isdigit (dec n) = dec n"
  using takeWhile_digits [OF dec_digits(1), of "[]" n] by simp

lemma scan_integer_dec: "scan_integer (dec n) = Some (False, n)"
  using dropWhile_space_dec [of n "[]"] take_sign_dec [of n "[]"]
  by (simp add: scan_integer_def takeWhile_dec dec_digits dec_val_dec Let_def)

lemma scan_integer_neg: "scan_integer (45 # dec n) = Some (True, n)"
  by (simp add: scan_integer_def take_sign_def isspace_def takeWhile_dec dec_digits dec_val_dec Let_def)

lemma field2int_signed:
  assumes "IS_NUM t" and "flags AND UNSIGNED_FLAG = 0"
  shows "field2int (Some (signed_text v)) t flags = Inr (Some v)"
proof -
  have r: "- (2 ^ 63) \<le> sint v" "sint v < 2 ^ 63"
    using sint_greater_eq [of v] sint_less [of v] by simp_all
  have "sscanf_ld (signed_text v) = Inr (Some v)"
    using r by (cases "sint v < 0")
      (simp_all add: sscanf_ld_def signed_text_def sprintf_d_def scan_integer_dec scan_integer_neg Let_def)
  with assms show ?thesis by (simp add: field2int_def)
qed

lemma field2int_unsigned:
  assumes "IS_NUM t" and "flags AND UNSIGNED_FLAG \<noteq> 0"
  shows "field2int (Some (dec (unat v))) t flags = Inr (Some v)"
proof -
  have "unat v < 2 ^ 64" using unsigned_less [of v, where ?'a = nat] by simp
  with assms show ?thesis by (simp add: field2int_def sscanf_lu_def scan_integer_dec)
qed

lemma bits_1: "bits 1 = 1"
  by (simp add: bits.simps)

lemma nearest_double_int:
  assumes "0 < n" "n < 2 ^ 53"
  shows "word_of_nat (nearest_double n 1) = double_of_nat n"
proof -
  define k where "k = bits n - 1"
  have b: "2 ^ k \<le> n" "n < 2 ^ Suc k" "bits n = Suc k"
    using bits_bounds [OF assms(1)] by (simp_all add: k_def)
  then have "(2 :: nat) ^ k < 2 ^ 53" using assms by linarith
  then have k: "k \<le> 52" using power_less_imp_less_exp [of "2 :: nat" k 53] by simp
  have p: "(2 :: nat) ^ 52 = 2 ^ k * 2 ^ (52 - k)" "(2 :: nat) ^ 53 = 2 ^ Suc k * 2 ^ (52 - k)"
    "(2 :: nat) ^ 53 = 2 ^ k * 2 ^ (53 - k)"
    using k by (simp_all only: power_add [symmetric]) simp_all
  have e0: "int (bits n) - int (bits 1) - 53 = - int (53 - k)" using k by (simp add: b(3) bits_1 del: One_nat_def)
  have "2 ^ 53 \<le> n * 2 ^ (53 - k)" unfolding p(3) using b by (intro mult_le_mono1)
  then have e: "quotient_exponent n 1 = - int (52 - k)"
    using k unfolding quotient_exponent_def e0 by (simp add: Let_def nat_diff_distrib)
  define m where "m = n * 2 ^ (52 - k)"
  have m: "2 ^ 52 \<le> m" "m < 2 ^ 53"
    unfolding m_def p(1,2) using b by (intro mult_le_mono1 mult_less_mono1; simp)+
  have "nat (1022 + int k) = 1022 + k" "nat (52 - int k) = 52 - k" using k by simp_all
  then have "nearest_double n 1 = min (2047 * 2 ^ 52) ((1022 + k) * 2 ^ 52 + m)"
    using assms(1) k by (simp add: nearest_double_def e Let_def round_half_even_1 m_def del: One_nat_def)
  also have "\<dots> = (1023 + k) * 2 ^ 52 + (m - 2 ^ 52)" using m k by simp
  finally show ?thesis
    using assms(1) k by (simp only: double_of_nat_def Let_def k_def [symmetric] m_def) simp
qed

text \<open>A numeric column that holds an integer below \<open>2^53\<close> comes back as exactly this integer.\<close>

lemma sscanf_lf_dec: "sscanf_lf (dec n) = Some (with_sign False (nearest_double n 1))"
proof -
  have d: "dropWhile isdigit (dec n) = []" using dec_digits(1) [of n] by (simp add: list_all_iff)
  show ?thesis
    using dropWhile_space_dec [of n "[]"] take_sign_dec [of n "[]"] dec_digits [of n]
    by (simp add: sscanf_lf_def takeWhile_dec exponent_of_def dec_val_dec Let_def d)
qed

lemma field2num_integer:
  assumes "IS_NUM t" and "n < 2 ^ 53"
  shows "field2num nan (Some (dec n)) t = Inr (double_of_nat n, False)"
proof (cases "n = 0")
  case True
  with assms(1) show ?thesis
    by (simp add: field2num_def sscanf_lf_dec with_sign_def nearest_double_def double_of_nat_def)
next
  case False
  with assms show ?thesis
    by (simp add: field2num_def sscanf_lf_dec with_sign_def nearest_double_int del: One_nat_def)
qed

end
