(* ===== verification/Mym_Result.thy ===== *)
theory Mym_Result
  imports Mym_Field Mym_Text Mym_Blob
begin

text \<open>
  Result sets: the table that \<open>fancyprint\<close> of \<open>src/src/mym.cpp\<close> prints when no output is asked for,
  and the structure with one field per column that \<open>mexFunction\<close> returns otherwise. A result set is
  what the client library hands over: the fields, the number of rows, and the rows.
\<close>

section \<open>Result sets\<close>

text \<open>A cell: the memory at \<open>row[j]\<close>, \<open>None\<close> for a NULL pointer, and the length \<open>p_lengths[j]\<close>.\<close>

type_synonym cell = "byte list option \<times> nat"

record mysql_field =
  f_name :: "byte list"
  f_type :: enum_field_types
  f_flags :: "32 word"
  f_charsetnr :: nat
  f_max_length :: nat

record mysql_res =
  r_fields :: "mysql_field list"
  r_nrow :: nat
  r_rows :: "cell list list"

definition fetch_row :: "mysql_res \<Rightarrow> nat \<Rightarrow> cell list res" where
  "fetch_row r i = (if i < length (r_rows r) then Inr (r_rows r ! i)
                    else mexErrMsgTxt ''Internal error:  Failed to get a row'')"

definition cell_at :: "cell list \<Rightarrow> nat \<Rightarrow> cell res" where
  "cell_at row j = (if j < length row then Inr (row ! j) else undefined_behaviour Read_out_of_bounds)"

text \<open>The C string at \<open>row[j]\<close>, if there is one.\<close>

definition cell_text :: "cell \<Rightarrow> byte list option res" where
  "cell_text c = (case fst c of None \<Rightarrow> Inr None | Some p \<Rightarrow> bindE (cstr p) (\<lambda>s. Inr (Some s)))"

section \<open>\<open>fancyprint\<close>\<close>

definition contstr :: "byte list" where "contstr = bytes_of ''...''"
definition NROWMAX :: nat where "NROWMAX = 50"
definition NHEAD :: nat where "NHEAD = 10"
definition NTAIL :: nat where "NTAIL = 10"

definition column_width :: "bool \<Rightarrow> mysql_field \<Rightarrow> nat" where
  "column_width clip f =
     (let len = length (f_name f);
          len = (if len < f_max_length f then f_max_length f else len)
      in if clip \<and> len < length contstr then length contstr else len)"

text \<open>The format specification is written into a buffer of 10 bytes.\<close>

definition format_spec :: "nat \<Rightarrow> byte list res" where
  "format_spec len = print_to 10 (bytes_of ''  %-'' @ dec len @ bytes_of ''s '')"

fun format_specs :: "nat list \<Rightarrow> unit res" where
  "format_specs [] = Inr ()"
| "format_specs (len # lens) = bindE (format_spec len) (\<lambda>_. format_specs lens)"

text \<open>\<open>mexPrintf (fmt[j], s)\<close> with the specification of width \<open>len\<close>.\<close>

definition padded :: "nat \<Rightarrow> byte list \<Rightarrow> byte list" where
  "padded len s = [32, 32] @ s @ replicate (len - length s) 32 @ [32]"

definition underline :: "nat \<Rightarrow> byte list" where
  "underline len = [32, 43] @ replicate len 45 @ [43]"

fun print_cells :: "nat list \<Rightarrow> nat \<Rightarrow> cell list \<Rightarrow> byte list res" where
  "print_cells [] j row = Inr [10]"
| "print_cells (len # lens) j row =
     bindE (cell_at row j) (\<lambda>c.
     bindE (cell_text c) (\<lambda>s.
     bindE (print_cells lens (Suc j) row) (\<lambda>r.
     Inr (padded len (case s of None \<Rightarrow> [] | Some s \<Rightarrow> s) @ r))))"

fun print_rows :: "mysql_res \<Rightarrow> nat list \<Rightarrow> nat \<Rightarrow> nat \<Rightarrow> byte list res" where
  "print_rows r lens i 0 = Inr []"
| "print_rows r lens i (Suc n) =
     bindE (fetch_row r i) (\<lambda>row.
     bindE (print_cells lens 0 row) (\<lambda>l.
     bindE (print_rows r lens (Suc i) n) (\<lambda>ls. Inr (l @ ls))))"

definition header_line :: "nat list \<Rightarrow> mysql_field list \<Rightarrow> byte list" where
  "header_line lens fs = concat (map2 (\<lambda>len f. padded len (f_name f)) lens fs) @ [10]"

definition underlines :: "nat list \<Rightarrow> byte list" where
  "underlines lens = concat (map underline lens) @ [10]"

definition ellipses :: "nat list \<Rightarrow> byte list" where
  "ellipses lens = concat (map (\<lambda>len. padded len contstr) lens) @ [10]"

definition zero_rows :: "byte list" where
  "zero_rows = bytes_of ''(zero rows in result set)'' @ [10]"

definition total_line :: "nat \<Rightarrow> byte list" where
  "total_line n = [40] @ dec n @ bytes_of '' rows total)'' @ [10]"

text \<open>The text that is printed.\<close>

definition fancyprint :: "mysql_res \<Rightarrow> byte list res" where
  "fancyprint r =
    (let nrow = r_nrow r;
         clip = (NROWMAX < nrow);
         lens = map (column_width clip) (r_fields r)
     in bindE (format_specs lens) (\<lambda>_.
        bindE (if nrow = 0 then Inr zero_rows
               else if \<not> clip then print_rows r lens 0 nrow
               else bindE (print_rows r lens 0 NHEAD) (\<lambda>top.
                    bindE (print_rows r lens (nrow - NTAIL) NTAIL) (\<lambda>bottom.
                    Inr (top @ ellipses lens @ bottom @ total_line nrow)))) (\<lambda>body.
        Inr ([10] @ header_line lens (r_fields r) @ underlines lens @ body @ [10]))))"

subsection \<open>Laws\<close>

lemma format_spec_ok: "len < 1000 \<Longrightarrow> \<exists>s. format_spec len = Inr s"
  using length_dec [of len 3] by (simp add: format_spec_def print_to_def bytes_of_def)

lemma length_dec_lower: "10 ^ k \<le> n \<Longrightarrow> k < length (dec n)"
proof (induction k arbitrary: n)
  case 0
  then show ?case using dec_digits(2) [of n] by simp
next
  case (Suc k)
  have "1 \<le> (10 :: nat) ^ k" by simp
  then have "\<not> n < 10" using Suc.prems unfolding power_Suc by linarith
  moreover have "10 ^ k \<le> n div 10" using Suc.prems by (simp add: less_eq_div_iff_mult_less_eq mult.commute)
  then have "k < length (dec (n div 10))" by (rule Suc.IH)
  ultimately show ?case by (subst dec.simps) simp
qed

text \<open>A column of 1000 characters or more needs a longer format specification than there is room for.\<close>

lemma format_spec_overflow: "1000 \<le> len \<Longrightarrow> format_spec len = undefined_behaviour Write_out_of_bounds"
  using length_dec_lower [of 3 len] by (simp add: format_spec_def print_to_def bytes_of_def emit_def)

lemma format_specs_ok: "\<forall>len\<in>set lens. len < 1000 \<Longrightarrow> format_specs lens = Inr ()"
proof (induction lens)
  case (Cons len lens)
  then obtain s where "format_spec len = Inr s" using format_spec_ok [of len] by auto
  with Cons show ?case by simp
qed simp

lemma format_specs_overflow:
  "\<exists>len\<in>set lens. 1000 \<le> len \<Longrightarrow> format_specs lens = undefined_behaviour Write_out_of_bounds"
proof (induction lens)
  case (Cons len lens)
  show ?case
  proof (cases "1000 \<le> len")
    case True
    then show ?thesis by (simp add: format_spec_overflow)
  next
    case False
    then obtain s where "format_spec len = Inr s" using format_spec_ok [of len] by auto
    with Cons False show ?thesis by auto
  qed
qed simp

text \<open>Every line of the table has the same length.\<close>

definition line_length :: "nat list \<Rightarrow> nat" where
  "line_length lens = sum_list (map (\<lambda>len. len + 3) lens) + 1"

lemma length_underlines: "length (underlines lens) = line_length lens"
  by (induction lens) (simp_all add: underlines_def line_length_def underline_def)

lemma length_padded: "length s \<le> len \<Longrightarrow> length (padded len s) = len + 3"
  by (simp add: padded_def)

lemma length_header_line:
  "length (header_line (map (column_width clip) fs) fs) = line_length (map (column_width clip) fs)"
proof (induction fs)
  case (Cons f fs)
  have "length (f_name f) \<le> column_width clip f" by (simp add: column_width_def Let_def)
  then have "length (padded (column_width clip f) (f_name f)) = column_width clip f + 3"
    by (rule length_padded)
  with Cons show ?case by (simp add: header_line_def line_length_def)
qed (simp add: header_line_def line_length_def)

text \<open>Rows whose cells are C strings no longer than the width of their column.\<close>

definition cell_fits :: "nat \<Rightarrow> cell \<Rightarrow> bool" where
  "cell_fits len c \<longleftrightarrow> (case fst c of None \<Rightarrow> True
     | Some p \<Rightarrow> (case cstr p of Inl _ \<Rightarrow> False | Inr s \<Rightarrow> length s \<le> len))"

lemma print_cells_ok:
  "list_all2 cell_fits lens (drop j row) \<Longrightarrow>
   \<exists>l. print_cells lens j row = Inr l \<and> length l = line_length lens"
proof (induction lens arbitrary: j)
  case Nil
  then show ?case by (simp add: line_length_def)
next
  case (Cons len lens)
  then have j: "j < length row" by (metis drop_eq_Nil linorder_not_le list.rel_distinct(2) list_all2_Nil2)
  then have "drop j row = row ! j # drop (Suc j) row" by (simp add: Cons_nth_drop_Suc)
  with Cons.prems have fit: "cell_fits len (row ! j)" "list_all2 cell_fits lens (drop (Suc j) row)" by simp_all
  then obtain l where l: "print_cells lens (Suc j) row = Inr l" "length l = line_length lens"
    using Cons.IH by blast
  obtain s where s: "cell_text (row ! j) = Inr s" "length (case s of None \<Rightarrow> [] | Some s \<Rightarrow> s) \<le> len"
    using fit(1) by (auto simp: cell_fits_def cell_text_def split: option.splits sum.splits)
  show ?case using j l s length_padded [OF s(2)] by (simp add: cell_at_def line_length_def)
qed

lemma print_rows_ok:
  "i + n \<le> length (r_rows r) \<Longrightarrow> \<forall>row\<in>set (r_rows r). list_all2 cell_fits lens row \<Longrightarrow>
   \<exists>ls. print_rows r lens i n = Inr ls \<and> length ls = n * line_length lens"
proof (induction n arbitrary: i)
  case 0
  then show ?case by simp
next
  case (Suc n)
  obtain ls where ls: "print_rows r lens (Suc i) n = Inr ls" "length ls = n * line_length lens"
    using Suc.IH [of "Suc i"] Suc.prems by auto
  have "list_all2 cell_fits lens (r_rows r ! i)" using Suc.prems by simp
  then obtain l where "print_cells lens 0 (r_rows r ! i) = Inr l" "length l = line_length lens"
    using print_cells_ok [of lens 0] by auto
  with ls Suc.prems show ?case by (simp add: fetch_row_def)
qed

text \<open>What \<open>mysql_store_result\<close> promises: as many rows as it says, cells within \<open>max_length\<close>.\<close>

definition table_ok :: "mysql_res \<Rightarrow> bool" where
  "table_ok r \<longleftrightarrow> length (r_rows r) = r_nrow r
     \<and> (\<forall>row\<in>set (r_rows r). list_all2 (\<lambda>f c. cell_fits (f_max_length f) c) (r_fields r) row)
     \<and> (\<forall>f\<in>set (r_fields r). length (f_name f) < 1000 \<and> f_max_length f < 1000)"

lemma table_cells_fit:
  assumes "table_ok r" and "row \<in> set (r_rows r)"
  shows "list_all2 cell_fits (map (column_width clip) (r_fields r)) row"
proof -
  have w: "f_max_length f \<le> column_width clip f" for f by (simp add: column_width_def Let_def)
  have "cell_fits (column_width clip f) c" if "cell_fits (f_max_length f) c" for f c
    using that w [of f] by (auto simp: cell_fits_def split: option.splits sum.splits)
  then show ?thesis
    using assms by (auto simp: table_ok_def list_all2_map1 elim!: list_all2_mono)
qed

lemma length_ellipses:
  "\<forall>len\<in>set lens. length contstr \<le> len \<Longrightarrow> length (ellipses lens) = line_length lens"
  by (induction lens) (simp_all add: ellipses_def line_length_def length_padded)

text \<open>
  The printed table: two lines above the rows, and all rows, or 10 at the top, 10 at the bottom and
  one line with dots; every one of these lines is as long as the others.
\<close>

definition table_lines :: "nat \<Rightarrow> nat" where
  "table_lines nrow = 2 + (if nrow \<le> NROWMAX then nrow else NHEAD + 1 + NTAIL)"

definition table_rest :: "nat \<Rightarrow> nat" where
  "table_rest nrow = 2 + (if nrow = 0 then length zero_rows
     else if nrow \<le> NROWMAX then 0 else length (total_line nrow))"

lemma fancyprint_shape:
  assumes r: "table_ok r"
  shows "\<exists>s. fancyprint r = Inr s \<and> length s = table_rest (r_nrow r)
    + table_lines (r_nrow r) * line_length (map (column_width (NROWMAX < r_nrow r)) (r_fields r))"
proof -
  define clip where "clip = (NROWMAX < r_nrow r)"
  define lens where "lens = map (column_width clip) (r_fields r)"
  have "\<forall>len\<in>set lens. len < 1000"
    using r by (auto simp: lens_def table_ok_def column_width_def contstr_def bytes_of_def Let_def)
  then have fmt: "format_specs lens = Inr ()" by (rule format_specs_ok)
  have fit: "\<forall>row\<in>set (r_rows r). list_all2 cell_fits lens row"
    using table_cells_fit [OF r] by (simp add: lens_def)
  have n: "length (r_rows r) = r_nrow r" using r by (simp add: table_ok_def)
  have head: "length (header_line lens (r_fields r)) = line_length lens"
    unfolding lens_def by (rule length_header_line)
  consider (zero) "r_nrow r = 0" | (all) "0 < r_nrow r" "r_nrow r \<le> NROWMAX" | (clip) "NROWMAX < r_nrow r"
    by linarith
  then show ?thesis
  proof cases
    case zero
    then have "lens = map (column_width False) (r_fields r)" by (simp add: lens_def clip_def)
    with zero show ?thesis
      using fmt head by (simp add: fancyprint_def Let_def table_lines_def table_rest_def length_underlines)
  next
    case all
    obtain ls where "print_rows r lens 0 (r_nrow r) = Inr ls" "length ls = r_nrow r * line_length lens"
      using print_rows_ok [of 0 "r_nrow r" r lens] n fit by auto
    moreover have "lens = map (column_width False) (r_fields r)" using all by (simp add: lens_def clip_def)
    ultimately show ?thesis
      using fmt head all by (simp add: fancyprint_def Let_def table_lines_def table_rest_def length_underlines)
  next
    case clip
    then have "20 \<le> r_nrow r" by (simp add: NROWMAX_def)
    then obtain top bottom where
        "print_rows r lens 0 NHEAD = Inr top" "length top = NHEAD * line_length lens"
        "print_rows r lens (r_nrow r - NTAIL) NTAIL = Inr bottom" "length bottom = NTAIL * line_length lens"
      using print_rows_ok [of 0 NHEAD r lens] print_rows_ok [of "r_nrow r - NTAIL" NTAIL r lens] n fit
      by (auto simp: NHEAD_def NTAIL_def)
    moreover have "length (ellipses lens) = line_length lens"
      using clip by (intro length_ellipses) (auto simp: lens_def clip_def column_width_def Let_def)
    moreover have "lens = map (column_width True) (r_fields r)" using clip by (simp add: lens_def clip_def)
    ultimately show ?thesis
      using fmt head clip by (simp add: fancyprint_def Let_def table_lines_def table_rest_def
          length_underlines distrib_right)
  qed
qed

lemma fancyprint_overflow:
  assumes "f \<in> set (r_fields r)" and "1000 \<le> length (f_name f) \<or> 1000 \<le> f_max_length f"
  shows "fancyprint r = undefined_behaviour Write_out_of_bounds"
proof -
  have "1000 \<le> column_width (NROWMAX < r_nrow r) f"
    using assms(2) by (auto simp: column_width_def Let_def)
  then have "format_specs (map (column_width (NROWMAX < r_nrow r)) (r_fields r)) =
      undefined_behaviour Write_out_of_bounds"
    using assms(1) by (intro format_specs_overflow) auto
  then show ?thesis by (simp add: fancyprint_def Let_def)
qed

end
