(* ===== verification/Mym_Fetch.thy ===== *)
theory Mym_Fetch
  imports Mym_Result Mym_Utf8
begin

text \<open>
  From a result set to a MATLAB structure: the second half of the branch \<open>CMD\<close> of \<open>mexFunction\<close> in
  \<open>src/src/mym.cpp\<close>. One array per column is created and put into the structure under the name of the
  column; then the rows are fetched and every cell is converted and stored. Numeric cells are
  stored through the pointer of their own column, the others into the array that the structure
  holds under the column's name, which for a repeated name is that of the last such column.
\<close>

section \<open>The code\<close>

text \<open>The column is returned as 64-bit integers: no flag, type BIGINT.\<close>

definition as_integer :: "bool \<Rightarrow> mysql_field \<Rightarrow> bool" where
  "as_integer to_double f \<longleftrightarrow> f_type f = MYSQL_TYPE_LONGLONG \<and> \<not> to_double"

definition integer_class :: "mysql_field \<Rightarrow> mxClassID" where
  "integer_class f = (if f_flags f AND UNSIGNED_FLAG \<noteq> 0 then mxUINT64_CLASS else mxINT64_CLASS)"

definition new_column :: "mexenv \<Rightarrow> nat \<Rightarrow> bool \<Rightarrow> mysql_field \<Rightarrow> mxArray res" where
  "new_column E nrow to_double f =
     (if as_integer to_double f
      then create_numeric E [word_of_nat nrow, 1] (class_code E (integer_class f)) (complexity_code E mxREAL)
      else if can_convert (f_type f)
      then create_numeric E [word_of_nat nrow, 1] (class_code E mxDOUBLE_CLASS) (complexity_code E mxREAL)
      else create_cell E [word_of_nat nrow, 1])"

fun new_columns :: "mexenv \<Rightarrow> nat \<Rightarrow> bool \<Rightarrow> mysql_field list \<Rightarrow> mxArray list res" where
  "new_columns E nrow to_double [] = Inr []"
| "new_columns E nrow to_double (f # fs) =
     bindE (new_column E nrow to_double f) (\<lambda>c.
     bindE (new_columns E nrow to_double fs) (\<lambda>cs. Inr (c # cs)))"

text \<open>\<open>pr[j][i] = ...\<close> and \<open>i_pr[j][i] = ...\<close>: eight bytes of the data of an array.\<close>

definition put_word :: "nat \<Rightarrow> 64 word \<Rightarrow> mxArray \<Rightarrow> mxArray res" where
  "put_word i v a = (case a of
     MxDense ds c re im \<Rightarrow>
       if 8 * i + 8 \<le> length re
       then Inr (MxDense ds c (take (8 * i) re @ uint64_bytes v @ drop (8 * i + 8) re) im)
       else undefined_behaviour Write_out_of_bounds
   | _ \<Rightarrow> undefined_behaviour Null_dereference)"

text \<open>The index of the column that the structure holds under the name of column \<open>j\<close>.\<close>

definition owner :: "mysql_field list \<Rightarrow> nat \<Rightarrow> nat" where
  "owner fs j = (case filter (\<lambda>k. f_name (fs ! k) = f_name (fs ! j)) (rev [0..<length fs]) of
     [] \<Rightarrow> j | k # _ \<Rightarrow> k)"

definition update_column :: "nat \<Rightarrow> (mxArray \<Rightarrow> mxArray res) \<Rightarrow> mxArray list \<Rightarrow> mxArray list res" where
  "update_column j g cols =
     (if j < length cols then bindE (g (cols ! j)) (\<lambda>c. Inr (cols[j := c]))
      else undefined_behaviour Null_dereference)"

text \<open>The bytes behind a pointer that may be NULL.\<close>

definition cell_bytes :: "cell \<Rightarrow> byte list res" where
  "cell_bytes c = (case fst c of
     None \<Rightarrow> if snd c = 0 then Inr [] else undefined_behaviour Null_dereference
   | Some p \<Rightarrow> bindE (memread (snd c) p) (\<lambda>(d, _). Inr d))"

text \<open>The new content of an element of a cell array.\<close>

definition cell_value :: "mexenv \<Rightarrow> host \<Rightarrow> zlib \<Rightarrow> mysql_field \<Rightarrow> cell \<Rightarrow> mxArray res" where
  "cell_value E H Z f c =
     (if f_type f = MYSQL_TYPE_BLOB \<and> f_charsetnr f = 63
      then deserialize E Z (fst c) (snd c)
      else if f_type f = MYSQL_TYPE_STRING \<and> f_flags f AND BINARY_FLAG \<noteq> 0
      then bindE (create_numeric E [1, word_of_nat (snd c)] (class_code E mxUINT8_CLASS)
                    (complexity_code E mxREAL)) (\<lambda>v.
           bindE (cell_bytes c) (\<lambda>d. put_data d v))
      else bindE (hex2char (case fst c of None \<Rightarrow> [] | Some p \<Rightarrow> p) (snd c)) (\<lambda>s.
           bindE (cstr s) (\<lambda>s. Inr (create_string H s))))"

text \<open>What the body of the inner loop does to the array it stores into.\<close>

definition put_cell :: "mexenv \<Rightarrow> host \<Rightarrow> zlib \<Rightarrow> 64 word \<Rightarrow> bool \<Rightarrow> mysql_field \<Rightarrow> nat \<Rightarrow> cell \<Rightarrow>
    mxArray \<Rightarrow> mxArray res" where
  "put_cell E H Z mxNaN to_double f i c a =
     (if as_integer to_double f
      then bindE (cell_text c) (\<lambda>s.
           bindE (field2int s (f_type f) (f_flags f)) (\<lambda>v.
           case v of None \<Rightarrow> Inr a | Some v \<Rightarrow> put_word i v a))
      else if can_convert (f_type f)
      then bindE (cell_text c) (\<lambda>s.
           bindE (field2num mxNaN s (f_type f)) (\<lambda>(v, _). put_word i v a))
      else bindE (cell_value E H Z f c) (\<lambda>x. put_element i x a))"

definition target :: "bool \<Rightarrow> mysql_field list \<Rightarrow> nat \<Rightarrow> nat" where
  "target to_double fs j =
     (if as_integer to_double (fs ! j) \<or> can_convert (f_type (fs ! j)) then j else owner fs j)"

text \<open>The loops over the columns of a row, from column \<open>j\<close> on, and over the rows.\<close>

fun store_row :: "mexenv \<Rightarrow> host \<Rightarrow> zlib \<Rightarrow> 64 word \<Rightarrow> bool \<Rightarrow> mysql_field list \<Rightarrow> nat \<Rightarrow> cell list \<Rightarrow>
    nat \<Rightarrow> nat \<Rightarrow> mxArray list \<Rightarrow> mxArray list res" where
  "store_row E H Z mxNaN to_double fs i row j 0 cols = Inr cols"
| "store_row E H Z mxNaN to_double fs i row j (Suc n) cols =
     bindE (cell_at row j) (\<lambda>c.
     bindE (update_column (target to_double fs j)
              (put_cell E H Z mxNaN to_double (fs ! j) i c) cols) (\<lambda>cols.
     store_row E H Z mxNaN to_double fs i row (Suc j) n cols))"

fun store_rows :: "mexenv \<Rightarrow> host \<Rightarrow> zlib \<Rightarrow> 64 word \<Rightarrow> bool \<Rightarrow> mysql_res \<Rightarrow> nat \<Rightarrow> nat \<Rightarrow>
    mxArray list \<Rightarrow> mxArray list res" where
  "store_rows E H Z mxNaN to_double r i 0 cols = Inr cols"
| "store_rows E H Z mxNaN to_double r i (Suc n) cols =
     bindE (fetch_row r i) (\<lambda>row.
     bindE (store_row E H Z mxNaN to_double (r_fields r) i row 0 (length (r_fields r)) cols) (\<lambda>cols.
     store_rows E H Z mxNaN to_double r (Suc i) n cols))"

text \<open>\<open>mxSetField\<close>: a name the structure does not have is ignored.\<close>

fun name_index :: "byte list list \<Rightarrow> byte list \<Rightarrow> nat option" where
  "name_index [] n = None"
| "name_index (m # ms) n = (if m = n then Some 0 else map_option Suc (name_index ms n))"

definition mxSetField :: "byte list \<Rightarrow> mxArray \<Rightarrow> mxArray \<Rightarrow> mxArray res" where
  "mxSetField n x s = (case name_index (mxFieldNames s) n of None \<Rightarrow> Inr s | Some k \<Rightarrow> put_element k x s)"

fun set_columns :: "mysql_field list \<Rightarrow> mxArray list \<Rightarrow> mxArray \<Rightarrow> mxArray res" where
  "set_columns (f # fs) (c # cols) s = bindE (mxSetField (f_name f) c s) (set_columns fs cols)"
| "set_columns _ _ s = Inr s"

text \<open>The structure, given the result set; the arrays are put into it by reference.\<close>

definition fetch_result :: "mexenv \<Rightarrow> host \<Rightarrow> zlib \<Rightarrow> 64 word \<Rightarrow> bool \<Rightarrow> mysql_res \<Rightarrow> mxArray res" where
  "fetch_result E H Z mxNaN to_double r =
     bindE (create_struct E [1, 1] (map f_name (r_fields r))) (\<lambda>s.
     bindE (new_columns E (r_nrow r) to_double (r_fields r)) (\<lambda>cols.
     bindE (store_rows E H Z mxNaN to_double r 0 (r_nrow r) cols) (\<lambda>cols.
     set_columns (r_fields r) cols s)))"

section \<open>Column by column\<close>

text \<open>
  The same computation for one column: its cells are stored one after the other. With distinct
  names the two nested loops of the program amount to this for each column.
\<close>

fun put_cells :: "mexenv \<Rightarrow> host \<Rightarrow> zlib \<Rightarrow> 64 word \<Rightarrow> bool \<Rightarrow> mysql_field \<Rightarrow> nat \<Rightarrow> cell list \<Rightarrow>
    mxArray \<Rightarrow> mxArray res" where
  "put_cells E H Z mxNaN to_double f i [] a = Inr a"
| "put_cells E H Z mxNaN to_double f i (c # cs) a =
     bindE (put_cell E H Z mxNaN to_double f i c a) (put_cells E H Z mxNaN to_double f (Suc i) cs)"

lemma owner_distinct:
  assumes d: "distinct (map f_name fs)" and j: "j < length fs"
  shows "owner fs j = j"
proof -
  have "f_name (fs ! k) = f_name (fs ! j) \<longleftrightarrow> k = j" if "k < length fs" for k
    using d j that by (metis length_map nth_eq_iff_index_eq nth_map)
  then have "filter (\<lambda>k. f_name (fs ! k) = f_name (fs ! j)) (rev [0..<length fs]) =
      filter (\<lambda>k. k = j) (rev [0..<length fs])"
    by (intro filter_cong) auto
  also have "\<dots> = [j]"
  proof -
    have "filter (\<lambda>k. k = j) [0..<length fs] = [j]"
      using j by (induction fs rule: rev_induct) (auto simp: nth_append)
    then show ?thesis by (simp flip: rev_filter)
  qed
  finally show ?thesis by (simp add: owner_def)
qed

lemma target_distinct: "distinct (map f_name fs) \<Longrightarrow> j < length fs \<Longrightarrow> target to_double fs j = j"
  by (simp add: target_def owner_distinct)

text \<open>One row: column \<open>k\<close> is updated with cell \<open>k\<close>, for all columns from \<open>j\<close> on.\<close>

lemma store_row_columns:
  assumes d: "distinct (map f_name fs)"
  shows "j + n = length fs \<Longrightarrow> length row = length fs \<Longrightarrow> length cols = length fs \<Longrightarrow>
    store_row E H Z mxNaN to_double fs i row j n cols = Inr cols' \<Longrightarrow>
    length cols' = length fs \<and> (\<forall>k<j. cols' ! k = cols ! k)
    \<and> (\<forall>k<length fs. j \<le> k \<longrightarrow> put_cell E H Z mxNaN to_double (fs ! k) i (row ! k) (cols ! k) = Inr (cols' ! k))"
proof (induction n arbitrary: j cols)
  case 0
  then show ?case by simp
next
  case (Suc n)
  have j: "j < length fs" using Suc.prems by simp
  then obtain a where a: "put_cell E H Z mxNaN to_double (fs ! j) i (row ! j) (cols ! j) = Inr a"
      and rest: "store_row E H Z mxNaN to_double fs i row (Suc j) n (cols[j := a]) = Inr cols'"
    using Suc.prems target_distinct [OF d j] by (auto simp: bindE_eq_Inr cell_at_def update_column_def)
  from Suc.IH [OF _ _ _ rest] Suc.prems have IH:
      "length cols' = length fs" "\<forall>k<Suc j. cols' ! k = cols[j := a] ! k"
      "\<forall>k<length fs. Suc j \<le> k \<longrightarrow>
         put_cell E H Z mxNaN to_double (fs ! k) i (row ! k) (cols[j := a] ! k) = Inr (cols' ! k)"
    by auto
  have "put_cell E H Z mxNaN to_double (fs ! k) i (row ! k) (cols ! k) = Inr (cols' ! k)"
    if k: "k < length fs" "j \<le> k" for k
  proof (cases "k = j")
    case True
    then show ?thesis using a IH(2) j Suc.prems by simp
  next
    case False
    then show ?thesis using IH(3) k by simp
  qed
  then show ?case using IH by simp
qed

lemma store_rows_columns:
  assumes d: "distinct (map f_name (r_fields r))"
    and w: "\<forall>row\<in>set (r_rows r). length row = length (r_fields r)"
  shows "i + n = length (r_rows r) \<Longrightarrow> length cols = length (r_fields r) \<Longrightarrow>
    store_rows E H Z mxNaN to_double r i n cols = Inr cols' \<Longrightarrow>
    length cols' = length (r_fields r) \<and> (\<forall>k<length (r_fields r).
      put_cells E H Z mxNaN to_double (r_fields r ! k) i (map (\<lambda>row. row ! k) (drop i (r_rows r))) (cols ! k)
        = Inr (cols' ! k))"
proof (induction n arbitrary: i cols)
  case 0
  then show ?case by simp
next
  case (Suc n)
  have i: "i < length (r_rows r)" using Suc.prems by simp
  define row where "row = r_rows r ! i"
  have row: "length row = length (r_fields r)" using w i by (simp add: row_def)
  obtain cols1 where
      one: "store_row E H Z mxNaN to_double (r_fields r) i row 0 (length (r_fields r)) cols = Inr cols1"
      and rest: "store_rows E H Z mxNaN to_double r (Suc i) n cols1 = Inr cols'"
    using Suc.prems i by (auto simp: bindE_eq_Inr fetch_row_def row_def)
  from store_row_columns [OF d _ row Suc.prems(2) one] have c1: "length cols1 = length (r_fields r)"
      "\<forall>k<length (r_fields r). put_cell E H Z mxNaN to_double (r_fields r ! k) i (row ! k) (cols ! k) = Inr (cols1 ! k)"
    by auto
  from Suc.IH [OF _ c1(1) rest] Suc.prems have IH: "length cols' = length (r_fields r)"
      "\<forall>k<length (r_fields r). put_cells E H Z mxNaN to_double (r_fields r ! k) (Suc i)
         (map (\<lambda>row. row ! k) (drop (Suc i) (r_rows r))) (cols1 ! k) = Inr (cols' ! k)"
    by auto
  have "drop i (r_rows r) = row # drop (Suc i) (r_rows r)" using i by (simp add: Cons_nth_drop_Suc row_def)
  with IH c1 show ?case by simp
qed

lemma new_columns_nth:
  "new_columns E n b fs = Inr cols \<Longrightarrow> length cols = length fs \<and>
     (\<forall>k<length fs. new_column E n b (fs ! k) = Inr (cols ! k))"
proof (induction fs arbitrary: cols)
  case (Cons f fs)
  then show ?case by (auto simp: bindE_eq_Inr nth_Cons split: nat.splits)
qed simp

lemma name_index_distinct: "distinct ns \<Longrightarrow> k < length ns \<Longrightarrow> name_index ns (ns ! k) = Some k"
proof (induction ns arbitrary: k)
  case (Cons n ns)
  then show ?case by (cases k) auto
qed simp

lemma set_columns_from:
  assumes d: "distinct ns"
  shows "map f_name fs = drop i ns \<Longrightarrow> length cols = length fs \<Longrightarrow> length es = length ns \<Longrightarrow> i \<le> length ns \<Longrightarrow>
    set_columns fs cols (MxStruct ds ns es) = Inr (MxStruct ds ns (take i es @ map Some cols))"
proof (induction fs arbitrary: i cols es)
  case Nil
  then show ?case by simp
next
  case (Cons f fs)
  obtain c cols' where cols: "cols = c # cols'" using Cons.prems by (cases cols) auto
  have i: "i < length ns" using Cons.prems by (metis drop_all linorder_not_le list.distinct(1) list.simps(9))
  then have "drop i ns = ns ! i # drop (Suc i) ns" by (simp add: Cons_nth_drop_Suc)
  with Cons.prems have f: "f_name f = ns ! i" "map f_name fs = drop (Suc i) ns" by simp_all
  have "set_columns fs cols' (MxStruct ds ns (es[i := Some c])) =
      Inr (MxStruct ds ns (take (Suc i) (es[i := Some c]) @ map Some cols'))"
    using Cons.prems f i by (intro Cons.IH) (simp_all add: cols)
  then show ?case
    using Cons.prems i f by (simp add: cols mxSetField_def name_index_distinct [OF d i] take_Suc_conv_app_nth)
qed

lemma fetch_result_columns:
  assumes E: "matlab_api E" and d: "distinct (map f_name (r_fields r))"
    and w: "\<forall>row\<in>set (r_rows r). length row = length (r_fields r)" and n: "length (r_rows r) = r_nrow r"
    and res: "fetch_result E H Z mxNaN to_double r = Inr s"
  shows "\<exists>cols. s = MxStruct [1, 1] (map f_name (r_fields r)) (map Some cols)
    \<and> length cols = length (r_fields r)
    \<and> (\<forall>k<length (r_fields r). bindE (new_column E (r_nrow r) to_double (r_fields r ! k))
         (put_cells E H Z mxNaN to_double (r_fields r ! k) 0 (map (\<lambda>row. row ! k) (r_rows r)))
         = Inr (cols ! k))"
proof -
  let ?names = "map f_name (r_fields r)"
  have dims: "dims_ok [1, 1]" by (simp add: dims_ok_def INT_MAX_def)
  obtain cols0 cols where c0: "new_columns E (r_nrow r) to_double (r_fields r) = Inr cols0"
      and c: "store_rows E H Z mxNaN to_double r 0 (r_nrow r) cols0 = Inr cols"
      and s: "set_columns (r_fields r) cols
                (MxStruct [1, 1] ?names (replicate (nelems [1, 1] * length ?names) None)) = Inr s"
    using res by (auto simp: fetch_result_def bindE_eq_Inr matlab_create_struct [OF E dims d])
  have cols0: "length cols0 = length (r_fields r)"
      "\<forall>k<length (r_fields r). new_column E (r_nrow r) to_double (r_fields r ! k) = Inr (cols0 ! k)"
    using new_columns_nth [OF c0] by auto
  from store_rows_columns [OF d w _ cols0(1) c] n have cols: "length cols = length (r_fields r)"
      "\<forall>k<length (r_fields r). put_cells E H Z mxNaN to_double (r_fields r ! k) 0
         (map (\<lambda>row. row ! k) (r_rows r)) (cols0 ! k) = Inr (cols ! k)"
    by auto
  have one: "nelems [1, 1] = 1" by (simp add: nelems_def)
  have "s = MxStruct [1, 1] ?names (map Some cols)"
    using set_columns_from [OF d, of "r_fields r" 0 cols "replicate (length ?names) None"] s cols(1) by (simp add: one)
  with cols cols0 show ?thesis by auto
qed

section \<open>Columns that come back as they were stored\<close>

text \<open>A BIGINT column.\<close>

definition bigint_cell :: "mysql_field \<Rightarrow> 64 word \<Rightarrow> byte list \<Rightarrow> cell" where
  "bigint_cell f v tail =
     (let s = (if f_flags f AND UNSIGNED_FLAG \<noteq> 0 then dec (unat v) else signed_text v)
      in (Some (s @ 0 # tail), length s))"

lemma digits_no_nul: "list_all isdigit s \<Longrightarrow> no_nul s"
  by (auto simp: list_all_iff no_nul_def isdigit_def)

lemma bigint_text: "cell_text (bigint_cell f v tail) = Inr (Some
    (if f_flags f AND UNSIGNED_FLAG \<noteq> 0 then dec (unat v) else signed_text v))"
  using dec_digits(1) [THEN digits_no_nul]
  by (simp add: bigint_cell_def cell_text_def signed_text_def sprintf_d_def Let_def)

lemma put_bigint:
  assumes "as_integer to_double f" and "8 * i + 8 \<le> length re"
  shows "put_cell E H Z mxNaN to_double f i (bigint_cell f v tail) (MxDense ds c re im) =
    Inr (MxDense ds c (take (8 * i) re @ uint64_bytes v @ drop (8 * i + 8) re) im)"
proof -
  have t: "f_type f = MYSQL_TYPE_LONGLONG" using assms(1) by (simp add: as_integer_def)
  have n: "IS_NUM MYSQL_TYPE_LONGLONG" by (simp add: IS_NUM_types)
  show ?thesis
    using assms field2int_signed [OF n, of "f_flags f" v] field2int_unsigned [OF n, of "f_flags f" v]
    by (auto simp: put_cell_def bigint_text t put_word_def)
qed

lemma put_bigints:
  assumes f: "as_integer to_double f"
  shows "length re = 8 * (i + length vs) \<Longrightarrow>
    put_cells E H Z mxNaN to_double f i (map (\<lambda>(v, tail). bigint_cell f v tail) vs) (MxDense ds c re im) =
      Inr (MxDense ds c (take (8 * i) re @ concat (map (uint64_bytes \<circ> fst) vs)) im)"
proof (induction vs arbitrary: i re)
  case Nil
  then show ?case by simp
next
  case (Cons vt vs)
  obtain v tail where vt: "vt = (v, tail)" by (cases vt)
  let ?re = "take (8 * i) re @ uint64_bytes v @ drop (8 * i + 8) re"
  have "put_cells E H Z mxNaN to_double f (Suc i) (map (\<lambda>(v, tail). bigint_cell f v tail) vs) (MxDense ds c ?re im)
     = Inr (MxDense ds c (take (8 * Suc i) ?re @ concat (map (uint64_bytes \<circ> fst) vs)) im)"
    using Cons.prems by (intro Cons.IH) simp
  then show ?case
    using Cons.prems by (simp add: vt put_bigint [OF f] comp_def)
qed

text \<open>A binary BLOB column whose cells are blobs of the {M} placeholder.\<close>

definition blob_field :: "mysql_field \<Rightarrow> bool" where
  "blob_field f \<longleftrightarrow> f_type f = MYSQL_TYPE_BLOB \<and> f_charsetnr f = 63"

lemma put_blob:
  assumes "blob_field f" and "deserialize E Z (fst c) (snd c) = Inr x" and "i < length es"
  shows "put_cell E H Z mxNaN to_double f i c (MxCell ds es) = Inr (MxCell ds (es[i := Some x]))"
  using assms
  by (simp add: put_cell_def blob_field_def as_integer_def can_convert_IS_NUM IS_NUM_types cell_value_def)

lemma put_blobs:
  assumes f: "blob_field f"
  shows "list_all2 (\<lambda>c x. deserialize E Z (fst c) (snd c) = Inr x) cs xs \<Longrightarrow> length es = i + length cs \<Longrightarrow>
    put_cells E H Z mxNaN to_double f i cs (MxCell ds es) = Inr (MxCell ds (take i es @ map Some xs))"
proof (induction cs xs arbitrary: i es rule: list_all2_induct)
  case Nil
  then show ?case by simp
next
  case (Cons c cs x xs)
  have "put_cells E H Z mxNaN to_double f (Suc i) cs (MxCell ds (es[i := Some x])) =
      Inr (MxCell ds (take (Suc i) (es[i := Some x]) @ map Some xs))"
    using Cons.prems by (intro Cons.IH) simp
  then show ?case
    using Cons.prems Cons.hyps by (simp add: put_blob [OF f] take_Suc_conv_app_nth)
qed

text \<open>An empty text column, or one that is NULL, breaks the buffer of \<open>hex2char\<close>.\<close>

definition text_field :: "mysql_field \<Rightarrow> bool" where
  "text_field f \<longleftrightarrow> \<not> IS_NUM (f_type f) \<and> \<not> blob_field f
     \<and> \<not> (f_type f = MYSQL_TYPE_STRING \<and> f_flags f AND BINARY_FLAG \<noteq> 0)"

lemma put_text:
  assumes f: "text_field f"
  shows "put_cell E H Z mxNaN to_double f i c a =
    bindE (hex2char (case fst c of None \<Rightarrow> [] | Some p \<Rightarrow> p) (snd c)) (\<lambda>s.
    bindE (cstr s) (\<lambda>s. put_element i (create_string H s) a))"
proof -
  have "\<not> as_integer to_double f" "\<not> can_convert (f_type f)"
    using f by (auto simp: text_field_def as_integer_def can_convert_IS_NUM IS_NUM_types)
  then show ?thesis
    using f by (auto simp: put_cell_def cell_value_def text_field_def blob_field_def bindE_assoc)
qed

lemma put_text_empty:
  "text_field f \<Longrightarrow> put_cell E H Z mxNaN to_double f i (p, 0) a = undefined_behaviour Write_out_of_bounds"
  by (simp add: put_text hex2char_empty)

lemma latin1_no_nul: "no_nul s \<Longrightarrow> no_nul (latin1_utf8 s)"
proof (induction s)
  case Nil
  then show ?case by (simp add: latin1_utf8_def)
next
  case (Cons b s)
  have "unat b \<noteq> 0" "unat b < 256" using Cons.prems unsigned_less [of b, where ?'a = nat] by (auto simp: unat_eq_0)
  then have "no_nul (utf8_encode (unat b))"
    using unat_byte_of_nat by (auto simp: utf8_encode_def no_nul_def word_unat_eq_iff simp del: of_nat_add)
  with Cons show ?case by (simp add: latin1_utf8_def)
qed

lemma put_text_latin1:
  assumes "text_field f" and "s \<noteq> []" and "no_nul s"
  shows "put_cell E H Z mxNaN to_double f i (Some (s @ tail), length s) a =
    put_element i (create_string H (latin1_utf8 s)) a"
  using assms by (simp add: put_text hex2char_ok latin1_no_nul)

end
