(* ===== verification/Mym_Commands.thy ===== *)
theory Mym_Commands
  imports Mym_Placeholder
begin

text \<open>
  The commands that need no server: serialize, deserialize and version, branches of \<open>mexFunction\<close> in
  \<open>src/src/mym.cpp\<close>. The result is \<open>plhs[0]\<close>, or \<open>None\<close> where it is left unset.
\<close>

section \<open>The code\<close>

definition double_scalar :: "mexenv \<Rightarrow> 64 word \<Rightarrow> mxArray res" where
  "double_scalar E v =
     bindE (create_numeric E [1, 1] (class_code E mxDOUBLE_CLASS) (complexity_code E mxREAL))
       (put_data (uint64_bytes v))"

definition ser_not_closed :: merror where
  "ser_not_closed = MexErrMsgIdAndTxt ''mYm:Serialization:Placeholders''
     ''Placeholders are not correctly closed!''"

definition ser_count :: merror where
  "ser_count = MexErrMsgIdAndTxt ''mYm:Serialization:Placeholders''
     ''The number of placeholders differs from that of additional arguments!''"

definition ser_compression :: merror where
  "ser_compression = MexErrMsgIdAndTxt ''mYm:Serialization:Compression'' ''Compression failed''"

text \<open>"return the serialized items as cell array of unsigned byte vectors"\<close>

definition byte_vector :: "mexenv \<Rightarrow> byte list \<Rightarrow> mxArray res" where
  "byte_vector E pd =
     bindE (create_numeric E [word_of_nat (length pd), 1] (class_code E mxUINT8_CLASS)
              (complexity_code E mxREAL))
       (put_data pd)"

fun set_cells :: "mexenv \<Rightarrow> nat \<Rightarrow> byte list list \<Rightarrow> mxArray \<Rightarrow> mxArray res" where
  "set_cells E i [] c = Inr c"
| "set_cells E i (pd # pds) c =
     bindE (byte_vector E pd) (\<lambda>vec. bindE (put_element i vec c) (\<lambda>c. set_cells E (Suc i) pds c))"

definition serialize_command ::
  "mexenv \<Rightarrow> host \<Rightarrow> zlib \<Rightarrow> nat \<Rightarrow> byte list \<Rightarrow> mxArray list \<Rightarrow> mxArray option res" where
  "serialize_command E H Z nlhs query args =
     (let expected = length args in
      if expected = 0 then Inr None
      else bindE (find_placeholders ser_not_closed query expected 0) (\<lambda>pos.
           if length pos \<noteq> expected then Inl ser_count
           else bindE (read_placeholders query pos args) (\<lambda>phs.
                bindE (serialize_fields_of E H Z ser_compression cmp_buf_len0 phs args) (\<lambda>pds.
                if 0 < nlhs
                then bindE (create_cell E [word_of_nat (length pos), 1]) (\<lambda>c.
                     bindE (set_cells E 0 pds c) (\<lambda>c. Inr (Some c)))
                else Inr None))))"

text \<open>\<open>mxGetPr\<close>: NULL when there are no data.\<close>

definition mxGetPr :: "mxArray \<Rightarrow> byte list option" where
  "mxGetPr a = (if mxGetData a = [] then None else Some (mxGetData a))"

definition deserialize_command :: "mexenv \<Rightarrow> zlib \<Rightarrow> nat \<Rightarrow> mxArray list \<Rightarrow> mxArray option res" where
  "deserialize_command E Z nlhs prhs =
     (if nlhs = 1 \<and> length prhs = 2
      then bindE (max_dim (prhs ! 1)) (\<lambda>n.
           bindE (deserialize E Z (mxGetPr (prhs ! 1)) n) (\<lambda>a. Inr (Some a)))
      else mexErrMsgIdAndTxt ''mYm:Deserialization:Mismatch''
             ''There must be only one input and one output variable\<newline>'')"

definition MYM_VERSION_MAJOR :: nat where "MYM_VERSION_MAJOR = 2"
definition MYM_VERSION_MINOR :: nat where "MYM_VERSION_MINOR = 8"
definition MYM_VERSION_BUGFIX :: nat where "MYM_VERSION_BUGFIX = 5"

definition version_fields :: "byte list list" where
  "version_fields = [bytes_of ''major'', bytes_of ''minor'', bytes_of ''bugfix'']"

fun set_fields :: "mexenv \<Rightarrow> nat \<Rightarrow> nat list \<Rightarrow> mxArray \<Rightarrow> mxArray res" where
  "set_fields E i [] s = Inr s"
| "set_fields E i (v # vs) s =
     bindE (double_scalar E (double_of_nat v)) (\<lambda>x.
     bindE (put_element i x s) (\<lambda>s. set_fields E (Suc i) vs s))"

definition version_command :: "mexenv \<Rightarrow> nat \<Rightarrow> mxArray option res" where
  "version_command E nlhs =
     (if nlhs = 0 then Inr None
      else if nlhs = 1
      then bindE (create_struct E [1, 1] version_fields) (\<lambda>s.
           bindE (set_fields E 0 [MYM_VERSION_MAJOR, MYM_VERSION_MINOR, MYM_VERSION_BUGFIX] s) (\<lambda>s.
           Inr (Some s)))
      else mexErrMsgTxt ''Zero or one output arguments allowed for version command'')"

section \<open>The values made here\<close>

lemma dims_small: "dims_ok [a, b]"
  by (simp add: dims_ok_def INT_MAX_def)

definition double_value :: "64 word \<Rightarrow> mxArray" where
  "double_value v = MxDense [1, 1] mxDOUBLE_CLASS (uint64_bytes v) None"

lemma double_scalar_ok:
  assumes "matlab_api E" and "elem_size E mxDOUBLE_CLASS = 8"
  shows "double_scalar E v = Inr (double_value v)"
  using assms
  by (simp add: double_scalar_def double_value_def matlab_create_numeric dims_small plain_class_def
      numeric_class_def nelems_def if_complex_def)

definition byte_column :: "byte list \<Rightarrow> mxArray" where
  "byte_column pd = MxDense [word_of_nat (length pd), 1] mxUINT8_CLASS pd None"

lemma byte_vector_ok:
  assumes E: "matlab_api E" and n: "length pd < 2 ^ 64"
  shows "byte_vector E pd = Inr (byte_column pd)"
proof -
  have "nelems [word_of_nat (length pd), 1] = length pd" using n by (simp add: nelems_def unat_of_nat)
  then show ?thesis
    using E matlab_uint8_size [OF E]
    by (simp add: byte_vector_def byte_column_def matlab_create_numeric dims_small plain_class_def
        numeric_class_def if_complex_def)
qed

lemma set_cells_ok:
  assumes E: "matlab_api E"
  shows "list_all (\<lambda>pd. length pd < 2 ^ 64) pds \<Longrightarrow> length es = i + length pds \<Longrightarrow>
    set_cells E i pds (MxCell ds es) =
      Inr (MxCell ds (take i es @ map (\<lambda>pd. Some (byte_column pd)) pds))"
proof (induction pds arbitrary: i es)
  case Nil
  then show ?case by simp
next
  case (Cons pd pds)
  have i: "i < length es" using Cons.prems by simp
  from Cons.prems have "set_cells E (Suc i) pds (MxCell ds (es[i := Some (byte_column pd)])) =
     Inr (MxCell ds (take (Suc i) (es[i := Some (byte_column pd)]) @ map (\<lambda>pd. Some (byte_column pd)) pds))"
    by (intro Cons.IH) simp_all
  with Cons.prems i show ?case by (simp add: byte_vector_ok [OF E] take_Suc_conv_app_nth)
qed

section \<open>The {M} placeholder\<close>

text \<open>The values whose {M} form is the format of \<open>encode\<close>: all but sparse matrices.\<close>

definition plain_value :: "mexenv \<Rightarrow> mxArray \<Rightarrow> bool" where
  "plain_value E a \<longleftrightarrow> storable E a \<and> \<not> mxIsSparse a \<and> length (stored E a) < 2 ^ 32"

lemma serialize_M:
  assumes a: "mx_ok E a" and dense: "\<not> mxIsSparse a"
  shows "\<exists>pf. getSerialFct (PH_MATLAB # rest) a = Inr (pf, True) \<and> run_serial E H pf a pa = Inr (stored E a)"
proof (cases a)
  case (MxDense ds c re im)
  with a have "getSerialFct (PH_MATLAB # rest) a = Inr (SerializeArray, True)"
    by (auto simp: getSerialFct_def ph_values mxIsNumeric_def mxIsClass_def dest: dense_not_sparse)
  moreover have "run_serial E H SerializeArray a pa = Inr (stored E a)"
    using a MxDense by (auto simp: run_serial_def stored_def serializeArray_image split: option.splits)
  ultimately show ?thesis by blast
next
  case (MxStruct ds fs es)
  then have "getSerialFct (PH_MATLAB # rest) a = Inr (SerializeStruct, True)"
    by (simp add: getSerialFct_def ph_values mxIsNumeric_def mxIsClass_def numeric_class_def)
  moreover have "serialize_fields E es = Inr (map (encode_opt uint64_bytes E) es)"
    using a MxStruct by (intro serialize_fields_encode) simp
  then have "run_serial E H SerializeStruct a pa = Inr (stored E a)"
    using a MxStruct serialize_struct_step by (simp add: run_serial_def stored_def)
  ultimately show ?thesis by blast
next
  case (MxCell ds es)
  then have "getSerialFct (PH_MATLAB # rest) a = Inr (SerializeCell, True)"
    by (simp add: getSerialFct_def ph_values mxIsNumeric_def mxIsClass_def numeric_class_def)
  moreover have "serialize_fields E es = Inr (map (encode_opt uint64_bytes E) es)"
    using a MxCell by (intro serialize_fields_encode) simp
  then have "run_serial E H SerializeCell a pa = Inr (stored E a)"
    using a MxCell serialize_cell_step by (simp add: run_serial_def stored_def)
  ultimately show ?thesis by blast
qed (use assms in simp_all)

text \<open>A sparse matrix is handed to \<open>serializeArray\<close>, which copies as many elements as the full matrix has.\<close>

lemma serialize_M_sparse:
  assumes "0 < elem_size E c" and "length re < elem_size E c * (unat m * unat n)"
    and "c = mxDOUBLE_CLASS \<or> c = mxLOGICAL_CLASS"
  shows "getSerialFct (PH_MATLAB # rest) (MxSparse m n nz c jc ir re None) = Inr (SerializeArray, True)"
    and "run_serial E H SerializeArray (MxSparse m n nz c jc ir re None) pa =
      undefined_behaviour Read_out_of_bounds"
proof -
  show "getSerialFct (PH_MATLAB # rest) (MxSparse m n nz c jc ir re None) = Inr (SerializeArray, True)"
    using assms(3) by (auto simp: getSerialFct_def ph_values mxIsNumeric_def mxIsClass_def numeric_class_def)
  show "run_serial E H SerializeArray (MxSparse m n nz c jc ir re None) pa =
      undefined_behaviour Read_out_of_bounds"
    using assms(2)
    by (simp add: run_serial_def serializeArray_def Let_def complexity_of_def mxIsComplex_def
        mxGetNumberOfElements_def nelems_def mxGetNumberOfDimensions_def put_area_def memread_short)
qed

section \<open>A query whose placeholders are all {M}\<close>

definition all_M :: "query_parts \<Rightarrow> bool" where
  "all_M ps \<longleftrightarrow> (\<forall>(seg, inner) \<in> set ps. inner = [PH_MATLAB])"

text \<open>The outcome for one argument: a blob that reads back as the value.\<close>

definition blob_for :: "mexenv \<Rightarrow> zlib \<Rightarrow> mxArray \<Rightarrow> byte list \<Rightarrow> bool" where
  "blob_for E Z a blob \<longleftrightarrow> 0 < length blob \<and> length blob \<le> length (stored E a)
     \<and> (\<forall>tail. deserialize E Z (Some (blob @ tail)) (length blob) = Inr (canon a))"

lemma compress_gives_blob:
  assumes "zlib_api Z" and "plain_value E a"
  shows "\<exists>blob cap'. compress_field Z err pec cap (stored E a) = Inr (blob, cap') \<and> blob_for E Z a blob"
proof -
  obtain blob cap' where c: "compress_field Z err pec cap (stored E a) = Inr (blob, cap')"
    using compress_field_total [OF assms(1)] by blast
  have "0 < length blob"
    using c by (cases rule: compress_field_cases) (auto simp: stored_def head_image_True packed_image_def zlib_id_values)
  then have "blob_for E Z a blob"
    using deserialize_compressed [OF assms(1) _ _ c] compress_field_shrinks [OF c] assms(2)
    by (simp add: blob_for_def plain_value_def)
  with c show ?thesis by blast
qed

lemma read_all_M:
  "all_M ps \<Longrightarrow> list_all (\<lambda>a. mx_ok E a \<and> \<not> mxIsSparse a) as \<Longrightarrow> length as = length ps \<Longrightarrow>
   \<exists>phs. read_placeholders (p @ query_text ps rest) (positions (length p) ps) as = Inr phs
     \<and> list_all2 (\<lambda>ph a. ph_pec ph \<and> (\<forall>H. run_serial E H (ph_pf ph) a (ph_pa ph) = Inr (stored E a))) phs as"
proof (induction ps arbitrary: p as)
  case Nil
  then show ?case by simp
next
  case (Cons part ps)
  obtain seg where part: "part = (seg, [PH_MATLAB])" using Cons.prems by (cases part) (auto simp: all_M_def)
  obtain a as' where as: "as = a # as'" using Cons.prems by (cases as) auto
  let ?q = "p @ query_text (part # ps) rest"
  have "\<exists>pf. \<forall>H pa. getSerialFct (PH_MATLAB # PH_CLOSE @ query_text ps rest) a = Inr (pf, True)
      \<and> run_serial E H pf a pa = Inr (stored E a)"
    using serialize_M [of E a "PH_CLOSE @ query_text ps rest"] Cons.prems as
    by (metis (no_types, lifting) Inr_inject Pair_inject list.pred_inject(2))
  then obtain pf where pf: "getSerialFct (PH_MATLAB # PH_CLOSE @ query_text ps rest) a = Inr (pf, True)"
      "\<And>H pa. run_serial E H pf a pa = Inr (stored E a)" by blast
  have "drop (length p + length seg + length PH_OPEN) ?q = PH_MATLAB # PH_CLOSE @ query_text ps rest"
    by (simp add: part ph_values)
  then obtain ph where ph: "read_placeholder ?q (length p + length seg, length p + length seg + 1 + 1) a = Inr ph"
      "ph_pf ph = pf" "ph_pec ph"
    using pf(1) by (simp add: read_placeholder_def)
  have "\<exists>phs. read_placeholders ((p @ seg @ PH_OPEN @ [PH_MATLAB] @ PH_CLOSE) @ query_text ps rest)
      (positions (length (p @ seg @ PH_OPEN @ [PH_MATLAB] @ PH_CLOSE)) ps) as' = Inr phs
      \<and> list_all2 (\<lambda>ph a. ph_pec ph \<and> (\<forall>H. run_serial E H (ph_pf ph) a (ph_pa ph) = Inr (stored E a))) phs as'"
    using Cons.prems as by (intro Cons.IH) (auto simp: all_M_def)
  then obtain phs where phs: "read_placeholders ?q (positions (length p + length seg + 1 + 2) ps) as' = Inr phs"
      "list_all2 (\<lambda>ph a. ph_pec ph \<and> (\<forall>H. run_serial E H (ph_pf ph) a (ph_pa ph) = Inr (stored E a))) phs as'"
    by (auto simp: part ph_values add.assoc)
  then show ?case using ph pf by (simp add: part as add.assoc)
qed

lemma serialize_all_M:
  assumes Z: "zlib_api Z"
  shows "list_all2 (\<lambda>ph a. ph_pec ph \<and> (\<forall>H. run_serial E H (ph_pf ph) a (ph_pa ph) = Inr (stored E a))) phs as
    \<Longrightarrow> list_all (plain_value E) as \<Longrightarrow>
    \<exists>pds. serialize_fields_of E H Z err cap phs as = Inr pds \<and> list_all2 (blob_for E Z) as pds"
proof (induction phs as arbitrary: cap rule: list_all2_induct)
  case Nil
  then show ?case by simp
next
  case (Cons ph phs a as)
  obtain blob cap' where c: "compress_field Z err (ph_pec ph) cap (stored E a) = Inr (blob, cap')"
      and blob: "blob_for E Z a blob"
    using compress_gives_blob [OF Z] Cons.prems by (metis list.pred_inject(2))
  obtain pds where pds: "serialize_fields_of E H Z err cap' phs as = Inr pds" "list_all2 (blob_for E Z) as pds"
    using Cons.IH Cons.prems by fastforce
  then show ?case using Cons.hyps c blob by simp
qed

lemma deserialize_byte_column:
  assumes "blob_for E Z a blob" and "length blob < 2 ^ 64"
  shows "deserialize_command E Z 1 [cmd, byte_column blob] = Inr (Some (canon a))"
proof -
  have "max (unat (word_of_nat (length blob) :: mwSize)) (unat (1 :: mwSize)) = length blob"
    using assms by (cases blob) (simp_all add: blob_for_def unat_of_nat del: of_nat_Suc)
  moreover have "deserialize E Z (Some blob) (length blob) = Inr (canon a)"
    using assms(1) unfolding blob_for_def by (metis append_Nil2)
  ultimately show ?thesis
    using assms(1) by (simp add: deserialize_command_def byte_column_def max_dim_def dims2_def
        mxGetPr_def blob_for_def)
qed

lemma serialize_then_deserialize:
  assumes E: "matlab_api E" and Z: "zlib_api Z"
    and args: "args \<noteq> []" "list_all (plain_value E) args" "length args \<le> INT_MAX"
    and query: "parts_ok ps" "all_M ps" "length ps = length args" and nlhs: "0 < nlhs"
  shows "\<exists>blobs. serialize_command E H Z nlhs (query_text ps rest) args =
       Inr (Some (MxCell [word_of_nat (length args), 1] (map (\<lambda>b. Some (byte_column b)) blobs)))
     \<and> list_all2 (\<lambda>a b. deserialize_command E Z 1 [cmd, byte_column b] = Inr (Some (canon a))) args blobs"
proof -
  have ok: "list_all (\<lambda>a. mx_ok E a \<and> \<not> mxIsSparse a) args"
    using args(2) by (auto simp: list_all_iff plain_value_def storable_def)
  have pos: "find_placeholders ser_not_closed (query_text ps rest) (length args) 0 = Inr (positions 0 ps)"
    using find_placeholders_parts [OF query(1), of rest "length args" ser_not_closed "[]"] query(3) by simp
  obtain phs where phs: "read_placeholders (query_text ps rest) (positions 0 ps) args = Inr phs"
      "list_all2 (\<lambda>ph a. ph_pec ph \<and> (\<forall>H. run_serial E H (ph_pf ph) a (ph_pa ph) = Inr (stored E a))) phs args"
    using read_all_M [OF query(2) ok query(3) [symmetric], of "[]" rest] by auto
  obtain blobs where blobs:
      "serialize_fields_of E H Z ser_compression cmp_buf_len0 phs args = Inr blobs"
      "list_all2 (blob_for E Z) args blobs"
    using serialize_all_M [OF Z phs(2) args(2)] by blast
  have len: "length blobs = length args" using blobs(2) by (simp add: list_all2_lengthD)
  have small: "list_all2 (\<lambda>a b. blob_for E Z a b \<and> length b < 2 ^ 64) args blobs"
    using blobs(2) args(2)
    by (fastforce simp: list_all2_conv_all_nth list_all_length blob_for_def plain_value_def)
  then have "list_all (\<lambda>b. length b < 2 ^ 64) blobs"
    by (auto simp: list_all2_conv_all_nth list_all_length)
  moreover have "nelems [word_of_nat (length args), 1] = length args"
    using args(3) by (simp add: nelems_def unat_of_nat INT_MAX_def)
  ultimately have cells: "set_cells E 0 blobs (MxCell [word_of_nat (length args), 1]
       (replicate (nelems [word_of_nat (length args), 1]) None)) =
     Inr (MxCell [word_of_nat (length args), 1] (map (\<lambda>b. Some (byte_column b)) blobs))"
    using set_cells_ok [OF E, of blobs "replicate (length args) None" 0] len by simp
  have "serialize_command E H Z nlhs (query_text ps rest) args =
       Inr (Some (MxCell [word_of_nat (length args), 1] (map (\<lambda>b. Some (byte_column b)) blobs)))"
    using args(1) pos phs(1) blobs(1) nlhs cells query(3)
    by (simp add: serialize_command_def Let_def matlab_create_cell [OF E] dims_small)
  moreover have "list_all2 (\<lambda>a b. deserialize_command E Z 1 [cmd, byte_column b] = Inr (Some (canon a))) args blobs"
    using small by (rule list_all2_mono) (use deserialize_byte_column in blast)
  ultimately show ?thesis by blast
qed

end
