(* ===== verification/Mym_Session.thy ===== *)
theory Mym_Session
  imports Mym_Query Mym_Fetch Mym_Commands
begin

text \<open>
  The state that lives between two calls of \<open>mexFunction\<close> of \<open>src/src/mym.cpp\<close> - the connections
  \<open>c[MAXCONN]\<close> of \<open>mym.h\<close>, the environment variable that \<open>updateplugindir\<close> sets - and the
  programs that change it: functions from a state to a result and a new state, so that a change made
  before an error stays. The MySQL client library is a record of functions on a state of its own.
\<close>

section \<open>The MySQL client library\<close>

text \<open>
  A \<open>MYSQL*\<close> is a number, NULL is \<open>None\<close>. A Boolean result is true where the C function reports a
  failure. \<open>mysql_send h real q\<close> is \<open>mysql_real_query\<close> or \<open>mysql_query\<close>.
\<close>

type_synonym handle = nat

datatype ssl_mode = SSL_MODE_PREFERRED | SSL_MODE_REQUIRED | SSL_MODE_DISABLED

record 'w client =
  mysql_init :: "handle option \<Rightarrow> 'w \<Rightarrow> handle option \<times> 'w"
  mysql_close :: "handle \<Rightarrow> 'w \<Rightarrow> 'w"
  mysql_ping :: "handle \<Rightarrow> 'w \<Rightarrow> bool \<times> 'w"
  mysql_error :: "handle \<Rightarrow> 'w \<Rightarrow> string"
  mysql_options :: "handle \<Rightarrow> ssl_mode \<Rightarrow> 'w \<Rightarrow> 'w"
  mysql_real_connect :: "handle \<Rightarrow> byte list option \<Rightarrow> byte list option \<Rightarrow> byte list option \<Rightarrow>
    32 word \<Rightarrow> 'w \<Rightarrow> bool \<times> 'w"
  mysql_stat :: "handle \<Rightarrow> 'w \<Rightarrow> byte list option \<times> 'w"
  mysql_select_db :: "handle \<Rightarrow> byte list \<Rightarrow> 'w \<Rightarrow> bool \<times> 'w"
  mysql_get_ssl_cipher :: "handle \<Rightarrow> 'w \<Rightarrow> bool"
  mysql_get_host_info :: "handle \<Rightarrow> 'w \<Rightarrow> byte list"
  mysql_get_server_info :: "handle \<Rightarrow> 'w \<Rightarrow> byte list"
  mysql_send :: "handle \<Rightarrow> bool \<Rightarrow> byte list \<Rightarrow> 'w \<Rightarrow> bool \<times> 'w"
  mysql_store_result :: "handle \<Rightarrow> 'w \<Rightarrow> mysql_res option \<times> 'w"
  mysql_field_count :: "handle \<Rightarrow> 'w \<Rightarrow> nat"
  mysql_affected_rows :: "handle \<Rightarrow> 'w \<Rightarrow> 64 word"
  mysql_real_escape_string :: "handle \<Rightarrow> 'w \<Rightarrow> byte list \<Rightarrow> byte list"

text \<open>Everything a call of the program depends on besides its arguments and its state.\<close>

record 'w setting =
  s_env :: mexenv
  s_host :: host
  s_zlib :: zlib
  s_client :: "'w client"
  s_nan :: "64 word"
  s_mym_directory :: "byte list"

section \<open>State\<close>

record conninfo =
  conn :: "handle option"
  isopen :: bool

definition MAXCONN :: nat where "MAXCONN = 20"

definition no_connection :: conninfo where
  "no_connection = \<lparr>conn = None, isopen = False\<rparr>"

text \<open>What \<open>mexPrintf\<close> prints, by the place in the program.\<close>

datatype message =
    Msg_usage
  | Msg_id_array mwSize mwSize
  | Msg_id_value "64 word"
  | Msg_connecting "byte list option" int "byte list option" "byte list option" "byte list"
  | Msg_stat "byte list"
  | Msg_database "byte list"
  | Msg_not_connected nat
  | Msg_none_open
  | Msg_connected_to "byte list" "byte list" bool
  | Msg_report nat "byte list" "byte list" bool
  | Msg_table "byte list"
  | Msg_outputs nat nat
  | Msg_version nat nat nat

record 'w mex =
  slots :: "conninfo list"
  world :: 'w
  plugin_env :: "block option"
  console :: "message list"

definition initial :: "'w \<Rightarrow> 'w mex" where
  "initial w = \<lparr>slots = replicate MAXCONN no_connection, world = w, plugin_env = None, console = []\<rparr>"

section \<open>Programs\<close>

type_synonym ('w, 'a) prog = "'w mex \<Rightarrow> 'a res \<times> 'w mex"

definition retS :: "'a \<Rightarrow> ('w, 'a) prog" where
  "retS x s = (Inr x, s)"

definition failS :: "merror \<Rightarrow> ('w, 'a) prog" where
  "failS e s = (Inl e, s)"

definition liftS :: "'a res \<Rightarrow> ('w, 'a) prog" where
  "liftS r s = (r, s)"

definition bindS :: "('w, 'a) prog \<Rightarrow> ('a \<Rightarrow> ('w, 'b) prog) \<Rightarrow> ('w, 'b) prog" where
  "bindS m f s = (case m s of (Inl e, s') \<Rightarrow> (Inl e, s') | (Inr x, s') \<Rightarrow> f x s')"

definition say :: "message \<Rightarrow> ('w, unit) prog" where
  "say m s = (Inr (), s\<lparr>console := console s @ [m]\<rparr>)"

text \<open>A call of the client library, and a question to it that does not change its state.\<close>

definition callS :: "('w \<Rightarrow> 'a \<times> 'w) \<Rightarrow> ('w, 'a) prog" where
  "callS f s = (case f (world s) of (x, w) \<Rightarrow> (Inr x, s\<lparr>world := w\<rparr>))"

definition askS :: "('w \<Rightarrow> 'a) \<Rightarrow> ('w, 'a) prog" where
  "askS f s = (Inr (f (world s)), s)"

text \<open>\<open>c[i]\<close>\<close>

definition get_slot :: "nat \<Rightarrow> ('w, conninfo) prog" where
  "get_slot i s = (if i < length (slots s) then Inr (slots s ! i) else undefined_behaviour Read_out_of_bounds, s)"

definition set_slot :: "nat \<Rightarrow> conninfo \<Rightarrow> ('w, unit) prog" where
  "set_slot i k s = (Inr (), s\<lparr>slots := (slots s)[i := k]\<rparr>)"

definition set_isopen :: "nat \<Rightarrow> bool \<Rightarrow> ('w, unit) prog" where
  "set_isopen i b = bindS (get_slot i) (\<lambda>k. set_slot i (k\<lparr>isopen := b\<rparr>))"

definition set_conn :: "nat \<Rightarrow> handle option \<Rightarrow> ('w, unit) prog" where
  "set_conn i h = bindS (get_slot i) (\<lambda>k. set_slot i (k\<lparr>conn := h\<rparr>))"

text \<open>The pointer \<open>c[i].conn\<close> as an argument that must not be NULL.\<close>

definition handle_of :: "nat \<Rightarrow> ('w, handle) prog" where
  "handle_of i = bindS (get_slot i) (\<lambda>k. case conn k of
     None \<Rightarrow> failS (Undefined Null_dereference) | Some h \<Rightarrow> retS h)"

text \<open>\<open>mexErrMsgTxt (mysql_error (conn))\<close>\<close>

definition mysql_failure :: "'w setting \<Rightarrow> handle \<Rightarrow> ('w, 'a) prog" where
  "mysql_failure S h = bindS (askS (mysql_error (s_client S) h)) (\<lambda>t. failS (MexErrMsgTxt t))"

section \<open>Rules for reasoning\<close>

named_theorems prog_simps \<open>equations that run the basic programs\<close>

lemmas prog_defs = retS_def failS_def liftS_def bindS_def say_def callS_def askS_def

lemma bindS_basic [prog_simps]:
  "bindS (retS x) f1 s = f1 x s"
  "bindS (failS e) f2 s = (Inl e, s)"
  "bindS (say m) f3 s = f3 () (s\<lparr>console := console s @ [m]\<rparr>)"
  "bindS (callS g) f4 s = f4 (fst (g (world s))) (s\<lparr>world := snd (g (world s))\<rparr>)"
  "bindS (askS h) f5 s = f5 (h (world s)) s"
  "bindS (set_slot i k) f6 s = f6 () (s\<lparr>slots := (slots s)[i := k]\<rparr>)"
  by (simp_all add: prog_defs set_slot_def split: prod.split)

lemma bindS_liftS [prog_simps]:
  "bindS (liftS r) f s = (case r of Inl e \<Rightarrow> (Inl e, s) | Inr x \<Rightarrow> f x s)"
  by (simp add: prog_defs split: sum.split)

lemma bindS_assoc: "bindS (bindS m f) g = bindS m (\<lambda>x. bindS (f x) g)"
  by (auto simp: bindS_def fun_eq_iff split: prod.split sum.split)

lemma get_slot_in [prog_simps]:
  "i < length (slots s) \<Longrightarrow> bindS (get_slot i) f s = f (slots s ! i) s"
  by (simp add: bindS_def get_slot_def)

text \<open>
  \<open>keeps P m\<close>: the program preserves a property of the state whatever its result. The composition
  rules reduce a whole command to its basic steps.
\<close>

definition keeps :: "('w mex \<Rightarrow> bool) \<Rightarrow> ('w, 'a) prog \<Rightarrow> bool" where
  "keeps P m \<longleftrightarrow> (\<forall>s. P s \<longrightarrow> P (snd (m s)))"

named_theorems keeps_intros \<open>rules that show that a program preserves a property\<close>

lemma keepsI: "(\<And>s. P s \<Longrightarrow> P (snd (m s))) \<Longrightarrow> keeps P m"
  by (simp add: keeps_def)

lemma keepsD: "keeps P m \<Longrightarrow> P s \<Longrightarrow> P (snd (m s))"
  by (simp add: keeps_def)

lemma keeps_bindS [keeps_intros]: "keeps P m \<Longrightarrow> (\<And>x. keeps P (f x)) \<Longrightarrow> keeps P (bindS m f)"
  by (fastforce simp: keeps_def bindS_def split: prod.split sum.split)

lemma keeps_pure [keeps_intros]:
  "keeps P1 (retS x)" "keeps P2 (failS e)" "keeps P3 (liftS r)" "keeps P4 (askS g)" "keeps P5 (get_slot i)"
  by (simp_all add: keeps_def prog_defs get_slot_def)

lemma keeps_if [keeps_intros]: "keeps P m \<Longrightarrow> keeps P n \<Longrightarrow> keeps P (if b then m else n)"
  by simp

lemma keeps_option [keeps_intros]:
  "keeps P m \<Longrightarrow> (\<And>x. keeps P (f x)) \<Longrightarrow> keeps P (case v of None \<Rightarrow> m | Some x \<Rightarrow> f x)"
  by (cases v) simp_all

lemma keeps_prod [keeps_intros]: "(\<And>x y. keeps P (f x y)) \<Longrightarrow> keeps P (case p of (x, y) \<Rightarrow> f x y)"
  by (cases p) simp

lemma keeps_handle_of [keeps_intros]: "keeps P (handle_of i)"
  by (auto simp: handle_of_def intro!: keeps_intros)

lemma keeps_mysql_failure [keeps_intros]: "keeps P (mysql_failure S h)"
  by (auto simp: mysql_failure_def intro!: keeps_intros)

text \<open>
  \<open>valid P m Q R\<close>: started in a state with \<open>P\<close>, the program returns with \<open>Q\<close> or fails with \<open>R\<close>.
\<close>

definition valid :: "('w mex \<Rightarrow> bool) \<Rightarrow> ('w, 'a) prog \<Rightarrow> ('a \<Rightarrow> 'w mex \<Rightarrow> bool) \<Rightarrow> ('w mex \<Rightarrow> bool) \<Rightarrow> bool" where
  "valid P m Q R \<longleftrightarrow> (\<forall>s. P s \<longrightarrow> (case m s of (Inl e, s') \<Rightarrow> R s' | (Inr x, s') \<Rightarrow> Q x s'))"

lemma valid_bindS:
  "valid P m M R \<Longrightarrow> (\<And>x. valid (M x) (f x) Q R) \<Longrightarrow> valid P (bindS m f) Q R"
  unfolding valid_def bindS_def by (fastforce split: prod.splits sum.splits)

lemma valid_keeps: "keeps P m \<Longrightarrow> valid P m (\<lambda>_. P) P"
  unfolding valid_def keeps_def by (fastforce split: prod.splits sum.splits)

lemma keeps_valid: "valid P m (\<lambda>_. P) P \<Longrightarrow> keeps P m"
  unfolding valid_def keeps_def by (fastforce split: prod.splits sum.splits)

lemma valid_weaken:
  "valid P' m Q' R' \<Longrightarrow> (\<And>s. P s \<Longrightarrow> P' s) \<Longrightarrow> (\<And>x s. Q' x s \<Longrightarrow> Q x s) \<Longrightarrow> (\<And>s. R' s \<Longrightarrow> R s) \<Longrightarrow>
   valid P m Q R"
  unfolding valid_def by (fastforce split: prod.splits sum.splits)

lemma valid_failS: "(\<And>s. P s \<Longrightarrow> R s) \<Longrightarrow> valid P (failS e) Q R"
  by (simp add: valid_def failS_def)

lemma valid_keepsS: "keeps P m \<Longrightarrow> (\<And>s. P s \<Longrightarrow> R s) \<Longrightarrow> valid P m (\<lambda>_. P) R"
  by (rule valid_weaken [OF valid_keeps]) assumption+

end
