(* ===== verification/Mym_Connect.thy ===== *)
theory Mym_Connect
  imports Mym_Session
begin

text \<open>
  The connection commands of \<open>mexFunction\<close> in \<open>src/src/mym.cpp\<close>: open, close, closeall, use and status,
  with \<open>hostport\<close> of \<open>mym.h\<close> and \<open>updateplugindir\<close>. Every command gets the arguments \<open>prhs\<close>, the
  position \<open>jarg\<close> of the command string among them, the number \<open>nlhs\<close> of results that are asked
  for and the connection \<open>cid\<close>; its result is \<open>plhs[0]\<close> or nothing.
\<close>

section \<open>Arguments\<close>

text \<open>\<open>getstring (prhs[j])\<close>\<close>

definition arg_string :: "'w setting \<Rightarrow> mxArray list \<Rightarrow> nat \<Rightarrow> byte list res" where
  "arg_string S prhs j = (if j < length prhs then getstring (s_host S) (prhs ! j)
                          else undefined_behaviour Read_out_of_bounds)"

text \<open>The same if there are more than \<open>j\<close> arguments, a NULL pointer otherwise.\<close>

definition arg_option :: "'w setting \<Rightarrow> mxArray list \<Rightarrow> nat \<Rightarrow> byte list option res" where
  "arg_option S prhs j = (if Suc j \<le> length prhs
                          then bindE (arg_string S prhs j) (\<lambda>s. Inr (Some s)) else Inr None)"

definition result_double :: "'w setting \<Rightarrow> 64 word \<Rightarrow> ('w, mxArray option) prog" where
  "result_double S v = bindS (liftS (double_scalar (s_env S) v)) (\<lambda>a. retS (Some a))"

definition portsep :: byte where
  "portsep = of_char (CHR '':'')"

text \<open>The string is truncated at the separator; the port is the number behind it.\<close>

definition hostport :: "byte list option \<Rightarrow> (byte list option \<times> int) res" where
  "hostport s = (case s of
     None \<Rightarrow> Inr (None, 0)
   | Some s \<Rightarrow> (case strstr s [portsep] of
        None \<Rightarrow> Inr (Some s, 0)
      | Some i \<Rightarrow> bindE (atoi (drop (i + 1) s)) (\<lambda>port. Inr (Some (take i s), port))))"

section \<open>\<open>updateplugindir\<close>\<close>

text \<open>
  The text is put together in a local array of 1000 bytes. \<open>putenv\<close> makes the array itself part of
  the environment, and the array ends with the function; \<open>_putenv\<close> of Windows copies it.
\<close>

definition environment_string :: "byte list \<Rightarrow> byte list res" where
  "environment_string mym_directory = print_to 1000 (bytes_of ''LIBMYSQL_PLUGIN_DIR='' @ mym_directory)"

definition updateplugindir :: "'w setting \<Rightarrow> ('w, unit) prog" where
  "updateplugindir S = bindS (liftS (environment_string (s_mym_directory S))) (\<lambda>t.
     \<lambda>s. (Inr (), s\<lparr>plugin_env := Some (if on_windows (s_env S) then Live t else Freed)\<rparr>))"

section \<open>open\<close>

text \<open>The text of an error that goes through the format string of \<open>mexErrMsgIdAndTxt\<close>.\<close>

fun as_format :: "string \<Rightarrow> string res" where
  "as_format [] = Inr []"
| "as_format (c # t) =
     (if c = CHR ''%''
      then (case t of [] \<Rightarrow> undefined_behaviour Bad_format
            | d # u \<Rightarrow> if d = CHR ''%'' then bindE (as_format u) (\<lambda>v. Inr (c # v))
                      else undefined_behaviour Bad_format)
      else bindE (as_format t) (\<lambda>v. Inr (c # v)))"

definition ssl_mode_of :: "mexenv \<Rightarrow> byte list \<Rightarrow> ssl_mode res" where
  "ssl_mode_of E ssl_input =
     (if strcasecmp_words (on_windows E) ssl_input (bytes_of ''true'') then Inr SSL_MODE_REQUIRED
      else if strcasecmp_words (on_windows E) ssl_input (bytes_of ''false'') then Inr SSL_MODE_DISABLED
      else if strstr ssl_input (bytes_of ''{'') \<noteq> None
      then mexErrMsgIdAndTxt ''mYm:TLS:InvalidStruct'' ''Custom TLS struct definition not supported yet.''
      else Inr SSL_MODE_PREFERRED)"

text \<open>What is printed as \<open>ssl\<close>: the literal for the two known values, the argument otherwise.\<close>

definition ssl_text :: "mexenv \<Rightarrow> byte list \<Rightarrow> byte list" where
  "ssl_text E ssl_input =
     (if strcasecmp_words (on_windows E) ssl_input (bytes_of ''true'') then bytes_of ''true''
      else if strcasecmp_words (on_windows E) ssl_input (bytes_of ''false'') then bytes_of ''false''
      else ssl_input)"

definition close_slot :: "'w setting \<Rightarrow> nat \<Rightarrow> ('w, unit) prog" where
  "close_slot S i = bindS (get_slot i) (\<lambda>k.
     if isopen k
     then bindS (handle_of i) (\<lambda>h.
          bindS (callS (\<lambda>w. ((), mysql_close (s_client S) h w))) (\<lambda>_.
          set_slot i no_connection))
     else retS ())"

definition connect_failure :: "'w setting \<Rightarrow> handle \<Rightarrow> ('w, 'a) prog" where
  "connect_failure S h = bindS (askS (mysql_error (s_client S) h)) (\<lambda>t.
     bindS (liftS (as_format t)) (\<lambda>t. failS (MexErrMsgIdAndTxt ''MySQL:Error'' t)))"

text \<open>From the options to the test of the new connection.\<close>

definition connect :: "'w setting \<Rightarrow> nat \<Rightarrow> handle \<Rightarrow> byte list option \<Rightarrow> int \<Rightarrow> byte list option \<Rightarrow>
    byte list option \<Rightarrow> byte list \<Rightarrow> ('w, unit) prog" where
  "connect S nlhs h host port user pass ssl_input =
     bindS (liftS (ssl_mode_of (s_env S) ssl_input)) (\<lambda>mode_option.
     bindS (callS (\<lambda>w. ((), mysql_options (s_client S) h mode_option w))) (\<lambda>_.
     bindS (if nlhs < 1 then say (Msg_connecting host port user pass (ssl_text (s_env S) ssl_input))
            else retS ()) (\<lambda>_.
     bindS (updateplugindir S) (\<lambda>_.
     bindS (callS (mysql_real_connect (s_client S) h host user pass (word_of_int port))) (\<lambda>failed.
     if failed then connect_failure S h
     else bindS (callS (mysql_stat (s_client S) h)) (\<lambda>stat.
          case stat of
            None \<Rightarrow> mysql_failure S h
          | Some t \<Rightarrow> if nlhs < 1 then say (Msg_stat t) else retS ()))))))"

text \<open>
  The part of open behind \<open>mysql_init\<close>, for the new handle, and the part that starts there. If it
  fails, "conn is still set, but isopen stays false".
\<close>

definition finish_open :: "'w setting \<Rightarrow> nat \<Rightarrow> mxArray list \<Rightarrow> nat \<Rightarrow> nat \<Rightarrow> byte list option \<Rightarrow> int \<Rightarrow>
    byte list option \<Rightarrow> byte list option \<Rightarrow> handle \<Rightarrow> ('w, mxArray option) prog" where
  "finish_open S nlhs prhs jarg cid host port user pass h =
     bindS (liftS (arg_option S prhs (jarg + 4))) (\<lambda>ssl.
     bindS (connect S nlhs h host port user pass
              (case ssl of None \<Rightarrow> bytes_of ''none'' | Some t \<Rightarrow> t)) (\<lambda>_.
     bindS (set_isopen cid True) (\<lambda>_.
     if 1 \<le> nlhs then result_double S (double_of_nat cid) else retS None)))"

definition open_handle :: "'w setting \<Rightarrow> nat \<Rightarrow> mxArray list \<Rightarrow> nat \<Rightarrow> nat \<Rightarrow> byte list option \<Rightarrow> int \<Rightarrow>
    byte list option \<Rightarrow> byte list option \<Rightarrow> ('w, mxArray option) prog" where
  "open_handle S nlhs prhs jarg cid host port user pass =
     bindS (get_slot cid) (\<lambda>k.
     bindS (callS (mysql_init (s_client S) (conn k))) (\<lambda>h.
     bindS (set_conn cid h) (\<lambda>_.
     case h of
       None \<Rightarrow> failS (MexErrMsgTxt ''Couldn't initialize MySQL connection object'')
     | Some h \<Rightarrow> finish_open S nlhs prhs jarg cid host port user pass h)))"

definition open_command :: "'w setting \<Rightarrow> nat \<Rightarrow> mxArray list \<Rightarrow> nat \<Rightarrow> nat \<Rightarrow> ('w, mxArray option) prog" where
  "open_command S nlhs prhs jarg cid =
     bindS (close_slot S cid) (\<lambda>_.
     bindS (liftS (arg_option S prhs (jarg + 1))) (\<lambda>host.
     bindS (liftS (arg_option S prhs (jarg + 2))) (\<lambda>user.
     bindS (liftS (arg_option S prhs (jarg + 3))) (\<lambda>pass.
     bindS (liftS (hostport host)) (\<lambda>(host, port).
     open_handle S nlhs prhs jarg cid host port user pass)))))"

section \<open>close and closeall\<close>

definition close_command :: "'w setting \<Rightarrow> nat \<Rightarrow> ('w, mxArray option) prog" where
  "close_command S cid = bindS (close_slot S cid) (\<lambda>_. retS None)"

fun close_slots :: "'w setting \<Rightarrow> nat \<Rightarrow> nat \<Rightarrow> ('w, unit) prog" where
  "close_slots S i 0 = retS ()"
| "close_slots S i (Suc n) = bindS (close_slot S i) (\<lambda>_. close_slots S (Suc i) n)"

definition close_all_command :: "'w setting \<Rightarrow> ('w, mxArray option) prog" where
  "close_all_command S = bindS (close_slots S 0 MAXCONN) (\<lambda>_. retS None)"

section \<open>A connection that is in use\<close>

text \<open>"Check that we have a valid connection", the beginning of use and of a MySQL command.\<close>

definition live_connection :: "'w setting \<Rightarrow> nat \<Rightarrow> ('w, handle) prog" where
  "live_connection S cid =
     bindS (get_slot cid) (\<lambda>k.
     if \<not> isopen k then failS (MexErrMsgTxt ''Not connected'')
     else bindS (handle_of cid) (\<lambda>h.
          bindS (callS (mysql_ping (s_client S) h)) (\<lambda>failed.
          if failed then bindS (set_isopen cid False) (\<lambda>_. mysql_failure S h)
          else retS h)))"

definition skip_tabs :: "byte list \<Rightarrow> byte list" where
  "skip_tabs = dropWhile (\<lambda>b. b = 32 \<or> b = 9)"

definition database_name :: "'w setting \<Rightarrow> mxArray list \<Rightarrow> nat \<Rightarrow> byte list \<Rightarrow> byte list res" where
  "database_name S prhs jarg query =
     (if strcasecmp_words (on_windows (s_env S)) query (bytes_of ''use'')
      then if 2 \<le> length prhs then arg_string S prhs (jarg + 1)
           else mexErrMsgTxt ''Must specify a database to use''
      else if strncasecmp_words (on_windows (s_env S)) query (bytes_of ''use '') 4
      then Inr (skip_tabs (drop 4 query))
      else mexErrMsgTxt ''How did we get here?  Internal logic error!'')"

definition use_command :: "'w setting \<Rightarrow> nat \<Rightarrow> mxArray list \<Rightarrow> nat \<Rightarrow> byte list \<Rightarrow> nat \<Rightarrow>
    ('w, mxArray option) prog" where
  "use_command S nlhs prhs jarg query cid =
     bindS (live_connection S cid) (\<lambda>h.
     bindS (liftS (database_name S prhs jarg query)) (\<lambda>db.
     bindS (callS (mysql_select_db (s_client S) h db)) (\<lambda>failed.
     if failed then mysql_failure S h
     else if nlhs < 1 then bindS (say (Msg_database db)) (\<lambda>_. retS None)
     else result_double S (double_of_nat 1))))"

section \<open>status\<close>

text \<open>The value that is returned: 0 to 3.\<close>

definition status_value :: "'w setting \<Rightarrow> nat \<Rightarrow> ('w, nat) prog" where
  "status_value S cid =
     bindS (get_slot cid) (\<lambda>k.
     if \<not> isopen k then retS 1
     else bindS (handle_of cid) (\<lambda>h.
          bindS (callS (mysql_ping (s_client S) h)) (\<lambda>failed.
          if failed then bindS (set_isopen cid False) (\<lambda>_. retS 2)
          else bindS (callS (mysql_stat (s_client S) h)) (\<lambda>t.
               if t = None then bindS (set_isopen cid False) (\<lambda>_. retS 3) else retS 0))))"

definition report :: "'w setting \<Rightarrow> handle \<Rightarrow> (byte list \<Rightarrow> byte list \<Rightarrow> bool \<Rightarrow> message) \<Rightarrow> ('w, unit) prog" where
  "report S h msg =
     bindS (askS (mysql_get_ssl_cipher (s_client S) h)) (\<lambda>ssl.
     bindS (askS (mysql_get_host_info (s_client S) h)) (\<lambda>info.
     bindS (askS (mysql_get_server_info (s_client S) h)) (\<lambda>server. say (msg info server ssl))))"

text \<open>
  The reports without a result. In the detailed one, the message for a connection that does not
  answer has two conversions and one argument.
\<close>

definition report_one :: "'w setting \<Rightarrow> nat \<Rightarrow> (byte list \<Rightarrow> byte list \<Rightarrow> bool \<Rightarrow> message) \<Rightarrow> ('w, unit) prog" where
  "report_one S cid msg =
     bindS (handle_of cid) (\<lambda>h.
     bindS (callS (mysql_ping (s_client S) h)) (\<lambda>failed.
     if failed then bindS (set_isopen cid False) (\<lambda>_. mysql_failure S h)
     else report S h msg))"

fun report_all :: "'w setting \<Rightarrow> nat \<Rightarrow> nat \<Rightarrow> ('w, unit) prog" where
  "report_all S j 0 = retS ()"
| "report_all S j (Suc n) =
     bindS (get_slot j) (\<lambda>k.
     bindS (if isopen k
            then bindS (handle_of j) (\<lambda>h.
                 bindS (callS (mysql_ping (s_client S) h)) (\<lambda>failed.
                 if failed then bindS (set_isopen j False) (\<lambda>_. failS (Undefined Bad_format))
                 else report S h (Msg_report j)))
            else retS ()) (\<lambda>_.
     report_all S (Suc j) n))"

definition count_open :: "'w mex \<Rightarrow> nat" where
  "count_open s = length (filter isopen (slots s))"

definition status_report :: "'w setting \<Rightarrow> nat \<Rightarrow> nat \<Rightarrow> ('w, unit) prog" where
  "status_report S jarg cid =
     (if 0 < jarg
      then bindS (get_slot cid) (\<lambda>k.
           if \<not> isopen k then say (Msg_not_connected cid)
           else report_one S cid (Msg_report cid))
      else bindS (\<lambda>s. (Inr (count_open s), s)) (\<lambda>nconn.
           if nconn = 0 then say Msg_none_open
           else bindS (get_slot 0) (\<lambda>k.
                if nconn = 1 \<and> isopen k then report_one S cid Msg_connected_to
                else report_all S 0 MAXCONN)))"

definition status_command :: "'w setting \<Rightarrow> nat \<Rightarrow> nat \<Rightarrow> nat \<Rightarrow> ('w, mxArray option) prog" where
  "status_command S nlhs jarg cid =
     (if nlhs < 1 then bindS (status_report S jarg cid) (\<lambda>_. retS None)
      else bindS (result_double S (double_of_nat 0)) (\<lambda>_.
           bindS (status_value S cid) (\<lambda>v. result_double S (double_of_nat v))))"

end
