(* ===== verification/Mym_Main.thy ===== *)
theory Mym_Main
  imports Mym_Connect
begin

text \<open>
  \<open>mexFunction\<close> of \<open>src/src/mym.cpp\<close>: the connection number in front of the command, the choice of
  the command, the checks that are common to all, and the branch \<open>CMD\<close> that sends a query and
  returns its result. \<open>mym_step\<close> is the relation between the states before and after a call.
\<close>

section \<open>The connection number\<close>

text \<open>\<open>double (cid) != xid\<close> is false\<close>

definition equals_int :: "real_val \<Rightarrow> int \<Rightarrow> bool" where
  "equals_int v i = (case v of
     Fin s m e \<Rightarrow> num_part m e = nat \<bar>i\<bar> * den_part e \<and> (i = 0 \<or> s = (i < 0))
   | _ \<Rightarrow> False)"

definition id_error :: "message list \<Rightarrow> ('w, 'a) prog" where
  "id_error ms = bindS (say Msg_usage) (\<lambda>_. foldr (\<lambda>m p. bindS (say m) (\<lambda>_. p)) ms
     (failS (MexErrMsgTxt ''Invalid connection ID'')))"

text \<open>\<open>cid\<close> and \<open>jarg\<close>. The value is read as a double whatever numeric class the argument has.\<close>

definition parse_id :: "mxArray list \<Rightarrow> ('w, int \<times> nat) prog" where
  "parse_id prhs = (case prhs of
     [] \<Rightarrow> retS (0, 0)
   | a # _ \<Rightarrow>
       if mxIsNumeric a
       then if mxGetM a \<noteq> 1 \<or> mxGetN a \<noteq> 1 then id_error [Msg_id_array (mxGetM a) (mxGetN a)]
            else bindS (liftS (read_uint64 (mxGetData a))) (\<lambda>(w, _).
                 bindS (liftS (int_of_val (double_of_bits w))) (\<lambda>cid.
                 if \<not> equals_int (double_of_bits w) cid \<or> cid < - 1 \<or> int MAXCONN \<le> cid
                 then id_error [Msg_id_value w]
                 else retS (cid, 1)))
       else retS (0, 0))"

section \<open>The command\<close>

datatype querytype = OPEN | CLOSE | CLOSE_ALL | USE | STATUS | CMD | SERIALIZE | DESERIALIZE | VERSION

definition querytype_of :: "mexenv \<Rightarrow> byte list \<Rightarrow> querytype" where
  "querytype_of E query =
     (let is = (\<lambda>t. strcasecmp_words (on_windows E) query (bytes_of t));
          has = (\<lambda>t. strcasestr (on_windows E) query (bytes_of t) \<noteq> None)
      in if is ''open'' then OPEN
         else if is ''close'' then CLOSE
         else if is ''closeall'' then CLOSE_ALL
         else if is ''use'' \<or> strncasecmp_words (on_windows E) query (bytes_of ''use '') 4 then USE
         else if is ''status'' then STATUS
         else if is ''version'' then VERSION
         else if has ''deserialize'' then DESERIALIZE
         else if has ''serialize'' then SERIALIZE
         else CMD)"

text \<open>The type and the query string, which stays NULL (here empty) without a command.\<close>

definition parse_command :: "'w setting \<Rightarrow> mxArray list \<Rightarrow> nat \<Rightarrow> (querytype \<times> byte list) res" where
  "parse_command S prhs jarg =
     (if length prhs \<le> jarg then Inr (STATUS, [])
      else if \<not> mxIsChar (prhs ! jarg) then mexErrMsgTxt ''The command string is missing!''
      else bindE (getstring (s_host S) (prhs ! jarg)) (\<lambda>query.
           Inr (querytype_of (s_env S) query, query)))"

definition check_strings :: "querytype \<Rightarrow> mxArray list \<Rightarrow> nat \<Rightarrow> ('w, unit) prog" where
  "check_strings q prhs jarg =
     (if q \<noteq> CMD \<and> q \<noteq> SERIALIZE \<and> q \<noteq> DESERIALIZE \<and> \<not> list_all mxIsChar (drop jarg prhs)
      then bindS (say Msg_usage) (\<lambda>_. failS (MexErrMsgTxt ''All args must be strings, except id''))
      else retS ())"

text \<open>The scan for a free connection.\<close>

fun first_free :: "conninfo list \<Rightarrow> nat" where
  "first_free [] = 0"
| "first_free (k # ks) = (if isopen k then Suc (first_free ks) else 0)"

definition resolve_id :: "querytype \<Rightarrow> int \<Rightarrow> ('w, nat) prog" where
  "resolve_id q cid =
     (if cid = - 1
      then if q \<noteq> OPEN
           then failS (MexErrMsgTxt ''automatic free connection scan, only when issuing a mYm open command!'')
           else (\<lambda>s. let i = first_free (take MAXCONN (slots s)) in
                  (if i = MAXCONN then mexErrMsgTxt ''no free connection ID'' else Inr i, s))
      else retS (nat cid))"

section \<open>A MySQL command\<close>

text \<open>A query that is ready is sent, and its result is returned, printed, or counted.\<close>

definition execute_query :: "'w setting \<Rightarrow> nat \<Rightarrow> nat \<Rightarrow> prepared \<Rightarrow> ('w, mxArray option) prog" where
  "execute_query S nlhs h p =
     bindS (callS (mysql_send (s_client S) h (real_query p) (sql p))) (\<lambda>failed.
     if failed then mysql_failure S h
     else bindS (callS (mysql_store_result (s_client S) h)) (\<lambda>res.
     case res of
       None \<Rightarrow>
         bindS (askS (mysql_field_count (s_client S) h)) (\<lambda>nf.
         if nf \<noteq> 0 then mysql_failure S h
         else bindS (askS (mysql_affected_rows (s_client S) h)) (\<lambda>nrows.
              if nlhs < 1 then retS None else result_double S (double_of_nat (unat nrows))))
     | Some r \<Rightarrow>
         if nlhs < 1
         then bindS (liftS (fancyprint r)) (\<lambda>t. bindS (say (Msg_table t)) (\<lambda>_. retS None))
         else if nlhs \<noteq> 1
         then bindS (say (Msg_outputs nlhs (length (r_fields r)))) (\<lambda>_.
              failS (MexErrMsgTxt ''Must give one output argument''))
         else bindS (liftS (fetch_result (s_env S) (s_host S) (s_zlib S) (s_nan S) (bigint_to_double p) r))
                (\<lambda>a. retS (Some a))))"

definition mysql_command :: "'w setting \<Rightarrow> nat \<Rightarrow> mxArray list \<Rightarrow> nat \<Rightarrow> byte list \<Rightarrow> nat \<Rightarrow>
    ('w, mxArray option) prog" where
  "mysql_command S nlhs prhs jarg query cid =
     bindS (live_connection S cid) (\<lambda>h.
     bindS (askS (mysql_real_escape_string (s_client S) h)) (\<lambda>esc.
     bindS (liftS (prepare (s_env S) (s_host S) (s_zlib S) esc query (drop (jarg + 1) prhs))) (\<lambda>p.
     execute_query S nlhs h p)))"

section \<open>version\<close>

definition version_query :: "'w setting \<Rightarrow> nat \<Rightarrow> mxArray list \<Rightarrow> nat \<Rightarrow> ('w, mxArray option) prog" where
  "version_query S nlhs prhs jarg =
     (if jarg + 1 < length prhs
      then failS (MexErrMsgTxt ''Version command does not take additional inputs'')
      else bindS (if nlhs = 0 then say (Msg_version MYM_VERSION_MAJOR MYM_VERSION_MINOR MYM_VERSION_BUGFIX)
                  else retS ()) (\<lambda>_. liftS (version_command (s_env S) nlhs)))"

section \<open>\<open>mexFunction\<close>\<close>

definition run_command :: "'w setting \<Rightarrow> nat \<Rightarrow> mxArray list \<Rightarrow> nat \<Rightarrow> querytype \<Rightarrow> byte list \<Rightarrow> nat \<Rightarrow>
    ('w, mxArray option) prog" where
  "run_command S nlhs prhs jarg q query cid = (case q of
     OPEN \<Rightarrow> open_command S nlhs prhs jarg cid
   | CLOSE \<Rightarrow> close_command S cid
   | CLOSE_ALL \<Rightarrow> close_all_command S
   | USE \<Rightarrow> use_command S nlhs prhs jarg query cid
   | STATUS \<Rightarrow> status_command S nlhs jarg cid
   | CMD \<Rightarrow> mysql_command S nlhs prhs jarg query cid
   | SERIALIZE \<Rightarrow> liftS (serialize_command (s_env S) (s_host S) (s_zlib S) nlhs query (drop (jarg + 1) prhs))
   | DESERIALIZE \<Rightarrow> liftS (deserialize_command (s_env S) (s_zlib S) nlhs prhs)
   | VERSION \<Rightarrow> version_query S nlhs prhs jarg)"

definition mexFunction :: "'w setting \<Rightarrow> nat \<Rightarrow> mxArray list \<Rightarrow> ('w, mxArray option) prog" where
  "mexFunction S nlhs prhs =
     bindS (parse_id prhs) (\<lambda>(id, jarg).
     bindS (liftS (parse_command S prhs jarg)) (\<lambda>(q, query).
     bindS (check_strings q prhs jarg) (\<lambda>_.
     bindS (resolve_id q id) (\<lambda>cid.
     run_command S nlhs prhs jarg q query cid))))"

section \<open>Calls in sequence\<close>

text \<open>
  One call, whatever its arguments and its result, and the states that a sequence of calls can
  reach from the state in which the MEX file is loaded.
\<close>

inductive mym_step :: "'w setting \<Rightarrow> 'w mex \<Rightarrow> 'w mex \<Rightarrow> bool" for S where
  call: "mexFunction S nlhs prhs s = (r, s') \<Longrightarrow> mym_step S s s'"

inductive reachable :: "'w setting \<Rightarrow> 'w \<Rightarrow> 'w mex \<Rightarrow> bool" for S w0 where
  start: "reachable S w0 (initial w0)"
| step: "reachable S w0 s \<Longrightarrow> mym_step S s s' \<Longrightarrow> reachable S w0 s'"

inductive_cases mym_stepE: "mym_step S s s'"
inductive_simps mym_step_iff: "mym_step S s s'"

lemma reachable_invariant:
  assumes "P (initial w0)" and "\<And>nlhs prhs. keeps P (mexFunction S nlhs prhs)"
  shows "reachable S w0 s \<Longrightarrow> P s"
proof (induction rule: reachable.induct)
  case start
  show ?case by (rule assms(1))
next
  case (step s s')
  from step(2) obtain nlhs prhs r where "mexFunction S nlhs prhs s = (r, s')" by (rule mym_stepE)
  then show ?case using keepsD [OF assms(2) step.IH, of nlhs prhs] by simp
qed

end
