(* ===== verification/Mym_Invariant.thy ===== *)
theory Mym_Invariant
  imports Mym_Main
begin

text \<open>
  What holds between calls of \<open>mexFunction\<close>, whatever the arguments were and however the calls ended:
  there are twenty connections, an open one has a handle, no connection keeps a handle that has been
  given back to the client library, and no two connections share one.
\<close>

section \<open>The handles of the client library\<close>

text \<open>
  \<open>alive w\<close> are the handles that the library has handed out and not taken back. The conditions are
  those of MySQL's manual: \<open>mysql_init\<close> allocates a handle when it is given NULL and returns its
  argument otherwise, \<open>mysql_close\<close> releases one, nothing else does either.
\<close>

definition quiet :: "('w \<Rightarrow> handle set) \<Rightarrow> ('w \<Rightarrow> 'a \<times> 'w) \<Rightarrow> bool" where
  "quiet alive f \<longleftrightarrow> (\<forall>w. alive (snd (f w)) = alive w)"

definition allocates :: "'w client \<Rightarrow> ('w \<Rightarrow> handle set) \<Rightarrow> bool" where
  "allocates C alive \<longleftrightarrow>
     (\<forall>w h w'. mysql_init C None w = (Some h, w') \<longrightarrow> h \<notin> alive w \<and> alive w' = insert h (alive w))
   \<and> (\<forall>w w'. mysql_init C None w = (None, w') \<longrightarrow> alive w' = alive w)
   \<and> (\<forall>w h. h \<in> alive w \<longrightarrow> fst (mysql_init C (Some h) w) = Some h
          \<and> alive (snd (mysql_init C (Some h) w)) = alive w)"

definition releases :: "'w client \<Rightarrow> ('w \<Rightarrow> handle set) \<Rightarrow> bool" where
  "releases C alive \<longleftrightarrow> (\<forall>w h. alive (mysql_close C h w) = alive w - {h})"

definition client_api :: "'w client \<Rightarrow> ('w \<Rightarrow> handle set) \<Rightarrow> bool" where
  "client_api C alive \<longleftrightarrow> allocates C alive \<and> releases C alive
   \<and> (\<forall>h. quiet alive (mysql_ping C h))
   \<and> (\<forall>h m. quiet alive (\<lambda>w. ((), mysql_options C h m w)))
   \<and> (\<forall>h host u p port. quiet alive (mysql_real_connect C h host u p port))
   \<and> (\<forall>h. quiet alive (mysql_stat C h))
   \<and> (\<forall>h d. quiet alive (mysql_select_db C h d))
   \<and> (\<forall>h b q. quiet alive (mysql_send C h b q))
   \<and> (\<forall>h. quiet alive (mysql_store_result C h))"

definition slots_ok :: "'w mex \<Rightarrow> bool" where
  "slots_ok s \<longleftrightarrow> length (slots s) = MAXCONN \<and> (\<forall>i<length (slots s). isopen (slots s ! i) \<longrightarrow> conn (slots s ! i) \<noteq> None)"

definition handles_ok :: "('w \<Rightarrow> handle set) \<Rightarrow> 'w mex \<Rightarrow> bool" where
  "handles_ok alive s \<longleftrightarrow>
     (\<forall>i<length (slots s). \<forall>h. conn (slots s ! i) = Some h \<longrightarrow> h \<in> alive (world s))
   \<and> (\<forall>i<length (slots s). \<forall>j<length (slots s). i \<noteq> j \<longrightarrow> conn (slots s ! i) \<noteq> None \<longrightarrow>
        conn (slots s ! i) \<noteq> conn (slots s ! j))"

definition inv :: "('w \<Rightarrow> handle set) \<Rightarrow> 'w mex \<Rightarrow> bool" where
  "inv alive s \<longleftrightarrow> slots_ok s \<and> handles_ok alive s"

lemma inv_initial: "inv alive (initial w)"
  by (simp add: inv_def slots_ok_def handles_ok_def initial_def no_connection_def)

section \<open>Basic steps\<close>

lemma inv_other:
  "inv alive (s\<lparr>console := c\<rparr>) = inv alive s" "inv alive (s\<lparr>plugin_env := p\<rparr>) = inv alive s"
  "alive w = alive (world s) \<Longrightarrow> inv alive (s\<lparr>world := w\<rparr>) = inv alive s"
  by (simp_all add: inv_def slots_ok_def handles_ok_def)

text \<open>A property that looks at the connections and at the living handles only.\<close>

definition local_prop :: "('w \<Rightarrow> handle set) \<Rightarrow> ('w mex \<Rightarrow> bool) \<Rightarrow> bool" where
  "local_prop alive P \<longleftrightarrow>
     (\<forall>s t. slots s = slots t \<longrightarrow> alive (world s) = alive (world t) \<longrightarrow> P s = P t)"

lemma local_propD: "local_prop alive P \<Longrightarrow> slots s = slots t \<Longrightarrow> alive (world s) = alive (world t) \<Longrightarrow> P s = P t"
  unfolding local_prop_def by blast

lemma local_inv: "local_prop alive (inv alive)"
proof -
  have "inv alive s = inv alive t"
    if "slots s = slots t" "alive (world s) = alive (world t)" for s t :: "'a mex"
    by (simp only: inv_def slots_ok_def handles_ok_def that)
  then show ?thesis unfolding local_prop_def by blast
qed

lemma keeps_local:
  assumes "local_prop alive P"
    and "\<And>s. slots (snd (m s)) = slots s \<and> alive (world (snd (m s))) = alive (world s)"
  shows "keeps P m"
proof (rule keepsI)
  fix s
  assume "P s"
  moreover have "P (snd (m s)) = P s" using assms(2) [of s] by (intro local_propD [OF assms(1)]) auto
  ultimately show "P (snd (m s))" by simp
qed

lemma keeps_quiet: "local_prop alive P \<Longrightarrow> quiet alive f \<Longrightarrow> keeps P (callS f)"
  by (erule keeps_local) (simp add: callS_def quiet_def split: prod.split, metis snd_conv)

lemma client_quiet:
  assumes "client_api C alive"
  shows "quiet alive (mysql_ping C h)" "quiet alive (\<lambda>w. ((), mysql_options C h m w))"
    "quiet alive (mysql_real_connect C h host u p port)" "quiet alive (mysql_stat C h)"
    "quiet alive (mysql_select_db C h d)" "quiet alive (mysql_send C h b q)"
    "quiet alive (mysql_store_result C h)"
  using assms by (simp_all add: client_api_def)

lemma keeps_say: "local_prop alive P \<Longrightarrow> keeps P (say m)"
  by (erule keeps_local) (simp add: say_def)

lemma keeps_plugin: "local_prop alive P \<Longrightarrow> keeps P (updateplugindir S)"
  unfolding updateplugindir_def by (intro keeps_bindS keeps_pure) (erule keeps_local, simp)

lemma keeps_result_double: "keeps P (result_double S v)"
  by (auto simp: result_double_def intro!: keeps_intros)

lemma keeps_state_query: "(\<And>s. snd (m s) = s) \<Longrightarrow> keeps P m"
  by (simp add: keeps_def)

lemmas keeps_calls = keeps_quiet [OF _ client_quiet(1)] keeps_quiet [OF _ client_quiet(2)]
  keeps_quiet [OF _ client_quiet(3)] keeps_quiet [OF _ client_quiet(4)] keeps_quiet [OF _ client_quiet(5)]
  keeps_quiet [OF _ client_quiet(6)] keeps_quiet [OF _ client_quiet(7)]

lemma nth_update_iff: "i < length xs \<Longrightarrow> j < length xs \<Longrightarrow> xs[i := x] ! j = (if i = j then x else xs ! j)"
  by (simp add: nth_list_update)

text \<open>Marking a connection as closed.\<close>

lemma keeps_mark_closed: "keeps (inv alive) (set_isopen i False)"
proof (rule keepsI)
  fix s :: "'a mex"
  assume s: "inv alive s"
  show "inv alive (snd (set_isopen i False s))"
  proof (cases "i < length (slots s)")
    case True
    have c: "conn ((slots s)[i := (slots s ! i)\<lparr>isopen := False\<rparr>] ! j) = conn (slots s ! j)"
        if "j < length (slots s)" for j
      using that True by (simp add: nth_update_iff)
    show ?thesis
      using s True c
      by (auto simp: set_isopen_def prog_simps set_slot_def inv_def slots_ok_def handles_ok_def nth_update_iff)
  next
    case False
    with s show ?thesis by (simp add: set_isopen_def bindS_def get_slot_def)
  qed
qed

text \<open>Closing a connection: the handle is released and forgotten at the same time.\<close>

lemma inv_forget:
  assumes s: "inv alive s" and i: "i < length (slots s)" and h: "conn (slots s ! i) = Some h"
    and w: "alive w = alive (world s) - {h}"
  shows "inv alive (s\<lparr>world := w, slots := (slots s)[i := no_connection]\<rparr>)"
proof -
  have other: "conn (slots s ! j) \<noteq> Some h" if "j < length (slots s)" "j \<noteq> i" for j
  proof
    assume "conn (slots s ! j) = Some h"
    moreover have "conn (slots s ! i) \<noteq> conn (slots s ! j)"
      using s that i h unfolding inv_def handles_ok_def by blast
    ultimately show False using h by simp
  qed
  then show ?thesis
    using s w i by (auto simp: inv_def slots_ok_def handles_ok_def nth_list_update no_connection_def)
qed

lemma close_slot_valid:
  assumes C: "client_api (s_client S) alive"
  shows "valid (inv alive) (close_slot S i)
    (\<lambda>_ s. inv alive s \<and> (i < length (slots s) \<longrightarrow> \<not> isopen (slots s ! i))) (inv alive)"
  unfolding valid_def
proof (intro allI impI)
  fix s
  assume s: "inv alive s"
  show "case close_slot S i s of (Inl e, s') \<Rightarrow> inv alive s'
      | (Inr x, s') \<Rightarrow> inv alive s' \<and> (i < length (slots s') \<longrightarrow> \<not> isopen (slots s' ! i))"
  proof (cases "i < length (slots s) \<and> isopen (slots s ! i)")
    case True
    then obtain h where h: "conn (slots s ! i) = Some h"
      using s by (auto simp: inv_def slots_ok_def)
    have "alive (mysql_close (s_client S) h (world s)) = alive (world s) - {h}"
      using C by (simp add: client_api_def releases_def)
    from inv_forget [OF s _ h this] True show ?thesis
      using h by (simp add: close_slot_def handle_of_def prog_simps bindS_assoc set_slot_def no_connection_def)
  next
    case False
    then show ?thesis
      using s by (auto simp: close_slot_def prog_simps retS_def bindS_def get_slot_def)
  qed
qed

lemma keeps_close_slot: "client_api (s_client S) alive \<Longrightarrow> keeps (inv alive) (close_slot S i)"
  by (intro keeps_valid valid_weaken [OF close_slot_valid]) auto

section \<open>The commands\<close>

text \<open>
  The state in the middle of open: connection \<open>i\<close> has the handle \<open>h\<close>, which belongs to the program.
\<close>

definition holding :: "('w \<Rightarrow> handle set) \<Rightarrow> nat \<Rightarrow> handle \<Rightarrow> 'w mex \<Rightarrow> bool" where
  "holding alive i h s \<longleftrightarrow> inv alive s \<and> i < length (slots s) \<and> conn (slots s ! i) = Some h"

lemma local_holding: "local_prop alive (holding alive i h)"
proof -
  have "holding alive i h s = holding alive i h t"
    if "slots s = slots t" "alive (world s) = alive (world t)" for s t :: "'a mex"
    using local_propD [OF local_inv that] by (simp only: holding_def that)
  then show ?thesis unfolding local_prop_def by blast
qed

lemma keeps_connect:
  assumes C: "client_api (s_client S) alive" and P: "local_prop alive P"
  shows "keeps P (connect S nlhs h host port user pass ssl_input)"
  unfolding connect_def connect_failure_def
  by (intro keeps_intros keeps_say [OF P] keeps_plugin [OF P] keeps_calls [OF P C])

lemma mark_open: "holding alive i h s \<Longrightarrow> inv alive (snd (set_isopen i True s))"
proof -
  assume h: "holding alive i h s"
  then have "conn ((slots s)[i := (slots s ! i)\<lparr>isopen := True\<rparr>] ! j) = conn (slots s ! j)"
      if "j < length (slots s)" for j
    using that by (simp add: holding_def nth_update_iff)
  with h show ?thesis
    by (auto simp: set_isopen_def prog_simps set_slot_def holding_def inv_def slots_ok_def
        handles_ok_def nth_update_iff)
qed

text \<open>\<open>mysql_init\<close> on a connection that is not open, and the assignment to \<open>conn\<close>.\<close>

lemma init_valid:
  assumes C: "client_api (s_client S) alive"
    and s: "inv alive s" "i < length (slots s)" "\<not> isopen (slots s ! i)"
    and init: "mysql_init (s_client S) (conn (slots s ! i)) (world s) = (h, w)"
  shows "inv alive (s\<lparr>world := w, slots := (slots s)[i := (slots s ! i)\<lparr>conn := h\<rparr>]\<rparr>)"
proof -
  have A: "allocates (s_client S) alive" using C by (simp add: client_api_def)
  have old: "\<And>j h'. j < length (slots s) \<Longrightarrow> conn (slots s ! j) = Some h' \<Longrightarrow> h' \<in> alive (world s)"
      "\<And>j k. j < length (slots s) \<Longrightarrow> k < length (slots s) \<Longrightarrow> j \<noteq> k \<Longrightarrow> conn (slots s ! j) \<noteq> None \<Longrightarrow>
         conn (slots s ! j) \<noteq> conn (slots s ! k)"
    using s(1) unfolding inv_def handles_ok_def by blast+
  show ?thesis
  proof (cases "conn (slots s ! i)")
    case (Some h0)
    then have "h0 \<in> alive (world s)" using old(1) s(2) by blast
    then have "h = Some h0" "alive w = alive (world s)"
      using A init Some unfolding allocates_def by (metis fst_conv, metis snd_conv)
    then have "(slots s)[i := (slots s ! i)\<lparr>conn := h\<rparr>] = slots s"
      using Some s(2) by (simp add: list_update_same_conv)
    then show ?thesis
      using local_propD [OF local_inv, of "s\<lparr>world := w, slots := slots s\<rparr>" s] \<open>alive w = _\<close> s(1) by simp
  next
    case None
    show ?thesis
    proof (cases h)
      case None
      then have "alive w = alive (world s)"
        using A init \<open>conn (slots s ! i) = None\<close> unfolding allocates_def by metis
      moreover have "(slots s)[i := (slots s ! i)\<lparr>conn := h\<rparr>] = slots s"
        using None \<open>conn (slots s ! i) = None\<close> s(2) by (simp add: list_update_same_conv)
      ultimately show ?thesis
        using local_propD [OF local_inv, of "s\<lparr>world := w, slots := slots s\<rparr>" s] s(1) by simp
    next
      case (Some h1)
      then have new: "h1 \<notin> alive (world s)" "alive w = insert h1 (alive (world s))"
        using A init \<open>conn (slots s ! i) = None\<close> unfolding allocates_def by metis+
      have "conn (slots s ! j) \<noteq> Some h1" if "j < length (slots s)" for j
        using old(1) that new(1) by blast
      then show ?thesis
        using s old new Some
        by (auto simp: inv_def slots_ok_def handles_ok_def nth_list_update)
    qed
  qed
qed

text \<open>An open that has not reached its end leaves the connection with its handle, marked as not open.\<close>

definition closed_at :: "('w \<Rightarrow> handle set) \<Rightarrow> nat \<Rightarrow> 'w mex \<Rightarrow> bool" where
  "closed_at alive i s \<longleftrightarrow> inv alive s \<and> (i < length (slots s) \<longrightarrow> \<not> isopen (slots s ! i))"

lemma finish_open_valid:
  assumes C: "client_api (s_client S) alive"
  shows "valid (holding alive cid h) (finish_open S nlhs prhs jarg cid host port user pass h)
    (\<lambda>_. inv alive) (inv alive)"
proof -
  have inv: "\<And>s. holding alive cid h s \<Longrightarrow> inv alive s" by (simp add: holding_def)
  have mark: "valid (holding alive cid h) (set_isopen cid True) (\<lambda>_. inv alive) (inv alive)"
    using mark_open [of alive cid h] by (fastforce simp: valid_def split: prod.splits sum.splits)
  show ?thesis
    unfolding finish_open_def
    by (rule valid_bindS [OF valid_keepsS [OF keeps_pure(3) inv]], assumption,
        rule valid_bindS [OF valid_keepsS [OF keeps_connect [OF C local_holding] inv]], assumption,
        rule valid_bindS [OF mark], intro valid_keeps keeps_if keeps_result_double keeps_pure)
qed

lemma open_handle_valid:
  assumes C: "client_api (s_client S) alive"
  shows "valid (closed_at alive cid) (open_handle S nlhs prhs jarg cid host port user pass)
    (\<lambda>_. inv alive) (inv alive)"
  unfolding valid_def
proof (intro allI impI)
  fix s
  assume s: "closed_at alive cid s"
  show "case open_handle S nlhs prhs jarg cid host port user pass s of
      (Inl e, s') \<Rightarrow> inv alive s' | (Inr x, s') \<Rightarrow> inv alive s'"
  proof (cases "cid < length (slots s)")
    case False
    then show ?thesis using s by (simp add: open_handle_def bindS_def get_slot_def closed_at_def)
  next
    case True
    obtain h w where init: "mysql_init (s_client S) (conn (slots s ! cid)) (world s) = (h, w)"
      by (cases "mysql_init (s_client S) (conn (slots s ! cid)) (world s)")
    let ?s = "s\<lparr>world := w, slots := (slots s)[cid := (slots s ! cid)\<lparr>conn := h\<rparr>]\<rparr>"
    have i: "inv alive ?s" using init_valid [OF C _ True _ init] s True by (simp add: closed_at_def)
    show ?thesis
    proof (cases h)
      case None
      with i show ?thesis
        using True init by (simp add: open_handle_def prog_simps set_conn_def bindS_assoc failS_def)
    next
      case (Some h')
      then have "holding alive cid h' ?s" using i True by (simp add: holding_def)
      with finish_open_valid [OF C, of cid h'] Some show ?thesis
        using True init by (simp add: open_handle_def prog_simps set_conn_def bindS_assoc valid_def)
    qed
  qed
qed

lemma keeps_open:
  assumes C: "client_api (s_client S) alive"
  shows "keeps (inv alive) (open_command S nlhs prhs jarg cid)"
proof -
  have inv: "\<And>s. closed_at alive cid s \<Longrightarrow> inv alive s" by (simp add: closed_at_def)
  have close: "valid (inv alive) (close_slot S cid) (\<lambda>_. closed_at alive cid) (inv alive)"
    using close_slot_valid [OF C] by (rule valid_weaken) (simp_all add: closed_at_def)
  show ?thesis
    unfolding open_command_def
    apply (rule keeps_valid)
    apply (rule valid_bindS [OF close])
    apply (rule valid_bindS [OF valid_keepsS [OF keeps_pure(3) inv]], assumption)+
    apply (simp only: split_beta)
    apply (rule open_handle_valid [OF C])
    done
qed

section \<open>All commands\<close>

text \<open>
  The contract between the basic steps and the commands: a property that the client calls, the
  printing and the changes to connection \<open>cid\<close> preserve is preserved by every command on it. The
  second locale is for properties that do not depend on the connection; they survive every call.
\<close>

locale command_frame =
  fixes S :: "'w setting"
    and cid :: nat
    and P :: "'w mex \<Rightarrow> bool"
  assumes say: "keeps P (say m)"
    and ping: "keeps P (callS (mysql_ping (s_client S) h))"
    and stat: "keeps P (callS (mysql_stat (s_client S) h))"
    and select_db: "keeps P (callS (mysql_select_db (s_client S) h d))"
    and send: "keeps P (callS (mysql_send (s_client S) h b q))"
    and store_result: "keeps P (callS (mysql_store_result (s_client S) h))"
    and mark_closed: "keeps P (set_isopen cid False)"
    and closes: "keeps P (close_slot S cid)"
    and opens: "keeps P (open_command S nlhs prhs jarg cid)"
begin

lemmas steps = say ping stat select_db send store_result mark_closed keeps_result_double

lemma live: "keeps P (live_connection S cid)"
  unfolding live_connection_def by (intro keeps_intros steps)

lemma use: "keeps P (use_command S nlhs prhs jarg query cid)"
  unfolding use_command_def by (intro keeps_intros steps live)

lemma report: "keeps P (report S h msg)"
  unfolding report_def by (intro keeps_intros steps)

lemma status_value: "keeps P (status_value S cid)"
  unfolding status_value_def by (intro keeps_intros steps)

lemma report_one: "keeps P (report_one S cid msg)"
  unfolding report_one_def by (intro keeps_intros steps report)

lemma mysql: "keeps P (mysql_command S nlhs prhs jarg query cid)"
  unfolding mysql_command_def execute_query_def by (intro keeps_intros steps live)

lemma status:
  "keeps P (report_all S 0 MAXCONN) \<or> 0 < jarg \<or> 0 < nlhs \<Longrightarrow> keeps P (status_command S nlhs jarg cid)"
  unfolding status_command_def status_report_def
  by (cases "0 < jarg"; cases "0 < nlhs")
    (auto intro!: keeps_intros steps status_value report_one intro: keeps_state_query)

lemma run:
  assumes "q = CLOSE_ALL \<Longrightarrow> keeps P (close_slots S 0 MAXCONN)"
    and "q = STATUS \<Longrightarrow> keeps P (report_all S 0 MAXCONN) \<or> 0 < jarg \<or> 0 < nlhs"
  shows "keeps P (run_command S nlhs prhs jarg q query cid)"
  using assms
  by (cases q)
    (auto simp: run_command_def version_query_def close_command_def close_all_command_def
      intro!: keeps_intros steps opens closes use mysql status)

end

locale session_frame =
  fixes S :: "'w setting"
    and P :: "'w mex \<Rightarrow> bool"
  assumes frame: "command_frame S cid P"
begin

lemma close_slots: "keeps P (close_slots S i n)"
  by (induction n arbitrary: i) (auto intro!: keeps_intros command_frame.closes [OF frame])

lemma report_all: "keeps P (report_all S j n)"
  by (induction n arbitrary: j)
    (auto intro!: keeps_intros command_frame.report [OF frame] command_frame.ping [OF frame]
      command_frame.mark_closed [OF frame])

lemma run_any: "keeps P (run_command S nlhs prhs jarg q query cid)"
  by (intro command_frame.run [OF frame] close_slots disjI1 report_all)

lemma id_error: "keeps P (id_error ms)"
proof -
  have "keeps P (foldr (\<lambda>m p. bindS (say m) (\<lambda>_. p)) ms (failS e))" for e
    by (induction ms) (auto intro!: keeps_intros command_frame.say [OF frame])
  then show ?thesis unfolding id_error_def by (intro keeps_intros command_frame.say [OF frame])
qed

lemma call: "keeps P (mexFunction S nlhs prhs)"
proof -
  have "keeps P (parse_id prhs)"
    unfolding parse_id_def by (cases prhs) (auto intro!: keeps_intros id_error)
  moreover have "keeps P (resolve_id q cid)" for q cid
    unfolding resolve_id_def by (intro keeps_intros keeps_state_query) (simp_all add: Let_def)
  moreover have "keeps P (check_strings q prhs jarg)" for q jarg
    unfolding check_strings_def by (intro keeps_intros command_frame.say [OF frame])
  ultimately show ?thesis unfolding mexFunction_def by (intro keeps_intros run_any)
qed

lemma reaches: "P (initial w0) \<Longrightarrow> reachable S w0 s \<Longrightarrow> P s"
  by (rule reachable_invariant [of P]) (simp_all add: call)

end

text \<open>The invariant, under the promises of the client library.\<close>

definition guarded :: "'w setting \<Rightarrow> ('w \<Rightarrow> handle set) \<Rightarrow> 'w mex \<Rightarrow> bool" where
  "guarded S alive s \<longleftrightarrow> (client_api (s_client S) alive \<longrightarrow> inv alive s)"

lemma keeps_guarded:
  "(client_api (s_client S) alive \<Longrightarrow> keeps (inv alive) m) \<Longrightarrow> keeps (guarded S alive) m"
  by (auto simp: keeps_def guarded_def)

interpretation conns: session_frame S "guarded S alive" for S alive
  by unfold_locales (intro keeps_guarded keeps_say [OF local_inv] keeps_calls [OF local_inv]
      keeps_mark_closed keeps_close_slot keeps_open, assumption?)+

text \<open>Another connection stays as it is.\<close>

definition slot_is :: "nat \<Rightarrow> conninfo \<Rightarrow> nat \<Rightarrow> 'w mex \<Rightarrow> bool" where
  "slot_is j k cid s \<longleftrightarrow> j \<noteq> cid \<longrightarrow> slots s ! j = k"

lemma keeps_slot_is [keeps_intros]:
  "keeps (slot_is j1 k1 i1) (say m)" "keeps (slot_is j2 k2 i2) (callS f)"
  "keeps (slot_is j3 k3 i3) (set_slot i3 k)" "keeps (slot_is j4 k4 i4) (\<lambda>s. (r, s\<lparr>plugin_env := p\<rparr>))"
  by (simp_all add: keeps_def slot_is_def say_def callS_def set_slot_def split: prod.split)

lemma keeps_slot_is_open: "keeps (slot_is j k cid) (open_command S nlhs prhs jarg cid)"
  unfolding open_command_def open_handle_def finish_open_def connect_def connect_failure_def
    close_slot_def set_isopen_def set_conn_def updateplugindir_def
  by (intro keeps_intros keeps_result_double)

interpretation other: command_frame S cid "slot_is j k cid" for S cid j k
  by unfold_locales
    (auto simp: set_isopen_def close_slot_def intro!: keeps_intros keeps_slot_is_open)

end
