(* ===== verification/Mym_Behaviour.thy ===== *)
theory Mym_Behaviour
  imports Mym_Invariant
begin

text \<open>
  What single calls of \<open>mexFunction\<close> do: which connection numbers are accepted, how a free connection
  is found, what closeall leaves behind, which commands never reach the server, and what a SELECT
  over columns of known content returns.
\<close>

section \<open>Connection numbers\<close>

lemma int_of_double_nat:
  assumes "n \<le> 2147483647"
  shows "int_of_val (double_of_bits (double_of_nat n)) = Inr (int n)"
    and "equals_int (double_of_bits (double_of_nat n)) (int n)"
proof -
  have "n < 2 ^ 53" using assms by simp
  then obtain m e where v: "double_of_bits (double_of_nat n) = Fin False m e" "num_part m e = n * den_part e"
    using double_of_nat_exact by blast
  then show "int_of_val (double_of_bits (double_of_nat n)) = Inr (int n)"
    using assms den_part_pos [of e] by (simp add: int_of_val_def Let_def in_int_def del: den_part_pos)
  show "equals_int (double_of_bits (double_of_nat n)) (int n)"
    using v by (simp add: equals_int_def)
qed

lemma parse_id_double:
  assumes "n \<le> 2147483647"
  shows "fst (parse_id (double_value (double_of_nat n) # args) s) =
    (if n < 20 then Inr (int n, 1) else mexErrMsgTxt ''Invalid connection ID'')"
proof -
  have "mxIsNumeric (double_value v)" "mxGetM (double_value v) = 1" "mxGetN (double_value v) = 1"
      "mxGetData (double_value v) = uint64_bytes v" for v
    by (simp_all add: double_value_def mxIsNumeric_def numeric_class_def mxGetM_def mxGetN_def)
  then show ?thesis
    using int_of_double_nat [OF assms]
    by (simp add: parse_id_def prog_simps MAXCONN_def id_error_def retS_def failS_def)
qed

text \<open>A number of another class is read as if it were a double.\<close>

lemma parse_id_int32:
  "fst (parse_id (scalar_array mxINT32_CLASS (uint32_bytes v) # args) s) = undefined_behaviour Read_out_of_bounds"
  by (simp add: parse_id_def scalar_array_def mxIsNumeric_def numeric_class_def mxGetM_def mxGetN_def
      read_uint64_def memread_def prog_simps)

section \<open>A free connection\<close>

lemma first_free_le: "first_free ks \<le> length ks"
  by (induction ks) auto

lemma first_free_open: "j < first_free ks \<Longrightarrow> isopen (ks ! j)"
proof (induction ks arbitrary: j)
  case (Cons k ks)
  then show ?case by (cases j) (auto split: if_splits)
qed simp

lemma first_free_closed: "first_free ks < length ks \<Longrightarrow> \<not> isopen (ks ! first_free ks)"
  by (induction ks) auto

lemma resolve_free:
  assumes "slots_ok s"
  shows "case resolve_id OPEN (- 1) s of
      (Inr i, s') \<Rightarrow> s' = s \<and> i < MAXCONN \<and> \<not> isopen (slots s ! i) \<and> (\<forall>j<i. isopen (slots s ! j))
    | (Inl e, s') \<Rightarrow> s' = s \<and> e = MexErrMsgTxt ''no free connection ID'' \<and> (\<forall>j<MAXCONN. isopen (slots s ! j))"
proof -
  have n: "length (slots s) = MAXCONN" using assms by (simp add: slots_ok_def)
  let ?i = "first_free (slots s)"
  have "?i \<le> MAXCONN" using first_free_le [of "slots s"] n by simp
  then show ?thesis
    using n first_free_open [of _ "slots s"] first_free_closed [of "slots s"]
    by (cases "?i = MAXCONN") (auto simp: resolve_id_def Let_def)
qed

section \<open>closeall\<close>

definition closed_conn :: "conninfo \<Rightarrow> conninfo" where
  "closed_conn k = (if isopen k then no_connection else k)"

definition close_handles :: "'w setting \<Rightarrow> conninfo list \<Rightarrow> 'w \<Rightarrow> 'w" where
  "close_handles S ks w = foldl (\<lambda>w h. mysql_close (s_client S) h w) w (map (the \<circ> conn) (filter isopen ks))"

lemma close_handles_Cons:
  "close_handles S (k # ks) w =
     close_handles S ks (if isopen k then mysql_close (s_client S) (the (conn k)) w else w)"
  by (simp add: close_handles_def)

lemma close_slot_run:
  assumes "i < length (slots s)" and "isopen (slots s ! i) \<longrightarrow> conn (slots s ! i) \<noteq> None"
  shows "close_slot S i s = (Inr (), s\<lparr>slots := (slots s)[i := closed_conn (slots s ! i)],
     world := close_handles S [slots s ! i] (world s)\<rparr>)"
  using assms
  by (auto simp: close_slot_def handle_of_def prog_simps bindS_assoc set_slot_def closed_conn_def
      close_handles_def retS_def)

lemma close_slots_run:
  "i + n = length (slots s) \<Longrightarrow> \<forall>j<length (slots s). isopen (slots s ! j) \<longrightarrow> conn (slots s ! j) \<noteq> None \<Longrightarrow>
   close_slots S i n s = (Inr (), s\<lparr>slots := take i (slots s) @ map closed_conn (drop i (slots s)),
     world := close_handles S (drop i (slots s)) (world s)\<rparr>)"
proof (induction n arbitrary: i s)
  case 0
  then show ?case by (simp add: retS_def close_handles_def)
next
  case (Suc n)
  have i: "i < length (slots s)" using Suc.prems by simp
  let ?s = "s\<lparr>slots := (slots s)[i := closed_conn (slots s ! i)],
     world := close_handles S [slots s ! i] (world s)\<rparr>"
  have "close_slots S (Suc i) n ?s = (Inr (), ?s\<lparr>slots := take (Suc i) (slots ?s) @ map closed_conn (drop (Suc i) (slots ?s)),
     world := close_handles S (drop (Suc i) (slots ?s)) (world ?s)\<rparr>)"
    using Suc.prems by (intro Suc.IH) (auto simp: nth_list_update closed_conn_def no_connection_def)
  moreover have "close_slot S i s = (Inr (), ?s)" using Suc.prems i by (intro close_slot_run) auto
  moreover have "drop i (slots s) = slots s ! i # drop (Suc i) (slots s)" using i by (simp add: Cons_nth_drop_Suc)
  ultimately show ?case
    using i by (simp add: bindS_def take_Suc_conv_app_nth close_handles_Cons [of S _ "drop (Suc i) (slots s)"]
        close_handles_Cons [of S _ "[]"]) (simp add: close_handles_def)
qed

lemma close_all_run:
  assumes "slots_ok s"
  shows "close_all_command S s = (Inr None, s\<lparr>slots := map closed_conn (slots s),
     world := close_handles S (slots s) (world s)\<rparr>)"
  using assms close_slots_run [of 0 MAXCONN s S]
  by (simp add: close_all_command_def bindS_def slots_ok_def retS_def)

section \<open>Commands without the server\<close>

lemma no_server_commands:
  assumes "q = SERIALIZE \<or> q = DESERIALIZE \<or> q = VERSION"
  shows "world (snd (run_command S nlhs prhs jarg q query cid s)) = world s
    \<and> slots (snd (run_command S nlhs prhs jarg q query cid s)) = slots s"
  using assms by (auto simp: run_command_def version_query_def failS_def liftS_def prog_simps retS_def say_def bindS_def)

lemma querytype_serialize:
  assumes "strcasestr (on_windows E) query (bytes_of ''serialize'') \<noteq> None"
    and "\<not> strncasecmp_words (on_windows E) query (bytes_of ''use '') 4"
  shows "querytype_of E query = SERIALIZE \<or> querytype_of E query = DESERIALIZE"
proof -
  obtain j where "strcasecmp_words (on_windows E) (take (length (bytes_of ''serialize'')) (drop j query)) (bytes_of ''serialize'')"
    using assms(1) strcasestr_found by blast
  then have "length (take (length (bytes_of ''serialize'')) (drop j query)) = 9"
    by (auto simp: strcasecmp_words_def bytes_of_def split: if_splits dest: arg_cong [of _ _ length])
  then have "9 \<le> length query" by (simp split: nat_diff_split_asm)
  then have "\<not> strcasecmp_words (on_windows E) query (bytes_of t)" if "length t < 9" for t
    using that by (auto simp: strcasecmp_words_def bytes_of_def dest: arg_cong [of _ _ length] split: if_splits)
  then show ?thesis using assms by (simp add: querytype_of_def Let_def)
qed

section \<open>SELECT\<close>

text \<open>A call that reaches the server: the connection answers, the query is accepted, a result set arrives.\<close>

definition answers :: "'w setting \<Rightarrow> 'w mex \<Rightarrow> nat \<Rightarrow> handle \<Rightarrow> prepared \<Rightarrow> mysql_res \<Rightarrow> bool" where
  "answers S s cid h p r \<longleftrightarrow>
     cid < length (slots s) \<and> isopen (slots s ! cid) \<and> conn (slots s ! cid) = Some h
   \<and> (let (f1, w1) = mysql_ping (s_client S) h (world s);
          (f2, w2) = mysql_send (s_client S) h (real_query p) (sql p) w1;
          (r', w3) = mysql_store_result (s_client S) h w2
      in \<not> f1 \<and> \<not> f2 \<and> r' = Some r)"

definition escape_of :: "'w setting \<Rightarrow> 'w mex \<Rightarrow> handle \<Rightarrow> byte list \<Rightarrow> byte list" where
  "escape_of S s h = mysql_real_escape_string (s_client S) h (snd (mysql_ping (s_client S) h (world s)))"

lemma mysql_command_result:
  assumes "answers S s cid h p r"
    and "prepare (s_env S) (s_host S) (s_zlib S) (escape_of S s h) query (drop (jarg + 1) prhs) = Inr p"
  shows "fst (mysql_command S 1 prhs jarg query cid s) =
    bindE (fetch_result (s_env S) (s_host S) (s_zlib S) (s_nan S) (bigint_to_double p) r) (\<lambda>a. Inr (Some a))"
  using assms
  by (auto simp: mysql_command_def execute_query_def live_connection_def handle_of_def answers_def escape_of_def prog_simps
      bindS_assoc bindE_def retS_def split: prod.splits sum.splits)

lemma mysql_command_table:
  assumes "answers S s cid h p r"
    and "prepare (s_env S) (s_host S) (s_zlib S) (escape_of S s h) query (drop (jarg + 1) prhs) = Inr p"
  shows "fst (mysql_command S 0 prhs jarg query cid s) = bindE (fancyprint r) (\<lambda>_. Inr None)"
  using assms
  by (auto simp: mysql_command_def execute_query_def live_connection_def handle_of_def answers_def escape_of_def prog_simps
      bindS_assoc bindE_def retS_def split: prod.splits sum.splits)

text \<open>A result set as \<open>mysql_store_result\<close> builds it: distinct names, complete rows.\<close>

definition result_ok :: "mysql_res \<Rightarrow> bool" where
  "result_ok r \<longleftrightarrow> distinct (map f_name (r_fields r)) \<and> length (r_rows r) = r_nrow r
     \<and> r_nrow r \<le> INT_MAX \<and> (\<forall>row\<in>set (r_rows r). length row = length (r_fields r))"

lemma fetch_column:
  assumes E: "matlab_api E" and r: "result_ok r" and k: "k < length (r_fields r)"
    and res: "fetch_result E H Z mxNaN to_double r = Inr s"
  shows "\<exists>es c. s = MxStruct [1, 1] (map f_name (r_fields r)) es \<and> k < length es \<and> es ! k = Some c
    \<and> bindE (new_column E (r_nrow r) to_double (r_fields r ! k))
        (put_cells E H Z mxNaN to_double (r_fields r ! k) 0 (map (\<lambda>row. row ! k) (r_rows r))) = Inr c"
proof -
  obtain cols where "s = MxStruct [1, 1] (map f_name (r_fields r)) (map Some cols)"
      "length cols = length (r_fields r)"
      "\<forall>k<length (r_fields r). bindE (new_column E (r_nrow r) to_double (r_fields r ! k))
         (put_cells E H Z mxNaN to_double (r_fields r ! k) 0 (map (\<lambda>row. row ! k) (r_rows r)))
         = Inr (cols ! k)"
    using fetch_result_columns [OF E _ _ _ res] r unfolding result_ok_def by blast
  with k show ?thesis by auto
qed

lemma column_dims: "n \<le> INT_MAX \<Longrightarrow> nelems [word_of_nat n, 1] = n"
  by (simp add: nelems_def unat_of_nat INT_MAX_def)

text \<open>Blobs written by {M} come back as the values they were made of.\<close>

lemma fetch_blob_column:
  assumes E: "matlab_api E" and r: "result_ok r" and k: "k < length (r_fields r)"
    and f: "blob_field (r_fields r ! k)"
    and cells: "list_all2 (\<lambda>row a. \<exists>blob tail. row ! k = (Some (blob @ tail), length blob) \<and> blob_for E Z a blob)
      (r_rows r) as"
    and res: "fetch_result E H Z mxNaN to_double r = Inr s"
  shows "\<exists>es. s = MxStruct [1, 1] (map f_name (r_fields r)) es \<and> k < length es
    \<and> es ! k = Some (MxCell [word_of_nat (r_nrow r), 1] (map (\<lambda>a. Some (canon a)) as))"
proof -
  let ?f = "r_fields r ! k" and ?n = "r_nrow r"
  have new: "new_column E ?n to_double ?f = Inr (MxCell [word_of_nat ?n, 1] (replicate ?n None))"
    using f r by (auto simp: new_column_def blob_field_def as_integer_def can_convert_IS_NUM IS_NUM_types
        matlab_create_cell [OF E] dims_small column_dims result_ok_def)
  have "list_all2 (\<lambda>c x. deserialize E Z (fst c) (snd c) = Inr x) (map (\<lambda>row. row ! k) (r_rows r)) (map canon as)"
    using cells by (auto simp: list_all2_map1 list_all2_map2 blob_for_def elim!: list_all2_mono)
  from put_blobs [OF f this, of "replicate ?n None" 0] r
  have "put_cells E H Z mxNaN to_double ?f 0 (map (\<lambda>row. row ! k) (r_rows r))
      (MxCell [word_of_nat ?n, 1] (replicate ?n None)) =
    Inr (MxCell [word_of_nat ?n, 1] (map Some (map canon as)))"
    by (simp add: result_ok_def)
  with fetch_column [OF E r k res] new show ?thesis by (auto simp: comp_def)
qed

text \<open>A BIGINT column comes back as the exact 64-bit integers.\<close>

lemma fetch_bigint_column:
  assumes E: "matlab_api E" and size: "elem_size E (integer_class (r_fields r ! k)) = 8"
    and r: "result_ok r" and k: "k < length (r_fields r)"
    and f: "f_type (r_fields r ! k) = MYSQL_TYPE_LONGLONG"
    and cells: "map (\<lambda>row. row ! k) (r_rows r) = map (\<lambda>(v, tail). bigint_cell (r_fields r ! k) v tail) vs"
    and res: "fetch_result E H Z mxNaN False r = Inr s"
  shows "\<exists>es. s = MxStruct [1, 1] (map f_name (r_fields r)) es \<and> k < length es
    \<and> es ! k = Some (MxDense [word_of_nat (r_nrow r), 1] (integer_class (r_fields r ! k))
                       (concat (map (uint64_bytes \<circ> fst) vs)) None)"
proof -
  let ?f = "r_fields r ! k" and ?n = "r_nrow r" and ?c = "integer_class (r_fields r ! k)"
  have i: "as_integer False ?f" using f by (simp add: as_integer_def)
  have c: "plain_class ?c" by (simp add: integer_class_def plain_class_def numeric_class_def)
  have n: "length vs = ?n" using arg_cong [OF cells, of length] r by (simp add: result_ok_def)
  have new: "new_column E ?n False ?f = Inr (MxDense [word_of_nat ?n, 1] ?c (zeros (8 * ?n)) None)"
    using i r size by (simp add: new_column_def matlab_create_numeric [OF E dims_small c] column_dims
        result_ok_def if_complex_def)
  have "put_cells E H Z mxNaN False ?f 0 (map (\<lambda>row. row ! k) (r_rows r))
      (MxDense [word_of_nat ?n, 1] ?c (zeros (8 * ?n)) None) =
    Inr (MxDense [word_of_nat ?n, 1] ?c (concat (map (uint64_bytes \<circ> fst) vs)) None)"
    using put_bigints [OF i, of "zeros (8 * ?n)" 0 vs] n by (simp add: cells)
  with fetch_column [OF E r k res] new show ?thesis by auto
qed

section \<open>A result set of one column\<close>

lemma store_rows_single:
  assumes f: "r_fields r = [f]" and w: "\<forall>row\<in>set (r_rows r). length row = 1"
  shows "i + n = length (r_rows r) \<Longrightarrow> store_rows E H Z mxNaN to_double r i n [a] =
    bindE (put_cells E H Z mxNaN to_double f i (map (\<lambda>row. row ! 0) (drop i (r_rows r))) a) (\<lambda>a. Inr [a])"
proof (induction n arbitrary: i a)
  case 0
  then show ?case by simp
next
  case (Suc n)
  have i: "i < length (r_rows r)" using Suc.prems by simp
  define row where "row = r_rows r ! i"
  have row: "length row = 1" "drop i (r_rows r) = row # drop (Suc i) (r_rows r)"
    using w i by (simp_all add: row_def Cons_nth_drop_Suc)
  have "store_row E H Z mxNaN to_double [f] i row 0 1 [a] =
      bindE (put_cell E H Z mxNaN to_double f i (row ! 0) a) (\<lambda>a. Inr [a])"
    using row target_distinct [of "[f]" 0] by (simp add: cell_at_def update_column_def bindE_assoc)
  then show ?case
    using Suc.IH [of "Suc i"] Suc.prems i by (simp add: f row fetch_row_def flip: row_def)
      (simp add: bindE_assoc)
qed

lemma fetch_single:
  assumes E: "matlab_api E" and f: "r_fields r = [f]" and r: "result_ok r"
  shows "fetch_result E H Z mxNaN to_double r =
    bindE (bindE (new_column E (r_nrow r) to_double f)
             (put_cells E H Z mxNaN to_double f 0 (map (\<lambda>row. row ! 0) (r_rows r))))
      (\<lambda>c. Inr (MxStruct [1, 1] [f_name f] [Some c]))"
proof -
  have dims: "dims_ok [1, 1]" by (simp add: dims_ok_def INT_MAX_def)
  have w: "\<forall>row\<in>set (r_rows r). length row = 1" and n: "length (r_rows r) = r_nrow r"
    using r by (simp_all add: result_ok_def f)
  have "store_rows E H Z mxNaN to_double r 0 (r_nrow r) [a] =
      bindE (put_cells E H Z mxNaN to_double f 0 (map (\<lambda>row. row ! 0) (r_rows r)) a) (\<lambda>a. Inr [a])" for a
    using store_rows_single [OF f w, of 0 "r_nrow r"] n by simp
  then show ?thesis
    by (simp add: fetch_result_def f matlab_create_struct [OF E dims] bindE_assoc mxSetField_def nelems_def)
qed

text \<open>Blobs, and a text column whose first cell is empty.\<close>

lemma fetch_single_blobs:
  assumes E: "matlab_api E" and f: "r_fields r = [f]" "blob_field f" and r: "result_ok r"
    and cells: "list_all2 (\<lambda>row a. \<exists>blob tail. row ! 0 = (Some (blob @ tail), length blob) \<and> blob_for E Z a blob)
      (r_rows r) as"
  shows "fetch_result E H Z mxNaN to_double r =
    Inr (MxStruct [1, 1] [f_name f] [Some (MxCell [word_of_nat (r_nrow r), 1] (map (\<lambda>a. Some (canon a)) as))])"
proof -
  let ?n = "r_nrow r"
  have new: "new_column E ?n to_double f = Inr (MxCell [word_of_nat ?n, 1] (replicate ?n None))"
    using f r by (auto simp: new_column_def blob_field_def as_integer_def can_convert_IS_NUM IS_NUM_types
        matlab_create_cell [OF E] dims_small column_dims result_ok_def)
  have "list_all2 (\<lambda>c x. deserialize E Z (fst c) (snd c) = Inr x) (map (\<lambda>row. row ! 0) (r_rows r)) (map canon as)"
    using cells by (auto simp: list_all2_map1 list_all2_map2 blob_for_def elim!: list_all2_mono)
  from put_blobs [OF f(2) this, of "replicate ?n None" 0] r
  show ?thesis by (simp add: fetch_single [OF E f(1) r] new result_ok_def comp_def)
qed

lemma fetch_single_bigints:
  assumes E: "matlab_api E" and size: "elem_size E (integer_class f) = 8"
    and f: "r_fields r = [f]" "f_type f = MYSQL_TYPE_LONGLONG" and r: "result_ok r"
    and cells: "map (\<lambda>row. row ! 0) (r_rows r) = map (\<lambda>(v, tail). bigint_cell f v tail) vs"
  shows "fetch_result E H Z mxNaN False r =
    Inr (MxStruct [1, 1] [f_name f] [Some (MxDense [word_of_nat (r_nrow r), 1] (integer_class f)
       (concat (map (uint64_bytes \<circ> fst) vs)) None)])"
proof -
  let ?n = "r_nrow r" and ?c = "integer_class f"
  have i: "as_integer False f" using f by (simp add: as_integer_def)
  have c: "plain_class ?c" by (simp add: integer_class_def plain_class_def numeric_class_def)
  have n: "length vs = ?n" using arg_cong [OF cells, of length] r by (simp add: result_ok_def)
  have "new_column E ?n False f = Inr (MxDense [word_of_nat ?n, 1] ?c (zeros (8 * ?n)) None)"
    using i r size by (simp add: new_column_def matlab_create_numeric [OF E dims_small c] column_dims
        result_ok_def if_complex_def)
  then show ?thesis
    using put_bigints [OF i, of "zeros (8 * ?n)" 0 vs] n by (simp add: fetch_single [OF E f(1) r] cells)
qed

lemma fetch_single_empty_text:
  assumes E: "matlab_api E" and f: "r_fields r = [f]" "text_field f" and r: "result_ok r"
    and row: "r_rows r = [(p, 0)] # rows"
  shows "fetch_result E H Z mxNaN to_double r = undefined_behaviour Write_out_of_bounds"
proof -
  have "\<not> as_integer to_double f" "\<not> can_convert (f_type f)"
    using f by (auto simp: text_field_def as_integer_def can_convert_IS_NUM IS_NUM_types)
  then have "new_column E (r_nrow r) to_double f =
      Inr (MxCell [word_of_nat (r_nrow r), 1] (replicate (nelems [word_of_nat (r_nrow r), 1]) None))"
    by (simp add: new_column_def matlab_create_cell [OF E] dims_small)
  with put_text_empty [OF f(2)] show ?thesis by (simp add: fetch_single [OF E f(1) r] row)
qed

end
