(* ===== verification/Mym_Instances.thy ===== *)
theory Mym_Instances
  imports Mym_Behaviour
begin

text \<open>
  Concrete surroundings on which the theorems are evaluated: for zlib, for MATLAB's string functions,
  for \<open>mysql_real_escape_string\<close> and for the client library. They satisfy what the documentation of
  these interfaces says, as the lemmas here show; together with \<open>doc_env\<close> they show that the
  hypotheses of the properties can be met. No property is about them alone.
\<close>

section \<open>zlib\<close>

text \<open>A "compression" that writes the length in unary in front of the data.\<close>

definition unary_compress :: "byte list \<Rightarrow> byte list" where
  "unary_compress x = replicate (length x) 1 @ [0] @ x"

definition unary_uncompress :: "byte list \<Rightarrow> byte list" where
  "unary_uncompress s = (let n = length (takeWhile (\<lambda>b. b = 1) s) in take n (drop (n + 1) s))"

definition unary_zlib :: zlib where
  "unary_zlib = \<lparr>z_bound = (\<lambda>n. 2 * n + 1),
     z_compress = (\<lambda>cap x. if 2 * length x + 1 \<le> cap then Some (unary_compress x) else None),
     z_uncompress = (\<lambda>room n s. if length (unary_uncompress s) \<le> room then Some (unary_uncompress s) else None)\<rparr>"

lemma unary_roundtrip: "unary_uncompress (unary_compress x @ rest) = x"
proof -
  have "takeWhile (\<lambda>b. b = 1) (replicate n (1 :: byte) @ 0 # p) = replicate n 1" for n p
    by (induction n) auto
  then show ?thesis by (simp add: unary_uncompress_def unary_compress_def Let_def)
qed

lemma unary_zlib_api: "zlib_api unary_zlib"
  unfolding zlib_api_def unary_zlib_def
  by (auto simp: unary_roundtrip split: if_splits) (simp_all add: unary_compress_def)

section \<open>MATLAB's strings\<close>

fun units :: "byte list \<Rightarrow> nat list" where
  "units (a # b # s) = (unat a + 256 * unat b) # units s"
| "units _ = []"

fun utf16_decode :: "nat list \<Rightarrow> nat list" where
  "utf16_decode (u # v # us) =
     (if 0xD800 \<le> u \<and> u < 0xDC00 \<and> 0xDC00 \<le> v \<and> v < 0xE000
      then (0x10000 + (u - 0xD800) * 1024 + (v - 0xDC00)) # utf16_decode us
      else u # utf16_decode (v # us))"
| "utf16_decode us = us"

definition doc_text :: "mxArray \<Rightarrow> byte list" where
  "doc_text a = utf8 (utf16_decode (units (mxGetData a)))"

definition doc_host :: host where
  "doc_host = \<lparr>array_to_string = doc_text,
     create_string = (\<lambda>s. MxDense [1, word_of_nat (length s)] mxCHAR_CLASS (concat (map (\<lambda>b. [b, 0]) s)) None),
     get_string = (\<lambda>a n. (n \<le> length (doc_text a), take (n - 1) (doc_text a))),
     read_file = (\<lambda>name. if name = bytes_of ''a.bin'' then Some [1, 2, 3] else None)\<rparr>"

text \<open>A character row vector.\<close>

definition char_row :: "string \<Rightarrow> mxArray" where
  "char_row s = MxDense [1, word_of_nat (length s)] mxCHAR_CLASS (concat (map (\<lambda>c. [of_char c, 0]) s)) None"

section \<open>Escaping\<close>

fun doc_escape :: "byte list \<Rightarrow> byte list" where
  "doc_escape [] = []"
| "doc_escape (b # s) =
     (if b = 0 then [92, 48]
      else if b = 10 then [92, 110]
      else if b = 13 then [92, 114]
      else if b = 26 then [92, 90]
      else if b \<in> {34, 39, 92} then [92, b]
      else [b]) @ doc_escape s"

lemma doc_escape_api: "escape_api doc_escape"
proof -
  have "length (doc_escape x) \<le> 2 * length x \<and> no_nul (doc_escape x)" for x
    by (induction x) auto
  then show ?thesis by (simp add: escape_api_def)
qed

section \<open>A client library\<close>

text \<open>The state: the next new handle, and the handles that are in use. The answers are fixed.\<close>

type_synonym doc_world = "nat \<times> nat list"

definition doc_alive :: "doc_world \<Rightarrow> handle set" where
  "doc_alive w = set (snd w) \<inter> {..<fst w}"

definition doc_client :: "mysql_res option \<Rightarrow> doc_world client" where
  "doc_client r = \<lparr>
     mysql_init = (\<lambda>h w. case h of
        None \<Rightarrow> (Some (fst w), (Suc (fst w), fst w # snd w)) | Some h \<Rightarrow> (Some h, w)),
     mysql_close = (\<lambda>h w. (fst w, filter (\<lambda>k. k \<noteq> h) (snd w))),
     mysql_ping = (\<lambda>h w. (h \<notin> set (snd w), w)),
     mysql_error = (\<lambda>h w. ''Server has gone away''),
     mysql_options = (\<lambda>h m w. w),
     mysql_real_connect = (\<lambda>h host user pass port w. (host = Some (bytes_of ''down''), w)),
     mysql_stat = (\<lambda>h w. (Some (bytes_of ''Uptime: 1''), w)),
     mysql_select_db = (\<lambda>h d w. (False, w)),
     mysql_get_ssl_cipher = (\<lambda>h w. False),
     mysql_get_host_info = (\<lambda>h w. bytes_of ''localhost''),
     mysql_get_server_info = (\<lambda>h w. bytes_of ''8.0''),
     mysql_send = (\<lambda>h real q w. (False, w)),
     mysql_store_result = (\<lambda>h w. (r, w)),
     mysql_field_count = (\<lambda>h w. 0),
     mysql_affected_rows = (\<lambda>h w. 1),
     mysql_real_escape_string = (\<lambda>h w. doc_escape)\<rparr>"

lemma doc_client_api: "client_api (doc_client r) doc_alive"
  by (auto simp: client_api_def allocates_def releases_def quiet_def doc_client_def doc_alive_def)

definition doc_setting :: "mysql_res option \<Rightarrow> doc_world setting" where
  "doc_setting r = \<lparr>s_env = doc_env, s_host = doc_host, s_zlib = unary_zlib, s_client = doc_client r,
     s_nan = 0x7FF8000000000000, s_mym_directory = bytes_of ''/mym''\<rparr>"

lemma doc_setting_simps [simp]:
  "s_env (doc_setting r) = doc_env" "s_host (doc_setting r) = doc_host"
  "s_zlib (doc_setting r) = unary_zlib" "s_client (doc_setting r) = doc_client r"
  "s_mym_directory (doc_setting r) = bytes_of ''/mym''"
  by (simp_all add: doc_setting_def)

text \<open>A small value that {M} can store: the 1-by-1 array 5.\<close>

definition five :: mxArray where
  "five = MxDense [1, 1] mxDOUBLE_CLASS [0, 0, 0, 0, 0, 0, 20, 64] None"

lemma five_plain: "plain_value doc_env five"
  by (simp add: plain_value_def storable_def doc_env_matlab use32bitdims_def five_def dims_ok_def INT_MAX_def
      plain_class_def numeric_class_def nelems_def stored_def head_image_True array_image_def
      class_image_def data_image_def)

lemma five_storable: "storable doc_env five"
  using five_plain by (simp add: plain_value_def)

end
