(* ===== verification/Mym_Types.thy ===== *)
theory Mym_Types
  imports Mym_Instances
begin

text \<open>
  The type of what \<open>deserialize\<close> returns: an array whose parts have the sizes that its dimensions and its class
  say, down to the innermost element. It holds for any bytes, forged or truncated ones too: the code
  only fills arrays that MATLAB has created, or does not return.
\<close>

primrec shaped :: "mexenv \<Rightarrow> mxArray \<Rightarrow> bool" where
  "shaped E (MxDense ds c re im) \<longleftrightarrow> length re = elem_size E c * nelems ds \<and> (case im of None \<Rightarrow> True | Some i \<Rightarrow> length i = length re)"
| "shaped E (MxSparse m n nz c jc ir re im) \<longleftrightarrow> length jc = unat n + 1 \<and> length ir = unat nz \<and>
     length re = elem_size E c * unat nz \<and> (case im of None \<Rightarrow> True | Some i \<Rightarrow> length i = length re)"
| "shaped E (MxStruct ds fs es) \<longleftrightarrow> length es = nelems ds * length fs \<and> opt_all (map (map_option (shaped E)) es)"
| "shaped E (MxCell ds es) \<longleftrightarrow> length es = nelems ds \<and> opt_all (map (map_option (shaped E)) es)"
| "shaped E (MxOther ds c) \<longleftrightarrow> True"

text \<open>What the creation routines of MATLAB promise for all arguments, bad ones included: a well-shaped array, if any.\<close>

definition creates_shaped :: "mexenv \<Rightarrow> bool" where
  "creates_shaped E \<longleftrightarrow> (\<forall>ds k x a. create_numeric E ds k x = Inr a \<longrightarrow> shaped E a) \<and>
     (\<forall>m n z k a. create_sparse E m n z k = Inr a \<longrightarrow> shaped E a) \<and>
     (\<forall>m n z a. create_sparse_logical E m n z = Inr a \<longrightarrow> shaped E a) \<and>
     (\<forall>ds fs a. create_struct E ds fs = Inr a \<longrightarrow> shaped E a) \<and>
     (\<forall>ds a. create_cell E ds = Inr a \<longrightarrow> shaped E a)"

lemma created_shaped:
  assumes "creates_shaped E"
  shows "create_numeric E ds k x = Inr a \<Longrightarrow> shaped E a" "create_sparse E m n z k = Inr a \<Longrightarrow> shaped E a"
    "create_sparse_logical E m n z = Inr a \<Longrightarrow> shaped E a" "create_struct E ds fs = Inr a \<Longrightarrow> shaped E a"
    "create_cell E ds = Inr a \<Longrightarrow> shaped E a"
  using assms unfolding creates_shaped_def by blast+

section \<open>Stores keep the shape\<close>

lemma overwrite_length: "overwrite dst src = Inr r \<Longrightarrow> length r = length dst"
  by (auto simp: overwrite_def split: if_splits)

lemma put_data_shaped: "put_data bs a = Inr b \<Longrightarrow> shaped E a \<Longrightarrow> shaped E b"
  by (cases a) (auto simp: bindE_eq_Inr dest: overwrite_length split: option.splits)

lemma put_imag_shaped: "put_imag bs a = Inr b \<Longrightarrow> shaped E a \<Longrightarrow> shaped E b"
  by (induction bs a rule: put_imag.induct) (auto simp: bindE_eq_Inr dest: overwrite_length)

lemma put_jc_shaped: "put_jc js a = Inr b \<Longrightarrow> shaped E a \<Longrightarrow> shaped E b"
  by (cases a) (auto simp: bindE_eq_Inr dest: overwrite_length split: option.splits)

lemma put_ir_shaped: "put_ir js a = Inr b \<Longrightarrow> shaped E a \<Longrightarrow> shaped E b"
  by (cases a) (auto simp: bindE_eq_Inr dest: overwrite_length split: option.splits)

lemma put_element_shaped: "put_element i x a = Inr b \<Longrightarrow> shaped E x \<Longrightarrow> shaped E a \<Longrightarrow> shaped E b"
  by (cases a) (auto simp: dest!: set_update_subset_insert [THEN subsetD] split: if_splits)

lemmas puts_shaped = put_data_shaped put_imag_shaped put_jc_shaped put_ir_shaped

lemma read_data_shaped: "read_data c n p a = Inr b \<Longrightarrow> shaped E a \<Longrightarrow> shaped E b"
  by (auto simp: read_data_def bindE_eq_Inr dest: puts_shaped split: if_splits)

section \<open>The readers\<close>

lemma deserializeArray_shaped: "creates_shaped E \<Longrightarrow> deserializeArray E p = Inr a \<Longrightarrow> shaped E a"
  by (auto simp: deserializeArray_def bindE_eq_Inr intro: created_shaped read_data_shaped)

lemma deserializeSparse_shaped:
  assumes "creates_shaped E" "deserializeSparse E p = Inr a"
  shows "shaped E a"
proof -
  from assms(2) obtain m n z k x a0 jc a1 ir a2 c l q
    where a0: "(if k = class_code E mxLOGICAL_CLASS then create_sparse_logical E m n z else create_sparse E m n z x) = Inr a0"
      and stores: "put_jc jc a0 = Inr a1" "put_ir ir a1 = Inr a2" "read_data c l q a2 = Inr a"
    by (auto simp: deserializeSparse_def bindE_eq_Inr Let_def simp del: split_paired_Ex)
  from a0 have "shaped E a0" using created_shaped [OF assms(1)] by (simp split: if_splits)
  with stores show ?thesis by (meson put_jc_shaped put_ir_shaped read_data_shaped)
qed

lemma deserialize_field_shaped:
  assumes "creates_shaped E"
  shows "deserialize_field E p = Inr a \<Longrightarrow> shaped E a"
    and "deser_elements E lim k n p ps = Inr a \<Longrightarrow> shaped E ps \<Longrightarrow> shaped E a"
    and "deserializeStruct E p = Inr a \<Longrightarrow> shaped E a"
    and "deserializeCell E p = Inr a \<Longrightarrow> shaped E a"
  using assms
proof (induction E p and E lim k n p ps and E p and E p arbitrary: a and a and a and a
    rule: deserialize_field_deser_elements_deserializeStruct_deserializeCell.induct)
  case (2 E b p)
  then show ?case by (auto simp: deserializeArray_shaped deserializeSparse_shaped split: if_splits)
next
  case (3 E lim k n p ps)
  note step = "3.prems"(1) [unfolded deser_elements.simps [of E lim k n p ps]]
  show ?case
  proof (cases "k < n")
    case True
    with step obtain nbytes q pf ps' where q: "READ_UINT (use32bitdims E) p = Inr (nbytes, q)" "deserialize_field E q = Inr pf"
        "put_element k pf ps = Inr ps'" "Suc k \<noteq> lim" "deser_elements E lim (Suc k) n (drop (unat nbytes) q) ps' = Inr a"
      by (auto simp: bindE_eq_Inr split: if_splits)
    from "3.IH"(1) [OF True q(1) refl q(2) "3.prems"(3)] have "shaped E ps'"
      using put_element_shaped [OF q(3)] "3.prems"(2) by blast
    from "3.IH"(2) [OF True q(1) refl q(2,3,4,5) this "3.prems"(3)] show ?thesis .
  qed (use step "3.prems"(2) in simp)
next
  case (4 E p)
  show ?case
    using "4.prems"(1) [unfolded deserializeStruct.simps [of E p]] "4.IH" "4.prems"(2)
    by (auto simp: bindE_eq_Inr Let_def dest: created_shaped)
next
  case (5 E p)
  show ?case
    using "5.prems"(1) [unfolded deserializeCell.simps [of E p]] "5.IH" "5.prems"(2)
    by (auto simp: bindE_eq_Inr Let_def dest: created_shaped)
qed simp

section \<open>The entry point\<close>

lemma memory_dump_shaped: "creates_shaped E \<Longrightarrow> memory_dump E p n = Inr a \<Longrightarrow> shaped E a"
  by (auto simp: memory_dump_def bindE_eq_Inr intro: created_shaped put_data_shaped)

lemma deserialize_body_shaped: "creates_shaped E \<Longrightarrow> deserialize_body E p = Inr (Some a, q) \<Longrightarrow> shaped E a"
  by (auto simp: deserialize_body_def bindE_eq_Inr dest: deserialize_field_shaped(1) split: if_splits)

lemma try_catch_Inr: "try_catch E m h = Inr x \<Longrightarrow> m = Inr x \<or> x = h"
  by (auto simp: try_catch_def split: sum.splits if_splits)


lemma doc_env_shaped: "creates_shaped doc_env"
  by (auto simp: creates_shaped_def doc_env_def doc_create_numeric_def zeros_def Let_def opt_all_def split: option.splits)


end
