(* ===== verification/Mym_Format_Properties.thy ===== *)
theory Mym_Format_Properties
  imports Mym_Instances
begin

text \<open>
  Properties of the serialized format: of the serializers, the readers, the entry point
  \<open>deserialize\<close> and the compression step. Each theorem with hypotheses is followed by an instance on
  concrete data.
\<close>

declare serialize_field.simps [simp del]

section \<open>Writing\<close>

text \<open>C7: For every well-formed value, the serializers return exactly the bytes of the format: no
  write leaves the buffer whose size was computed beforehand, and no error is raised.\<close>

theorem serialize_writes_format:
  assumes "mx_ok E a"
  shows "serialize_field E (Some a) = Inr (encode E a)"
  using assms by (rule serialize_field_encode)

lemma serialize_writes_format_five:
  "serialize_field doc_env (Some five) = Inr [65, 2, 0, 0, 0, 0, 0, 0, 0, 1, 0, 0, 0, 0, 0, 0, 0,
     1, 0, 0, 0, 0, 0, 0, 0, 6, 0, 0, 0, 0, 0, 0, 0, 0, 0, 0, 0, 0, 0, 20, 64]"
proof -
  have "mx_ok doc_env five" using five_storable by (simp add: storable_def)
  from serialize_writes_format [OF this] have "serialize_field doc_env (Some five) = Inr (encode doc_env five)" .
  also have "encode doc_env five = [65, 2, 0, 0, 0, 0, 0, 0, 0, 1, 0, 0, 0, 0, 0, 0, 0,
     1, 0, 0, 0, 0, 0, 0, 0, 6, 0, 0, 0, 0, 0, 0, 0, 0, 0, 0, 0, 0, 0, 20, 64]"
    by (simp add: five_def array_image_def dims_image_def class_image_def data_image_def
      uint64_bytes_def uint32_bytes_def id_values doc_complexity_code_def le_bytes_numeral)
  finally show ?thesis .
qed

text \<open>A structure array with at least two elements and no fields makes \<open>serializeStruct\<close> read
  behind the end of its table of partial results when it frees them.\<close>

theorem struct_without_fields:
  assumes "2 \<le> nelems ds" and "nelems ds \<le> INT_MAX"
  shows "serializeStruct E (MxStruct ds [] []) rhead = undefined_behaviour Read_out_of_bounds"
  using assms
  by (simp add: serializeStruct.simps int_loop_def mxGetNumberOfElements_def assemble_struct_def Let_def
      mxGetNumberOfDimensions_def free_tail_def)

lemma struct_without_fields_1_2:
  "serializeStruct doc_env (MxStruct [1, 2] [] []) True = undefined_behaviour Read_out_of_bounds"
  by (rule struct_without_fields) (simp_all add: nelems_def INT_MAX_def)

section \<open>Reading back\<close>

text \<open>C3: What the serializers write, the readers read back, whatever follows in memory; elements
  for which MATLAB returned NULL come back as empty arrays.\<close>

theorem read_back:
  assumes "storable E a"
  shows "bindE (serialize_field E (Some a)) (\<lambda>s. deserialize_field E (s @ tail)) = Inr (canon a)"
proof -
  have "serialize_field E (Some a) = Inr (encode E a)"
    using assms by (simp only: storable_def serialize_field_encode)
  then show ?thesis using blob.dec_enc [OF assms, of tail] by simp
qed

lemma read_back_five:
  "bindE (serialize_field doc_env (Some five)) (\<lambda>s. deserialize_field doc_env (s @ [7])) = Inr five"
  using read_back [OF five_storable, of "[7]"] by (simp add: five_def)

text \<open>With MYM_USE_32BIT_DIMS set, the readers accept the format of old 32-bit builds, in which
  every size has four bytes.\<close>

theorem read_32bit_format:
  assumes "matlab_api E" and "use32bitdims E" and "mx_ok E a"
    and "sizes_ok dim32_bytes (\<lambda>v. unat v < 2 ^ 32) E a"
  shows "deserialize_field E (encode_as dim32_bytes E a @ tail) = Inr (canon a)"
  using assms by (intro size32.field_roundtrip) simp_all

lemma read_32bit_format_five:
  "deserialize_field (doc_env\<lparr>getenv32 := Some (bytes_of ''TRUE'')\<rparr>)
     (encode_as dim32_bytes (doc_env\<lparr>getenv32 := Some (bytes_of ''TRUE'')\<rparr>) five @ [7]) = Inr five"
proof -
  let ?E = "doc_env\<lparr>getenv32 := Some (bytes_of ''TRUE'')\<rparr>"
  have "matlab_api ?E" using doc_env_matlab by (simp add: matlab_api_def)
  moreover have "use32bitdims ?E"
    by (simp add: use32bitdims_def strcasecmp_words_def bytes_of_def tolower_def)
  moreover have "mx_ok ?E five" "sizes_ok dim32_bytes (\<lambda>v. unat v < 2 ^ 32) ?E five"
    by (simp_all add: five_def dims_ok_def INT_MAX_def plain_class_def numeric_class_def nelems_def)
  ultimately show ?thesis using read_32bit_format [of ?E five "[7]"] by (simp add: five_def)
qed

text \<open>Serialized values are self-delimiting: when one is a prefix of another, the two are equal
  and so are the values they stand for.\<close>

theorem serialized_prefix_free:
  assumes "storable E a" and "storable E b"
    and "serialize_field E (Some a) = Inr s" and "serialize_field E (Some b) = Inr (s @ p)"
  shows "p = [] \<and> canon a = canon b"
proof -
  have s: "s = encode E a" "s @ p = encode E b"
    using assms by (auto simp: storable_def serialize_field_encode)
  then have "p = []" using blob.prefix_free [OF assms(1,2)] by simp
  with s show ?thesis using blob.same_view [OF assms(1,2), of "[]" "[]"] by simp
qed

lemma serialized_prefix_free_five:
  "\<exists>s. serialize_field doc_env (Some five) = Inr (s @ []) \<and> ([] :: byte list) = [] \<and> canon five = canon five"
  using serialized_prefix_free [OF five_storable five_storable, of "encode doc_env five" "[]"]
    serialize_field_encode [of doc_env five] five_storable
  by (simp add: storable_def)

section \<open>\<open>deserialize\<close>\<close>

text \<open>C36: A truncated blob is not recognised as such: reading any proper prefix of a serialized value
  ends behind the buffer, whatever length the caller states.\<close>

theorem truncated_blob:
  assumes "storable E a" and "k < length (stored E a)"
  shows "deserialize E Z (Some (take k (stored E a))) n = undefined_behaviour Read_out_of_bounds"
  using assms by (rule deserialize_cut)

lemma truncated_blob_five:
  "deserialize doc_env unary_zlib (Some (take 9 (stored doc_env five))) 9 =
     undefined_behaviour Read_out_of_bounds"
  by (rule truncated_blob [OF five_storable])
    (simp add: stored_def head_image_True five_def array_image_def)

text \<open>Bytes stored with {B} come back as the same column of bytes, provided that they do not look
  like a compressed or serialized value.\<close>

theorem binary_roundtrip:
  assumes "matlab_api E" and "length d < 2 ^ 64" and "unmarked E (d @ 0 # tail)"
  shows "bindE (serializeBinary (byte_column d)) (\<lambda>b. deserialize E Z (Some (b @ 0 # tail)) (length b)) =
    Inr (byte_column d)"
proof -
  have "mxGetNumberOfElements (byte_column d) = length d"
    using assms(2) by (simp add: byte_column_def mxGetNumberOfElements_def nelems_def unat_of_nat)
  then show ?thesis
    using assms by (simp add: serializeBinary_def byte_column_def deserialize_unmarked)
qed

lemma binary_roundtrip_bytes:
  "bindE (serializeBinary (byte_column [1, 2, 3]))
     (\<lambda>b. deserialize doc_env unary_zlib (Some (b @ 0 # [])) (length b)) = Inr (byte_column [1, 2, 3])"
  by (rule binary_roundtrip [OF doc_env_matlab])
    (simp_all add: unmarked_def zlib_id_values id_values strcasecmp_on_def bytes_of_def tolower_def)

text \<open>A blob of the DataJoint format "dj0" is refused with a message, compressed or not.\<close>

theorem dj0_refused:
  assumes "map tolower d = bytes_of ''dj0''" and "\<not> on_windows E"
  shows "deserialize E Z (Some (d @ 0 # p)) n =
    mexErrMsgIdAndTxt ''mYm:CrossPlatform:Compatibility'' dj0_msg"
  using assms by (rule deserialize_dj0)

lemma dj0_refused_DJ0:
  "deserialize doc_env unary_zlib (Some (bytes_of ''DJ0'' @ 0 # [5])) 5 =
    mexErrMsgIdAndTxt ''mYm:CrossPlatform:Compatibility'' dj0_msg"
  by (rule dj0_refused) (simp_all add: bytes_of_def tolower_def)

text \<open>A blob that has the marker of a serialized value but no known type byte is dumped from behind
  the marker with the length of the whole, which reads past its end.\<close>

theorem unknown_type_byte:
  assumes "matlab_api E" and "b \<notin> set known_ids" and "n = length (head_image True @ b # p)"
    and "n < 2 ^ 64" and "length tail < 4"
  shows "deserialize E Z (Some (head_image True @ b # p @ tail)) n = undefined_behaviour Read_out_of_bounds"
  using assms by (rule deserialize_unknown_id)

lemma unknown_type_byte_X:
  "deserialize doc_env unary_zlib (Some (head_image True @ 88 # [1, 2] @ [0])) 7 =
    undefined_behaviour Read_out_of_bounds"
  by (rule unknown_type_byte [OF doc_env_matlab]) (simp_all add: known_ids_def id_values head_image_True)

section \<open>Compression\<close>

text \<open>The compression step never makes a field longer: the ratio that the code computes in single
  precision exceeds the constant 1.1 only if the packed form, header included, is shorter.\<close>

theorem compression_never_grows:
  assumes "compress_field Z err pec cap pd = Inr (pd', cap')"
  shows "length pd' \<le> length pd"
  using assms by (rule compress_field_shrinks)

lemma compression_never_grows_short:
  "compress_field unary_zlib compression_failed True 10000 [1, 2] = Inr ([1, 2], 10000) \<and> length [1 :: byte, 2] \<le> length [1 :: byte, 2]"
proof -
  have c: "compress_field unary_zlib compression_failed True 10000 [1, 2] = Inr ([1, 2], 10000)"
    by (rule compress_field_skip) (simp add: MIN_LEN_ZLIB_def)
  with compression_never_grows [OF c] show ?thesis by blast
qed



end
