(* ===== verification/Mym_Text_Properties.thy ===== *)
theory Mym_Text_Properties
  imports Mym_Instances Mym_Connect
begin

text \<open>
  Properties of the text conversions: the two character loops \<open>hex2char\<close> and \<open>char2hex\<close>, the {S}
  placeholder, and the splitting of a host name from its port.
\<close>

section \<open>Characters\<close>

text \<open>C37: A byte string that \<open>hex2char\<close> turned into UTF-8 is restored by \<open>char2hex\<close>: the two loops
  are inverse to each other on every non-empty sequence of bytes.\<close>

theorem text_roundtrip:
  assumes "s \<noteq> []"
  shows "bindE (hex2char (s @ tail) (length s)) (\<lambda>u. char2hex u (length u - 1) (length s + 1)) = Inr (s @ [0])"
  using assms char2hex_latin1 [of s "length s + 1" "[0]"] by (simp add: hex2char_ok)

lemma text_roundtrip_umlaut:
  "bindE (hex2char ([65, 228] @ []) (length [65, 228 :: byte]))
     (\<lambda>u. char2hex u (length u - 1) (length [65, 228 :: byte] + 1)) = Inr ([65, 228] @ [0])"
  by (rule text_roundtrip) simp

text \<open>On UTF-8 text, \<open>char2hex\<close> keeps the low byte of every code point: code points above 255 are
  cut, and any two texts that agree modulo 256 are sent as the same bytes.\<close>

theorem code_points_cut:
  assumes "list_all scalar_value cps" and "length cps < cap"
  shows "char2hex (utf8 cps @ tail) (length (utf8 cps)) cap = Inr (map (\<lambda>c. word_of_nat (c mod 256)) cps @ [0])"
proof -
  have "(word_of_nat (c mod 256) :: byte) = word_of_nat c" for c
    by (simp add: word_of_nat_eq_iff take_bit_eq_mod)
  then show ?thesis using assms by (simp add: char2hex_utf8)
qed

lemma code_points_cut_euro:
  "char2hex (utf8 [8364, 172] @ []) (length (utf8 [8364, 172])) 3 = Inr ([172, 172] @ [0])"
  using code_points_cut [of "[8364, 172]" 3 "[]"] by (simp add: scalar_value_def)

text \<open>\<open>char2hex\<close> stays inside its buffers on every input, well-formed UTF-8 or not, provided that
  the result buffer has one byte more than the input.\<close>

theorem char2hex_in_bounds:
  assumes "vlength \<le> length p" and "vlength < cap"
  shows "\<not> is_undefined (char2hex p vlength cap)"
  using assms char2hex_loop_bound [of "[]" "take vlength p" cap]
  by (simp add: char2hex_def memread_def)

lemma char2hex_in_bounds_broken: "\<not> is_undefined (char2hex [0xF0, 0x80] 2 3)"
  by (rule char2hex_in_bounds) simp_all

text \<open>For an empty or NULL text cell, whose length is zero, \<open>hex2char\<close> writes its terminating NUL
  behind an allocation of zero bytes.\<close>

theorem empty_text_overflow: "hex2char row 0 = undefined_behaviour Write_out_of_bounds"
  by (rule hex2char_empty)

section \<open>Numbers\<close>

text \<open>An \<open>int32\<close> scalar is sent as its decimal text, whatever the argument of the placeholder, and
  reading that text as a number gives the value back.\<close>

theorem int32_text:
  "serializeString H (scalar_array mxINT32_CLASS (uint32_bytes w)) arg = Inr (sprintf_d (sint w))
   \<and> atoi (sprintf_d (sint w)) = Inr (sint w)"
  using serialize_int32 atoi_sprintf_d [OF in_int_sint, of "[]" w] by simp

text \<open>A \<open>uint32\<close> scalar is sent as its decimal text up to the largest \<open>int\<close>; above, the conversion
  \<open>(int)value\<close> has no defined result.\<close>

theorem uint32_text:
  "serializeString H (scalar_array mxUINT32_CLASS (uint32_bytes w)) arg =
     (if uint w \<le> 2147483647 then Inr (sprintf_d (uint w)) else undefined_behaviour Conversion_overflow)"
  by (rule serialize_uint32)

text \<open>A finite double in a {Sk} placeholder with at most 200 decimals is sent as a text of k
  decimals that differs from the value by at most half a unit in the last place.\<close>

theorem double_text:
  assumes "double_of_bits w = Fin s m e" and "0 < k" and "k \<le> 200"
  shows "\<exists>t. serializeString H (scalar_array mxDOUBLE_CLASS (uint64_bytes w)) (dec k) = Inr t
    \<and> 2 * \<bar>int (fixed_val t * den_part e) - int (num_part m e * 10 ^ k)\<bar> \<le> int (den_part e)"
proof -
  have "serializeString H (scalar_array mxDOUBLE_CLASS (uint64_bytes w)) (dec k) = Inr (sprintf_f k (Fin s m e))"
    using assms serialize_double double_text_fits by simp
  moreover have near: "2 * \<bar>int a - int b\<bar> \<le> int c" if "2 * a \<le> 2 * b + c" "2 * b \<le> 2 * a + c" for a b c
    using that by (cases "a \<le> b") (simp_all only: abs_if, auto)
  moreover have "2 * \<bar>int (fixed_val t * den_part e) - int (num_part m e * 10 ^ k)\<bar> \<le> int (den_part e)"
    if "sprintf_f k (Fin s m e) = t" for t
    using near [OF sprintf_f_error [OF that]] .
  ultimately show ?thesis by blast
qed

lemma double_text_five:
  "\<exists>t. serializeString doc_host (scalar_array mxDOUBLE_CLASS (uint64_bytes 0x4014000000000000)) (dec 2) = Inr t
    \<and> 2 * \<bar>int (fixed_val t * den_part (- 50)) - int (num_part (5 * 2 ^ 50) (- 50) * 10 ^ 2)\<bar> \<le> int (den_part (- 50))"
  by (rule double_text [of _ False]) (simp_all add: double_of_bits_def)

text \<open>With 511 decimals or more asked for, the text of a finite double does not fit the buffer of
  512 bytes into which \<open>sprintf\<close> prints it.\<close>

theorem double_text_too_long:
  assumes "double_of_bits w = Fin s m e" and "511 \<le> k" and "k \<le> 2147483647"
  shows "serializeString H (scalar_array mxDOUBLE_CLASS (uint64_bytes w)) (dec k) =
    undefined_behaviour Write_out_of_bounds"
  using assms by (simp add: serialize_double double_text_overflow)

lemma double_text_too_long_five:
  "serializeString doc_host (scalar_array mxDOUBLE_CLASS (uint64_bytes 0x4014000000000000)) (dec 600) =
    undefined_behaviour Write_out_of_bounds"
  by (rule double_text_too_long [of _ False "5 * 2 ^ 50" "- 50"]) (simp_all add: double_of_bits_def)

section \<open>Host and port\<close>

text \<open>A host name without a colon, followed by a colon and a port number, is split into the two.\<close>

theorem hostport_splits:
  assumes "portsep \<notin> set h" and "p \<le> 2147483647"
  shows "hostport (Some (h @ portsep # dec p)) = Inr (Some h, int p)"
proof -
  have "strstr (h @ portsep # dec p) [portsep] = Some (length h)"
    using assms(1) by (simp add: strstr_char_Some)
  moreover have "atoi (dec p) = Inr (int p)"
    using atoi_digits [OF dec_digits, of "[]" p] assms(2) by (simp add: dec_val_dec in_int_def)
  ultimately show ?thesis by (simp add: hostport_def)
qed

lemma hostport_splits_myhost:
  "hostport (Some (bytes_of ''myhost'' @ portsep # dec 2515)) = Inr (Some (bytes_of ''myhost''), int 2515)"
  by (rule hostport_splits) (simp_all add: bytes_of_def portsep_def)

end
