(* ===== verification/Mym_Query_Properties.thy ===== *)
theory Mym_Query_Properties
  imports Mym_Instances
begin

text \<open>
  Properties of the preparation of a query: the scan for placeholders, the choice of the serializer,
  the substitution of the escaped fields, the clean-up, and the commands serialize and deserialize.
\<close>

section \<open>Placeholders\<close>

text \<open>C28: In a query made of text without opening braces and of placeholders without closing braces
  inside, the scan finds exactly these placeholders, in order.\<close>

theorem scan_finds_placeholders:
  assumes "parts_ok ps" and "length ps \<le> n" and "123 \<notin> set rest \<or> n = length ps"
  shows "find_placeholders e (query_text ps rest) n 0 = Inr (positions 0 ps)"
  using find_placeholders_parts [of ps rest n e "[]"] assms by simp

lemma scan_finds_two:
  "find_placeholders not_closed (query_text [([97], [77]), ([98], [83])] [99]) 3 0 =
     Inr (positions 0 [([97], [77]), ([98], [83])])"
  by (rule scan_finds_placeholders) simp_all

text \<open>The prefix "u" of a placeholder switches compression off and changes nothing else.\<close>

theorem prefix_u:
  assumes "at0 pt \<noteq> PRE_NO_COMPRESSION"
  shows "getSerialFct (PRE_NO_COMPRESSION # pt) a = bindE (getSerialFct pt a) (\<lambda>(rpf, rpec). Inr (rpf, False))"
  using assms by (simp add: getSerialFct_def Let_def bindE_assoc case_prod_beta)

lemma prefix_u_M:
  "getSerialFct (PRE_NO_COMPRESSION # [PH_MATLAB]) five =
     bindE (getSerialFct [PH_MATLAB] five) (\<lambda>(rpf, rpec). Inr (rpf, False))"
  by (rule prefix_u) (simp add: ph_values)

text \<open>C8: Once the fields have been serialized, nothing can go wrong in the substitution any more: the
  buffer of the new query is large enough, and the query is the old one with every placeholder replaced
  by its escaped field.\<close>

theorem substitution_fits:
  assumes "escape_api esc" and "no_nul query"
    and "find_placeholders e query n 0 = Inr pos" and "length pos \<le> length args"
    and "read_placeholders query pos args = Inr phs"
    and "serialize_fields_of E H Z err cap phs args = Inr pds"
  shows "bindE (new_query esc query phs pds) cstr = Inr (expanded esc query 0 phs pds)"
  using assms by (rule new_query_fits)

lemma substitution_fits_S:
  "bindE (new_query doc_escape (bytes_of ''a{S}b'') [\<lparr>ph_po = 1, ph_ps = 3, ph_pa = [], ph_pf = SerializeString, ph_pec = False\<rparr>]
      [sprintf_d 7]) cstr =
   Inr (expanded doc_escape (bytes_of ''a{S}b'') 0 [\<lparr>ph_po = 1, ph_ps = 3, ph_pa = [], ph_pf = SerializeString, ph_pec = False\<rparr>]
      [sprintf_d 7])"
proof -
  let ?q = "bytes_of ''a{S}b''" and ?a = "scalar_array mxINT32_CLASS (uint32_bytes 7)"
  let ?ph = "\<lparr>ph_po = 1, ph_ps = 3, ph_pa = [], ph_pf = SerializeString, ph_pec = False\<rparr>"
  have s: "serializeString doc_host ?a [] = Inr (sprintf_d 7)"
    using serialize_int32 [of doc_host 7 "[]"] by simp
  show ?thesis
  proof (rule substitution_fits)
    show "escape_api doc_escape" by (rule doc_escape_api)
    show "no_nul ?q" by (simp add: no_nul_def bytes_of_def)
    show "find_placeholders not_closed ?q 1 0 = Inr [(1, 3)]"
      using find_placeholders_parts [of "[([97], [83])]" "[98]" 1 not_closed "[]"] by (simp add: ph_values bytes_of_def)
    show "length [(1, 3 :: nat)] \<le> length [?a]" by simp
    show "read_placeholders ?q [(1, 3)] [?a] = Inr [?ph]"
      by (simp add: read_placeholder_def getSerialFct_def ph_values bytes_of_def at0_def)
    show "serialize_fields_of doc_env doc_host unary_zlib compression_failed 10000 [?ph] [?a] = Inr [sprintf_d 7]"
      by (simp add: run_serial_def s compress_field_skip)
  qed
qed

section \<open>Clean-up\<close>

text \<open>C39: A query that starts with white space is lost: \<open>removeWhiteSpaceAtTheBeginning\<close> frees the
  buffer but changes only its own copy of the pointer, so that the caller goes on with freed memory.\<close>

theorem leading_space_use_after_free:
  assumes "isspace (hd q)" and "q \<noteq> []"
  shows "prepare E H Z esc q [] = undefined_behaviour Use_after_free"
  using assms by (simp add: prepare_def substitute_def strlen_after_removal)

lemma leading_space_use_after_free_SELECT:
  "prepare doc_env doc_host unary_zlib doc_escape (bytes_of '' SELECT 1'') [] = undefined_behaviour Use_after_free"
  by (rule leading_space_use_after_free) (simp_all add: bytes_of_def isspace_def)

text \<open>A CREATE or ALTER query without curly brackets, the usual case, overflows the buffer into which
  it is copied by one byte, the terminating NUL.\<close>

theorem create_overflow:
  assumes "create_or_alter q" and "bracket_free q"
  shows "prepare E H Z esc q [] = undefined_behaviour Write_out_of_bounds"
proof -
  obtain b s where q: "q = b # s" "\<not> isspace b" using create_letter [OF assms(1)] by blast
  with brackets_overflow [OF assms] show ?thesis
    by (simp add: prepare_def substitute_def strlen_after_removal)
qed

lemma create_overflow_table:
  "prepare doc_env doc_host unary_zlib doc_escape (bytes_of ''create table t (a int)'') [] =
     undefined_behaviour Write_out_of_bounds"
  by (rule create_overflow) (simp_all add: create_or_alter_def bracket_free_def bytes_of_def at0_def tolower_def)

text \<open>A CREATE or ALTER query in which every curly bracket is escaped by a backslash is sent without
  the backslashes.\<close>

theorem escaped_brackets_sent:
  assumes "create_or_alter q" and "\<not> bracket_free q"
  shows "prepare E H Z esc (escape_brackets q) [] =
    Inr \<lparr>sql = q, real_query = False, bigint_to_double = False\<rparr>"
proof -
  obtain b s where q: "q = b # s" "\<not> isspace b" "b \<noteq> 123" "b \<noteq> 125"
    using create_letter [OF assms(1)] by blast
  then have "hd (escape_brackets q) = b" by simp
  with q brackets_escaped [OF assms] show ?thesis
    by (simp add: prepare_def substitute_def strlen_after_removal)
qed

lemma escaped_brackets_sent_comment:
  "prepare doc_env doc_host unary_zlib doc_escape (escape_brackets (bytes_of ''alter t {}'')) [] =
     Inr \<lparr>sql = bytes_of ''alter t {}'', real_query = False, bigint_to_double = False\<rparr>"
  by (rule escaped_brackets_sent) (simp_all add: create_or_alter_def bracket_free_def bytes_of_def at0_def tolower_def)

text \<open>Any other query without arguments is sent as it is.\<close>

theorem plain_query_sent:
  assumes "q = [] \<or> \<not> isspace (hd q)" and "\<not> create_or_alter q"
  shows "prepare E H Z esc q [] = Inr \<lparr>sql = q, real_query = False, bigint_to_double = False\<rparr>"
  using assms by (rule prepare_plain)

lemma plain_query_sent_SELECT:
  "prepare doc_env doc_host unary_zlib doc_escape (bytes_of ''SELECT 1'') [] =
     Inr \<lparr>sql = bytes_of ''SELECT 1'', real_query = False, bigint_to_double = False\<rparr>"
  by (rule plain_query_sent) (simp_all add: bytes_of_def isspace_def create_or_alter_def at0_def tolower_def)

section \<open>serialize and deserialize\<close>



text \<open>C40: A sparse matrix behind {M} is handed to the serializer of full arrays, which reads as many elements
  as the full matrix would have, behind the end of the stored ones.\<close>

theorem sparse_reads_too_far:
  assumes "0 < elem_size E c" and "length re < elem_size E c * (unat m * unat n)"
    and "c = mxDOUBLE_CLASS \<or> c = mxLOGICAL_CLASS" and "parts_ok [(seg, [PH_MATLAB])]"
  shows "serialize_command E H Z nlhs (query_text [(seg, [PH_MATLAB])] rest) [MxSparse m n nz c jc ir re None] =
    undefined_behaviour Read_out_of_bounds"
proof -
  let ?a = "MxSparse m n nz c jc ir re None" and ?q = "query_text [(seg, [PH_MATLAB])] rest"
  have pos: "find_placeholders ser_not_closed ?q 1 0 = Inr [(length seg, length seg + 2)]"
    using find_placeholders_parts [OF assms(4), of rest 1 ser_not_closed "[]"] by simp
  have "drop (length seg + length PH_OPEN) ?q = PH_MATLAB # PH_CLOSE @ rest" by (simp add: ph_values)
  with serialize_M_sparse(1) [OF assms(1-3)] have "\<exists>ph. read_placeholder ?q (length seg, length seg + 2) ?a = Inr ph
      \<and> ph_pf ph = SerializeArray"
    by (simp add: read_placeholder_def del: query_text.simps)
  with pos serialize_M_sparse(2) [OF assms(1-3)] show ?thesis
    by (auto simp: serialize_command_def Let_def simp del: query_text.simps)
qed

lemma sparse_reads_too_far_2_by_2:
  "serialize_command doc_env doc_host unary_zlib 1 (query_text [(bytes_of ''serialize '', [PH_MATLAB])] [])
     [MxSparse 2 2 1 mxDOUBLE_CLASS [0, 1, 1] [0] (zeros 8) None] = undefined_behaviour Read_out_of_bounds"
  by (rule sparse_reads_too_far) (simp_all add: bytes_of_def ph_values)

end
