(* ===== verification/Mym_Result_Properties.thy ===== *)
theory Mym_Result_Properties
  imports Mym_Instances
begin

text \<open>
  Properties of what comes back from the server: the conversion of numbers, the printed table, and the
  structure that a SELECT returns.
\<close>

section \<open>Values\<close>

text \<open>The tests of \<open>can_convert\<close> for date and time types are redundant: a column is converted to
  numbers exactly if its type is numeric for the client library.\<close>

theorem can_convert_is_numeric: "can_convert t = IS_NUM t"
  by (rule can_convert_IS_NUM)

text \<open>A BIGINT value, signed or unsigned, is restored from the text that the server sends without any
  loss, over the whole range of 64 bits.\<close>

theorem bigint_exact:
  assumes "IS_NUM t"
  shows "field2int (Some (if flags AND UNSIGNED_FLAG \<noteq> 0 then dec (unat v) else signed_text v)) t flags = Inr (Some v)"
  using assms field2int_signed field2int_unsigned by auto

lemma bigint_exact_max:
  "field2int (Some (if UNSIGNED_FLAG AND UNSIGNED_FLAG \<noteq> 0 then dec (unat (- 1 :: 64 word)) else signed_text (- 1)))
     MYSQL_TYPE_LONGLONG UNSIGNED_FLAG = Inr (Some (- 1))"
  by (rule bigint_exact) (simp add: IS_NUM_types)

text \<open>An integer below \<open>2^53\<close> in a numeric column becomes exactly the double of this value.\<close>

theorem integer_to_double:
  assumes "IS_NUM t" and "n < 2 ^ 53"
  shows "field2num nan (Some (dec n)) t = Inr (double_of_nat n, False)
    \<and> (\<exists>m e. double_of_bits (double_of_nat n) = Fin False m e \<and> num_part m e = n * den_part e)"
  using assms field2num_integer double_of_nat_exact by simp

lemma integer_to_double_7:
  "field2num 0 (Some (dec 7)) MYSQL_TYPE_LONG = Inr (double_of_nat 7, False)
    \<and> (\<exists>m e. double_of_bits (double_of_nat 7) = Fin False m e \<and> num_part m e = 7 * den_part e)"
  by (rule integer_to_double) (simp_all add: IS_NUM_types)

section \<open>The printed table\<close>


definition doc_blob :: mysql_field where
  "doc_blob = \<lparr>f_name = bytes_of ''b'', f_type = MYSQL_TYPE_BLOB, f_flags = 0, f_charsetnr = 63, f_max_length = 5\<rparr>"

definition doc_number :: mysql_field where
  "doc_number = \<lparr>f_name = bytes_of ''n'', f_type = MYSQL_TYPE_LONGLONG, f_flags = 0, f_charsetnr = 63, f_max_length = 20\<rparr>"

definition doc_name :: mysql_field where
  "doc_name = \<lparr>f_name = bytes_of ''t'', f_type = MYSQL_TYPE_VAR_STRING, f_flags = 0, f_charsetnr = 8, f_max_length = 0\<rparr>"

definition one_cell :: "mysql_field \<Rightarrow> cell \<Rightarrow> mysql_res" where
  "one_cell f c = \<lparr>r_fields = [f], r_nrow = 1, r_rows = [[c]]\<rparr>"

lemma one_cell_simps [simp]:
  "r_fields (one_cell f c) = [f]" "r_nrow (one_cell f c) = 1" "r_rows (one_cell f c) = [[c]]"
  by (simp_all add: one_cell_def)

lemma one_cell_ok: "result_ok (one_cell f c)"
  by (simp add: result_ok_def INT_MAX_def)


text \<open>A column whose name or widest value has 1000 bytes or more overflows the ten bytes in which the
  format of the column is stored.\<close>

theorem wide_column_overflow:
  assumes "f \<in> set (r_fields r)" and "1000 \<le> length (f_name f) \<or> 1000 \<le> f_max_length f"
  shows "fancyprint r = undefined_behaviour Write_out_of_bounds"
  using assms by (rule fancyprint_overflow)

lemma wide_column_overflow_1000:
  "fancyprint (one_cell (doc_name\<lparr>f_max_length := 1000\<rparr>) (None, 0)) = undefined_behaviour Write_out_of_bounds"
  by (rule wide_column_overflow [of "doc_name\<lparr>f_max_length := 1000\<rparr>"]) simp_all

section \<open>SELECT\<close>

text \<open>C9: The two nested loops over rows and columns compute each column on its own: if they end without an
  error, the structure has one element for each column, and this is what storing the cells of the column
  one after the other into a new array gives.\<close>

theorem columns_are_independent:
  assumes "matlab_api E" and "result_ok r" and "fetch_result E H Z mxNaN to_double r = Inr s"
  shows "\<exists>cols. s = MxStruct [1, 1] (map f_name (r_fields r)) (map Some cols)
    \<and> length cols = length (r_fields r)
    \<and> (\<forall>k<length (r_fields r). bindE (new_column E (r_nrow r) to_double (r_fields r ! k))
         (put_cells E H Z mxNaN to_double (r_fields r ! k) 0 (map (\<lambda>row. row ! k) (r_rows r)))
         = Inr (cols ! k))"
  using assms(2) fetch_result_columns [OF assms(1) _ _ _ assms(3)] unfolding result_ok_def by blast

lemma columns_are_independent_five:
  "\<exists>s cols. fetch_result doc_env doc_host unary_zlib 0 False (one_cell doc_number (bigint_cell doc_number 5 [])) = Inr s
    \<and> s = MxStruct [1, 1] [f_name doc_number] (map Some cols) \<and> length cols = 1
    \<and> bindE (new_column doc_env 1 False doc_number)
        (put_cells doc_env doc_host unary_zlib 0 False doc_number 0 [bigint_cell doc_number 5 []]) = Inr (cols ! 0)"
proof -
  have "\<exists>s. fetch_result doc_env doc_host unary_zlib 0 False (one_cell doc_number (bigint_cell doc_number 5 [])) = Inr s"
    using fetch_single_bigints [OF doc_env_matlab, of doc_number "one_cell doc_number (bigint_cell doc_number 5 [])" "[(5, [])]"
        doc_host unary_zlib 0] one_cell_ok
    by (simp add: integer_class_def doc_number_def)
  then obtain s where s: "fetch_result doc_env doc_host unary_zlib 0 False
      (one_cell doc_number (bigint_cell doc_number 5 [])) = Inr s" ..
  from columns_are_independent [OF doc_env_matlab one_cell_ok s] s show ?thesis by auto
qed

text \<open>A SELECT of one binary BLOB column, whose cells were written by {M} placeholders, returns the
  stored values, in the order of the rows.\<close>

theorem select_blobs:
  assumes "answers S s cid h p r"
    and "prepare (s_env S) (s_host S) (s_zlib S) (escape_of S s h) query (drop (jarg + 1) prhs) = Inr p"
    and "matlab_api (s_env S)" and "r_fields r = [f]" and "blob_field f" and "result_ok r"
    and "list_all2 (\<lambda>row a. \<exists>blob tail. row ! 0 = (Some (blob @ tail), length blob) \<and> blob_for (s_env S) (s_zlib S) a blob)
      (r_rows r) as"
  shows "fst (mysql_command S 1 prhs jarg query cid s) = Inr (Some (MxStruct [1, 1] [f_name f]
    [Some (MxCell [word_of_nat (r_nrow r), 1] (map (\<lambda>a. Some (canon a)) as))]))"
  unfolding mysql_command_result [OF assms(1,2)] using fetch_single_blobs [OF assms(3-7)] by simp

definition doc_open :: "doc_world mex" where
  "doc_open = (let s = initial (1, [0])
    in s\<lparr>slots := (slots s)[0 := \<lparr>conn = Some 0, isopen = True\<rparr>]\<rparr>)"

definition doc_select :: prepared where
  "doc_select = \<lparr>sql = bytes_of ''SELECT 1'', real_query = False, bigint_to_double = False\<rparr>"

lemma doc_answers: "answers (doc_setting (Some r)) doc_open 0 0 p r"
  by (simp add: answers_def doc_open_def initial_def MAXCONN_def doc_client_def)

lemma doc_prepare: "prepare doc_env doc_host unary_zlib esc (bytes_of ''SELECT 1'') [] = Inr doc_select"
  by (simp add: prepare_def substitute_def strlen_after_removal brackets_def doc_select_def
      bytes_of_def isspace_def create_or_alter_def at0_def tolower_def)

lemma five_blob: "blob_for doc_env unary_zlib five (stored doc_env five)"
  using deserialize_plain [OF five_storable] by (simp add: blob_for_def stored_def head_image_True)

lemma select_blobs_five:
  "fst (mysql_command (doc_setting (Some (one_cell doc_blob (Some (stored doc_env five @ [0]), length (stored doc_env five)))))
     1 [char_row ''SELECT 1''] 0 (bytes_of ''SELECT 1'') 0 doc_open) =
   Inr (Some (MxStruct [1, 1] [f_name doc_blob]
     [Some (MxCell [word_of_nat (r_nrow (one_cell doc_blob (Some (stored doc_env five @ [0]), length (stored doc_env five)))), 1]
        (map (\<lambda>a. Some (canon a)) [five]))]))"
  by (rule select_blobs [OF doc_answers, where p = doc_select])
    (auto simp: doc_prepare doc_env_matlab blob_field_def doc_blob_def one_cell_ok intro: five_blob)

text \<open>C23: A SELECT of one BIGINT column returns the exact 64-bit integers, in a column of class int64 or
  uint64, unless the query asks for doubles.\<close>

theorem select_bigints:
  assumes "answers S s cid h p r"
    and "prepare (s_env S) (s_host S) (s_zlib S) (escape_of S s h) query (drop (jarg + 1) prhs) = Inr p"
    and "\<not> bigint_to_double p"
    and "matlab_api (s_env S)" and "elem_size (s_env S) (integer_class f) = 8"
    and "r_fields r = [f]" and "f_type f = MYSQL_TYPE_LONGLONG" and "result_ok r"
    and "map (\<lambda>row. row ! 0) (r_rows r) = map (\<lambda>(v, tail). bigint_cell f v tail) vs"
  shows "fst (mysql_command S 1 prhs jarg query cid s) = Inr (Some (MxStruct [1, 1] [f_name f]
    [Some (MxDense [word_of_nat (r_nrow r), 1] (integer_class f) (concat (map (uint64_bytes \<circ> fst) vs)) None)]))"
  unfolding mysql_command_result [OF assms(1,2)] using fetch_single_bigints [OF assms(4-9)] assms(3) by simp

lemma select_bigints_five:
  "fst (mysql_command (doc_setting (Some (one_cell doc_number (bigint_cell doc_number 5 []))))
     1 [char_row ''SELECT 1''] 0 (bytes_of ''SELECT 1'') 0 doc_open) =
   Inr (Some (MxStruct [1, 1] [f_name doc_number]
     [Some (MxDense [word_of_nat (r_nrow (one_cell doc_number (bigint_cell doc_number 5 []))), 1]
       (integer_class doc_number) (concat (map (uint64_bytes \<circ> fst) [(5, [] :: byte list)])) None)]))"
  by (rule select_bigints [OF doc_answers, where p = doc_select])
    (simp_all add: doc_prepare doc_env_matlab one_cell_ok doc_select_def doc_number_def integer_class_def)

text \<open>A SELECT of one text column whose first cell is empty or NULL writes behind the buffer of zero
  bytes that \<open>hex2char\<close> allocates for it.\<close>

theorem select_empty_text:
  assumes "answers S s cid h p r"
    and "prepare (s_env S) (s_host S) (s_zlib S) (escape_of S s h) query (drop (jarg + 1) prhs) = Inr p"
    and "matlab_api (s_env S)" and "r_fields r = [f]" and "text_field f" and "result_ok r"
    and "r_rows r = [(t, 0)] # rows"
  shows "fst (mysql_command S 1 prhs jarg query cid s) = undefined_behaviour Write_out_of_bounds"
  unfolding mysql_command_result [OF assms(1,2)] using fetch_single_empty_text [OF assms(3-7)] by simp

lemma select_empty_text_NULL:
  "fst (mysql_command (doc_setting (Some (one_cell doc_name (None, 0))))
     1 [char_row ''SELECT 1''] 0 (bytes_of ''SELECT 1'') 0 doc_open) = undefined_behaviour Write_out_of_bounds"
  by (rule select_empty_text [OF doc_answers, where p = doc_select and f = doc_name])
    (simp_all add: doc_prepare doc_env_matlab one_cell_ok text_field_def blob_field_def doc_name_def IS_NUM_types)

end
