(* ===== verification/Mym_Session_Properties.thy ===== *)
theory Mym_Session_Properties
  imports Mym_Instances
begin

text \<open>
  Properties of sequences of calls: the connection table as a set of open connections that the commands
  change, the invariant of every reachable state, and what single calls leave alone.
\<close>

section \<open>Invariant\<close>

text \<open>C4: After any sequence of calls of \<open>mexFunction\<close>, whatever their arguments and however they ended,
  there are twenty connections, every open one has a handle, no connection keeps a handle that was given
  back to the client library, and no two connections share one.\<close>

theorem reachable_connections:
  assumes "client_api (s_client S) alive" and "reachable S w0 s"
  shows "length (slots s) = MAXCONN
    \<and> (\<forall>i<MAXCONN. isopen (slots s ! i) \<longrightarrow> conn (slots s ! i) \<noteq> None)
    \<and> (\<forall>i<MAXCONN. \<forall>h. conn (slots s ! i) = Some h \<longrightarrow> h \<in> alive (world s))
    \<and> (\<forall>i<MAXCONN. \<forall>j<MAXCONN. i \<noteq> j \<longrightarrow> conn (slots s ! i) \<noteq> None \<longrightarrow> conn (slots s ! i) \<noteq> conn (slots s ! j))"
proof -
  have "guarded S alive s"
    by (rule conns.reaches [OF _ assms(2)]) (simp add: guarded_def inv_initial)
  then have "inv alive s" using assms(1) by (simp add: guarded_def)
  then show ?thesis by (auto simp: inv_def slots_ok_def handles_ok_def)
qed

definition doc_start :: "doc_world mex" where
  "doc_start = initial (1, [])"

lemma doc_start_ok: "slots_ok doc_start"
  using inv_initial [of doc_alive "(1, [])"] by (simp add: doc_start_def inv_def)

definition after_version :: "doc_world mex" where
  "after_version = snd (mexFunction (doc_setting None) 0 [char_row ''version''] doc_start)"

lemma reachable_after_version:
  "reachable (doc_setting None) (1, []) after_version"
proof -
  have "mym_step (doc_setting None) doc_start after_version"
    unfolding after_version_def by (rule mym_step.call) (rule surjective_pairing)
  then show ?thesis by (simp add: doc_start_def reachable.step [OF reachable.start])
qed

lemma reachable_connections_version:
  "slots_ok after_version \<and> handles_ok doc_alive after_version"
  using reachable_connections [of "doc_setting None", OF _ reachable_after_version, of doc_alive]
  by (simp add: doc_client_api slots_ok_def handles_ok_def)

section \<open>Commands on the connection table\<close>

text \<open>C25: "closeall" never fails; it gives the handle of every open connection back to the client library,
  in order, and leaves no connection open.\<close>

theorem closeall_closes_all:
  assumes "slots_ok s"
  shows "close_all_command S s = (Inr None, s\<lparr>slots := map closed_conn (slots s),
      world := close_handles S (slots s) (world s)\<rparr>)
    \<and> list_all (\<lambda>k. \<not> isopen k) (slots (snd (close_all_command S s)))"
  using assms close_all_run [OF assms, of S]
  by (auto simp: list_all_iff closed_conn_def no_connection_def)

lemma closeall_closes_all_start:
  "close_all_command (doc_setting None) doc_start = (Inr None, doc_start\<lparr>slots := map closed_conn (slots doc_start),
      world := close_handles (doc_setting None) (slots doc_start) (world doc_start)\<rparr>)
    \<and> list_all (\<lambda>k. \<not> isopen k) (slots (snd (close_all_command (doc_setting None) doc_start)))"
  by (rule closeall_closes_all [OF doc_start_ok])

text \<open>C24: A command on one connection leaves every other connection as it is; the exceptions are closeall
  and the report about all connections.\<close>

theorem other_connections_untouched:
  assumes "j \<noteq> cid" and "q \<noteq> CLOSE_ALL" and "q = STATUS \<Longrightarrow> 0 < jarg \<or> 0 < nlhs"
  shows "slots (snd (run_command S nlhs prhs jarg q query cid s)) ! j = slots s ! j"
proof -
  have "keeps (slot_is j (slots s ! j) cid) (run_command S nlhs prhs jarg q query cid)"
    using assms by (intro other.run) auto
  then show ?thesis using assms(1) by (auto simp: slot_is_def dest!: keepsD [of _ _ s])
qed

lemma other_connections_untouched_close:
  "slots (snd (run_command (doc_setting None) 0 [] 1 CLOSE [] 3 doc_start)) ! 5 = slots doc_start ! 5"
  by (rule other_connections_untouched) simp_all

text \<open>C26: "open" with the number -1 takes the first connection that is not open; if all twenty are open it
  fails and changes nothing.\<close>

theorem open_takes_first_free:
  assumes "slots_ok s"
  shows "resolve_id OPEN (- 1) s =
    (if list_all isopen (slots s) then mexErrMsgTxt ''no free connection ID''
     else Inr (LEAST i. \<not> isopen (slots s ! i)), s)"
proof (cases "list_all isopen (slots s)")
  case True
  then have "\<forall>j<MAXCONN. isopen (slots s ! j)" using assms by (simp add: list_all_length slots_ok_def)
  with True show ?thesis using resolve_free [OF assms] by (fastforce split: prod.splits sum.splits)
next
  case False
  then have "\<not> (\<forall>j<MAXCONN. isopen (slots s ! j))" using assms by (simp add: list_all_length slots_ok_def)
  then obtain i where i: "resolve_id OPEN (- 1) s = (Inr i, s)" "\<not> isopen (slots s ! i)" "\<forall>j<i. isopen (slots s ! j)"
    using resolve_free [OF assms] by (auto split: prod.splits sum.splits)
  have "(LEAST i. \<not> isopen (slots s ! i)) = i"
    using i(2,3) by (intro Least_equality) (auto simp: not_le [symmetric])
  with i(1) False show ?thesis by simp
qed

lemma open_takes_first_free_start:
  "resolve_id OPEN (- 1) doc_start =
    (if list_all isopen (slots doc_start) then mexErrMsgTxt ''no free connection ID''
     else Inr (LEAST i. \<not> isopen (slots doc_start ! i)), doc_start)"
  by (rule open_takes_first_free [OF doc_start_ok])

text \<open>The numbers 0 to 19, given as doubles, are accepted as connection numbers, all larger ones are refused.\<close>

theorem connection_numbers:
  assumes "n \<le> 2147483647"
  shows "fst (parse_id (double_value (double_of_nat n) # args) s) =
    (if n < 20 then Inr (int n, 1) else mexErrMsgTxt ''Invalid connection ID'')"
  using assms by (rule parse_id_double)

lemma connection_numbers_19:
  "fst (parse_id (double_value (double_of_nat 19) # []) doc_start) =
    (if 19 < (20 :: nat) then Inr (int 19, 1) else mexErrMsgTxt ''Invalid connection ID'')"
  by (rule connection_numbers) simp

text \<open>A connection number of class int32 passes the test for numbers, but is read as a double, four
  bytes behind its end.\<close>

theorem int32_number_out_of_bounds:
  "fst (mexFunction S nlhs (scalar_array mxINT32_CLASS (uint32_bytes v) # args) s) =
    undefined_behaviour Read_out_of_bounds"
  using parse_id_int32 [of v args s]
  by (cases "parse_id (scalar_array mxINT32_CLASS (uint32_bytes v) # args) s")
    (simp add: mexFunction_def bindS_def)



text \<open>On systems other than Windows, opening a connection leaves the environment variable for the plugin
  directory in an array that no longer exists.\<close>

theorem plugin_directory_dangles:
  assumes "\<not> on_windows (s_env S)" and "length (s_mym_directory S) < 980"
  shows "updateplugindir S s = (Inr (), s\<lparr>plugin_env := Some Freed\<rparr>)"
  using assms by (simp add: updateplugindir_def environment_string_def print_to_ok bytes_of_def prog_simps)

lemma plugin_directory_dangles_mym:
  "updateplugindir (doc_setting None) doc_start = (Inr (), doc_start\<lparr>plugin_env := Some Freed\<rparr>)"
  by (rule plugin_directory_dangles) (simp_all add: bytes_of_def)

end
