(* ===== verification/Mysql_Byteorder.thy ===== *)
theory Mysql_Byteorder
  imports Mym_Bytes
begin

unbundle bit_operations_syntax

text \<open>
  The byte order functions of the MySQL connector that the 32-bit build of the MEX file is compiled
  against (\<open>src/mysql-connector/include\<close>: \<open>my_byteorder.h\<close>, \<open>byte_order_generic.h\<close>,
  \<open>byte_order_generic_x86.h\<close>, \<open>little_endian.h\<close>, \<open>big_endian.h\<close>). Memory is a list of bytes that starts
  at the pointer, and ends where the object ends. An integer is a word of its width, signed or not; a
  \<open>float\<close> and a \<open>double\<close> are given by their 32 and 64 bits.
\<close>

section \<open>Access to memory\<close>

definition load :: "nat \<Rightarrow> (byte list \<Rightarrow> 'a) \<Rightarrow> byte list \<Rightarrow> 'a res" where
  "load n f A = bindE (memread n A) (\<lambda>(a, _). Inr (f a))"

lemma load_eq:
  assumes "\<And>a. length a = n \<Longrightarrow> f a = g a"
  shows "load n f A = load n g A"
proof -
  have "f (take n A) = g (take n A)" if "n \<le> length A" using that by (intro assms) simp
  then show ?thesis by (simp add: load_def memread_def)
qed

lemma load_append [simp]: "length a = n \<Longrightarrow> load n f (a @ p) = Inr (f a)"
  by (simp add: load_def)

text \<open>The object at the pointer, read by a processor that stores the low byte first.\<close>

definition x86_object :: "byte list \<Rightarrow> 'a::len word" where
  "x86_object a = word_of_nat (le_nat a)"

section \<open>Functions for all architectures but x86\<close>

text \<open>Arithmetic on \<open>uint16\<close> and \<open>int16\<close> happens in \<open>int\<close>, the result is cut to 16 bits.\<close>

definition generic_sint2korr :: "byte list \<Rightarrow> 16 word res" where
  "generic_sint2korr = load 2 (\<lambda>A. ucast (ucast (A ! 0) + push_bit 8 (ucast (A ! 1)) :: 32 word))"

definition generic_sint4korr :: "byte list \<Rightarrow> 32 word res" where
  "generic_sint4korr = load 4 (\<lambda>A. ucast (A ! 0) + push_bit 8 (ucast (A ! 1))
     + push_bit 16 (ucast (A ! 2)) + push_bit 24 (ucast (A ! 3)))"

definition generic_uint2korr :: "byte list \<Rightarrow> 16 word res" where
  "generic_uint2korr = load 2 (\<lambda>A. ucast (ucast (A ! 0) + push_bit 8 (ucast (A ! 1)) :: 32 word))"

definition generic_uint4korr :: "byte list \<Rightarrow> 32 word res" where
  "generic_uint4korr = load 4 (\<lambda>A. ucast (A ! 0) + push_bit 8 (ucast (A ! 1))
     + push_bit 16 (ucast (A ! 2)) + push_bit 24 (ucast (A ! 3)))"

text \<open>The two halves are put together in 32 bits each.\<close>

definition generic_uint8korr :: "byte list \<Rightarrow> 64 word res" where
  "generic_uint8korr = load 8 (\<lambda>A.
     ucast (ucast (A ! 0) + push_bit 8 (ucast (A ! 1)) + push_bit 16 (ucast (A ! 2))
       + push_bit 24 (ucast (A ! 3)) :: 32 word)
     + push_bit 32 (ucast (ucast (A ! 4) + push_bit 8 (ucast (A ! 5)) + push_bit 16 (ucast (A ! 6))
       + push_bit 24 (ucast (A ! 7)) :: 32 word)))"

definition generic_sint8korr :: "byte list \<Rightarrow> 64 word res" where
  "generic_sint8korr A = generic_uint8korr A"

definition generic_int2store :: "byte list \<Rightarrow> 16 word \<Rightarrow> byte list res" where
  "generic_int2store T A = (let def_temp = ucast A :: 32 word
     in overwrite T [ucast def_temp, ucast (drop_bit 8 def_temp)])"

definition generic_int4store :: "byte list \<Rightarrow> 32 word \<Rightarrow> byte list res" where
  "generic_int4store T A =
     overwrite T [ucast A, ucast (drop_bit 8 A), ucast (drop_bit 16 A), ucast (drop_bit 24 A)]"

text \<open>Two calls, for the low half and for the high half.\<close>

definition generic_int8store :: "byte list \<Rightarrow> 64 word \<Rightarrow> byte list res" where
  "generic_int8store T A = (let def_temp = ucast A; def_temp2 = ucast (drop_bit 32 A) in
     bindE (generic_int4store T def_temp) (\<lambda>T.
     bindE (generic_int4store (drop 4 T) def_temp2) (\<lambda>U. Inr (take 4 T @ U))))"

section \<open>Functions for x86\<close>

definition x86_sint2korr :: "byte list \<Rightarrow> 16 word res" where "x86_sint2korr = load 2 x86_object"
definition x86_sint4korr :: "byte list \<Rightarrow> 32 word res" where "x86_sint4korr = load 4 x86_object"
definition x86_uint2korr :: "byte list \<Rightarrow> 16 word res" where "x86_uint2korr = load 2 x86_object"
definition x86_uint4korr :: "byte list \<Rightarrow> 32 word res" where "x86_uint4korr = load 4 x86_object"
definition x86_uint8korr :: "byte list \<Rightarrow> 64 word res" where "x86_uint8korr = load 8 x86_object"
definition x86_sint8korr :: "byte list \<Rightarrow> 64 word res" where "x86_sint8korr = load 8 x86_object"

definition x86_int2store :: "byte list \<Rightarrow> 16 word \<Rightarrow> byte list res" where
  "x86_int2store T A = overwrite T (le_bytes 2 (unat A))"

definition x86_int4store :: "byte list \<Rightarrow> 32 word \<Rightarrow> byte list res" where
  "x86_int4store T A = overwrite T (le_bytes 4 (unat A))"

definition x86_int8store :: "byte list \<Rightarrow> 64 word \<Rightarrow> byte list res" where
  "x86_int8store T A = overwrite T (le_bytes 8 (unat A))"

section \<open>Functions for three, five and six bytes\<close>

definition sint3korr :: "byte list \<Rightarrow> 32 word res" where
  "sint3korr = load 3 (\<lambda>A.
     if A ! 2 AND 128 \<noteq> 0
     then push_bit 24 255 OR push_bit 16 (ucast (A ! 2)) OR push_bit 8 (ucast (A ! 1)) OR ucast (A ! 0)
     else push_bit 16 (ucast (A ! 2)) OR push_bit 8 (ucast (A ! 1)) OR ucast (A ! 0))"

definition uint3korr :: "byte list \<Rightarrow> 32 word res" where
  "uint3korr = load 3 (\<lambda>A. ucast (A ! 0) + push_bit 8 (ucast (A ! 1)) + push_bit 16 (ucast (A ! 2)))"

definition uint5korr :: "byte list \<Rightarrow> 64 word res" where
  "uint5korr = load 5 (\<lambda>A.
     ucast (ucast (A ! 0) + push_bit 8 (ucast (A ! 1)) + push_bit 16 (ucast (A ! 2))
       + push_bit 24 (ucast (A ! 3)) :: 32 word)
     + push_bit 32 (ucast (A ! 4)))"

definition uint6korr :: "byte list \<Rightarrow> 64 word res" where
  "uint6korr = load 6 (\<lambda>A.
     ucast (ucast (A ! 0) + push_bit 8 (ucast (A ! 1)) + push_bit 16 (ucast (A ! 2))
       + push_bit 24 (ucast (A ! 3)) :: 32 word)
     + push_bit 32 (ucast (A ! 4)) + push_bit 40 (ucast (A ! 5)))"

definition int3store :: "byte list \<Rightarrow> 32 word \<Rightarrow> byte list res" where
  "int3store T A = overwrite T [ucast A, ucast (drop_bit 8 A), ucast (drop_bit 16 A)]"

definition int5store :: "byte list \<Rightarrow> 64 word \<Rightarrow> byte list res" where
  "int5store T A = overwrite T [ucast A, ucast (drop_bit 8 A), ucast (drop_bit 16 A), ucast (drop_bit 24 A),
     ucast (drop_bit 32 A)]"

definition int6store :: "byte list \<Rightarrow> 64 word \<Rightarrow> byte list res" where
  "int6store T A = overwrite T [ucast A, ucast (drop_bit 8 A), ucast (drop_bit 16 A), ucast (drop_bit 24 A),
     ucast (drop_bit 32 A), ucast (drop_bit 40 A)]"

section \<open>Bytes and sums\<close>

text \<open>The reference: the bytes from the low end.\<close>

lemma le_nat_word: "(word_of_nat (le_nat (b # bs)) :: 'a::len word) = ucast b + push_bit 8 (word_of_nat (le_nat bs))"
proof -
  have "(word_of_nat (unat b) :: 'a word) = ucast b" by (simp add: unsigned_word_eqI)
  then show ?thesis by (simp add: push_bit_eq_mult)
qed

lemma le_nat_nil: "(word_of_nat (le_nat []) :: 'a::len word) = 0"
  by simp

lemmas le_nat_sum = le_nat_word le_nat_nil push_bit_add push_bit_push_bit

lemma indexed: "length a = n \<Longrightarrow> f a = f (map ((!) a) [0..<n])"
  by (metis map_nth)

lemma le_nat_2:
  "length a = 2 \<Longrightarrow> (word_of_nat (le_nat a) :: 'a::len word) = ucast (a ! 0) + push_bit 8 (ucast (a ! 1))"
  by (subst indexed [where f = le_nat], assumption) (simp add: upt_rec le_nat_sum del: le_nat.simps)

lemma le_nat_3:
  "length a = 3 \<Longrightarrow> (word_of_nat (le_nat a) :: 'a::len word) =
     ucast (a ! 0) + push_bit 8 (ucast (a ! 1)) + push_bit 16 (ucast (a ! 2))"
  by (subst indexed [where f = le_nat], assumption) (simp add: upt_rec numeral_2_eq_2 numeral_3_eq_3 le_nat_sum add.assoc del: le_nat.simps)

lemma le_nat_4:
  "length a = 4 \<Longrightarrow> (word_of_nat (le_nat a) :: 'a::len word) =
     ucast (a ! 0) + push_bit 8 (ucast (a ! 1)) + push_bit 16 (ucast (a ! 2)) + push_bit 24 (ucast (a ! 3))"
  by (subst indexed [where f = le_nat], assumption) (simp add: upt_rec numeral_2_eq_2 numeral_3_eq_3 le_nat_sum add.assoc del: le_nat.simps)

text \<open>Four bytes summed up in 32 bits do not overflow.\<close>

lemma le_nat_half:
  assumes "length a = 4"
  shows "(ucast (ucast (a ! 0) + push_bit 8 (ucast (a ! 1)) + push_bit 16 (ucast (a ! 2))
    + push_bit 24 (ucast (a ! 3)) :: 32 word) :: 64 word) = word_of_nat (le_nat a)"
proof -
  have "le_nat a < 2 ^ 32" using le_nat_bound [of a] assms by simp
  then have "(ucast (word_of_nat (le_nat a) :: 32 word) :: 64 word) = word_of_nat (le_nat a)"
    by (simp add: unsigned_of_nat take_bit_nat_eq_self)
  then show ?thesis by (simp only: le_nat_4 [OF assms])
qed

lemma le_nat_append:
  "(word_of_nat (le_nat (a @ b)) :: 'a::len word) = word_of_nat (le_nat a) + push_bit (8 * length a) (word_of_nat (le_nat b))"
  by (induction a) (simp_all add: le_nat_sum algebra_simps del: le_nat.simps)

text \<open>A store writes the low bytes of the value in this order.\<close>

lemma le_bytes_word: "le_bytes n (unat w) = map (\<lambda>k. ucast (drop_bit (8 * k) w)) [0..<n]" for w :: "'a::len word"
proof (induction n)
  case 0
  then show ?case by simp
next
  case (Suc n)
  have snoc: "le_bytes (Suc n) x = le_bytes n x @ [word_of_nat (x div 256 ^ n mod 256)]" for x
  proof (induction n arbitrary: x)
    case (Suc n)
    have "x div 256 div 256 ^ n = x div (256 * 256 ^ n)" by (simp add: div_mult2_eq)
    with Suc [of "x div 256"] show ?case by simp
  qed simp
  have "(256 :: nat) ^ n = 2 ^ (8 * n)" by (simp add: power_mult)
  then have d: "unat w div 256 ^ n = unat (drop_bit (8 * n) w)"
    by (simp only: drop_bit_eq_div [symmetric] unat_drop_bit_eq)
  have m: "(word_of_nat (x mod 256) :: byte) = word_of_nat x" for x
    by (simp add: word_of_nat_eq_iff take_bit_eq_mod)
  have "(word_of_nat (unat w div 256 ^ n mod 256) :: byte) = ucast (drop_bit (8 * n) w)"
    by (simp only: m d of_nat_unat)
  with Suc snoc show ?case by simp
qed

section \<open>One format\<close>

lemma stored_bits: "x86_object (le_bytes n (unat v)) = take_bit (8 * n) (v :: 'a::len word)"
proof -
  have "unat v mod 256 ^ n = unat (take_bit (8 * n) v)"
    by (simp only: unsigned_take_bit_eq) (simp add: take_bit_eq_mod power_mult)
  then show ?thesis by (simp add: x86_object_def le_nat_le_bytes)
qed

lemma stored_object: "LENGTH('a) = 8 * n \<Longrightarrow> x86_object (le_bytes n (unat v)) = (v :: 'a::len word)"
  by (simp add: stored_bits take_bit_word_eq_self)

lemma le_bytes_le_nat: "le_bytes (length bs) (le_nat bs) = bs"
proof (induction bs)
  case (Cons b bs)
  have "unat b < 256" using unsigned_less [of b, where ?'a = nat] by simp
  with Cons show ?case by simp
qed simp

lemma object_eq_iff:
  assumes "LENGTH('a) = 8 * length a"
  shows "x86_object a = (w :: 'a::len word) \<longleftrightarrow> a = le_bytes (length a) (unat w)"
proof
  assume w: "x86_object a = w"
  have "le_nat a < 2 ^ LENGTH('a)" using le_nat_bound [of a] assms by (simp add: power_mult)
  with w have "unat w = le_nat a" by (auto simp: x86_object_def unat_of_nat)
  then show "a = le_bytes (length a) (unat w)" by (simp add: le_bytes_le_nat)
next
  assume "a = le_bytes (length a) (unat w)"
  with assms show "x86_object a = w" by (metis stored_object)
qed

text \<open>
  What the users of the header rely on, whichever file it includes: integers of two, four and eight
  bytes are stored with the low byte first.
\<close>

locale byte_order =
  fixes sint2korr uint2korr :: "byte list \<Rightarrow> 16 word res"
    and sint4korr uint4korr :: "byte list \<Rightarrow> 32 word res"
    and sint8korr uint8korr :: "byte list \<Rightarrow> 64 word res"
    and int2store :: "byte list \<Rightarrow> 16 word \<Rightarrow> byte list res"
    and int4store :: "byte list \<Rightarrow> 32 word \<Rightarrow> byte list res"
    and int8store :: "byte list \<Rightarrow> 64 word \<Rightarrow> byte list res"
  assumes read2: "sint2korr A = load 2 x86_object A" "uint2korr A = load 2 x86_object A"
    and read4: "sint4korr A = load 4 x86_object A" "uint4korr A = load 4 x86_object A"
    and read8: "sint8korr A = load 8 x86_object A" "uint8korr A = load 8 x86_object A"
    and store2: "int2store T v2 = overwrite T (le_bytes 2 (unat v2))"
    and store4: "int4store T v4 = overwrite T (le_bytes 4 (unat v4))"
    and store8: "int8store T v8 = overwrite T (le_bytes 8 (unat v8))"
begin

lemma stored_read:
  "2 \<le> length T \<Longrightarrow> bindE (int2store T v2) uint2korr = Inr v2"
  "4 \<le> length T \<Longrightarrow> bindE (int4store T v4) uint4korr = Inr v4"
  "8 \<le> length T \<Longrightarrow> bindE (int8store T v8) uint8korr = Inr v8"
  by (simp_all add: read2 read4 read8 store2 store4 store8 overwrite_def stored_object)

end

interpretation x86: byte_order x86_sint2korr x86_uint2korr x86_sint4korr x86_uint4korr
  x86_sint8korr x86_uint8korr x86_int2store x86_int4store x86_int8store
  by unfold_locales (simp_all add: x86_sint2korr_def x86_uint2korr_def x86_sint4korr_def x86_uint4korr_def
      x86_sint8korr_def x86_uint8korr_def x86_int2store_def x86_int4store_def x86_int8store_def)

lemma generic_sum_2:
  assumes "length a = 2"
  shows "(ucast (ucast (a ! 0) + push_bit 8 (ucast (a ! 1)) :: 32 word) :: 16 word) = x86_object a"
proof -
  have "(ucast (word_of_nat (le_nat a) :: 32 word) :: 16 word) = word_of_nat (le_nat a)"
    by (simp add: unsigned_of_nat word_of_nat_eq_iff)
  then show ?thesis by (simp only: le_nat_2 [OF assms] x86_object_def)
qed

lemma generic_sum_8:
  assumes "length a = 8"
  shows "ucast (ucast (a ! 0) + push_bit 8 (ucast (a ! 1)) + push_bit 16 (ucast (a ! 2))
       + push_bit 24 (ucast (a ! 3)) :: 32 word)
     + push_bit 32 (ucast (ucast (a ! 4) + push_bit 8 (ucast (a ! 5)) + push_bit 16 (ucast (a ! 6))
       + push_bit 24 (ucast (a ! 7)) :: 32 word)) = (x86_object a :: 64 word)"
proof -
  have a: "a = take 4 a @ drop 4 a" "length (take 4 a) = 4" "length (drop 4 a) = 4" using assms by simp_all
  have "(x86_object a :: 64 word) = word_of_nat (le_nat (take 4 a)) + push_bit 32 (word_of_nat (le_nat (drop 4 a)))"
    using le_nat_append [of "take 4 a" "drop 4 a"] a(2) by (simp add: x86_object_def)
  with le_nat_half [OF a(2)] le_nat_half [OF a(3)] show ?thesis using assms by simp
qed

lemma generic_4: "generic_int4store T A = overwrite T (le_bytes 4 (unat A))"
  by (simp add: generic_int4store_def le_bytes_word upt_rec numeral_2_eq_2 numeral_3_eq_3)

interpretation generic: byte_order generic_sint2korr generic_uint2korr generic_sint4korr generic_uint4korr
  generic_sint8korr generic_uint8korr generic_int2store generic_int4store generic_int8store
proof
  fix A T and v2 :: "16 word" and v4 :: "32 word" and v8 :: "64 word"
  show "generic_sint2korr A = load 2 x86_object A" "generic_uint2korr A = load 2 x86_object A"
    unfolding generic_sint2korr_def generic_uint2korr_def by (rule load_eq, rule generic_sum_2, assumption)+
  show "generic_sint4korr A = load 4 x86_object A" "generic_uint4korr A = load 4 x86_object A"
    unfolding generic_sint4korr_def generic_uint4korr_def
    by (rule load_eq, simp add: le_nat_4 x86_object_def)+
  show r8: "generic_uint8korr A = load 8 x86_object A"
    unfolding generic_uint8korr_def by (rule load_eq, rule generic_sum_8, assumption)
  then show "generic_sint8korr A = load 8 x86_object A" by (simp add: generic_sint8korr_def)
  show "generic_int4store T v4 = overwrite T (le_bytes 4 (unat v4))" by (rule generic_4)
  have "(ucast (ucast v2 :: 32 word) :: byte) = ucast v2"
    "(ucast (drop_bit 8 (ucast v2 :: 32 word)) :: byte) = ucast (drop_bit 8 v2)"
    by (auto simp: bit_simps intro!: bit_word_eqI)
  then show "generic_int2store T v2 = overwrite T (le_bytes 2 (unat v2))"
    by (simp add: generic_int2store_def le_bytes_word upt_rec Let_def)
  have "le_bytes 4 (unat (ucast v8 :: 32 word)) @ le_bytes 4 (unat (ucast (drop_bit 32 v8) :: 32 word)) = le_bytes 8 (unat v8)"
    by (auto simp: le_bytes_word upt_rec bit_simps numeral_eq_Suc intro!: bit_word_eqI)
  then show "generic_int8store T v8 = overwrite T (le_bytes 8 (unat v8))"
    by (auto simp: generic_int8store_def Let_def generic_4 overwrite_def)
qed

section \<open>Three, five and six bytes\<close>

lemma le_bytes_simps:
  "int3store T A = overwrite T (le_bytes 3 (unat A))"
  "int5store T B = overwrite T (le_bytes 5 (unat B))"
  "int6store T B = overwrite T (le_bytes 6 (unat B))"
  by (simp_all add: int3store_def int5store_def int6store_def le_bytes_word upt_rec
      numeral_2_eq_2 numeral_3_eq_3)

lemma uint3korr_object: "uint3korr A = load 3 x86_object A"
  unfolding uint3korr_def by (rule load_eq) (simp add: le_nat_3 x86_object_def)

lemma x86_object_split:
  assumes "4 \<le> length a"
  shows "(x86_object a :: 64 word) = word_of_nat (le_nat (take 4 a)) + push_bit 32 (word_of_nat (le_nat (drop 4 a)))"
  using le_nat_append [of "take 4 a" "drop 4 a"] assms by (simp add: x86_object_def)

lemma uint5korr_object: "uint5korr A = load 5 x86_object A"
  unfolding uint5korr_def
proof (rule load_eq)
  fix a :: "byte list"
  assume a: "length a = 5"
  then have "drop 4 a = [a ! 4]" by (simp add: list_eq_iff_nth_eq)
  then have "(word_of_nat (le_nat (drop 4 a)) :: 64 word) = ucast (a ! 4)" by simp
  with a le_nat_half [of "take 4 a"]
  show "ucast (ucast (a ! 0) + push_bit 8 (ucast (a ! 1)) + push_bit 16 (ucast (a ! 2))
      + push_bit 24 (ucast (a ! 3)) :: 32 word) + push_bit 32 (ucast (a ! 4)) = (x86_object a :: 64 word)"
    by (simp add: x86_object_split)
qed

lemma uint6korr_object: "uint6korr A = load 6 x86_object A"
  unfolding uint6korr_def
proof (rule load_eq)
  fix a :: "byte list"
  assume a: "length a = 6"
  then have "(word_of_nat (le_nat (drop 4 a)) :: 64 word) = ucast (a ! 4) + push_bit 8 (ucast (a ! 5))"
    using le_nat_2 [of "drop 4 a"] by simp
  with a le_nat_half [of "take 4 a"]
  show "ucast (ucast (a ! 0) + push_bit 8 (ucast (a ! 1)) + push_bit 16 (ucast (a ! 2))
      + push_bit 24 (ucast (a ! 3)) :: 32 word) + push_bit 32 (ucast (a ! 4)) + push_bit 40 (ucast (a ! 5))
      = (x86_object a :: 64 word)"
    by (simp add: x86_object_split push_bit_add push_bit_push_bit add.assoc)
qed

text \<open>The sum is a disjunction, because the summands have no bits in common.\<close>

lemma byte_bits: "bit (b :: byte) n \<Longrightarrow> n < 8"
  using bit_imp_le_length [of b n] by simp

lemma no_byte_bit: "8 \<le> n \<Longrightarrow> \<not> bit (b :: byte) n"
  using byte_bits [of b n] by auto

lemma sum_or: "ucast (b :: byte) + push_bit 8 w = (ucast b OR push_bit 8 w :: 'a::len word)"
  by (rule disjunctive_add_eq_or) (auto simp: bit_eq_iff bit_simps dest: byte_bits)

lemma object_3_or:
  assumes "length a = 3"
  shows "(x86_object a :: 32 word) = push_bit 16 (ucast (a ! 2)) OR push_bit 8 (ucast (a ! 1)) OR ucast (a ! 0)"
proof -
  have "(x86_object a :: 32 word) = ucast (a ! 0) + push_bit 8 (ucast (a ! 1) + push_bit 8 (ucast (a ! 2)))"
    using assms by (simp add: x86_object_def le_nat_3 push_bit_add push_bit_push_bit add.assoc)
  also have "\<dots> = ucast (a ! 0) OR push_bit 8 (ucast (a ! 1) OR push_bit 8 (ucast (a ! 2)))"
    by (simp only: sum_or)
  finally show ?thesis by (simp add: push_bit_or push_bit_push_bit or.commute or.left_commute)
qed

lemma sint3korr_object: "sint3korr A = load 3 (\<lambda>a. signed_take_bit 23 (x86_object a)) A"
  unfolding sint3korr_def
proof (rule load_eq)
  fix a :: "byte list"
  assume a: "length a = 3"
  have sign: "a ! 2 AND 128 \<noteq> 0 \<longleftrightarrow> bit (a ! 2) 7"
    by (simp add: bit_iff_and_push_bit_not_eq_0 push_bit_eq_mult)
  have ones: "(255 :: 32 word) = mask 8" by (simp add: mask_eq_exp_minus_1)
  show "(if a ! 2 AND 128 \<noteq> 0
     then push_bit 24 255 OR push_bit 16 (ucast (a ! 2)) OR push_bit 8 (ucast (a ! 1)) OR ucast (a ! 0)
     else push_bit 16 (ucast (a ! 2)) OR push_bit 8 (ucast (a ! 1)) OR ucast (a ! 0)) =
    signed_take_bit 23 (x86_object a :: 32 word)"
    unfolding sign object_3_or [OF a] ones
  proof (rule bit_word_eqI)
    fix n
    assume "n < LENGTH(32)"
    consider "n < 23" | "n = 23" | "23 < n" by linarith
    then show "bit (if bit (a ! 2) 7
        then push_bit 24 (mask 8) OR push_bit 16 (ucast (a ! 2)) OR push_bit 8 (ucast (a ! 1)) OR ucast (a ! 0)
        else push_bit 16 (ucast (a ! 2)) OR push_bit 8 (ucast (a ! 1)) OR ucast (a ! 0) :: 32 word) n =
      bit (signed_take_bit 23 (push_bit 16 (ucast (a ! 2)) OR push_bit 8 (ucast (a ! 1)) OR ucast (a ! 0) :: 32 word)) n"
      using \<open>n < LENGTH(32)\<close>
      by cases (auto simp: bit_simps min_def no_byte_bit simp del: push_bit_mask_eq)
  qed
qed

text \<open>What is read after a store: the low bits, with the sign for \<open>sint3korr\<close>.\<close>

lemma odd_sizes_read:
  "3 \<le> length T \<Longrightarrow> bindE (int3store T v) uint3korr = Inr (take_bit 24 v)"
  "3 \<le> length T \<Longrightarrow> bindE (int3store T v) sint3korr = Inr (signed_take_bit 23 v)"
  "5 \<le> length T \<Longrightarrow> bindE (int5store T w) uint5korr = Inr (take_bit 40 w)"
  "6 \<le> length T \<Longrightarrow> bindE (int6store T w) uint6korr = Inr (take_bit 48 w)"
  by (simp_all add: le_bytes_simps uint3korr_object sint3korr_object uint5korr_object uint6korr_object
      overwrite_def stored_bits signed_take_bit_eq_iff_take_bit_eq)

section \<open>Objects of the machine\<close>

text \<open>The bytes of an object on a little-endian and on a big-endian machine.\<close>

definition object_bytes :: "bool \<Rightarrow> nat \<Rightarrow> 'a::len word \<Rightarrow> byte list" where
  "object_bytes big n v = (if big then rev (le_bytes n (unat v)) else le_bytes n (unat v))"

definition object_value :: "bool \<Rightarrow> byte list \<Rightarrow> 'a::len word" where
  "object_value big a = x86_object (if big then rev a else a)"

text \<open>\<open>memcpy\<close> from memory to an object, and back.\<close>

definition memcpy_get :: "bool \<Rightarrow> nat \<Rightarrow> byte list \<Rightarrow> 'a::len word res" where
  "memcpy_get big n = load n (object_value big)"

definition memcpy_store :: "bool \<Rightarrow> nat \<Rightarrow> byte list \<Rightarrow> 'a::len word \<Rightarrow> byte list res" where
  "memcpy_store big n T v = overwrite T (object_bytes big n v)"

subsection \<open>\<open>little_endian.h\<close>\<close>

definition little_float4get :: "byte list \<Rightarrow> 32 word res" where "little_float4get M = memcpy_get False 4 M"
definition little_float4store :: "byte list \<Rightarrow> 32 word \<Rightarrow> byte list res" where "little_float4store V M = memcpy_store False 4 V M"
definition little_float8get :: "byte list \<Rightarrow> 64 word res" where "little_float8get M = memcpy_get False 8 M"
definition little_float8store :: "byte list \<Rightarrow> 64 word \<Rightarrow> byte list res" where "little_float8store V M = memcpy_store False 8 V M"
definition little_floatget :: "byte list \<Rightarrow> 32 word res" where "little_floatget M = little_float4get M"
definition little_floatstore :: "byte list \<Rightarrow> 32 word \<Rightarrow> byte list res" where "little_floatstore V M = little_float4store V M"

text \<open>Hardware that has the two halves of a double in the other order than those of an integer.\<close>

definition biendian_doublestore :: "byte list \<Rightarrow> 64 word \<Rightarrow> byte list res" where
  "biendian_doublestore T V = (let v = object_bytes False 8 V in
     overwrite T [v ! 4, v ! 5, v ! 6, v ! 7, v ! 0, v ! 1, v ! 2, v ! 3])"

definition biendian_doubleget :: "byte list \<Rightarrow> 64 word res" where
  "biendian_doubleget = load 8 (\<lambda>M. object_value False [M ! 4, M ! 5, M ! 6, M ! 7, M ! 0, M ! 1, M ! 2, M ! 3])"

definition little_doublestore :: "byte list \<Rightarrow> 64 word \<Rightarrow> byte list res" where "little_doublestore T V = memcpy_store False 8 T V"
definition little_doubleget :: "byte list \<Rightarrow> 64 word res" where "little_doubleget M = memcpy_get False 8 M"
definition little_ushortget :: "byte list \<Rightarrow> 16 word res" where "little_ushortget pM = x86_uint2korr pM"
definition little_shortget :: "byte list \<Rightarrow> 16 word res" where "little_shortget pM = x86_sint2korr pM"
definition little_longget :: "byte list \<Rightarrow> 32 word res" where "little_longget pM = x86_sint4korr pM"
definition little_ulongget :: "byte list \<Rightarrow> 32 word res" where "little_ulongget pM = x86_uint4korr pM"
definition little_shortstore :: "byte list \<Rightarrow> 16 word \<Rightarrow> byte list res" where "little_shortstore T V = x86_int2store T V"
definition little_longstore :: "byte list \<Rightarrow> 32 word \<Rightarrow> byte list res" where "little_longstore T V = x86_int4store T V"
definition little_longlongget :: "byte list \<Rightarrow> 64 word res" where "little_longlongget M = memcpy_get False 8 M"
definition little_longlongstore :: "byte list \<Rightarrow> 64 word \<Rightarrow> byte list res" where "little_longlongstore T V = memcpy_store False 8 T V"

subsection \<open>\<open>big_endian.h\<close>\<close>

definition big_float4store :: "byte list \<Rightarrow> 32 word \<Rightarrow> byte list res" where
  "big_float4store T A = (let a = object_bytes True 4 A in overwrite T [a ! 3, a ! 2, a ! 1, a ! 0])"

definition big_float4get :: "byte list \<Rightarrow> 32 word res" where
  "big_float4get = load 4 (\<lambda>M. object_value True [M ! 3, M ! 2, M ! 1, M ! 0])"

definition big_float8store :: "byte list \<Rightarrow> 64 word \<Rightarrow> byte list res" where
  "big_float8store T V = (let v = object_bytes True 8 V in
     overwrite T [v ! 7, v ! 6, v ! 5, v ! 4, v ! 3, v ! 2, v ! 1, v ! 0])"

definition big_float8get :: "byte list \<Rightarrow> 64 word res" where
  "big_float8get = load 8 (\<lambda>M. object_value True [M ! 7, M ! 6, M ! 5, M ! 4, M ! 3, M ! 2, M ! 1, M ! 0])"

definition big_ushortget :: "byte list \<Rightarrow> 16 word res" where
  "big_ushortget = load 2 (\<lambda>pM. ucast (ucast (pM ! 1) + push_bit 8 (ucast (pM ! 0)) :: 32 word))"

definition big_shortget :: "byte list \<Rightarrow> 16 word res" where
  "big_shortget = load 2 (\<lambda>pM. ucast (ucast (pM ! 1) + push_bit 8 (ucast (pM ! 0)) :: 32 word))"

definition big_longget :: "byte list \<Rightarrow> 32 word res" where
  "big_longget = load 4 (\<lambda>pM. object_value True [pM ! 0, pM ! 1, pM ! 2, pM ! 3])"

definition big_ulongget :: "byte list \<Rightarrow> 32 word res" where
  "big_ulongget = load 4 (\<lambda>pM. object_value True [pM ! 0, pM ! 1, pM ! 2, pM ! 3])"

definition big_shortstore :: "byte list \<Rightarrow> 16 word \<Rightarrow> byte list res" where
  "big_shortstore T A = (let def_temp = scast A :: 32 word
     in overwrite T [ucast (drop_bit 8 def_temp), ucast def_temp])"

definition big_longstore :: "byte list \<Rightarrow> 32 word \<Rightarrow> byte list res" where
  "big_longstore T A =
     overwrite T [ucast (signed_drop_bit 24 A), ucast (signed_drop_bit 16 A), ucast (signed_drop_bit 8 A), ucast A]"

definition big_floatget :: "byte list \<Rightarrow> 32 word res" where "big_floatget M = memcpy_get True 4 M"
definition big_floatstore :: "byte list \<Rightarrow> 32 word \<Rightarrow> byte list res" where "big_floatstore T V = memcpy_store True 4 T V"
definition big_doubleget :: "byte list \<Rightarrow> 64 word res" where "big_doubleget M = memcpy_get True 8 M"
definition big_doublestore :: "byte list \<Rightarrow> 64 word \<Rightarrow> byte list res" where "big_doublestore T V = memcpy_store True 8 T V"
definition big_longlongget :: "byte list \<Rightarrow> 64 word res" where "big_longlongget M = memcpy_get True 8 M"
definition big_longlongstore :: "byte list \<Rightarrow> 64 word \<Rightarrow> byte list res" where "big_longlongstore T V = memcpy_store True 8 T V"

section \<open>Objects written and read back\<close>

lemma length_object_bytes [simp]: "length (object_bytes big n v) = n"
  by (simp add: object_bytes_def)

lemma object_value_bytes: "LENGTH('a) = 8 * n \<Longrightarrow> object_value big (object_bytes big n v) = (v :: 'a::len word)"
  by (simp add: object_value_def object_bytes_def stored_object)

lemma memcpy_roundtrip:
  "LENGTH('a) = 8 * n \<Longrightarrow> n \<le> length T \<Longrightarrow> bindE (memcpy_store big n T v) (memcpy_get big n) = Inr (v :: 'a::len word)"
  by (simp add: memcpy_store_def memcpy_get_def overwrite_def object_value_bytes)

lemma indexed_rev: "length a = n \<Longrightarrow> rev a = map (\<lambda>k. a ! (n - Suc k)) [0..<n]"
  by (simp add: list_eq_iff_nth_eq rev_nth)

lemma rev_4: "length a = 4 \<Longrightarrow> [a ! 3, a ! 2, a ! 1, a ! 0] = rev a"
  by (simp add: indexed_rev upt_rec numeral_2_eq_2 numeral_3_eq_3)

lemma rev_8: "length a = 8 \<Longrightarrow> [a ! 7, a ! 6, a ! 5, a ! 4, a ! 3, a ! 2, a ! 1, a ! 0] = rev a"
  by (simp add: indexed_rev upt_rec numeral_2_eq_2 numeral_3_eq_3)

lemma id_4: "length a = 4 \<Longrightarrow> [a ! 0, a ! 1, a ! 2, a ! 3] = a"
  by (rule nth_equalityI) (auto simp: less_Suc_eq numeral_eq_Suc)

lemma big_longs: "big_longget A = memcpy_get True 4 A" "big_ulongget A = memcpy_get True 4 A"
  unfolding big_longget_def big_ulongget_def memcpy_get_def by (rule load_eq, simp add: id_4 [simplified])+

lemma big_shorts: "big_shortget A = memcpy_get True 2 A" "big_ushortget A = memcpy_get True 2 A"
proof -
  have "(ucast (ucast (a ! 1) + push_bit 8 (ucast (a ! 0)) :: 32 word) :: 16 word) = object_value True a"
    if a: "length a = 2" for a :: "byte list"
    using generic_sum_2 [of "rev a"] a by (simp add: object_value_def rev_nth)
  then show "big_shortget A = memcpy_get True 2 A" "big_ushortget A = memcpy_get True 2 A"
    unfolding big_shortget_def big_ushortget_def memcpy_get_def by (intro load_eq; simp)+
qed

lemma big_longstore_bytes: "big_longstore T A = memcpy_store True 4 T A"
proof -
  have "(ucast (signed_drop_bit k A) :: byte) = ucast (drop_bit k A)" if "k \<le> 24" for k
    using that by (auto simp: bit_simps split: if_splits intro!: bit_word_eqI)
  then show ?thesis
    by (simp add: big_longstore_def memcpy_store_def object_bytes_def le_bytes_word upt_rec numeral_2_eq_2 numeral_3_eq_3)
qed

lemma big_shortstore_bytes: "big_shortstore T A = memcpy_store True 2 T A"
proof -
  have "(ucast (scast A :: 32 word) :: byte) = ucast A"
    "(ucast (drop_bit 8 (scast A :: 32 word)) :: byte) = ucast (drop_bit 8 A)"
    by (auto simp: bit_simps intro!: bit_word_eqI)
  then show ?thesis
    by (simp add: big_shortstore_def memcpy_store_def object_bytes_def le_bytes_word upt_rec Let_def)
qed

lemma biendian_roundtrip: "8 \<le> length T \<Longrightarrow> bindE (biendian_doublestore T v) biendian_doubleget = Inr v"
proof -
  have e: "\<And>a. length a = 8 \<Longrightarrow> [a ! 0, a ! 1, a ! 2, a ! 3, a ! 4, a ! 5, a ! 6, a ! 7] = a"
    by (rule nth_equalityI) (auto simp: less_Suc_eq numeral_eq_Suc)
  assume "8 \<le> length T"
  then show ?thesis
    by (simp add: biendian_doublestore_def biendian_doubleget_def Let_def overwrite_def e [simplified] object_value_bytes
        flip: append_Cons append_Nil)
qed

lemmas machine_objects =
  big_shorts [abs_def] big_longs [abs_def] big_shortstore_bytes big_longstore_bytes
  big_floatstore_def big_floatget_def [abs_def] big_doublestore_def big_doubleget_def [abs_def]
  big_longlongstore_def big_longlongget_def [abs_def]
  little_shortstore_def little_shortget_def [abs_def] little_ushortget_def [abs_def]
  little_longstore_def little_longget_def [abs_def] little_ulongget_def [abs_def]
  little_floatstore_def little_floatget_def [abs_def] little_float4store_def little_float4get_def [abs_def]
  little_doublestore_def little_doubleget_def [abs_def]
  little_longlongstore_def little_longlongget_def [abs_def]
  x86.read2 [abs_def] x86.read4 [abs_def] x86.store2 x86.store4

section \<open>Properties\<close>

text \<open>C35: The nine functions written with sums and shifts, for all other processors, compute the same as
  the nine functions for x86 that access the memory as a word: the same value for every memory, the
  same bytes after every store, and the same failure when the memory is too short.\<close>

theorem byte_orders_agree:
  "generic_sint2korr A = x86_sint2korr A \<and> generic_uint2korr A = x86_uint2korr A \<and>
   generic_sint4korr A = x86_sint4korr A \<and> generic_uint4korr A = x86_uint4korr A \<and>
   generic_sint8korr A = x86_sint8korr A \<and> generic_uint8korr A = x86_uint8korr A \<and>
   generic_int2store A v2 = x86_int2store A v2 \<and> generic_int4store A v4 = x86_int4store A v4 \<and>
   generic_int8store A v8 = x86_int8store A v8"
  by (simp only: generic.read2 generic.read4 generic.read8 generic.store2 generic.store4 generic.store8
      x86.read2 x86.read4 x86.read8 x86.store2 x86.store4 x86.store8)

text \<open>Reading what was stored in three, five or six bytes gives the low 24, 40 or 48 bits of the
  value, and \<open>sint3korr\<close> gives them with the sign of bit 23.\<close>

theorem odd_sizes_roundtrip:
  assumes "6 \<le> length T"
  shows "bindE (int3store T v) uint3korr = Inr (take_bit 24 v) \<and>
    bindE (int3store T v) sint3korr = Inr (signed_take_bit 23 v) \<and>
    bindE (int5store T w) uint5korr = Inr (take_bit 40 w) \<and>
    bindE (int6store T w) uint6korr = Inr (take_bit 48 w)"
  using assms by (simp add: odd_sizes_read)

theorem odd_sizes_roundtrip_witness:
  "bindE (int3store [0, 0, 0, 0, 0, 0] (- 2)) uint3korr = Inr 0xFFFFFE \<and>
   bindE (int3store [0, 0, 0, 0, 0, 0] (- 2)) sint3korr = Inr (- 2)"
  using odd_sizes_roundtrip [of "[0, 0, 0, 0, 0, 0]" "- 2"] by (simp)

text \<open>The functions for data in files and on the wire: a float or double is written by a big-endian
  machine as by a little-endian one, and read back by the other.\<close>

theorem floats_portable:
  "big_float4store T x = little_float4store T x \<and> big_float8store T y = little_float8store T y \<and>
   big_float4get A = little_float4get A \<and> big_float8get A = little_float8get A"
proof (intro conjI)
  show "big_float4store T x = little_float4store T x" "big_float8store T y = little_float8store T y"
    by (simp_all add: big_float4store_def big_float8store_def little_float4store_def little_float8store_def
        memcpy_store_def Let_def rev_4 [simplified] rev_8 [simplified]) (simp_all add: object_bytes_def)
  show "big_float4get A = little_float4get A" "big_float8get A = little_float8get A"
    unfolding big_float4get_def big_float8get_def little_float4get_def little_float8get_def memcpy_get_def
    by (rule load_eq, simp add: rev_4 [simplified] rev_8 [simplified] object_value_def)+
qed

text \<open>The functions for data in memory: every value stored with the function of a machine is read
  back with its counterpart, on machines of either byte order and on those with the two halves of a double
  swapped.\<close>

theorem machine_roundtrip:
  assumes "8 \<le> length T"
  shows "bindE (big_shortstore T v2) big_shortget = Inr v2 \<and> bindE (big_shortstore T v2) big_ushortget = Inr v2 \<and>
    bindE (big_longstore T v4) big_longget = Inr v4 \<and> bindE (big_longstore T v4) big_ulongget = Inr v4 \<and>
    bindE (big_floatstore T v4) big_floatget = Inr v4 \<and> bindE (big_doublestore T v8) big_doubleget = Inr v8 \<and>
    bindE (big_longlongstore T v8) big_longlongget = Inr v8 \<and>
    bindE (little_shortstore T v2) little_shortget = Inr v2 \<and> bindE (little_shortstore T v2) little_ushortget = Inr v2 \<and>
    bindE (little_longstore T v4) little_longget = Inr v4 \<and> bindE (little_longstore T v4) little_ulongget = Inr v4 \<and>
    bindE (little_floatstore T v4) little_floatget = Inr v4 \<and>
    bindE (little_doublestore T v8) little_doubleget = Inr v8 \<and>
    bindE (little_longlongstore T v8) little_longlongget = Inr v8 \<and>
    bindE (biendian_doublestore T v8) biendian_doubleget = Inr v8"
  using assms x86.stored_read [of T, unfolded x86.read2 [abs_def] x86.read4 [abs_def] x86.store2 x86.store4]
  by (simp add: machine_objects memcpy_roundtrip biendian_roundtrip)

theorem machine_roundtrip_witness:
  "bindE (big_longstore (replicate 8 0) (- 5)) big_longget = Inr (- 5) \<and>
   bindE (biendian_doublestore (replicate 8 0) 0x3FF0000000000000) biendian_doubleget = Inr 0x3FF0000000000000"
  using machine_roundtrip [of "replicate 8 0" 0 "- 5" "0x3FF0000000000000"] by (simp add: numeral_eq_Suc)

end
