(* ===== verification/Mysql_String.thy ===== *)
theory Mysql_String
  imports Mysql_Byteorder
begin

unbundle bit_operations_syntax

text \<open>
  The string functions that \<open>m_string.h\<close> of the MySQL connector defines itself: \<open>skip_trailing_space\<close>,
  which looks for the end of a string without the spaces that pad it, eight bytes at a time or, on a
  processor that cannot read unaligned words, in aligned words; and the two functions that make a
  string with its length. A pointer into the string is its distance from the start of the string.
\<close>

section \<open>\<open>skip_trailing_space\<close>\<close>

text \<open>\<open>while (end > low && end[-1] == 0x20) end--\<close>.\<close>

fun skip_bytes :: "byte list \<Rightarrow> nat \<Rightarrow> nat \<Rightarrow> nat res" where
  "skip_bytes ptr low 0 = Inr 0"
| "skip_bytes ptr low (Suc e) = (if low < Suc e
     then bindE (memread 1 (drop e ptr)) (\<lambda>(b, _). if b ! 0 = 0x20 then skip_bytes ptr low e else Inr (Suc e))
     else Inr (Suc e))"

text \<open>The version with \<open>uint8korr\<close>, which is a parameter because the header gets it from
  \<open>my_byteorder.h\<close>, in one of two versions.\<close>

function skip_words :: "(byte list \<Rightarrow> 64 word res) \<Rightarrow> byte list \<Rightarrow> nat \<Rightarrow> nat res" where
  "skip_words uint8korr ptr e = (if 8 \<le> e
     then bindE (uint8korr (drop (e - 8) ptr)) (\<lambda>w. if w \<noteq> 0x2020202020202020 then Inr e else skip_words uint8korr ptr (e - 8))
     else Inr e)"
  by pat_completeness auto
termination by (relation "measure (\<lambda>(u, p, e). e)") auto

declare skip_words.simps [simp del]

definition skip_trailing_space :: "(byte list \<Rightarrow> 64 word res) \<Rightarrow> byte list \<Rightarrow> nat \<Rightarrow> nat res" where
  "skip_trailing_space uint8korr ptr len = bindE (skip_words uint8korr ptr len) (skip_bytes ptr 0)"

text \<open>
  The version for SPARC. \<open>at\<close> is the address of the string: the words are aligned, so that the
  rounding depends on it. The processor stores the high byte first and stops the program when the
  address of a word is not a multiple of its size.
\<close>

definition read_word :: "nat \<Rightarrow> byte list \<Rightarrow> nat \<Rightarrow> 32 word res" where
  "read_word at ptr i = (if 4 dvd at + i then load 4 (object_value True) (drop i ptr)
     else undefined_behaviour Misaligned_access)"

function skip_aligned :: "nat \<Rightarrow> byte list \<Rightarrow> nat \<Rightarrow> nat \<Rightarrow> nat res" where
  "skip_aligned at ptr start_words e = (if start_words < at + e
     then if e < 4 then undefined_behaviour Read_out_of_bounds
       else bindE (read_word at ptr (e - 4)) (\<lambda>w. if w = 0x20202020 then skip_aligned at ptr start_words (e - 4) else Inr e)
     else Inr e)"
  by pat_completeness auto
termination by (relation "measure (\<lambda>(a, p, s, e). e)") auto

declare skip_aligned.simps [simp del]

definition sparc_skip_trailing_space :: "nat \<Rightarrow> byte list \<Rightarrow> nat \<Rightarrow> nat res" where
  "sparc_skip_trailing_space at ptr len = bindE
    (if 20 < len
     then (let end_words = (at + len) div 4 * 4; start_words = (at + 4 - 1) div 4 * 4 in
       bindE (requireE (at < end_words) (Undefined Assertion_failed)) (\<lambda>_.
       bindE (skip_bytes ptr (end_words - at) len) (\<lambda>e.
       bindE (memread 1 (drop (e - 1) ptr)) (\<lambda>(b, _).
       if b ! 0 = 0x20 \<and> start_words < end_words then skip_aligned at ptr start_words e else Inr e))))
     else Inr len) (skip_bytes ptr 0)"

text \<open>The reference: the length of the string without its trailing spaces.\<close>

definition trimmed :: "byte list \<Rightarrow> byte list" where
  "trimmed s = rev (dropWhile ((=) 0x20) (rev s))"

lemma trimmed_simps [simp]: "trimmed [] = []" "trimmed (s @ [b]) = (if b = 0x20 then trimmed s else s @ [b])"
  by (simp_all add: trimmed_def)

text \<open>A search that only leaves spaces behind does not change the result.\<close>

definition only_spaces_after :: "byte list \<Rightarrow> nat \<Rightarrow> nat \<Rightarrow> bool" where
  "only_spaces_after ptr e len \<longleftrightarrow> e \<le> len \<and> (\<forall>i. e \<le> i \<and> i < len \<longrightarrow> ptr ! i = 0x20)"

lemma only_spaces_refl [simp]: "only_spaces_after ptr len len"
  by (auto simp: only_spaces_after_def)

lemma only_spaces_trans:
  assumes "only_spaces_after ptr e f" "only_spaces_after ptr f len"
  shows "only_spaces_after ptr e len"
  unfolding only_spaces_after_def
proof (intro conjI allI impI)
  show "e \<le> len" using assms by (simp add: only_spaces_after_def)
  fix i
  assume "e \<le> i \<and> i < len"
  with assms show "ptr ! i = 0x20" by (cases "i < f") (simp_all add: only_spaces_after_def)
qed

lemma only_spaces_trimmed:
  "only_spaces_after ptr e len \<Longrightarrow> len \<le> length ptr \<Longrightarrow> trimmed (take len ptr) = trimmed (take e ptr)"
proof (induction len)
  case 0
  then show ?case by (simp add: only_spaces_after_def)
next
  case (Suc l)
  show ?case
  proof (cases "e = Suc l")
    case False
    with Suc.prems have "only_spaces_after ptr e l" "ptr ! l = 0x20"
      by (auto simp: only_spaces_after_def)
    with Suc show ?thesis by (simp add: take_Suc_conv_app_nth)
  qed simp
qed

lemma only_spaces_chunk:
  assumes "n \<le> e" "take n (drop (e - n) ptr) = replicate n 0x20"
  shows "only_spaces_after ptr (e - n) e"
  unfolding only_spaces_after_def
proof (intro conjI allI impI)
  fix i
  assume i: "e - n \<le> i \<and> i < e"
  have n: "length (take n (drop (e - n) ptr)) = n" by (simp only: assms(2) length_replicate)
  have k: "i - (e - n) < n" using i assms(1) by linarith
  then have "take n (drop (e - n) ptr) ! (i - (e - n)) = 0x20" by (simp only: assms(2) nth_replicate)
  moreover have "take n (drop (e - n) ptr) ! (i - (e - n)) = ptr ! i" using i assms(1) n k by (simp add: min_def split: if_splits)
  ultimately show "ptr ! i = 0x20" by simp
qed simp

section \<open>The loops\<close>

lemma memread_nth: "e < length ptr \<Longrightarrow> memread 1 (drop e ptr) = Inr ([ptr ! e], drop (Suc e) ptr)"
  by (simp add: memread_def take_Suc_conv_app_nth)

lemma skip_bytes_trimmed: "e \<le> length ptr \<Longrightarrow> skip_bytes ptr 0 e = Inr (length (trimmed (take e ptr)))"
  by (induction e) (simp_all add: memread_nth [simplified] take_Suc_conv_app_nth)

lemma skip_bytes_spaces:
  "e \<le> length ptr \<Longrightarrow> low \<le> e \<Longrightarrow> \<exists>f. skip_bytes ptr low e = Inr f \<and> only_spaces_after ptr f e \<and> low \<le> f \<and>
     (f = low \<or> ptr ! (f - 1) \<noteq> 0x20)"
proof (induction e)
  case 0
  then show ?case by simp
next
  case (Suc e)
  show ?case
  proof (cases "low < Suc e \<and> ptr ! e = 0x20")
    case True
    with Suc.prems have "only_spaces_after ptr e (Suc e)" by (auto simp: only_spaces_after_def less_Suc_eq)
    with Suc True show ?thesis by (auto simp: memread_nth [simplified] intro: only_spaces_trans)
  next
    case False
    with Suc.prems show ?thesis by (auto simp: memread_nth [simplified])
  qed
qed

lemma replicate_words:
  "replicate 4 x = [x, x, x, x]"
  "replicate 8 x = [x, x, x, x, x, x, x, x]"
  by (simp_all add: numeral_eq_Suc)

lemma spaces_word:
  "length a = 8 \<Longrightarrow> (x86_object a :: 64 word) = 0x2020202020202020 \<longleftrightarrow> a = replicate 8 0x20"
  "length a = 4 \<Longrightarrow> (object_value True a :: 32 word) = 0x20202020 \<longleftrightarrow> a = replicate 4 0x20"
proof -
  show "(x86_object a :: 64 word) = 0x2020202020202020 \<longleftrightarrow> a = replicate 8 0x20" if "length a = 8"
    using that by (simp add: object_eq_iff le_bytes_numeral replicate_words)
  have "rev a = replicate 4 0x20 \<longleftrightarrow> a = replicate 4 0x20" by (metis rev_replicate rev_rev_ident)
  then show "(object_value True a :: 32 word) = 0x20202020 \<longleftrightarrow> a = replicate 4 0x20" if "length a = 4"
    using that by (simp add: object_value_def object_eq_iff le_bytes_numeral replicate_words)
qed

context byte_order
begin

lemma skip_words_spaces:
  "e \<le> length ptr \<Longrightarrow> \<exists>f. skip_words uint8korr ptr e = Inr f \<and> only_spaces_after ptr f e"
proof (induction e rule: less_induct)
  case (less e)
  show ?case
  proof (cases "8 \<le> e")
    case e: True
    let ?a = "take 8 (drop (e - 8) ptr)"
    have a: "length ?a = 8" using e less by simp
    have read: "uint8korr (drop (e - 8) ptr) = Inr (x86_object ?a)"
      using e less.prems by (simp add: read8 load_def memread_def)
    show ?thesis
    proof (cases "?a = replicate 8 0x20")
      case True
      then have w: "(x86_object ?a :: 64 word) = 0x2020202020202020" using a by (simp only: spaces_word)
      from e True have "only_spaces_after ptr (e - 8) e" by (rule only_spaces_chunk)
      moreover from less.prems have "e - 8 \<le> length ptr" by linarith
      then obtain f where "skip_words uint8korr ptr (e - 8) = Inr f" "only_spaces_after ptr f (e - 8)"
        using less.IH [of "e - 8"] e by auto
      ultimately show ?thesis using e w read
        by (intro exI [of _ f], subst skip_words.simps) (auto intro: only_spaces_trans)
    next
      case False
      with spaces_word(1) [OF a] have "(x86_object ?a :: 64 word) \<noteq> 0x2020202020202020" by blast
      with e read show ?thesis by (subst skip_words.simps) simp
    qed
  qed (simp add: skip_words.simps)
qed

lemma skip_trailing_space_trimmed:
  assumes "len \<le> length ptr"
  shows "skip_trailing_space uint8korr ptr len = Inr (length (trimmed (take len ptr)))"
proof -
  from skip_words_spaces [OF assms] obtain f
    where f: "skip_words uint8korr ptr len = Inr f" "only_spaces_after ptr f len" by blast
  then have "f \<le> length ptr" using assms by (simp add: only_spaces_after_def)
  with f assms show ?thesis
    by (simp add: skip_trailing_space_def skip_bytes_trimmed only_spaces_trimmed)
qed

end

lemma skip_aligned_spaces:
  "e \<le> length ptr \<Longrightarrow> 4 dvd at + e \<Longrightarrow> 4 dvd start_words \<Longrightarrow> at \<le> start_words \<Longrightarrow>
     \<exists>f. skip_aligned at ptr start_words e = Inr f \<and> only_spaces_after ptr f e"
proof (induction e rule: less_induct)
  case (less e)
  show ?case
  proof (cases "start_words < at + e")
    case True
    then have "start_words + 4 \<le> at + e" using less.prems(2,3) by (metis dvd_add_right_iff dvd_imp_le le_add_diff_inverse less_imp_le_nat nat_add_left_cancel_le zero_less_diff)
    with less.prems(4) have e: "4 \<le> e" by linarith
    let ?a = "take 4 (drop (e - 4) ptr)"
    have a: "length ?a = 4" using e less.prems by simp
    have "4 dvd at + (e - 4)" using e less.prems(2) by (metis Nat.add_diff_assoc dvd_diff_nat dvd_refl)
    then have read: "read_word at ptr (e - 4) = Inr (object_value True ?a)"
      using e less.prems by (simp add: read_word_def load_def memread_def)
    show ?thesis
    proof (cases "?a = replicate 4 0x20")
      case spaces: True
      then have w: "(object_value True ?a :: 32 word) = 0x20202020" using a by (simp only: spaces_word)
      from e spaces have s: "only_spaces_after ptr (e - 4) e" by (rule only_spaces_chunk)
      from less.prems have "e - 4 \<le> length ptr" by linarith
      then obtain f where "skip_aligned at ptr start_words (e - 4) = Inr f" "only_spaces_after ptr f (e - 4)"
        using less.IH [of "e - 4"] e less.prems \<open>4 dvd at + (e - 4)\<close> by auto
      with True e w read s show ?thesis
        by (intro exI [of _ f], subst skip_aligned.simps) (auto intro: only_spaces_trans)
    next
      case False
      with spaces_word(2) [OF a] have "(object_value True ?a :: 32 word) \<noteq> 0x20202020" by blast
      with True e read show ?thesis by (subst skip_aligned.simps) simp
    qed
  qed (simp add: skip_aligned.simps)
qed

lemma sparc_spaces:
  assumes "len \<le> length ptr" "20 < len"
  shows "\<exists>f. sparc_skip_trailing_space at ptr len = skip_bytes ptr 0 f \<and> only_spaces_after ptr f len"
proof -
  define end_words where "end_words = (at + len) div 4 * 4"
  define start_words where "start_words = (at + 4 - 1) div 4 * 4"
  have words: "at < end_words" "end_words \<le> at + len" "4 dvd end_words" "4 dvd start_words" "at \<le> start_words"
    using assms(2) unfolding end_words_def start_words_def by presburger+
  then have "end_words - at \<le> len" by linarith
  with assms(1) obtain e where e: "skip_bytes ptr (end_words - at) len = Inr e" "only_spaces_after ptr e len"
      "end_words - at \<le> e" "e = end_words - at \<or> ptr ! (e - 1) \<noteq> 0x20"
    using skip_bytes_spaces [of len ptr "end_words - at"] by blast
  have bounds: "0 < e" "e \<le> length ptr" using words(1) e(2,3) assms(1) by (auto simp: only_spaces_after_def)
  then have read: "memread 1 (drop (e - 1) ptr) = Inr ([ptr ! (e - 1)], drop (Suc (e - 1)) ptr)"
    by (intro memread_nth) linarith
  have "\<exists>f. (if ptr ! (e - 1) = 0x20 \<and> start_words < end_words then skip_aligned at ptr start_words e else Inr e) = Inr f \<and>
      only_spaces_after ptr f e"
  proof (cases "ptr ! (e - 1) = 0x20 \<and> start_words < end_words")
    case True
    with e(4) words(1) have "at + e = end_words" by auto
    with skip_aligned_spaces [OF bounds(2), of at start_words] words True show ?thesis by simp
  qed auto
  then obtain f where f: "(if ptr ! (e - 1) = 0x20 \<and> start_words < end_words then skip_aligned at ptr start_words e else Inr e) = Inr f"
    "only_spaces_after ptr f e" by blast
  have "sparc_skip_trailing_space at ptr len = skip_bytes ptr 0 f"
    using words(1) assms(2) e(1) read f(1)
    by (simp only: sparc_skip_trailing_space_def Let_def flip: end_words_def start_words_def) simp
  with e(2) f(2) show ?thesis by (blast intro: only_spaces_trans)
qed

section \<open>Strings with a length\<close>

text \<open>\<open>LEX_STRING\<close> and \<open>LEX_CSTRING\<close>: the memory that the pointer points to, and the length.\<close>

record lex_string =
  str :: "byte list"
  lex_length :: nat

definition lex_string_set :: "byte list \<Rightarrow> lex_string res" where
  "lex_string_set c_str = bindE (cstr c_str) (\<lambda>s. Inr \<lparr>str = c_str, lex_length = length s\<rparr>)"

definition lex_cstring_set :: "byte list \<Rightarrow> lex_string res" where
  "lex_cstring_set c_str = bindE (cstr c_str) (\<lambda>s. Inr \<lparr>str = c_str, lex_length = length s\<rparr>)"

section \<open>Properties\<close>

text \<open>C34: On every platform and for every address of the string, \<open>skip_trailing_space\<close> stays inside the
  string, reads only aligned words where it must, and returns the end of the string without its
  trailing spaces: reading eight bytes at a time, with either version of \<open>uint8korr\<close>, and reading
  aligned words, are optimisations of the loop over the bytes.\<close>

theorem skip_trailing_space_correct:
  assumes "len \<le> length ptr"
  shows "skip_trailing_space x86_uint8korr ptr len = Inr (length (trimmed (take len ptr))) \<and>
    skip_trailing_space generic_uint8korr ptr len = Inr (length (trimmed (take len ptr))) \<and>
    sparc_skip_trailing_space at ptr len = Inr (length (trimmed (take len ptr)))"
proof (intro conjI)
  show "skip_trailing_space x86_uint8korr ptr len = Inr (length (trimmed (take len ptr)))"
    using assms by (rule x86.skip_trailing_space_trimmed)
  show "skip_trailing_space generic_uint8korr ptr len = Inr (length (trimmed (take len ptr)))"
    using assms by (rule generic.skip_trailing_space_trimmed)
  show "sparc_skip_trailing_space at ptr len = Inr (length (trimmed (take len ptr)))"
  proof (cases "20 < len")
    case True
    from sparc_spaces [OF assms True, of at] obtain f
      where f: "sparc_skip_trailing_space at ptr len = skip_bytes ptr 0 f" "only_spaces_after ptr f len" by blast
    then have "f \<le> length ptr" using assms by (simp add: only_spaces_after_def)
    with f assms show ?thesis by (simp add: skip_bytes_trimmed only_spaces_trimmed)
  qed (simp add: sparc_skip_trailing_space_def skip_bytes_trimmed [OF assms])
qed

theorem skip_trailing_space_correct_witness:
  "sparc_skip_trailing_space 1001
     [0x61, 0x20, 0x62, 0x20, 0x20, 0x20, 0x20, 0x20, 0x20, 0x20, 0x20, 0x20, 0x20, 0x20, 0x20, 0x20, 0x20, 0x20, 0x20, 0x20, 0x20, 0x20, 0x20, 0x63] 23 = Inr 3"
  using skip_trailing_space_correct [of 23
     "[0x61, 0x20, 0x62, 0x20, 0x20, 0x20, 0x20, 0x20, 0x20, 0x20, 0x20, 0x20, 0x20, 0x20, 0x20, 0x20, 0x20, 0x20, 0x20, 0x20, 0x20, 0x20, 0x20, 0x63]" 1001]
  by (simp add: trimmed_def)

end
