(* ===== verification/Mysql_File.thy ===== *)
theory Mysql_File
  imports Mym_Prelude
begin

unbundle bit_operations_syntax

text \<open>
  The file functions of \<open>mysql/psi/mysql_file.h\<close> of the MySQL connector: one inline function around
  every function of \<open>mysys\<close> and \<open>stdio\<close> that works on a file, which reports the call to the performance
  schema, a plugin, before and after. The plugin and the functions around which they are written are
  parameters: what the plugin answers may depend on all it was told, what a function of the system
  does, and returns, on the state of the system, with the memory that the callers' buffers are in.
  The state of the model has that state, the calls that the plugin has got, and the
  \<open>MYSQL_FILE\<close> objects that \<open>inline_mysql_file_fopen\<close> has allocated. The build with
  \<open>HAVE_PSI_FILE_INTERFACE\<close> and the build without it are values of one parameter.
\<close>

section \<open>Types\<close>

text \<open>An address, with 0 for \<open>NULL\<close>; a C \<open>int\<close>, \<open>File\<close> and \<open>myf\<close>; sizes of the 32-bit platform.\<close>

type_synonym ptr = nat
type_synonym c_int = "32 word"
type_synonym size_t = "32 word"
type_synonym my_off_t = "64 word"
type_synonym src_loc = "ptr \<times> 32 word"

datatype file_operation =
    PSI_FILE_CREATE | PSI_FILE_CREATE_TMP | PSI_FILE_OPEN | PSI_FILE_STREAM_OPEN | PSI_FILE_CLOSE
  | PSI_FILE_STREAM_CLOSE | PSI_FILE_READ | PSI_FILE_WRITE | PSI_FILE_SEEK | PSI_FILE_TELL
  | PSI_FILE_FLUSH | PSI_FILE_STAT | PSI_FILE_FSTAT | PSI_FILE_CHSIZE | PSI_FILE_DELETE
  | PSI_FILE_RENAME | PSI_FILE_SYNC

text \<open>A field that has not been written since \<open>my_malloc\<close> is \<open>None\<close>.\<close>

record mysql_file =
  m_file :: "ptr option"
  m_psi :: "ptr option"

text \<open>The identity of a named file: the address of the local variable, or of the \<open>MYSQL_FILE\<close>.\<close>

datatype identity = Address_of_locker | Address_of_file ptr

datatype locker_request =
    get_thread_file_name_locker "32 word" file_operation ptr identity
  | get_thread_file_stream_locker ptr file_operation
  | get_thread_file_descriptor_locker c_int file_operation

datatype wait_start =
    start_file_open_wait src_loc
  | start_file_close_wait src_loc
  | start_file_wait size_t src_loc

datatype wait_end =
    end_file_open_wait ptr
  | end_file_open_wait_and_bind_to_descriptor c_int
  | end_temp_file_open_wait_and_bind_to_descriptor c_int ptr
  | end_file_close_wait c_int
  | end_file_wait size_t

text \<open>A call of the plugin: a request, with the locker it returned, or the start or the end of a wait
  with the locker that the function was given.\<close>

datatype psi_call =
    register_file ptr ptr c_int
  | Get_Locker locker_request ptr
  | Start ptr wait_start
  | End ptr wait_end

record 'o io =
  calls :: "psi_call list"
  heap :: "ptr \<rightharpoonup> mysql_file"
  os :: 'o

type_synonym ('o, 'a) prog = "'o io \<Rightarrow> ('a \<times> 'o io) res"

text \<open>The functions that are not in the header. An argument list of \<open>vfprintf\<close> is its address.\<close>

record 'o env =
  have_psi :: bool
  header_file :: ptr
  locker_of :: "psi_call list \<Rightarrow> locker_request \<Rightarrow> ptr"
  psi_file_of :: "psi_call list \<Rightarrow> ptr"
  my_malloc :: "32 word \<Rightarrow> size_t \<Rightarrow> c_int \<Rightarrow> 'o \<Rightarrow> ptr \<times> 'o"
  my_free :: "ptr \<Rightarrow> 'o \<Rightarrow> 'o"
  strlen :: "ptr \<Rightarrow> 'o \<Rightarrow> size_t"
  fgets :: "ptr \<Rightarrow> c_int \<Rightarrow> ptr \<Rightarrow> 'o \<Rightarrow> ptr \<times> 'o"
  fgetc :: "ptr \<Rightarrow> 'o \<Rightarrow> c_int \<times> 'o"
  fputs :: "ptr \<Rightarrow> ptr \<Rightarrow> 'o \<Rightarrow> c_int \<times> 'o"
  fputc :: "byte \<Rightarrow> ptr \<Rightarrow> 'o \<Rightarrow> c_int \<times> 'o"
  vfprintf :: "ptr \<Rightarrow> ptr \<Rightarrow> ptr \<Rightarrow> 'o \<Rightarrow> c_int \<times> 'o"
  fflush :: "ptr \<Rightarrow> 'o \<Rightarrow> c_int \<times> 'o"
  feof :: "ptr \<Rightarrow> 'o \<Rightarrow> c_int \<times> 'o"
  my_fstat :: "c_int \<Rightarrow> ptr \<Rightarrow> c_int \<Rightarrow> 'o \<Rightarrow> c_int \<times> 'o"
  my_stat :: "ptr \<Rightarrow> ptr \<Rightarrow> c_int \<Rightarrow> 'o \<Rightarrow> ptr \<times> 'o"
  my_chsize :: "c_int \<Rightarrow> my_off_t \<Rightarrow> c_int \<Rightarrow> c_int \<Rightarrow> 'o \<Rightarrow> c_int \<times> 'o"
  my_fopen :: "ptr \<Rightarrow> c_int \<Rightarrow> c_int \<Rightarrow> 'o \<Rightarrow> ptr \<times> 'o"
  my_fclose :: "ptr \<Rightarrow> c_int \<Rightarrow> 'o \<Rightarrow> c_int \<times> 'o"
  my_fread :: "ptr \<Rightarrow> ptr \<Rightarrow> size_t \<Rightarrow> c_int \<Rightarrow> 'o \<Rightarrow> size_t \<times> 'o"
  my_fwrite :: "ptr \<Rightarrow> ptr \<Rightarrow> size_t \<Rightarrow> c_int \<Rightarrow> 'o \<Rightarrow> size_t \<times> 'o"
  my_fseek :: "ptr \<Rightarrow> my_off_t \<Rightarrow> c_int \<Rightarrow> c_int \<Rightarrow> 'o \<Rightarrow> my_off_t \<times> 'o"
  my_ftell :: "ptr \<Rightarrow> c_int \<Rightarrow> 'o \<Rightarrow> my_off_t \<times> 'o"
  my_create :: "ptr \<Rightarrow> c_int \<Rightarrow> c_int \<Rightarrow> c_int \<Rightarrow> 'o \<Rightarrow> c_int \<times> 'o"
  create_temp_file :: "ptr \<Rightarrow> ptr \<Rightarrow> ptr \<Rightarrow> c_int \<Rightarrow> c_int \<Rightarrow> 'o \<Rightarrow> c_int \<times> 'o"
  my_open :: "ptr \<Rightarrow> c_int \<Rightarrow> c_int \<Rightarrow> 'o \<Rightarrow> c_int \<times> 'o"
  my_close :: "c_int \<Rightarrow> c_int \<Rightarrow> 'o \<Rightarrow> c_int \<times> 'o"
  my_read :: "c_int \<Rightarrow> ptr \<Rightarrow> size_t \<Rightarrow> c_int \<Rightarrow> 'o \<Rightarrow> size_t \<times> 'o"
  my_write :: "c_int \<Rightarrow> ptr \<Rightarrow> size_t \<Rightarrow> c_int \<Rightarrow> 'o \<Rightarrow> size_t \<times> 'o"
  my_pread :: "c_int \<Rightarrow> ptr \<Rightarrow> size_t \<Rightarrow> my_off_t \<Rightarrow> c_int \<Rightarrow> 'o \<Rightarrow> size_t \<times> 'o"
  my_pwrite :: "c_int \<Rightarrow> ptr \<Rightarrow> size_t \<Rightarrow> my_off_t \<Rightarrow> c_int \<Rightarrow> 'o \<Rightarrow> size_t \<times> 'o"
  my_seek :: "c_int \<Rightarrow> my_off_t \<Rightarrow> c_int \<Rightarrow> c_int \<Rightarrow> 'o \<Rightarrow> my_off_t \<times> 'o"
  my_tell :: "c_int \<Rightarrow> c_int \<Rightarrow> 'o \<Rightarrow> my_off_t \<times> 'o"
  my_delete :: "ptr \<Rightarrow> c_int \<Rightarrow> 'o \<Rightarrow> c_int \<times> 'o"
  my_rename :: "ptr \<Rightarrow> ptr \<Rightarrow> c_int \<Rightarrow> 'o \<Rightarrow> c_int \<times> 'o"
  my_create_with_symlink :: "ptr \<Rightarrow> ptr \<Rightarrow> c_int \<Rightarrow> c_int \<Rightarrow> c_int \<Rightarrow> 'o \<Rightarrow> c_int \<times> 'o"
  my_delete_with_symlink :: "ptr \<Rightarrow> c_int \<Rightarrow> 'o \<Rightarrow> c_int \<times> 'o"
  my_rename_with_symlink :: "ptr \<Rightarrow> ptr \<Rightarrow> c_int \<Rightarrow> 'o \<Rightarrow> c_int \<times> 'o"
  my_sync :: "c_int \<Rightarrow> c_int \<Rightarrow> 'o \<Rightarrow> c_int \<times> 'o"

section \<open>Steps\<close>

definition bindP :: "('o, 'a) prog \<Rightarrow> ('a \<Rightarrow> ('o, 'b) prog) \<Rightarrow> ('o, 'b) prog" where
  "bindP m f s = bindE (m s) (\<lambda>(x, t). f x t)"

definition returnP :: "'a \<Rightarrow> ('o, 'a) prog" where
  "returnP x s = Inr (x, s)"

text \<open>A call of the plugin that returns nothing; a call of the system.\<close>

definition psi :: "psi_call \<Rightarrow> ('o, unit) prog" where
  "psi c s = Inr ((), s\<lparr>calls := calls s @ [c]\<rparr>)"

definition sys :: "('o \<Rightarrow> 'a \<times> 'o) \<Rightarrow> ('o, 'a) prog" where
  "sys f s = (let (r, o') = f (os s) in Inr (r, s\<lparr>os := o'\<rparr>))"

definition get_locker :: "'o env \<Rightarrow> locker_request \<Rightarrow> ('o, ptr) prog" where
  "get_locker E q s = (let l = locker_of E (calls s) q in Inr (l, s\<lparr>calls := calls s @ [Get_Locker q l]\<rparr>))"

text \<open>Access to the fields of a \<open>MYSQL_FILE\<close>.\<close>

definition deref :: "ptr \<Rightarrow> 'o io \<Rightarrow> mysql_file res" where
  "deref p s = (if p = 0 then undefined_behaviour Null_dereference
     else case heap s p of None \<Rightarrow> undefined_behaviour Use_after_free | Some f \<Rightarrow> Inr f)"

definition read_field :: "(mysql_file \<Rightarrow> ptr option) \<Rightarrow> ptr \<Rightarrow> ('o, ptr) prog" where
  "read_field field p s = bindE (deref p s) (\<lambda>f. case field f of
     None \<Rightarrow> undefined_behaviour Uninitialised_read | Some v \<Rightarrow> Inr (v, s))"

definition update_file :: "(mysql_file \<Rightarrow> mysql_file) \<Rightarrow> ptr \<Rightarrow> ('o, unit) prog" where
  "update_file u p s = bindE (deref p s) (\<lambda>f. Inr ((), s\<lparr>heap := (heap s)(p \<mapsto> u f)\<rparr>))"

text \<open>\<open>if (likely(locker != NULL)) ...\<close>, which the preprocessor takes out of the build without the
  interface, with the statements that get the locker.\<close>

definition instrumented :: "'o env \<Rightarrow> ('o, locker_request) prog \<Rightarrow> (ptr \<Rightarrow> ('o, 'a) prog) \<Rightarrow> ('o, 'a) prog \<Rightarrow> ('o, 'a) prog" where
  "instrumented E request timed plain = (if have_psi E
     then bindP request (\<lambda>q. bindP (get_locker E q) (\<lambda>locker. if locker \<noteq> 0 then timed locker else plain))
     else plain)"

definition waited :: "ptr \<Rightarrow> wait_start \<Rightarrow> ('o, 'a) prog \<Rightarrow> ('a \<Rightarrow> ('o, wait_end) prog) \<Rightarrow> ('o, 'a) prog" where
  "waited locker start body stop = bindP (psi (Start locker start)) (\<lambda>_. bindP body (\<lambda>result.
     bindP (stop result) (\<lambda>e. bindP (psi (End locker e)) (\<lambda>_. returnP result))))"

text \<open>Requests: for a stream, with the pointer that the plugin left in the \<open>MYSQL_FILE\<close>.\<close>

definition stream :: "ptr \<Rightarrow> file_operation \<Rightarrow> ('o, locker_request) prog" where
  "stream file oper = bindP (read_field m_psi file) (\<lambda>q. returnP (get_thread_file_stream_locker q oper))"

definition descriptor :: "c_int \<Rightarrow> file_operation \<Rightarrow> ('o, locker_request) prog" where
  "descriptor fd oper = returnP (get_thread_file_descriptor_locker fd oper)"

definition named :: "32 word \<Rightarrow> file_operation \<Rightarrow> ptr \<Rightarrow> ('o, locker_request) prog" where
  "named key oper name = returnP (get_thread_file_name_locker key oper name Address_of_locker)"

text \<open>A function of the system on the \<open>FILE\<close> of a \<open>MYSQL_FILE\<close>.\<close>

definition on_stream :: "ptr \<Rightarrow> (ptr \<Rightarrow> 'o \<Rightarrow> 'a \<times> 'o) \<Rightarrow> ('o, 'a) prog" where
  "on_stream file f = bindP (read_field m_file file) (\<lambda>p. sys (f p))"

text \<open>The bytes that count as transferred: with \<open>MY_NABP\<close> or \<open>MY_FNABP\<close> a function returns 0 when it
  transferred all of them.\<close>

definition MY_FILE_ERROR :: size_t where "MY_FILE_ERROR = - 1"
definition MY_FNABP :: c_int where "MY_FNABP = 2"
definition MY_NABP :: c_int where "MY_NABP = 4"
definition MY_WME :: c_int where "MY_WME = 16"

definition bytes_done :: "c_int \<Rightarrow> size_t \<Rightarrow> size_t \<Rightarrow> size_t" where
  "bytes_done flags count result = (if flags AND (MY_NABP OR MY_FNABP) \<noteq> 0
     then if result = 0 then count else 0
     else if result \<noteq> MY_FILE_ERROR then result else 0)"

section \<open>The functions of the header\<close>

definition inline_mysql_file_register :: "'o env \<Rightarrow> ptr \<Rightarrow> ptr \<Rightarrow> c_int \<Rightarrow> ('o, unit) prog" where
  "inline_mysql_file_register E category info count = (if have_psi E then psi (register_file category info count) else returnP ())"

text \<open>Streams.\<close>

definition inline_mysql_file_fgets :: "'o env \<Rightarrow> src_loc \<Rightarrow> ptr \<Rightarrow> c_int \<Rightarrow> ptr \<Rightarrow> ('o, ptr) prog" where
  "inline_mysql_file_fgets E src str sz file = (let body = on_stream file (fgets E str sz) in
     instrumented E (stream file PSI_FILE_READ) (\<lambda>locker. waited locker (start_file_wait (ucast sz) src) body
       (\<lambda>result s. Inr (end_file_wait (if result \<noteq> 0 then strlen E result (os s) else 0), s))) body)"

definition inline_mysql_file_fgetc :: "'o env \<Rightarrow> src_loc \<Rightarrow> ptr \<Rightarrow> ('o, c_int) prog" where
  "inline_mysql_file_fgetc E src file = (let body = on_stream file (fgetc E) in
     instrumented E (stream file PSI_FILE_READ) (\<lambda>locker. waited locker (start_file_wait 1 src) body
       (\<lambda>result. returnP (end_file_wait 1))) body)"

definition inline_mysql_file_fputs :: "'o env \<Rightarrow> src_loc \<Rightarrow> ptr \<Rightarrow> ptr \<Rightarrow> ('o, c_int) prog" where
  "inline_mysql_file_fputs E src str file = (let body = on_stream file (fputs E str) in
     instrumented E (stream file PSI_FILE_WRITE) (\<lambda>locker s.
       let bytes = (if str \<noteq> 0 then strlen E str (os s) else 0)
       in waited locker (start_file_wait bytes src) body (\<lambda>result. returnP (end_file_wait bytes)) s) body)"

definition inline_mysql_file_fputc :: "'o env \<Rightarrow> src_loc \<Rightarrow> byte \<Rightarrow> ptr \<Rightarrow> ('o, c_int) prog" where
  "inline_mysql_file_fputc E src c file = (let body = on_stream file (fputc E c) in
     instrumented E (stream file PSI_FILE_WRITE) (\<lambda>locker. waited locker (start_file_wait 1 src) body
       (\<lambda>result. returnP (end_file_wait 1))) body)"

text \<open>\<open>__FILE__\<close> and \<open>__LINE__\<close> are those of the header. The arguments are taken from their list inside the wait.\<close>

definition inline_mysql_file_fprintf :: "'o env \<Rightarrow> ptr \<Rightarrow> ptr \<Rightarrow> ptr \<Rightarrow> ('o, c_int) prog" where
  "inline_mysql_file_fprintf E file format args = (let body = on_stream file (\<lambda>f. vfprintf E f format args) in
     instrumented E (stream file PSI_FILE_WRITE) (\<lambda>locker. waited locker (start_file_wait 0 (header_file E, 650)) body
       (\<lambda>result. returnP (end_file_wait (ucast result)))) body)"

definition inline_mysql_file_vfprintf :: "'o env \<Rightarrow> src_loc \<Rightarrow> ptr \<Rightarrow> ptr \<Rightarrow> ptr \<Rightarrow> ('o, c_int) prog" where
  "inline_mysql_file_vfprintf E src file format args = (let body = on_stream file (\<lambda>f. vfprintf E f format args) in
     instrumented E (stream file PSI_FILE_WRITE) (\<lambda>locker. waited locker (start_file_wait 0 src) body
       (\<lambda>result. returnP (end_file_wait (ucast result)))) body)"

definition inline_mysql_file_fflush :: "'o env \<Rightarrow> src_loc \<Rightarrow> ptr \<Rightarrow> ('o, c_int) prog" where
  "inline_mysql_file_fflush E src file = (let body = on_stream file (fflush E) in
     instrumented E (stream file PSI_FILE_FLUSH) (\<lambda>locker. waited locker (start_file_wait 0 src) body
       (\<lambda>result. returnP (end_file_wait 0))) body)"

definition inline_mysql_file_feof :: "'o env \<Rightarrow> ptr \<Rightarrow> ('o, c_int) prog" where
  "inline_mysql_file_feof E file = on_stream file (feof E)"

text \<open>Opening a stream: the \<open>MYSQL_FILE\<close> is allocated before the file is opened, and freed when that fails.\<close>

definition allocate :: "'o env \<Rightarrow> ('o, ptr) prog" where
  "allocate E s = (let (p, o') = my_malloc E 0 8 MY_WME (os s) in
     Inr (p, s\<lparr>os := o', heap := (if p = 0 then heap s else (heap s)(p \<mapsto> \<lparr>m_file = None, m_psi = None\<rparr>))\<rparr>))"

definition release :: "'o env \<Rightarrow> ptr \<Rightarrow> ('o, unit) prog" where
  "release E p s = bindE (deref p s) (\<lambda>_. Inr ((), s\<lparr>os := my_free E p (os s), heap := (heap s)(p := None)\<rparr>))"

definition end_open :: "'o env \<Rightarrow> ptr \<Rightarrow> ptr \<Rightarrow> ('o, ptr) prog" where
  "end_open E locker result s = (let cs = calls s @ [End locker (end_file_open_wait result)]
     in Inr (psi_file_of E cs, s\<lparr>calls := cs\<rparr>))"

definition inline_mysql_file_fopen :: "'o env \<Rightarrow> 32 word \<Rightarrow> src_loc \<Rightarrow> ptr \<Rightarrow> c_int \<Rightarrow> c_int \<Rightarrow> ('o, ptr) prog" where
  "inline_mysql_file_fopen E key src filename flags myFlags = bindP (allocate E) (\<lambda>that.
     if that \<noteq> 0 then instrumented E
       (returnP (get_thread_file_name_locker key PSI_FILE_STREAM_OPEN filename (Address_of_file that)))
       (\<lambda>locker. bindP (psi (Start locker (start_file_open_wait src))) (\<lambda>_.
         bindP (sys (my_fopen E filename flags myFlags)) (\<lambda>f.
         bindP (update_file (m_file_update (\<lambda>_. Some f)) that) (\<lambda>_.
         bindP (end_open E locker f) (\<lambda>p.
         bindP (update_file (m_psi_update (\<lambda>_. Some p)) that) (\<lambda>_.
         bindP (read_field m_file that) (\<lambda>f.
         if f = 0 then bindP (release E that) (\<lambda>_. returnP 0) else returnP that)))))))
       (bindP (update_file (m_psi_update (\<lambda>_. Some 0)) that) (\<lambda>_.
         bindP (sys (my_fopen E filename flags myFlags)) (\<lambda>f.
         bindP (update_file (m_file_update (\<lambda>_. Some f)) that) (\<lambda>_.
         bindP (read_field m_file that) (\<lambda>f.
         if f = 0 then bindP (release E that) (\<lambda>_. returnP 0) else returnP that)))))
     else returnP that)"

definition inline_mysql_file_fclose :: "'o env \<Rightarrow> src_loc \<Rightarrow> ptr \<Rightarrow> c_int \<Rightarrow> ('o, c_int) prog" where
  "inline_mysql_file_fclose E src file flags = (if file \<noteq> 0 then
     let body = on_stream file (\<lambda>f. my_fclose E f flags) in
     instrumented E (stream file PSI_FILE_STREAM_CLOSE)
       (\<lambda>locker. bindP (waited locker (start_file_close_wait src) body (\<lambda>result. returnP (end_file_close_wait result)))
         (\<lambda>result. bindP (release E file) (\<lambda>_. returnP result)))
       (bindP body (\<lambda>result. bindP (release E file) (\<lambda>_. returnP result)))
     else returnP 0)"

definition inline_mysql_file_fread :: "'o env \<Rightarrow> src_loc \<Rightarrow> ptr \<Rightarrow> ptr \<Rightarrow> size_t \<Rightarrow> c_int \<Rightarrow> ('o, size_t) prog" where
  "inline_mysql_file_fread E src file buffer count flags = (let body = on_stream file (\<lambda>f. my_fread E f buffer count flags) in
     instrumented E (stream file PSI_FILE_READ) (\<lambda>locker. waited locker (start_file_wait count src) body
       (\<lambda>result. returnP (end_file_wait (bytes_done flags count result)))) body)"

definition inline_mysql_file_fwrite :: "'o env \<Rightarrow> src_loc \<Rightarrow> ptr \<Rightarrow> ptr \<Rightarrow> size_t \<Rightarrow> c_int \<Rightarrow> ('o, size_t) prog" where
  "inline_mysql_file_fwrite E src file buffer count flags = (let body = on_stream file (\<lambda>f. my_fwrite E f buffer count flags) in
     instrumented E (stream file PSI_FILE_WRITE) (\<lambda>locker. waited locker (start_file_wait count src) body
       (\<lambda>result. returnP (end_file_wait (bytes_done flags count result)))) body)"

definition inline_mysql_file_fseek :: "'o env \<Rightarrow> src_loc \<Rightarrow> ptr \<Rightarrow> my_off_t \<Rightarrow> c_int \<Rightarrow> c_int \<Rightarrow> ('o, my_off_t) prog" where
  "inline_mysql_file_fseek E src file pos whence flags = (let body = on_stream file (\<lambda>f. my_fseek E f pos whence flags) in
     instrumented E (stream file PSI_FILE_SEEK) (\<lambda>locker. waited locker (start_file_wait 0 src) body
       (\<lambda>result. returnP (end_file_wait 0))) body)"

definition inline_mysql_file_ftell :: "'o env \<Rightarrow> src_loc \<Rightarrow> ptr \<Rightarrow> c_int \<Rightarrow> ('o, my_off_t) prog" where
  "inline_mysql_file_ftell E src file flags = (let body = on_stream file (\<lambda>f. my_ftell E f flags) in
     instrumented E (stream file PSI_FILE_TELL) (\<lambda>locker. waited locker (start_file_wait 0 src) body
       (\<lambda>result. returnP (end_file_wait 0))) body)"

text \<open>File descriptors.\<close>

definition inline_mysql_file_fstat :: "'o env \<Rightarrow> src_loc \<Rightarrow> c_int \<Rightarrow> ptr \<Rightarrow> c_int \<Rightarrow> ('o, c_int) prog" where
  "inline_mysql_file_fstat E src filenr stat_area flags = (let body = sys (my_fstat E filenr stat_area flags) in
     instrumented E (descriptor filenr PSI_FILE_FSTAT) (\<lambda>locker. waited locker (start_file_wait 0 src) body
       (\<lambda>result. returnP (end_file_wait 0))) body)"

text \<open>The new length is cut to the width of \<open>size_t\<close>.\<close>

definition inline_mysql_file_chsize :: "'o env \<Rightarrow> src_loc \<Rightarrow> c_int \<Rightarrow> my_off_t \<Rightarrow> c_int \<Rightarrow> c_int \<Rightarrow> ('o, c_int) prog" where
  "inline_mysql_file_chsize E src file newlength filler flags = (let body = sys (my_chsize E file newlength filler flags) in
     instrumented E (descriptor file PSI_FILE_CHSIZE) (\<lambda>locker. waited locker (start_file_wait (ucast newlength) src) body
       (\<lambda>result. returnP (end_file_wait (ucast newlength)))) body)"

definition inline_mysql_file_close :: "'o env \<Rightarrow> src_loc \<Rightarrow> c_int \<Rightarrow> c_int \<Rightarrow> ('o, c_int) prog" where
  "inline_mysql_file_close E src file flags = (let body = sys (my_close E file flags) in
     instrumented E (descriptor file PSI_FILE_CLOSE) (\<lambda>locker. waited locker (start_file_close_wait src) body
       (\<lambda>result. returnP (end_file_close_wait result))) body)"

definition inline_mysql_file_read :: "'o env \<Rightarrow> src_loc \<Rightarrow> c_int \<Rightarrow> ptr \<Rightarrow> size_t \<Rightarrow> c_int \<Rightarrow> ('o, size_t) prog" where
  "inline_mysql_file_read E src file buffer count flags = (let body = sys (my_read E file buffer count flags) in
     instrumented E (descriptor file PSI_FILE_READ) (\<lambda>locker. waited locker (start_file_wait count src) body
       (\<lambda>result. returnP (end_file_wait (bytes_done flags count result)))) body)"

definition inline_mysql_file_write :: "'o env \<Rightarrow> src_loc \<Rightarrow> c_int \<Rightarrow> ptr \<Rightarrow> size_t \<Rightarrow> c_int \<Rightarrow> ('o, size_t) prog" where
  "inline_mysql_file_write E src file buffer count flags = (let body = sys (my_write E file buffer count flags) in
     instrumented E (descriptor file PSI_FILE_WRITE) (\<lambda>locker. waited locker (start_file_wait count src) body
       (\<lambda>result. returnP (end_file_wait (bytes_done flags count result)))) body)"

definition inline_mysql_file_pread :: "'o env \<Rightarrow> src_loc \<Rightarrow> c_int \<Rightarrow> ptr \<Rightarrow> size_t \<Rightarrow> my_off_t \<Rightarrow> c_int \<Rightarrow> ('o, size_t) prog" where
  "inline_mysql_file_pread E src file buffer count offset flags = (let body = sys (my_pread E file buffer count offset flags) in
     instrumented E (descriptor file PSI_FILE_READ) (\<lambda>locker. waited locker (start_file_wait count src) body
       (\<lambda>result. returnP (end_file_wait (bytes_done flags count result)))) body)"

definition inline_mysql_file_pwrite :: "'o env \<Rightarrow> src_loc \<Rightarrow> c_int \<Rightarrow> ptr \<Rightarrow> size_t \<Rightarrow> my_off_t \<Rightarrow> c_int \<Rightarrow> ('o, size_t) prog" where
  "inline_mysql_file_pwrite E src file buffer count offset flags = (let body = sys (my_pwrite E file buffer count offset flags) in
     instrumented E (descriptor file PSI_FILE_WRITE) (\<lambda>locker. waited locker (start_file_wait count src) body
       (\<lambda>result. returnP (end_file_wait (bytes_done flags count result)))) body)"

definition inline_mysql_file_seek :: "'o env \<Rightarrow> src_loc \<Rightarrow> c_int \<Rightarrow> my_off_t \<Rightarrow> c_int \<Rightarrow> c_int \<Rightarrow> ('o, my_off_t) prog" where
  "inline_mysql_file_seek E src file pos whence flags = (let body = sys (my_seek E file pos whence flags) in
     instrumented E (descriptor file PSI_FILE_SEEK) (\<lambda>locker. waited locker (start_file_wait 0 src) body
       (\<lambda>result. returnP (end_file_wait 0))) body)"

definition inline_mysql_file_tell :: "'o env \<Rightarrow> src_loc \<Rightarrow> c_int \<Rightarrow> c_int \<Rightarrow> ('o, my_off_t) prog" where
  "inline_mysql_file_tell E src file flags = (let body = sys (my_tell E file flags) in
     instrumented E (descriptor file PSI_FILE_TELL) (\<lambda>locker. waited locker (start_file_wait 0 src) body
       (\<lambda>result. returnP (end_file_wait 0))) body)"

definition inline_mysql_file_sync :: "'o env \<Rightarrow> src_loc \<Rightarrow> c_int \<Rightarrow> c_int \<Rightarrow> ('o, c_int) prog" where
  "inline_mysql_file_sync E src fd flags = (let body = sys (my_sync E fd flags) in
     instrumented E (descriptor fd PSI_FILE_SYNC) (\<lambda>locker. waited locker (start_file_wait 0 src) body
       (\<lambda>result. returnP (end_file_wait 0))) body)"

text \<open>Files with a name.\<close>

definition inline_mysql_file_stat :: "'o env \<Rightarrow> 32 word \<Rightarrow> src_loc \<Rightarrow> ptr \<Rightarrow> ptr \<Rightarrow> c_int \<Rightarrow> ('o, ptr) prog" where
  "inline_mysql_file_stat E key src path stat_area flags = (let body = sys (my_stat E path stat_area flags) in
     instrumented E (named key PSI_FILE_STAT path) (\<lambda>locker. waited locker (start_file_open_wait src) body
       (\<lambda>result. returnP (end_file_open_wait result))) body)"

definition inline_mysql_file_create :: "'o env \<Rightarrow> 32 word \<Rightarrow> src_loc \<Rightarrow> ptr \<Rightarrow> c_int \<Rightarrow> c_int \<Rightarrow> c_int \<Rightarrow> ('o, c_int) prog" where
  "inline_mysql_file_create E key src filename create_flags access_flags myFlags = (let body = sys (my_create E filename create_flags access_flags myFlags) in
     instrumented E (named key PSI_FILE_CREATE filename) (\<lambda>locker. waited locker (start_file_open_wait src) body
       (\<lambda>result. returnP (end_file_open_wait_and_bind_to_descriptor result))) body)"

definition inline_mysql_file_create_temp :: "'o env \<Rightarrow> 32 word \<Rightarrow> src_loc \<Rightarrow> ptr \<Rightarrow> ptr \<Rightarrow> ptr \<Rightarrow> c_int \<Rightarrow> c_int \<Rightarrow> ('o, c_int) prog" where
  "inline_mysql_file_create_temp E key src to dir pfx mode myFlags = (let body = sys (create_temp_file E to dir pfx mode myFlags) in
     instrumented E (named key PSI_FILE_CREATE 0) (\<lambda>locker. waited locker (start_file_open_wait src) body
       (\<lambda>result. returnP (end_temp_file_open_wait_and_bind_to_descriptor result to))) body)"

definition inline_mysql_file_open :: "'o env \<Rightarrow> 32 word \<Rightarrow> src_loc \<Rightarrow> ptr \<Rightarrow> c_int \<Rightarrow> c_int \<Rightarrow> ('o, c_int) prog" where
  "inline_mysql_file_open E key src filename flags myFlags = (let body = sys (my_open E filename flags myFlags) in
     instrumented E (named key PSI_FILE_OPEN filename) (\<lambda>locker. waited locker (start_file_open_wait src) body
       (\<lambda>result. returnP (end_file_open_wait_and_bind_to_descriptor result))) body)"

definition inline_mysql_file_delete :: "'o env \<Rightarrow> 32 word \<Rightarrow> src_loc \<Rightarrow> ptr \<Rightarrow> c_int \<Rightarrow> ('o, c_int) prog" where
  "inline_mysql_file_delete E key src name flags = (let body = sys (my_delete E name flags) in
     instrumented E (named key PSI_FILE_DELETE name) (\<lambda>locker. waited locker (start_file_close_wait src) body
       (\<lambda>result. returnP (end_file_close_wait result))) body)"

definition inline_mysql_file_rename :: "'o env \<Rightarrow> 32 word \<Rightarrow> src_loc \<Rightarrow> ptr \<Rightarrow> ptr \<Rightarrow> c_int \<Rightarrow> ('o, c_int) prog" where
  "inline_mysql_file_rename E key src from_name to flags = (let body = sys (my_rename E from_name to flags) in
     instrumented E (named key PSI_FILE_RENAME to) (\<lambda>locker. waited locker (start_file_wait 0 src) body
       (\<lambda>result. returnP (end_file_wait 0))) body)"

definition inline_mysql_file_create_with_symlink :: "'o env \<Rightarrow> 32 word \<Rightarrow> src_loc \<Rightarrow> ptr \<Rightarrow> ptr \<Rightarrow> c_int \<Rightarrow> c_int \<Rightarrow> c_int \<Rightarrow> ('o, c_int) prog" where
  "inline_mysql_file_create_with_symlink E key src linkname filename create_flags access_flags flags = (let body = sys (my_create_with_symlink E linkname filename create_flags access_flags flags) in
     instrumented E (named key PSI_FILE_CREATE filename) (\<lambda>locker. waited locker (start_file_open_wait src) body
       (\<lambda>result. returnP (end_file_open_wait_and_bind_to_descriptor result))) body)"

definition inline_mysql_file_delete_with_symlink :: "'o env \<Rightarrow> 32 word \<Rightarrow> src_loc \<Rightarrow> ptr \<Rightarrow> c_int \<Rightarrow> ('o, c_int) prog" where
  "inline_mysql_file_delete_with_symlink E key src name flags = (let body = sys (my_delete_with_symlink E name flags) in
     instrumented E (named key PSI_FILE_DELETE name) (\<lambda>locker. waited locker (start_file_close_wait src) body
       (\<lambda>result. returnP (end_file_close_wait result))) body)"

definition inline_mysql_file_rename_with_symlink :: "'o env \<Rightarrow> 32 word \<Rightarrow> src_loc \<Rightarrow> ptr \<Rightarrow> ptr \<Rightarrow> c_int \<Rightarrow> ('o, c_int) prog" where
  "inline_mysql_file_rename_with_symlink E key src from_name to flags = (let body = sys (my_rename_with_symlink E from_name to flags) in
     instrumented E (named key PSI_FILE_RENAME to) (\<lambda>locker. waited locker (start_file_wait 0 src) body
       (\<lambda>result. returnP (end_file_wait 0))) body)"

end
