(* ===== verification/Mysql_File_Calls.thy ===== *)
theory Mysql_File_Calls
  imports Mysql_File
begin

text \<open>
  The interface of \<open>mysql_file.h\<close>, one macro per function, and programs that use it: what the plugin
  gets to see of them, and that they cannot tell whether it is there.
\<close>

section \<open>Calls\<close>

text \<open>In the order of the header: the functions of \<open>stdio\<close>; those of \<open>mysys\<close> on streams, with the status and
  the size of files; on file descriptors; on names of files.\<close>

datatype stdio_call =
    mysql_file_register ptr ptr c_int
  | mysql_file_fgets ptr c_int ptr
  | mysql_file_fgetc ptr
  | mysql_file_fputs ptr ptr
  | mysql_file_fputc byte ptr
  | mysql_file_fprintf ptr ptr ptr
  | mysql_file_vfprintf ptr ptr ptr
  | mysql_file_fflush ptr
  | mysql_file_feof ptr

datatype stream_call =
    mysql_file_fstat c_int ptr c_int
  | mysql_file_stat "32 word" ptr ptr c_int
  | mysql_file_chsize c_int my_off_t c_int c_int
  | mysql_file_fopen "32 word" ptr c_int c_int
  | mysql_file_fclose ptr c_int
  | mysql_file_fread ptr ptr size_t c_int
  | mysql_file_fwrite ptr ptr size_t c_int
  | mysql_file_fseek ptr my_off_t c_int c_int
  | mysql_file_ftell ptr c_int

datatype descriptor_call =
    mysql_file_create "32 word" ptr c_int c_int c_int
  | mysql_file_create_temp "32 word" ptr ptr ptr c_int c_int
  | mysql_file_open "32 word" ptr c_int c_int
  | mysql_file_close c_int c_int
  | mysql_file_read c_int ptr size_t c_int
  | mysql_file_write c_int ptr size_t c_int
  | mysql_file_pread c_int ptr size_t my_off_t c_int
  | mysql_file_pwrite c_int ptr size_t my_off_t c_int
  | mysql_file_seek c_int my_off_t c_int c_int
  | mysql_file_tell c_int c_int

datatype name_call =
    mysql_file_delete "32 word" ptr c_int
  | mysql_file_rename "32 word" ptr ptr c_int
  | mysql_file_create_with_symlink "32 word" ptr ptr c_int c_int c_int
  | mysql_file_delete_with_symlink "32 word" ptr c_int
  | mysql_file_rename_with_symlink "32 word" ptr ptr c_int
  | mysql_file_sync c_int c_int

datatype file_call =
    Stdio stdio_call
  | Mysys_Stream stream_call
  | Mysys_Descriptor descriptor_call
  | Mysys_Name name_call

datatype outcome = Unit | Pointer ptr | Integer c_int | Size size_t | Offset my_off_t

definition mapP :: "('a \<Rightarrow> 'b) \<Rightarrow> ('o, 'a) prog \<Rightarrow> ('o, 'b) prog" where
  "mapP f m = bindP m (\<lambda>x. returnP (f x))"

text \<open>The macros add the place of the call, \<open>__FILE__\<close> and \<open>__LINE__\<close>.\<close>

primrec perform_stdio :: "'o env \<Rightarrow> src_loc \<Rightarrow> stdio_call \<Rightarrow> ('o, outcome) prog" where
  "perform_stdio E src (mysql_file_register a b c) = mapP (\<lambda>_. Unit) (inline_mysql_file_register E a b c)"
| "perform_stdio E src (mysql_file_fgets a b c) = mapP Pointer (inline_mysql_file_fgets E src a b c)"
| "perform_stdio E src (mysql_file_fgetc a) = mapP Integer (inline_mysql_file_fgetc E src a)"
| "perform_stdio E src (mysql_file_fputs a b) = mapP Integer (inline_mysql_file_fputs E src a b)"
| "perform_stdio E src (mysql_file_fputc a b) = mapP Integer (inline_mysql_file_fputc E src a b)"
| "perform_stdio E src (mysql_file_fprintf a b c) = mapP Integer (inline_mysql_file_fprintf E a b c)"
| "perform_stdio E src (mysql_file_vfprintf a b c) = mapP Integer (inline_mysql_file_vfprintf E src a b c)"
| "perform_stdio E src (mysql_file_fflush a) = mapP Integer (inline_mysql_file_fflush E src a)"
| "perform_stdio E src (mysql_file_feof a) = mapP Integer (inline_mysql_file_feof E a)"

primrec perform_stream :: "'o env \<Rightarrow> src_loc \<Rightarrow> stream_call \<Rightarrow> ('o, outcome) prog" where
  "perform_stream E src (mysql_file_fstat a b c) = mapP Integer (inline_mysql_file_fstat E src a b c)"
| "perform_stream E src (mysql_file_stat k a b c) = mapP Pointer (inline_mysql_file_stat E k src a b c)"
| "perform_stream E src (mysql_file_chsize a b c d) = mapP Integer (inline_mysql_file_chsize E src a b c d)"
| "perform_stream E src (mysql_file_fopen k a b c) = mapP Pointer (inline_mysql_file_fopen E k src a b c)"
| "perform_stream E src (mysql_file_fclose a b) = mapP Integer (inline_mysql_file_fclose E src a b)"
| "perform_stream E src (mysql_file_fread a b c d) = mapP Size (inline_mysql_file_fread E src a b c d)"
| "perform_stream E src (mysql_file_fwrite a b c d) = mapP Size (inline_mysql_file_fwrite E src a b c d)"
| "perform_stream E src (mysql_file_fseek a b c d) = mapP Offset (inline_mysql_file_fseek E src a b c d)"
| "perform_stream E src (mysql_file_ftell a b) = mapP Offset (inline_mysql_file_ftell E src a b)"

primrec perform_descriptor :: "'o env \<Rightarrow> src_loc \<Rightarrow> descriptor_call \<Rightarrow> ('o, outcome) prog" where
  "perform_descriptor E src (mysql_file_create k a b c d) = mapP Integer (inline_mysql_file_create E k src a b c d)"
| "perform_descriptor E src (mysql_file_create_temp k a b c d e) = mapP Integer (inline_mysql_file_create_temp E k src a b c d e)"
| "perform_descriptor E src (mysql_file_open k a b c) = mapP Integer (inline_mysql_file_open E k src a b c)"
| "perform_descriptor E src (mysql_file_close a b) = mapP Integer (inline_mysql_file_close E src a b)"
| "perform_descriptor E src (mysql_file_read a b c d) = mapP Size (inline_mysql_file_read E src a b c d)"
| "perform_descriptor E src (mysql_file_write a b c d) = mapP Size (inline_mysql_file_write E src a b c d)"
| "perform_descriptor E src (mysql_file_pread a b c d e) = mapP Size (inline_mysql_file_pread E src a b c d e)"
| "perform_descriptor E src (mysql_file_pwrite a b c d e) = mapP Size (inline_mysql_file_pwrite E src a b c d e)"
| "perform_descriptor E src (mysql_file_seek a b c d) = mapP Offset (inline_mysql_file_seek E src a b c d)"
| "perform_descriptor E src (mysql_file_tell a b) = mapP Offset (inline_mysql_file_tell E src a b)"

primrec perform_name :: "'o env \<Rightarrow> src_loc \<Rightarrow> name_call \<Rightarrow> ('o, outcome) prog" where
  "perform_name E src (mysql_file_delete k a b) = mapP Integer (inline_mysql_file_delete E k src a b)"
| "perform_name E src (mysql_file_rename k a b c) = mapP Integer (inline_mysql_file_rename E k src a b c)"
| "perform_name E src (mysql_file_create_with_symlink k a b c d e) = mapP Integer (inline_mysql_file_create_with_symlink E k src a b c d e)"
| "perform_name E src (mysql_file_delete_with_symlink k a b) = mapP Integer (inline_mysql_file_delete_with_symlink E k src a b)"
| "perform_name E src (mysql_file_rename_with_symlink k a b c) = mapP Integer (inline_mysql_file_rename_with_symlink E k src a b c)"
| "perform_name E src (mysql_file_sync a b) = mapP Integer (inline_mysql_file_sync E src a b)"

primrec perform :: "'o env \<Rightarrow> src_loc \<Rightarrow> file_call \<Rightarrow> ('o, outcome) prog" where
  "perform E src (Stdio c) = perform_stdio E src c"
| "perform E src (Mysys_Stream c) = perform_stream E src c"
| "perform E src (Mysys_Descriptor c) = perform_descriptor E src c"
| "perform E src (Mysys_Name c) = perform_name E src c"

text \<open>A program: calls at their places, with all their results. It ends at the first undefined one.\<close>

fun run :: "'o env \<Rightarrow> (src_loc \<times> file_call) list \<Rightarrow> ('o, outcome list) prog" where
  "run E [] = returnP []"
| "run E ((src, c) # cs) = bindP (perform E src c) (\<lambda>r. bindP (run E cs) (\<lambda>rs. returnP (r # rs)))"

end
