(* ===== verification/Mysql_File_Laws.thy ===== *)
theory Mysql_File_Laws
  imports Mysql_File_Calls
begin

text \<open>
  What holds of every call of \<open>mysql_file.h\<close>: without the plugin it does the same, up to what only
  the plugin can see; and the plugin is told of it in a proper wait, or not at all.
\<close>

section \<open>What a program can see\<close>

text \<open>The state of the system, and which streams are open on which file; neither the calls of the plugin
  nor the handles that it left in the \<open>MYSQL_FILE\<close> objects.\<close>

definition seen :: "'o io \<Rightarrow> 'o \<times> (ptr \<Rightarrow> ptr option option)" where
  "seen s = (os s, \<lambda>p. map_option m_file (heap s p))"

definition observe :: "('a \<times> 'o io) res \<Rightarrow> ('a \<times> 'o \<times> (ptr \<Rightarrow> ptr option option)) res" where
  "observe r = (case r of Inl e \<Rightarrow> Inl e | Inr (x, s) \<Rightarrow> Inr (x, seen s))"

lemma observe_simps [simp]: "observe (Inl e) = Inl e" "observe (Inr (x, s)) = Inr (x, seen s)"
  by (simp_all add: observe_def)

lemma observe_cases:
  assumes "observe r = observe r'"
  obtains e where "r = Inl e" "r' = Inl e" | x s s' where "r = Inr (x, s)" "r' = Inr (x, s')" "seen s = seen s'"
  using assms by (cases r; cases r') auto

text \<open>The handles of open streams have been written.\<close>

definition handles_set :: "'o io \<Rightarrow> bool" where
  "handles_set s \<longleftrightarrow> (\<forall>p f. heap s p = Some f \<longrightarrow> m_psi f \<noteq> None)"

lemma seen_calls [simp]: "seen (s\<lparr>calls := cs\<rparr>) = seen s"
  by (simp add: seen_def)

lemma handles_set_simps [simp]: "handles_set (s\<lparr>calls := cs\<rparr>) = handles_set s" "handles_set (s\<lparr>os := x\<rparr>) = handles_set s"
  by (simp_all add: handles_set_def)

lemma seen_iff: "seen s = seen t \<longleftrightarrow> os s = os t \<and> (\<forall>p. map_option m_file (heap s p) = map_option m_file (heap t p))"
  by (simp add: seen_def fun_eq_iff)

lemma seen_os: "seen s = seen t \<Longrightarrow> os s = os t"
  unfolding seen_iff by blast

lemma seen_os_update: "seen s = seen t \<Longrightarrow> seen (s\<lparr>os := x\<rparr>) = seen (t\<lparr>os := x\<rparr>)"
  by (simp add: seen_def)

lemma seen_heap_update:
  assumes "seen s = seen t" "map_option m_file f = map_option m_file g"
  shows "seen (s\<lparr>heap := (heap s)(p := f)\<rparr>) = seen (t\<lparr>heap := (heap t)(p := g)\<rparr>)"
  unfolding seen_iff
proof (intro conjI allI)
  fix q
  have "map_option m_file (heap s q) = map_option m_file (heap t q)" using assms(1) unfolding seen_iff by blast
  with assms(2) show "map_option m_file (heap (s\<lparr>heap := (heap s)(p := f)\<rparr>) q) =
      map_option m_file (heap (t\<lparr>heap := (heap t)(p := g)\<rparr>) q)" by (cases "q = p") simp_all
qed (simp add: seen_os [OF assms(1)])

lemma seen_update:
  assumes "seen s = seen t" "map_option m_file f = map_option m_file g"
  shows "seen (s\<lparr>os := x, heap := (heap s)(p := f)\<rparr>) = seen (t\<lparr>os := x, heap := (heap t)(p := g)\<rparr>)"
  using seen_heap_update [OF seen_os_update [OF assms(1)] assms(2), of x p] by simp

lemma seen_heap:
  assumes "seen s = seen t"
  obtains "heap s p = None" "heap t p = None"
    | f g where "heap s p = Some f" "heap t p = Some g" "m_file f = m_file g"
proof -
  have "map_option m_file (heap s p) = map_option m_file (heap t p)" using assms unfolding seen_iff by blast
  with that show ?thesis by (cases "heap s p"; cases "heap t p") simp_all
qed

section \<open>Steps that do not depend on the plugin\<close>

definition blind :: "('o, 'a) prog \<Rightarrow> bool" where
  "blind m \<longleftrightarrow> (\<forall>s t. seen s = seen t \<longrightarrow> observe (m s) = observe (m t))"

lemma blindI: "(\<And>s t. seen s = seen t \<Longrightarrow> observe (m s) = observe (m t)) \<Longrightarrow> blind m"
  unfolding blind_def by blast

lemma blindD: "blind m \<Longrightarrow> seen s = seen t \<Longrightarrow> observe (m s) = observe (m t)"
  unfolding blind_def by blast

named_theorems blind_intros

lemma blind_return [blind_intros]: "blind (returnP x)"
  by (rule blindI) (simp add: returnP_def)

lemma blind_bind [blind_intros]:
  assumes "blind m" "\<And>x. blind (f x)"
  shows "blind (bindP m f)"
proof (rule blindI)
  fix s t :: "'a io"
  assume "seen s = seen t"
  with assms(1) have "observe (m s) = observe (m t)" by (rule blindD)
  then show "observe (bindP m f s) = observe (bindP m f t)"
    by (cases rule: observe_cases) (auto simp: bindP_def intro: blindD [OF assms(2)])
qed

lemma blind_if [blind_intros]: "blind m \<Longrightarrow> blind n \<Longrightarrow> blind (if b then m else n)"
  by simp

lemma blind_sys [blind_intros]: "blind (sys f)"
proof (rule blindI)
  fix s t :: "'a io"
  assume e: "seen s = seen t"
  show "observe (sys f s) = observe (sys f t)"
    by (simp add: sys_def seen_os [OF e] seen_os_update [OF e] split: prod.split)
qed

lemma blind_m_file [blind_intros]: "blind (read_field m_file p)"
proof (rule blindI)
  fix s t :: "'a io"
  assume e: "seen s = seen t"
  show "observe (read_field m_file p s) = observe (read_field m_file p t)"
    by (rule seen_heap [OF e, of p]) (auto simp: read_field_def deref_def e split: option.splits)
qed

lemma blind_on_stream [blind_intros]: "blind (on_stream p f)"
  unfolding on_stream_def by (intro blind_intros)

lemma blind_update:
  assumes "\<And>f g. m_file f = m_file g \<Longrightarrow> m_file (u f) = m_file (u g)"
  shows "blind (update_file u p)"
proof (rule blindI)
  fix s t :: "'a io"
  assume e: "seen s = seen t"
  show "observe (update_file u p s) = observe (update_file u p t)"
    by (rule seen_heap [OF e, of p]) (auto simp: update_file_def deref_def intro!: seen_heap_update [OF e] assms)
qed

lemma blind_updates [blind_intros]:
  "blind (update_file (m_file_update (\<lambda>_. v)) p)" "blind (update_file (m_psi_update (\<lambda>_. v)) p)"
  by (rule blind_update, simp)+

lemma blind_release [blind_intros]: "blind (release E p)"
proof (rule blindI)
  fix s t :: "'a io"
  assume e: "seen s = seen t"
  show "observe (release E p s) = observe (release E p t)"
    by (rule seen_heap [OF e, of p])
      (auto simp: release_def deref_def seen_os [OF e] intro!: seen_update [OF e])
qed

lemma blind_allocate [blind_intros]: "blind (allocate E)"
proof (rule blindI)
  fix s t :: "'a io"
  assume e: "seen s = seen t"
  show "observe (allocate E s) = observe (allocate E t)"
    by (auto simp: allocate_def seen_os [OF e] split: prod.split intro: seen_update [OF e])
      (use seen_os_update [OF e] in simp)
qed

section \<open>With the plugin and without\<close>

definition plain_env :: "'o env \<Rightarrow> 'o env" where
  "plain_env E = E\<lparr>have_psi := False\<rparr>"

lemma instrumented_plain [simp]: "instrumented (plain_env E) request timed plain = plain"
  by (simp add: instrumented_def plain_env_def)

lemma instrumented_same:
  assumes "(\<exists>q. request s = Inr (q, s)) \<or> (\<exists>e. request s = Inl e \<and> plain s = Inl e)"
    and "\<And>l t. seen t = seen s \<Longrightarrow> observe (timed l t) = observe (plain s)"
    and "blind plain"
  shows "observe (instrumented E request timed plain s) = observe (plain s)"
proof (cases "have_psi E \<and> (\<exists>q. request s = Inr (q, s))")
  case True
  then obtain q where q: "request s = Inr (q, s)" by blast
  let ?t = "s\<lparr>calls := calls s @ [Get_Locker q (locker_of E (calls s) q)]\<rparr>"
  have t: "seen ?t = seen s" by simp
  from q True have "instrumented E request timed plain s =
      (if locker_of E (calls s) q \<noteq> 0 then timed (locker_of E (calls s) q) ?t else plain ?t)"
    by (simp add: instrumented_def bindP_def get_locker_def Let_def)
  with assms(2) [OF t] blindD [OF assms(3) t] show ?thesis by (simp only: split: if_split) blast
next
  case False
  with assms(1) show ?thesis by (auto simp: instrumented_def bindP_def)
qed

lemma waited_same:
  assumes "blind body" "\<And>r t. \<exists>e. stop r t = Inr (e, t)" "seen t = seen s"
  shows "observe (waited l st body stop t) = observe (body s)"
proof -
  have "observe (body (t\<lparr>calls := calls t @ [Start l st]\<rparr>)) = observe (body s)"
    using assms(1) by (rule blindD) (simp add: assms(3))
  then show ?thesis
  proof (cases rule: observe_cases)
    case (2 x u v)
    from assms(2) [of x u] obtain e where "stop x u = Inr (e, u)" by blast
    with 2 show ?thesis by (simp add: waited_def bindP_def psi_def returnP_def)
  qed (simp add: waited_def bindP_def psi_def)
qed

lemma stream_request:
  assumes "handles_set s"
  shows "(\<exists>q. stream file oper s = Inr (q, s)) \<or> (\<exists>e. stream file oper s = Inl e \<and> on_stream file f s = Inl e)"
proof (cases "deref file s")
  case (Inr g)
  then have "m_psi g \<noteq> None" using assms by (auto simp: deref_def handles_set_def split: if_splits option.splits)
  with Inr show ?thesis by (auto simp: stream_def read_field_def bindP_def returnP_def)
qed (simp add: stream_def on_stream_def read_field_def bindP_def)

lemma pure_requests:
  "descriptor fd oper s = Inr (get_thread_file_descriptor_locker fd oper, s)"
  "named key oper name s = Inr (get_thread_file_name_locker key oper name Address_of_locker, s)"
  by (simp_all add: descriptor_def named_def returnP_def)

text \<open>The shapes of the functions.\<close>

lemma stream_same:
  assumes "handles_set s" "\<And>l t. seen t = seen s \<Longrightarrow> observe (timed l t) = observe (on_stream file f s)"
  shows "observe (instrumented E (stream file oper) timed (on_stream file f) s) = observe (on_stream file f s)"
  using stream_request [OF assms(1)] assms(2) blind_on_stream by (rule instrumented_same)

lemma waited_same_value:
  "blind body \<Longrightarrow> seen t = seen s \<Longrightarrow> observe (waited l st body (\<lambda>r. returnP (g r)) t) = observe (body s)"
  by (rule waited_same) (auto simp: returnP_def)

lemma simple_same:
  "handles_set s \<Longrightarrow> observe (instrumented E (stream file oper) (\<lambda>l. waited l st (on_stream file f) (\<lambda>r. returnP (g r)))
     (on_stream file f) s) = observe (on_stream file f s)"
  "observe (instrumented E (descriptor fd oper) (\<lambda>l. waited l st (sys h) (\<lambda>r. returnP (g' r))) (sys h) s) = observe (sys h s)"
  "observe (instrumented E (named key oper name) (\<lambda>l. waited l st (sys h) (\<lambda>r. returnP (g' r))) (sys h) s) = observe (sys h s)"
  by (rule stream_same, assumption, rule waited_same_value, rule blind_on_stream, assumption)
    (rule instrumented_same, simp add: pure_requests, rule waited_same_value, rule blind_sys, assumption, rule blind_sys)+

lemma observe_mapP: "observe (m s) = observe (n t) \<Longrightarrow> observe (mapP f m s) = observe (mapP f n t)"
  by (erule observe_cases) (simp_all add: mapP_def bindP_def returnP_def)

lemma env_plain [simp]:
  "have_psi (plain_env E) = False" "header_file (plain_env E) = header_file E" "my_malloc (plain_env E) = my_malloc E"
  "my_free (plain_env E) = my_free E" "fgets (plain_env E) = fgets E" "fgetc (plain_env E) = fgetc E"
  "fputs (plain_env E) = fputs E" "fputc (plain_env E) = fputc E" "vfprintf (plain_env E) = vfprintf E"
  "fflush (plain_env E) = fflush E" "feof (plain_env E) = feof E" "my_fstat (plain_env E) = my_fstat E"
  "my_stat (plain_env E) = my_stat E" "my_chsize (plain_env E) = my_chsize E" "my_fopen (plain_env E) = my_fopen E"
  "my_fclose (plain_env E) = my_fclose E" "my_fread (plain_env E) = my_fread E" "my_fwrite (plain_env E) = my_fwrite E"
  "my_fseek (plain_env E) = my_fseek E" "my_ftell (plain_env E) = my_ftell E" "my_create (plain_env E) = my_create E"
  "create_temp_file (plain_env E) = create_temp_file E" "my_open (plain_env E) = my_open E"
  "my_close (plain_env E) = my_close E" "my_read (plain_env E) = my_read E" "my_write (plain_env E) = my_write E"
  "my_pread (plain_env E) = my_pread E" "my_pwrite (plain_env E) = my_pwrite E" "my_seek (plain_env E) = my_seek E"
  "my_tell (plain_env E) = my_tell E" "my_delete (plain_env E) = my_delete E" "my_rename (plain_env E) = my_rename E"
  "my_create_with_symlink (plain_env E) = my_create_with_symlink E"
  "my_delete_with_symlink (plain_env E) = my_delete_with_symlink E"
  "my_rename_with_symlink (plain_env E) = my_rename_with_symlink E" "my_sync (plain_env E) = my_sync E"
  by (simp_all add: plain_env_def)

lemma descriptor_calls_same: "observe (perform_descriptor E src c s) = observe (perform_descriptor (plain_env E) src c s)"
  by (cases c; simp only: perform_descriptor.simps; rule observe_mapP)
    (simp_all add: simple_same Let_def inline_mysql_file_create_def inline_mysql_file_create_temp_def inline_mysql_file_open_def
      inline_mysql_file_close_def inline_mysql_file_read_def inline_mysql_file_write_def inline_mysql_file_pread_def
      inline_mysql_file_pwrite_def inline_mysql_file_seek_def inline_mysql_file_tell_def)

lemma named_calls_same: "observe (perform_name E src c s) = observe (perform_name (plain_env E) src c s)"
  by (cases c; simp only: perform_name.simps; rule observe_mapP)
    (simp_all add: simple_same Let_def inline_mysql_file_delete_def inline_mysql_file_rename_def
      inline_mysql_file_create_with_symlink_def inline_mysql_file_delete_with_symlink_def
      inline_mysql_file_rename_with_symlink_def inline_mysql_file_sync_def)

lemma stdio_calls_same:
  assumes h: "handles_set s"
  shows "observe (perform_stdio E src c s) = observe (perform_stdio (plain_env E) src c s)"
proof (cases c)
  case (mysql_file_register a b d)
  then show ?thesis
    by (simp add: mapP_def bindP_def inline_mysql_file_register_def psi_def returnP_def)
next
  case (mysql_file_fgets a b d)
  have "observe (inline_mysql_file_fgets E src a b d s) = observe (on_stream d (fgets E a b) s)"
    unfolding inline_mysql_file_fgets_def Let_def using h
    by (rule stream_same) (rule waited_same [OF blind_on_stream], auto)
  then show ?thesis unfolding mysql_file_fgets perform_stdio.simps
    by (intro observe_mapP) (simp add: inline_mysql_file_fgets_def [of "plain_env E"])
next
  case (mysql_file_fputs a b)
  have "observe (inline_mysql_file_fputs E src a b s) = observe (on_stream b (fputs E a) s)"
    unfolding inline_mysql_file_fputs_def Let_def using h
    by (rule stream_same) (rule waited_same_value [OF blind_on_stream], assumption)
  then show ?thesis unfolding mysql_file_fputs perform_stdio.simps
    by (intro observe_mapP) (simp add: inline_mysql_file_fputs_def [of "plain_env E"])
qed (simp_all only: perform_stdio.simps, (rule observe_mapP,
  simp add: simple_same(1) [OF h] Let_def inline_mysql_file_fgetc_def inline_mysql_file_fputc_def
    inline_mysql_file_fprintf_def inline_mysql_file_vfprintf_def inline_mysql_file_fflush_def
    inline_mysql_file_feof_def)+)

lemma observe_bind:
  assumes "observe (m t) = observe (n s)" "\<And>x. blind (k x)"
  shows "observe (bindP m k t) = observe (bindP n k s)"
  using assms(1) by (cases rule: observe_cases) (auto simp: bindP_def intro: blindD [OF assms(2)])

lemma bindP_Inr: "m s = Inr (x, t) \<Longrightarrow> bindP m k s = k x t"
  by (simp add: bindP_def)

lemma release_plain [simp]: "release (plain_env E) p = release E p"
  by (simp add: release_def fun_eq_iff)

lemma fopen_same: "observe (inline_mysql_file_fopen E key src filename flags myFlags s) =
  observe (inline_mysql_file_fopen (plain_env E) key src filename flags myFlags s)"
proof -
  obtain that o1 where m: "my_malloc E 0 8 MY_WME (os s) = (that, o1)" by fastforce
  show ?thesis
  proof (cases "that = 0")
    case True
    with m show ?thesis by (simp add: inline_mysql_file_fopen_def bindP_def allocate_def)
  next
    case False
    let ?t = "s\<lparr>os := o1, heap := (heap s)(that \<mapsto> \<lparr>m_file = None, m_psi = None\<rparr>)\<rparr>"
    obtain f o2 where f: "my_fopen E filename flags myFlags o1 = (f, o2)" by fastforce
    have a: "allocate E s = Inr (that, ?t)" "allocate (plain_env E) s = Inr (that, ?t)"
      using m False by (simp_all add: allocate_def)
    show ?thesis
      unfolding inline_mysql_file_fopen_def bindP_Inr [of "allocate _", OF a(1)] bindP_Inr [of "allocate _", OF a(2)]
      unfolding if_P [OF False] instrumented_plain env_plain release_plain
    proof (rule instrumented_same)
      fix l t
      assume "seen t = seen ?t"
      then have os: "os t = o1" and h: "map_option m_file (heap t p) = map_option m_file (heap ?t p)" for p
        by (simp_all add: seen_def fun_eq_iff)
      from h [of that] obtain g where g: "heap t that = Some g" by auto
      show "observe (bindP (psi (Start l (start_file_open_wait src))) (\<lambda>_. bindP (sys (my_fopen E filename flags myFlags)) (\<lambda>f.
          bindP (update_file (m_file_update (\<lambda>_. Some f)) that) (\<lambda>_. bindP (end_open E l f) (\<lambda>p.
          bindP (update_file (m_psi_update (\<lambda>_. Some p)) that) (\<lambda>_. bindP (read_field m_file that) (\<lambda>f.
          if f = 0 then bindP (release E that) (\<lambda>_. returnP 0) else returnP that)))))) t) =
        observe (bindP (update_file (m_psi_update (\<lambda>_. Some 0)) that) (\<lambda>_. bindP (sys (my_fopen E filename flags myFlags)) (\<lambda>f.
          bindP (update_file (m_file_update (\<lambda>_. Some f)) that) (\<lambda>_. bindP (read_field m_file that) (\<lambda>f.
          if f = 0 then bindP (release E that) (\<lambda>_. returnP 0) else returnP that)))) ?t)"
        using False f g os h
        by (simp add: bindP_def psi_def sys_def update_file_def deref_def end_open_def Let_def read_field_def
            release_def returnP_def seen_def fun_eq_iff)
    qed (auto simp: returnP_def intro!: blind_intros)
  qed
qed

lemma fclose_same:
  assumes h: "handles_set s"
  shows "observe (inline_mysql_file_fclose E src file flags s) = observe (inline_mysql_file_fclose (plain_env E) src file flags s)"
proof (cases "file = 0")
  case False
  let ?body = "on_stream file (\<lambda>f. my_fclose E f flags)"
  let ?fin = "\<lambda>result. bindP (release E file) (\<lambda>_. returnP result)"
  have "observe (instrumented E (stream file PSI_FILE_STREAM_CLOSE)
      (\<lambda>l. bindP (waited l (start_file_close_wait src) ?body (\<lambda>result. returnP (end_file_close_wait result))) ?fin)
      (bindP ?body ?fin) s) = observe (bindP ?body ?fin s)"
  proof (rule instrumented_same)
    have "(\<exists>q. stream file PSI_FILE_STREAM_CLOSE s = Inr (q, s)) \<or>
        (\<exists>e. stream file PSI_FILE_STREAM_CLOSE s = Inl e \<and> ?body s = Inl e)"
      using h by (rule stream_request)
    then show "(\<exists>q. stream file PSI_FILE_STREAM_CLOSE s = Inr (q, s)) \<or>
        (\<exists>e. stream file PSI_FILE_STREAM_CLOSE s = Inl e \<and> bindP ?body ?fin s = Inl e)"
      by (auto simp: bindP_def [of ?body])
  qed (auto intro!: observe_bind waited_same_value blind_intros)
  with False show ?thesis by (simp add: inline_mysql_file_fclose_def Let_def release_def)
qed (simp add: inline_mysql_file_fclose_def)

lemma stream_calls_same:
  assumes h: "handles_set s"
  shows "observe (perform_stream E src c s) = observe (perform_stream (plain_env E) src c s)"
  by (cases c; simp only: perform_stream.simps; rule observe_mapP)
    (simp_all only: fopen_same [of E] fclose_same [OF h, of E], simp_all add: simple_same(2,3) simple_same(1) [OF h] Let_def inline_mysql_file_fstat_def inline_mysql_file_stat_def
      inline_mysql_file_chsize_def inline_mysql_file_fread_def inline_mysql_file_fwrite_def
      inline_mysql_file_fseek_def inline_mysql_file_ftell_def)

lemma call_same:
  assumes "handles_set s"
  shows "observe (perform E src c s) = observe (perform (plain_env E) src c s)"
  using assms by (cases c) (simp_all only: perform.simps descriptor_calls_same [of E] named_calls_same [of E]
    stdio_calls_same [of _ E] stream_calls_same [of _ E])

section \<open>Programs\<close>

lemmas inline_defs =
  inline_mysql_file_register_def inline_mysql_file_fgets_def inline_mysql_file_fgetc_def inline_mysql_file_fputs_def
  inline_mysql_file_fputc_def inline_mysql_file_fprintf_def inline_mysql_file_vfprintf_def inline_mysql_file_fflush_def
  inline_mysql_file_feof_def inline_mysql_file_fstat_def inline_mysql_file_stat_def inline_mysql_file_chsize_def
  inline_mysql_file_fread_def inline_mysql_file_fwrite_def inline_mysql_file_fseek_def inline_mysql_file_ftell_def
  inline_mysql_file_create_def inline_mysql_file_create_temp_def inline_mysql_file_open_def inline_mysql_file_close_def
  inline_mysql_file_read_def inline_mysql_file_write_def inline_mysql_file_pread_def inline_mysql_file_pwrite_def
  inline_mysql_file_seek_def inline_mysql_file_tell_def inline_mysql_file_delete_def inline_mysql_file_rename_def
  inline_mysql_file_create_with_symlink_def inline_mysql_file_delete_with_symlink_def
  inline_mysql_file_rename_with_symlink_def inline_mysql_file_sync_def

lemma blind_mapP [blind_intros]: "blind m \<Longrightarrow> blind (mapP f m)"
  unfolding mapP_def by (intro blind_intros)

lemma blind_fopen: "blind (inline_mysql_file_fopen (plain_env E) key src filename flags myFlags)"
  unfolding inline_mysql_file_fopen_def instrumented_plain by (intro blind_intros)

lemma blind_fclose: "blind (inline_mysql_file_fclose (plain_env E) src file flags)"
  unfolding inline_mysql_file_fclose_def instrumented_plain Let_def by (intro blind_intros)

lemma blind_stdio: "blind (perform_stdio (plain_env E) src c)"
  by (cases c; simp add: inline_defs Let_def blind_intros)

lemma blind_stream: "blind (perform_stream (plain_env E) src c)"
  by (cases c; simp add: blind_fopen blind_fclose inline_defs Let_def blind_intros)

lemma blind_descriptor: "blind (perform_descriptor (plain_env E) src c)"
  by (cases c; simp add: inline_defs Let_def blind_intros)

lemma blind_name: "blind (perform_name (plain_env E) src c)"
  by (cases c; simp add: inline_defs Let_def blind_intros)

lemma blind_perform: "blind (perform (plain_env E) src c)"
  by (cases c) (simp_all add: blind_stdio blind_stream blind_descriptor blind_name)

text \<open>Every function leaves the handles of open streams set.\<close>

definition keeps_handles :: "('o, 'a) prog \<Rightarrow> bool" where
  "keeps_handles m \<longleftrightarrow> (\<forall>s x t. handles_set s \<longrightarrow> m s = Inr (x, t) \<longrightarrow> handles_set t)"

named_theorems handles_intros

lemma handles_bind [handles_intros]: "keeps_handles m \<Longrightarrow> (\<And>x. keeps_handles (f x)) \<Longrightarrow> keeps_handles (bindP m f)"
  unfolding keeps_handles_def bindP_def bindE_eq_Inr by fast

lemma handles_if [handles_intros]: "keeps_handles m \<Longrightarrow> keeps_handles n \<Longrightarrow> keeps_handles (if b then m else n)"
  by simp

lemma handles_steps [handles_intros]:
  "keeps_handles (returnP x)" "keeps_handles (psi c)" "keeps_handles (sys f)" "keeps_handles (get_locker E q)" "keeps_handles (read_field g p)" "keeps_handles (release E p)"
  by (auto simp: keeps_handles_def returnP_def psi_def sys_def get_locker_def Let_def read_field_def release_def
      bindE_eq_Inr handles_set_def split: prod.splits option.splits if_splits)

lemma handles_stop [handles_intros]: "keeps_handles (\<lambda>s. Inr (f s, s))"
  by (simp add: keeps_handles_def)

lemma handles_compound [handles_intros]:
  "keeps_handles (on_stream p f)" "keeps_handles (stream file oper)" "keeps_handles (descriptor fd oper)" "keeps_handles (named key oper name)"
  unfolding on_stream_def stream_def descriptor_def named_def by (intro handles_intros)+

lemma handles_waited [handles_intros]: "keeps_handles body \<Longrightarrow> (\<And>r. keeps_handles (stop r)) \<Longrightarrow> keeps_handles (waited l st body stop)"
  unfolding waited_def by (intro handles_intros)

lemma handles_instrumented [handles_intros]:
  "keeps_handles request \<Longrightarrow> (\<And>l. keeps_handles (timed l)) \<Longrightarrow> keeps_handles body \<Longrightarrow> keeps_handles (instrumented E request timed body)"
  unfolding instrumented_def by (intro handles_intros)

lemma fopen_cases:
  assumes "my_malloc E 0 8 MY_WME (os s) = (that, o1)"
  obtains t where "inline_mysql_file_fopen E key src filename flags myFlags s = Inr (0, t)" "heap t = heap s" "that = 0"
    | t where "inline_mysql_file_fopen E key src filename flags myFlags s = Inr (0, t)" "heap t = (heap s)(that := None)"
    | t f p where "inline_mysql_file_fopen E key src filename flags myFlags s = Inr (that, t)" "that \<noteq> 0" "f \<noteq> 0"
        "heap t = (heap s)(that \<mapsto> \<lparr>m_file = Some f, m_psi = Some p\<rparr>)"
proof (cases "that = 0")
  case True
  with assms that(1) show ?thesis by (simp add: inline_mysql_file_fopen_def bindP_def allocate_def returnP_def)
next
  case False
  let ?t = "s\<lparr>os := o1, heap := (heap s)(that \<mapsto> \<lparr>m_file = None, m_psi = None\<rparr>)\<rparr>"
  have a: "allocate E s = Inr (that, ?t)" using assms False by (simp add: allocate_def)
  obtain f o2 where f: "my_fopen E filename flags myFlags o1 = (f, o2)" by fastforce
  have "\<exists>r t. inline_mysql_file_fopen E key src filename flags myFlags s = Inr (r, t) \<and>
      (r = 0 \<and> heap t = (heap s)(that := None) \<or>
       r = that \<and> f \<noteq> 0 \<and> (\<exists>p. heap t = (heap s)(that \<mapsto> \<lparr>m_file = Some f, m_psi = Some p\<rparr>)))"
    using False f
    by (simp add: inline_mysql_file_fopen_def bindP_Inr [of "allocate _", OF a] instrumented_def)
      (simp add: bindP_def returnP_def get_locker_def psi_def sys_def update_file_def deref_def end_open_def Let_def
        read_field_def release_def, fast?)
  with False that(2,3) show ?thesis by blast
qed

lemma handles_fopen: "keeps_handles (inline_mysql_file_fopen E key src filename flags myFlags)"
  unfolding keeps_handles_def
proof (intro allI impI)
  fix s t :: "'a io" and x
  assume h: "handles_set s" and r: "inline_mysql_file_fopen E key src filename flags myFlags s = Inr (x, t)"
  obtain that o1 where "my_malloc E 0 8 MY_WME (os s) = (that, o1)" by fastforce
  then show "handles_set t"
    by (cases rule: fopen_cases [where key = key and src = src and filename = filename and flags = flags and myFlags = myFlags])
      (use h r in \<open>auto simp: handles_set_def split: if_splits\<close>)
qed

lemma handles_mapP: "keeps_handles m \<Longrightarrow> keeps_handles (mapP f m)"
  unfolding mapP_def by (intro handles_intros)

lemma handles_fputs: "keeps_handles (inline_mysql_file_fputs E src str file)"
  unfolding inline_mysql_file_fputs_def Let_def
proof (intro handles_intros)
  fix l
  show "keeps_handles (\<lambda>s. waited l (start_file_wait (if str \<noteq> 0 then strlen E str (os s) else 0) src)
      (on_stream file (fputs E str)) (\<lambda>_. returnP (end_file_wait (if str \<noteq> 0 then strlen E str (os s) else 0))) s)"
    unfolding keeps_handles_def
  proof (intro allI impI)
    fix s t :: "'a io" and x
    let ?n = "if str \<noteq> 0 then strlen E str (os s) else 0"
    have "keeps_handles (waited l (start_file_wait ?n src) (on_stream file (fputs E str)) (\<lambda>_. returnP (end_file_wait ?n)))"
      by (intro handles_intros)
    then show "handles_set s \<Longrightarrow> waited l (start_file_wait ?n src) (on_stream file (fputs E str))
        (\<lambda>_. returnP (end_file_wait ?n)) s = Inr (x, t) \<Longrightarrow> handles_set t"
      unfolding keeps_handles_def by blast
  qed
qed

lemma handles_stdio: "keeps_handles (perform_stdio E src c)"
  by (cases c; simp add: handles_mapP handles_fputs; simp add: inline_defs Let_def handles_mapP handles_intros)

lemma handles_fclose: "keeps_handles (inline_mysql_file_fclose E src file flags)"
  unfolding inline_mysql_file_fclose_def Let_def by (intro handles_intros)

lemma handles_stream: "keeps_handles (perform_stream E src c)"
  by (cases c; simp add: handles_mapP handles_fopen handles_fclose; simp add: inline_defs Let_def handles_mapP handles_intros)

lemma handles_descriptor: "keeps_handles (perform_descriptor E src c)"
  by (cases c; simp add: inline_defs Let_def handles_mapP handles_intros)

lemma handles_name: "keeps_handles (perform_name E src c)"
  by (cases c; simp add: inline_defs Let_def handles_mapP handles_intros)

lemma handles_perform: "keeps_handles (perform E src c)"
  by (cases c) (simp_all add: handles_stdio handles_stream handles_descriptor handles_name)

lemma blind_run: "blind (run (plain_env E) cs)"
  by (induction cs) (auto intro!: blind_intros blind_perform)

lemma run_same: "handles_set s \<Longrightarrow> observe (run E cs s) = observe (run (plain_env E) cs s)"
proof (induction cs arbitrary: s)
  case Nil
  show ?case by simp
next
  case (Cons a cs)
  obtain src c where a: "a = (src, c)" by (cases a)
  let ?k = "\<lambda>E r. bindP (run E cs) (\<lambda>rs. returnP (r # rs))"
  from call_same [OF Cons.prems, of E src c] show ?case unfolding a run.simps
  proof (cases rule: observe_cases)
    case (2 x u v)
    have "handles_set u" using handles_perform 2(1) Cons.prems unfolding keeps_handles_def by blast
    from Cons.IH [OF this] have "observe (run E cs u) = observe (run (plain_env E) cs v)"
      using blindD [OF blind_run 2(3)] by metis
    then have "observe (?k E x u) = observe (?k (plain_env E) x v)"
      by (rule observe_bind) (intro blind_intros)
    with 2(1,2) show "observe (bindP (perform E src c) (?k E) s) = observe (bindP (perform (plain_env E) src c) (?k (plain_env E)) s)"
      by (simp add: bindP_Inr [of "perform _ _ _"])
  qed (simp add: bindP_def)
qed

end
