(* ===== verification/Mysql_File_Properties.thy ===== *)
theory Mysql_File_Properties
  imports Mysql_File_Laws
begin

unbundle bit_operations_syntax

text \<open>
  What the performance schema learns about the files: for every call nothing, a request that it turned
  down, or a request and one wait of the kind that belongs to the operation; the numbers of bytes that
  it counts. Then the properties of the file functions.
\<close>

section \<open>The log of a call\<close>

fun operation_of :: "locker_request \<Rightarrow> file_operation" where
  "operation_of (get_thread_file_name_locker _ oper _ _) = oper"
| "operation_of (get_thread_file_stream_locker _ oper) = oper"
| "operation_of (get_thread_file_descriptor_locker _ oper) = oper"

text \<open>Opening and closing have functions of their own, which a file status and a deletion use as well.\<close>

fun proper_wait :: "file_operation \<Rightarrow> wait_start \<Rightarrow> wait_end \<Rightarrow> bool" where
  "proper_wait oper (start_file_open_wait _) (end_file_open_wait _) = (oper \<in> {PSI_FILE_STREAM_OPEN, PSI_FILE_STAT})"
| "proper_wait oper (start_file_open_wait _) (end_file_open_wait_and_bind_to_descriptor _) =
     (oper \<in> {PSI_FILE_CREATE, PSI_FILE_OPEN})"
| "proper_wait oper (start_file_open_wait _) (end_temp_file_open_wait_and_bind_to_descriptor _ _) =
     (oper \<in> {PSI_FILE_CREATE, PSI_FILE_CREATE_TMP})"
| "proper_wait oper (start_file_close_wait _) (end_file_close_wait _) =
     (oper \<in> {PSI_FILE_CLOSE, PSI_FILE_STREAM_CLOSE, PSI_FILE_DELETE})"
| "proper_wait oper (start_file_wait _ _) (end_file_wait _) =
     (oper \<in> {PSI_FILE_READ, PSI_FILE_WRITE, PSI_FILE_SEEK, PSI_FILE_TELL, PSI_FILE_FLUSH, PSI_FILE_FSTAT,
       PSI_FILE_CHSIZE, PSI_FILE_RENAME, PSI_FILE_SYNC})"
| "proper_wait oper _ _ = False"

fun complete_log :: "psi_call list \<Rightarrow> bool" where
  "complete_log [] = True"
| "complete_log [register_file _ _ _] = True"
| "complete_log [Get_Locker q l] = (l = 0)"
| "complete_log [Get_Locker q l, Start l1 a, End l2 b] = (l \<noteq> 0 \<and> l1 = l \<and> l2 = l \<and> proper_wait (operation_of q) a b)"
| "complete_log _ = False"

definition logs :: "(psi_call list \<Rightarrow> bool) \<Rightarrow> ('o, 'a) prog \<Rightarrow> bool" where
  "logs P m \<longleftrightarrow> (\<forall>s x t. m s = Inr (x, t) \<longrightarrow> (\<exists>g. calls t = calls s @ g \<and> P g))"

abbreviation silent :: "('o, 'a) prog \<Rightarrow> bool" where
  "silent m \<equiv> logs (\<lambda>g. g = []) m"

definition waits :: "file_operation \<Rightarrow> ptr \<Rightarrow> ('o, 'a) prog \<Rightarrow> bool" where
  "waits oper l m \<longleftrightarrow> logs (\<lambda>g. \<exists>a b. g = [Start l a, End l b] \<and> proper_wait oper a b) m"

lemma logsI: "(\<And>s x t. m s = Inr (x, t) \<Longrightarrow> \<exists>g. calls t = calls s @ g \<and> P g) \<Longrightarrow> logs P m"
  unfolding logs_def by blast

lemma logsD: "logs P m \<Longrightarrow> m s = Inr (x, t) \<Longrightarrow> \<exists>g. calls t = calls s @ g \<and> P g"
  unfolding logs_def by blast

lemma silentD: "silent m \<Longrightarrow> m s = Inr (x, t) \<Longrightarrow> calls t = calls s"
  unfolding logs_def by fastforce

lemma bindP_eq_Inr: "bindP m f s = Inr y \<longleftrightarrow> (\<exists>x t. m s = Inr (x, t) \<and> f x t = Inr y)"
  by (auto simp: bindP_def bindE_eq_Inr)

named_theorems logs_intros

lemma silent_steps [logs_intros]:
  "silent (returnP x)" "silent (sys f)" "silent (read_field g p)" "silent (update_file u p)" "silent (release E p)"
  "silent (allocate E)" "silent (\<lambda>s. Inr (h s, s))"
  by (rule logsI, auto simp: returnP_def sys_def Let_def read_field_def update_file_def release_def allocate_def
      bindE_eq_Inr split: prod.splits option.splits)+

lemma logs_then_silent:
  assumes "logs P m" "\<And>x. silent (f x)"
  shows "logs P (bindP m f)"
proof (rule logsI)
  fix s y t
  assume "bindP m f s = Inr (y, t)"
  then obtain x u where m: "m s = Inr (x, u)" and f: "f x u = Inr (y, t)" unfolding bindP_eq_Inr by blast
  from logsD [OF assms(1) m] silentD [OF assms(2) f] show "\<exists>g. calls t = calls s @ g \<and> P g" by auto
qed

lemma silent_bind [logs_intros]: "silent m \<Longrightarrow> (\<And>x. silent (f x)) \<Longrightarrow> silent (bindP m f)"
  by (rule logs_then_silent)

lemma silent_if [logs_intros]: "silent m \<Longrightarrow> silent n \<Longrightarrow> silent (if b then m else n)"
  by simp

lemma silent_on_stream [logs_intros]: "silent (on_stream p f)"
  unfolding on_stream_def by (intro logs_intros)

lemma waits_then_silent: "waits oper l m \<Longrightarrow> (\<And>x. silent (f x)) \<Longrightarrow> waits oper l (bindP m f)"
  unfolding waits_def by (rule logs_then_silent)

lemma waits_waited:
  assumes "silent body" "\<And>r s. \<exists>e. stop r s = Inr (e, s) \<and> proper_wait oper st e"
  shows "waits oper l (waited l st body stop)"
  unfolding waits_def
proof (rule logsI)
  fix s x t
  assume "waited l st body stop s = Inr (x, t)"
  then obtain r u e v where b: "body (s\<lparr>calls := calls s @ [Start l st]\<rparr>) = Inr (r, u)" and e: "stop r u = Inr (e, v)"
    and t: "calls t = calls v @ [End l e]"
    by (auto simp: waited_def bindP_eq_Inr psi_def returnP_def)
  from e assms(2) [of r u] have "v = u" "proper_wait oper st e" by auto
  with silentD [OF assms(1) b] t show "\<exists>g. calls t = calls s @ g \<and> (\<exists>a b. g = [Start l a, End l b] \<and> proper_wait oper a b)"
    by auto
qed

lemma waits_value: "silent body \<Longrightarrow> (\<And>r. proper_wait oper st (g r)) \<Longrightarrow> waits oper l (waited l st body (\<lambda>r. returnP (g r)))"
  by (rule waits_waited) (auto simp: returnP_def)

lemma logs_instrumented:
  assumes request: "\<And>s q t. request s = Inr (q, t) \<Longrightarrow> t = s \<and> operation_of q = oper"
    and timed: "\<And>l. waits oper l (timed l)"
    and body: "silent body"
  shows "logs complete_log (instrumented E request timed body)"
proof (rule logsI)
  fix s x t
  assume r: "instrumented E request timed body s = Inr (x, t)"
  show "\<exists>g. calls t = calls s @ g \<and> complete_log g"
  proof (cases "have_psi E")
    case False
    with r have "body s = Inr (x, t)" by (simp add: instrumented_def)
    with silentD [OF body] show ?thesis by fastforce
  next
    case True
    with r obtain q u where q: "request s = Inr (q, u)"
      and c: "bindP (get_locker E q) (\<lambda>l. if l \<noteq> 0 then timed l else body) u = Inr (x, t)"
      by (auto simp: instrumented_def bindP_eq_Inr)
    from request [OF q] have u: "u = s" and oper: "operation_of q = oper" by simp_all
    define l where "l = locker_of E (calls s) q"
    define v where "v = s\<lparr>calls := calls s @ [Get_Locker q l]\<rparr>"
    have "get_locker E q s = Inr (l, v)" by (simp add: get_locker_def Let_def l_def v_def)
    from bindP_Inr [of "get_locker E q", OF this] have b: "(if l \<noteq> 0 then timed l else body) v = Inr (x, t)"
      using c unfolding u by metis
    show ?thesis
    proof (cases "l = 0")
      case True
      with b have "body v = Inr (x, t)" by simp
      from silentD [OF body this] True show ?thesis by (simp add: v_def)
    next
      case False
      with b have "timed l v = Inr (x, t)" by simp
      from logsD [OF timed [of l, unfolded waits_def] this] False oper show ?thesis by (auto simp: v_def)
    qed
  qed
qed

text \<open>The shapes of the functions.\<close>

lemma requests_operation:
  "stream file oper s = Inr (q, t) \<Longrightarrow> t = s \<and> operation_of q = oper"
  "descriptor fd oper s = Inr (q, t) \<Longrightarrow> t = s \<and> operation_of q = oper"
  "named key oper name s = Inr (q, t) \<Longrightarrow> t = s \<and> operation_of q = oper"
  by (auto simp: stream_def descriptor_def named_def returnP_def bindP_eq_Inr read_field_def bindE_eq_Inr split: option.splits)

lemma logs_simple:
  assumes "silent body" "\<And>r. proper_wait oper st (g r)"
  shows "logs complete_log (instrumented E (stream file oper) (\<lambda>l. waited l st body (\<lambda>r. returnP (g r))) body)"
    "logs complete_log (instrumented E (descriptor fd oper) (\<lambda>l. waited l st body (\<lambda>r. returnP (g r))) body)"
    "logs complete_log (instrumented E (named key oper name) (\<lambda>l. waited l st body (\<lambda>r. returnP (g r))) body)"
  by (rule logs_instrumented, erule requests_operation, rule waits_value, rule assms, rule assms, rule assms)+

lemma logs_silent: "silent m \<Longrightarrow> logs complete_log m"
  unfolding logs_def by fastforce

lemma logs_mapP: "logs P m \<Longrightarrow> logs P (mapP f m)"
  unfolding mapP_def by (rule logs_then_silent, assumption, rule logs_intros)

lemma logs_descriptor: "logs complete_log (perform_descriptor E src c)"
  by (cases c; simp add: inline_defs Let_def logs_mapP logs_simple logs_intros)

lemma logs_name: "logs complete_log (perform_name E src c)"
  by (cases c; simp add: inline_defs Let_def logs_mapP logs_simple logs_intros)

lemma logs_fgets: "logs complete_log (inline_mysql_file_fgets E src str n file)"
  unfolding inline_mysql_file_fgets_def Let_def
  by (rule logs_instrumented, erule requests_operation, rule waits_waited, rule silent_on_stream) (auto intro: silent_on_stream)

lemma logs_fputs: "logs complete_log (inline_mysql_file_fputs E src str file)"
  unfolding inline_mysql_file_fputs_def Let_def
proof (rule logs_instrumented, erule requests_operation)
  fix l
  let ?n = "\<lambda>s. if str \<noteq> 0 then strlen E str (os s) else 0"
  have "waits PSI_FILE_WRITE l (waited l (start_file_wait n src) (on_stream file (fputs E str)) (\<lambda>_. returnP (end_file_wait n)))" for n
    by (intro waits_value silent_on_stream) simp
  then show "waits PSI_FILE_WRITE l (\<lambda>s. waited l (start_file_wait (?n s) src) (on_stream file (fputs E str))
      (\<lambda>_. returnP (end_file_wait (?n s))) s)"
    unfolding waits_def logs_def by blast
qed (rule silent_on_stream)

lemma logs_stdio: "logs complete_log (perform_stdio E src c)"
proof (cases c)
  case (mysql_file_register a b n)
  then show ?thesis
    by (auto simp: logs_def mapP_def bindP_eq_Inr inline_mysql_file_register_def psi_def returnP_def)
qed (simp_all add: logs_mapP logs_fgets logs_fputs, simp_all add: inline_defs Let_def logs_mapP logs_simple logs_silent logs_intros)

lemma logs_fclose: "logs complete_log (inline_mysql_file_fclose E src file flags)"
proof (cases "file = 0")
  case False
  have "logs complete_log (instrumented E (stream file PSI_FILE_STREAM_CLOSE)
      (\<lambda>l. bindP (waited l (start_file_close_wait src) (on_stream file (\<lambda>f. my_fclose E f flags))
         (\<lambda>result. returnP (end_file_close_wait result))) (\<lambda>result. bindP (release E file) (\<lambda>_. returnP result)))
      (bindP (on_stream file (\<lambda>f. my_fclose E f flags)) (\<lambda>result. bindP (release E file) (\<lambda>_. returnP result))))"
    by (rule logs_instrumented, erule requests_operation) (auto intro!: waits_then_silent waits_value logs_intros)
  with False show ?thesis by (simp add: inline_mysql_file_fclose_def Let_def)
qed (simp add: inline_mysql_file_fclose_def logs_silent logs_intros)

lemma waits_fopen: "waits PSI_FILE_STREAM_OPEN l (bindP (psi (Start l (start_file_open_wait src))) (\<lambda>_.
    bindP (sys f) (\<lambda>f. bindP (update_file (u f) that) (\<lambda>_. bindP (end_open E l f) (k f)))))"
  if "\<And>f p. silent (k f p)"
  unfolding waits_def
proof (rule logsI)
  fix s x t
  assume "bindP (psi (Start l (start_file_open_wait src))) (\<lambda>_.
    bindP (sys f) (\<lambda>f. bindP (update_file (u f) that) (\<lambda>_. bindP (end_open E l f) (k f)))) s = Inr (x, t)"
  then obtain r v w p z where "sys f (s\<lparr>calls := calls s @ [Start l (start_file_open_wait src)]\<rparr>) = Inr (r, v)"
      "update_file (u r) that v = Inr ((), w)" "end_open E l r w = Inr (p, z)" "k r p z = Inr (x, t)"
    by (auto simp: bindP_eq_Inr psi_def)
  with silentD [OF silent_steps(2)] silentD [OF silent_steps(4)] silentD [OF that]
  have "calls w = calls s @ [Start l (start_file_open_wait src)]" "calls z = calls w @ [End l (end_file_open_wait r)]"
    "calls t = calls z" by (fastforce simp: end_open_def Let_def)+
  then show "\<exists>g. calls t = calls s @ g \<and> (\<exists>a b. g = [Start l a, End l b] \<and> proper_wait PSI_FILE_STREAM_OPEN a b)"
    by auto
qed

lemma logs_silent_first:
  assumes "silent m" "\<And>x. logs P (f x)"
  shows "logs P (bindP m f)"
proof (rule logsI)
  fix s y t
  assume "bindP m f s = Inr (y, t)"
  then obtain x u where m: "m s = Inr (x, u)" and f: "f x u = Inr (y, t)" unfolding bindP_eq_Inr by blast
  from logsD [OF assms(2) f] silentD [OF assms(1) m] show "\<exists>g. calls t = calls s @ g \<and> P g" by auto
qed

lemma logs_if: "logs P m \<Longrightarrow> logs P n \<Longrightarrow> logs P (if b then m else n)"
  by simp

lemma logs_fopen: "logs complete_log (inline_mysql_file_fopen E key src filename flags myFlags)"
  unfolding inline_mysql_file_fopen_def
  by (intro logs_silent_first logs_if logs_instrumented [where oper = PSI_FILE_STREAM_OPEN] waits_fopen)
    (auto intro!: logs_silent logs_intros simp: returnP_def)

lemma logs_stream: "logs complete_log (perform_stream E src c)"
  by (cases c; simp add: logs_mapP logs_fopen logs_fclose; simp add: inline_defs Let_def logs_mapP logs_simple logs_intros)

lemma logs_perform: "logs complete_log (perform E src c)"
  by (cases c) (simp_all add: logs_stdio logs_stream logs_descriptor logs_name)

lemma run_log: "run E cs s = Inr (rs, t) \<Longrightarrow>
  \<exists>gs. calls t = calls s @ concat gs \<and> length gs = length cs \<and> list_all complete_log gs"
proof (induction cs arbitrary: s rs)
  case Nil
  then show ?case by (simp add: returnP_def)
next
  case (Cons a cs)
  obtain src c where a: "a = (src, c)" by (cases a)
  from Cons.prems obtain x u ys where p: "perform E src c s = Inr (x, u)" and r: "run E cs u = Inr (ys, t)"
    unfolding a run.simps bindP_eq_Inr by (auto simp: returnP_def)
  from logsD [OF logs_perform p] obtain g where "calls u = calls s @ g" "complete_log g" by blast
  with Cons.IH [OF r] obtain gs where "calls t = calls s @ concat (g # gs)" "length (g # gs) = length (a # cs)"
      "list_all complete_log (g # gs)" by auto
  then show ?case by blast
qed

section \<open>Opening and closing\<close>

lemma fclose_open:
  assumes "heap s p = Some \<lparr>m_file = Some f, m_psi = Some q\<rparr>" "p \<noteq> 0"
  obtains x u where "inline_mysql_file_fclose E src p flags s = Inr (x, u)" "heap u = (heap s)(p := None)"
proof -
  obtain x o' where c: "my_fclose E f flags (os s) = (x, o')" by fastforce
  have "\<exists>u. inline_mysql_file_fclose E src p flags s = Inr (x, u) \<and> heap u = (heap s)(p := None)"
    using assms c
    by (simp add: inline_mysql_file_fclose_def instrumented_def Let_def)
      (simp add: bindP_def stream_def on_stream_def returnP_def get_locker_def psi_def sys_def deref_def read_field_def
        release_def waited_def Let_def)
  with that show ?thesis by blast
qed

section \<open>An example\<close>

text \<open>A system that has one open descriptor and file, and in which printing fails. Its state is the next free address.\<close>

definition demo_env :: "nat env" where
  "demo_env = \<lparr>have_psi = True, header_file = 900, locker_of = (\<lambda>cs q. length cs + 1), psi_file_of = (\<lambda>cs. 77),
     my_malloc = (\<lambda>k n f a. (a, a + unat n)), my_free = (\<lambda>p a. a), strlen = (\<lambda>p a. 5), fgets = (\<lambda>b n f a. (b, a)),
     fgetc = (\<lambda>f a. (65, a)), fputs = (\<lambda>p f a. (1, a)), fputc = (\<lambda>b f a. (ucast b, a)),
     vfprintf = (\<lambda>f p v a. (- 1, a)), fflush = (\<lambda>f a. (0, a)), feof = (\<lambda>f a. (0, a)),
     my_fstat = (\<lambda>fd p f a. (0, a)), my_stat = (\<lambda>n p f a. (p, a)), my_chsize = (\<lambda>fd n c f a. (0, a)),
     my_fopen = (\<lambda>n g f a. (a, a + 100)), my_fclose = (\<lambda>p f a. (0, a)), my_fread = (\<lambda>p b n f a. (n, a)),
     my_fwrite = (\<lambda>p b n f a. (n, a)), my_fseek = (\<lambda>p n w f a. (n, a)), my_ftell = (\<lambda>p f a. (0, a)),
     my_create = (\<lambda>n c g f a. (3, a)), create_temp_file = (\<lambda>t d p m f a. (3, a)), my_open = (\<lambda>n g f a. (3, a)),
     my_close = (\<lambda>fd f a. (0, a)), my_read = (\<lambda>fd b n f a. (n - 1, a)), my_write = (\<lambda>fd b n f a. (n, a)),
     my_pread = (\<lambda>fd b n k f a. (n, a)), my_pwrite = (\<lambda>fd b n k f a. (n, a)), my_seek = (\<lambda>fd n w f a. (n, a)),
     my_tell = (\<lambda>fd f a. (0, a)), my_delete = (\<lambda>n f a. (0, a)), my_rename = (\<lambda>n m f a. (0, a)),
     my_create_with_symlink = (\<lambda>l n c g f a. (3, a)), my_delete_with_symlink = (\<lambda>n f a. (0, a)),
     my_rename_with_symlink = (\<lambda>n m f a. (0, a)), my_sync = (\<lambda>fd f a. (0, a))\<rparr>"

definition demo_io :: "nat io" where
  "demo_io = \<lparr>calls = [], heap = Map.empty, os = 1000\<rparr>"

text \<open>The stream is opened at address 1000, a line is read from it, and it is closed.\<close>

definition demo_program :: "(src_loc \<times> file_call) list" where
  "demo_program = [((1, 10), Mysys_Stream (mysql_file_fopen 5 20 0 0)), ((1, 11), Stdio (mysql_file_fgets 30 80 1000)),
     ((1, 12), Mysys_Stream (mysql_file_fclose 1000 0))]"

lemmas step_defs = bindP_def returnP_def psi_def sys_def get_locker_def deref_def read_field_def update_file_def
  instrumented_def waited_def stream_def descriptor_def named_def on_stream_def allocate_def release_def end_open_def
  mapP_def

text \<open>The documented results of \<open>my_read\<close>.\<close>

definition transfer_result :: "c_int \<Rightarrow> size_t \<Rightarrow> size_t \<Rightarrow> bool" where
  "transfer_result flags count r \<longleftrightarrow>
     r = MY_FILE_ERROR \<or> (if flags AND (MY_NABP OR MY_FNABP) \<noteq> 0 then r = 0 else r \<le> count)"

section \<open>Properties\<close>

text \<open>C29: A program that uses the files cannot tell whether the performance schema is compiled in and what
  it answers: every function returns the same, and leaves the system and the open streams in the same
  state, as in the build without it. Undefined behaviour is the same, too.\<close>

theorem instrumentation_transparent:
  assumes "handles_set s"
  shows "observe (run E cs s) = observe (run (plain_env E) cs s)"
  using assms by (rule run_same)

theorem instrumentation_transparent_witness:
  "observe (run demo_env demo_program demo_io) = Inr ([Pointer 1000, Pointer 30, Integer 0], 1108, \<lambda>p. None)"
proof -
  have "handles_set demo_io" by (simp add: handles_set_def demo_io_def)
  then have "observe (run demo_env demo_program demo_io) = observe (run (plain_env demo_env) demo_program demo_io)"
    by (rule instrumentation_transparent)
  also have "\<dots> = Inr ([Pointer 1000, Pointer 30, Integer 0], 1108, \<lambda>p. None)"
    unfolding demo_program_def run.simps perform.simps perform_stream.simps perform_stdio.simps inline_mysql_file_fopen_def
      inline_mysql_file_fgets_def inline_mysql_file_fclose_def Let_def instrumented_plain
    by (simp add: step_defs demo_env_def demo_io_def seen_def)
  finally show ?thesis .
qed

text \<open>C30: Each call adds to what the plugin sees either nothing (in the build without it), or a request
  that it turns down, or a request with the start and the end of one wait, in this order, for the
  locker it gave, with functions that belong to the operation. No wait is left open, on any path of any
  function.\<close>

theorem file_waits_complete:
  assumes "run E cs s = Inr (rs, t)"
  shows "\<exists>gs. calls t = calls s @ concat gs \<and> length gs = length cs \<and> list_all complete_log gs"
  using assms by (rule run_log)

theorem file_waits_complete_witness:
  "\<exists>gs. [Get_Locker (get_thread_file_descriptor_locker 3 PSI_FILE_CLOSE) 1, Start 1 (start_file_close_wait (1, 10)),
      End 1 (end_file_close_wait 0)] = [] @ concat gs \<and> length gs = 1 \<and> list_all complete_log gs"
proof -
  have "run demo_env [((1, 10), Mysys_Descriptor (mysql_file_close 3 0))] demo_io = Inr ([Integer 0],
    demo_io\<lparr>calls := [Get_Locker (get_thread_file_descriptor_locker 3 PSI_FILE_CLOSE) 1,
      Start 1 (start_file_close_wait (1, 10)), End 1 (end_file_close_wait 0)]\<rparr>)"
    by (simp add: inline_mysql_file_close_def Let_def) (simp add: step_defs demo_env_def demo_io_def)
  from file_waits_complete [OF this] show ?thesis by (simp add: demo_io_def)
qed

text \<open>When \<open>my_read\<close> keeps to its documentation (0 or \<open>MY_FILE_ERROR\<close> with \<open>MY_NABP\<close> or \<open>MY_FNABP\<close>, the
  number of bytes or \<open>MY_FILE_ERROR\<close> without), \<open>mysql_file_read\<close> returns what it returns, and the plugin is
  told the number of bytes that were asked for, and then the number that were read: never more, and none
  when the call failed.\<close>

theorem read_bytes_counted:
  assumes "have_psi E" "l \<noteq> 0" "locker_of E (calls s) (get_thread_file_descriptor_locker fd PSI_FILE_READ) = l"
    and "my_read E fd buffer count flags (os s) = (r, o')" "transfer_result flags count r"
  shows "\<exists>n. inline_mysql_file_read E src fd buffer count flags s = Inr (r, s\<lparr>os := o', calls := calls s @
      [Get_Locker (get_thread_file_descriptor_locker fd PSI_FILE_READ) l, Start l (start_file_wait count src),
       End l (end_file_wait n)]\<rparr>) \<and>
    n = (if r = MY_FILE_ERROR then 0 else if flags AND (MY_NABP OR MY_FNABP) \<noteq> 0 then count else r) \<and> n \<le> count"
proof (intro exI [of _ "bytes_done flags count r"] conjI)
  show "inline_mysql_file_read E src fd buffer count flags s = Inr (r, s\<lparr>os := o', calls := calls s @
      [Get_Locker (get_thread_file_descriptor_locker fd PSI_FILE_READ) l, Start l (start_file_wait count src),
       End l (end_file_wait (bytes_done flags count r))]\<rparr>)"
    using assms(1-4) by (simp add: inline_mysql_file_read_def Let_def) (simp add: step_defs)
  show "bytes_done flags count r = (if r = MY_FILE_ERROR then 0 else if flags AND (MY_NABP OR MY_FNABP) \<noteq> 0 then count else r)"
    using assms(5) by (auto simp: transfer_result_def bytes_done_def MY_FILE_ERROR_def)
  show "bytes_done flags count r \<le> count"
    using assms(5) by (auto simp: transfer_result_def bytes_done_def MY_FILE_ERROR_def split: if_splits)
qed

theorem read_bytes_counted_witness:
  "\<exists>n. inline_mysql_file_read demo_env (1, 10) 3 30 8 0 demo_io = Inr (7, demo_io\<lparr>os := 1000, calls := calls demo_io @
      [Get_Locker (get_thread_file_descriptor_locker 3 PSI_FILE_READ) 1, Start 1 (start_file_wait 8 (1, 10)),
       End 1 (end_file_wait n)]\<rparr>) \<and> n = 7 \<and> n \<le> 8"
  using read_bytes_counted [of demo_env 1 demo_io 3 30 8 0 7 1000 "(1, 10)"]
  by (simp add: demo_env_def demo_io_def transfer_result_def MY_FILE_ERROR_def)

text \<open>Opening a stream never fails with undefined behaviour; when it does not succeed, nothing stays
  allocated, whichever of its steps failed; when it succeeds, \<open>mysql_file_fclose\<close> can close it and frees
  what it allocated.\<close>

theorem fopen_fclose:
  assumes "heap s (fst (my_malloc E 0 8 MY_WME (os s))) = None"
  shows "\<exists>r t. inline_mysql_file_fopen E key src filename flags myFlags s = Inr (r, t) \<and>
    (if r = 0 then heap t = heap s
     else \<exists>x u. inline_mysql_file_fclose E src' r flags' t = Inr (x, u) \<and> heap u = heap s)"
proof -
  obtain that o1 where m: "my_malloc E 0 8 MY_WME (os s) = (that, o1)" by fastforce
  with assms have n: "(heap s)(that := None) = heap s" by auto
  from m show ?thesis
  proof (cases rule: fopen_cases [where key = key and src = src and filename = filename and flags = flags and myFlags = myFlags])
    case (3 t f p)
    then have "heap t that = Some \<lparr>m_file = Some f, m_psi = Some p\<rparr>" by simp
    then obtain x u where "inline_mysql_file_fclose E src' that flags' t = Inr (x, u)" "heap u = (heap t)(that := None)"
      using 3(2) by (rule fclose_open)
    with 3 n show ?thesis by auto
  qed (use n in auto)
qed

theorem fopen_fclose_witness:
  "\<exists>r t. inline_mysql_file_fopen demo_env 5 (1, 10) 20 0 0 demo_io = Inr (r, t) \<and>
    (if r = 0 then heap t = heap demo_io
     else \<exists>x u. inline_mysql_file_fclose demo_env (1, 12) r 0 t = Inr (x, u) \<and> heap u = heap demo_io)"
  using fopen_fclose [of demo_io demo_env 5 "(1, 10)" 20 0 0 "(1, 12)" 0] by (simp add: demo_io_def demo_env_def)

end
