(* ===== verification/Mysql_Mutex.thy ===== *)
theory Mysql_Mutex
  imports Mym_Prelude
begin

text \<open>
  The mutexes of \<open>thr_mutex.h\<close> of the MySQL connector. On Windows they are critical sections, which a
  thread may enter again that is in already; on other systems they are POSIX mutexes of the normal kind,
  which it may not. With \<open>SAFE_MUTEX\<close> the functions of the debug library are called instead. The
  functions of the systems and of the debug library are parameters; a function that makes its
  caller wait has the result \<open>None\<close>.
\<close>

type_synonym c_result = "32 word"

definition EBUSY :: c_result where "EBUSY = 16"

text \<open>\<open>held_by\<close> is not a function of the systems: the thread that has the mutex, and how often.\<close>

record ('a, 'm) mutex_api =
  windows_mutex :: bool
  safe_mutex_build :: bool
  held_by :: "'m \<Rightarrow> (nat \<times> nat) option"
  InitializeCriticalSection :: "'m \<Rightarrow> 'm"
  EnterCriticalSection :: "nat \<Rightarrow> 'm \<Rightarrow> 'm option"
  TryEnterCriticalSection :: "nat \<Rightarrow> 'm \<Rightarrow> bool \<times> 'm"
  RecursionCount :: "'m \<Rightarrow> nat"
  LeaveCriticalSection :: "nat \<Rightarrow> 'm \<Rightarrow> 'm"
  DeleteCriticalSection :: "'m \<Rightarrow> 'm"
  pthread_mutex_init :: "'a \<Rightarrow> 'm \<Rightarrow> c_result \<times> 'm"
  pthread_mutex_lock :: "nat \<Rightarrow> 'm \<Rightarrow> (c_result \<times> 'm) option"
  pthread_mutex_trylock :: "nat \<Rightarrow> 'm \<Rightarrow> c_result \<times> 'm"
  pthread_mutex_unlock :: "nat \<Rightarrow> 'm \<Rightarrow> c_result \<times> 'm"
  pthread_mutex_destroy :: "'m \<Rightarrow> c_result \<times> 'm"
  safe_mutex_init :: "'a \<Rightarrow> nat \<Rightarrow> 32 word \<Rightarrow> 'm \<Rightarrow> c_result \<times> 'm"
  safe_mutex_lock :: "nat \<Rightarrow> bool \<Rightarrow> nat \<Rightarrow> 32 word \<Rightarrow> 'm \<Rightarrow> (c_result \<times> 'm) option"
  safe_mutex_unlock :: "nat \<Rightarrow> nat \<Rightarrow> 32 word \<Rightarrow> 'm \<Rightarrow> c_result \<times> 'm"
  safe_mutex_destroy :: "nat \<Rightarrow> 32 word \<Rightarrow> 'm \<Rightarrow> c_result \<times> 'm"

section \<open>Native mutexes\<close>

definition native_mutex_init :: "('a, 'm) mutex_api \<Rightarrow> 'a \<Rightarrow> 'm \<Rightarrow> c_result \<times> 'm" where
  "native_mutex_init A attr m = (if windows_mutex A then (0, InitializeCriticalSection A m)
     else pthread_mutex_init A attr m)"

definition native_mutex_lock :: "('a, 'm) mutex_api \<Rightarrow> nat \<Rightarrow> 'm \<Rightarrow> (c_result \<times> 'm) option" where
  "native_mutex_lock A self m = (if windows_mutex A then map_option (Pair 0) (EnterCriticalSection A self m)
     else pthread_mutex_lock A self m)"

definition native_mutex_trylock :: "('a, 'm) mutex_api \<Rightarrow> nat \<Rightarrow> 'm \<Rightarrow> c_result \<times> 'm" where
  "native_mutex_trylock A self m = (if windows_mutex A
     then (let (entered, m) = TryEnterCriticalSection A self m in
       if entered
       then if RecursionCount A m > 1 then (EBUSY, LeaveCriticalSection A self m) else (0, m)
       else (EBUSY, m))
     else pthread_mutex_trylock A self m)"

definition native_mutex_unlock :: "('a, 'm) mutex_api \<Rightarrow> nat \<Rightarrow> 'm \<Rightarrow> c_result \<times> 'm" where
  "native_mutex_unlock A self m = (if windows_mutex A then (0, LeaveCriticalSection A self m)
     else pthread_mutex_unlock A self m)"

definition native_mutex_destroy :: "('a, 'm) mutex_api \<Rightarrow> 'm \<Rightarrow> c_result \<times> 'm" where
  "native_mutex_destroy A m = (if windows_mutex A then (0, DeleteCriticalSection A m) else pthread_mutex_destroy A m)"

section \<open>Mutexes, checked in debug builds\<close>

record safe_mutex =
  count :: "32 word"
  thread :: nat

text \<open>The assertions of the debug build, that hold for a thread or end the program.\<close>

definition safe_mutex_assert_owner :: "nat \<Rightarrow> safe_mutex \<Rightarrow> unit res" where
  "safe_mutex_assert_owner self mp = requireE (count mp > 0 \<and> self = thread mp) (Undefined Assertion_failed)"

definition safe_mutex_assert_not_owner :: "nat \<Rightarrow> safe_mutex \<Rightarrow> unit res" where
  "safe_mutex_assert_not_owner self mp = requireE (count mp = 0 \<or> self \<noteq> thread mp) (Undefined Assertion_failed)"

definition my_mutex_init :: "('a, 'm) mutex_api \<Rightarrow> 'a \<Rightarrow> nat \<Rightarrow> 32 word \<Rightarrow> 'm \<Rightarrow> c_result \<times> 'm" where
  "my_mutex_init A attr file line m = (if safe_mutex_build A then safe_mutex_init A attr file line m
     else native_mutex_init A attr m)"

definition my_mutex_lock :: "('a, 'm) mutex_api \<Rightarrow> nat \<Rightarrow> nat \<Rightarrow> 32 word \<Rightarrow> 'm \<Rightarrow> (c_result \<times> 'm) option" where
  "my_mutex_lock A self file line m = (if safe_mutex_build A then safe_mutex_lock A self False file line m
     else native_mutex_lock A self m)"

definition my_mutex_trylock :: "('a, 'm) mutex_api \<Rightarrow> nat \<Rightarrow> nat \<Rightarrow> 32 word \<Rightarrow> 'm \<Rightarrow> (c_result \<times> 'm) option" where
  "my_mutex_trylock A self file line m = (if safe_mutex_build A then safe_mutex_lock A self True file line m
     else Some (native_mutex_trylock A self m))"

definition my_mutex_unlock :: "('a, 'm) mutex_api \<Rightarrow> nat \<Rightarrow> nat \<Rightarrow> 32 word \<Rightarrow> 'm \<Rightarrow> c_result \<times> 'm" where
  "my_mutex_unlock A self file line m = (if safe_mutex_build A then safe_mutex_unlock A self file line m
     else native_mutex_unlock A self m)"

definition my_mutex_destroy :: "('a, 'm) mutex_api \<Rightarrow> nat \<Rightarrow> 32 word \<Rightarrow> 'm \<Rightarrow> c_result \<times> 'm" where
  "my_mutex_destroy A file line m = (if safe_mutex_build A then safe_mutex_destroy A file line m
     else native_mutex_destroy A m)"

section \<open>The systems\<close>

fun entered_by :: "nat \<Rightarrow> (nat \<times> nat) option \<Rightarrow> (nat \<times> nat) option" where
  "entered_by t None = Some (t, 1)"
| "entered_by t (Some (u, n)) = (if u = t then Some (t, n + 1) else Some (u, n))"

fun left_once :: "(nat \<times> nat) option \<Rightarrow> (nat \<times> nat) option" where
  "left_once (Some (t, Suc (Suc n))) = Some (t, Suc n)"
| "left_once _ = None"

text \<open>The documentation of critical sections and of normal POSIX mutexes.\<close>

definition critical_section_laws :: "('a, 'm) mutex_api \<Rightarrow> bool" where
  "critical_section_laws A \<longleftrightarrow>
     (\<forall>t m entered m'. TryEnterCriticalSection A t m = (entered, m') \<longrightarrow>
        entered = (held_by A m = None \<or> (\<exists>n. held_by A m = Some (t, n))) \<and>
        held_by A m' = (if entered then entered_by t (held_by A m) else held_by A m)) \<and>
     (\<forall>t m m'. EnterCriticalSection A t m = Some m' \<longrightarrow>
        (held_by A m = None \<or> (\<exists>n. held_by A m = Some (t, n))) \<and> held_by A m' = entered_by t (held_by A m)) \<and>
     (\<forall>m t n. held_by A m = Some (t, n) \<longrightarrow> 0 < n \<and> RecursionCount A m = n \<and>
        held_by A (LeaveCriticalSection A t m) = left_once (held_by A m))"

definition pthread_mutex_laws :: "('a, 'm) mutex_api \<Rightarrow> bool" where
  "pthread_mutex_laws A \<longleftrightarrow>
     (\<forall>t m. let (r, m') = pthread_mutex_trylock A t m in
        if held_by A m = None then r = 0 \<and> held_by A m' = Some (t, 1) else r = EBUSY \<and> held_by A m' = held_by A m)"

section \<open>Attempts to lock\<close>

lemma native_trylock_once:
  assumes "if windows_mutex A then critical_section_laws A else pthread_mutex_laws A"
    and "native_mutex_trylock A self m = (r, m')"
  shows "if held_by A m = None then r = 0 \<and> held_by A m' = Some (self, 1)
    else r = EBUSY \<and> held_by A m' = held_by A m"
proof (cases "windows_mutex A")
  case False
  then have "case pthread_mutex_trylock A self m of (r, m') \<Rightarrow>
      if held_by A m = None then r = 0 \<and> held_by A m' = Some (self, 1) else r = EBUSY \<and> held_by A m' = held_by A m"
    using assms(1) unfolding pthread_mutex_laws_def Let_def by simp
  with assms(2) False show ?thesis by (simp add: native_mutex_trylock_def)
next
  case win: True
  obtain entered m1 where e: "TryEnterCriticalSection A self m = (entered, m1)" by fastforce
  have laws: "critical_section_laws A" using assms(1) win by simp
  have try_enter: "entered = (held_by A m = None \<or> (\<exists>n. held_by A m = Some (self, n)))"
    "held_by A m1 = (if entered then entered_by self (held_by A m) else held_by A m)"
    using laws e unfolding critical_section_laws_def by blast+
  have held: "0 < n" "RecursionCount A k = n" "held_by A (LeaveCriticalSection A self k) = left_once (held_by A k)"
    if "held_by A k = Some (self, n)" for k n
    using laws that unfolding critical_section_laws_def by blast+
  show ?thesis
  proof (cases "held_by A m")
    case None
    with try_enter have "entered" "held_by A m1 = Some (self, 1)" by simp_all
    with None assms(2) win e held(2) [of m1 1] show ?thesis by (auto simp: native_mutex_trylock_def)
  next
    case (Some h)
    obtain u n where h: "h = (u, n)" by (cases h)
    show ?thesis
    proof (cases "u = self")
      case True
      then have m: "held_by A m = Some (self, n)" using Some h by simp
      with try_enter have i: "entered" "held_by A m1 = Some (self, n + 1)" by auto
      from held(1) [OF m] obtain k where "n = Suc k" by (cases n) auto
      with i m assms(2) win e held(2,3) [OF i(2)] show ?thesis by (auto simp: native_mutex_trylock_def)
    next
      case False
      with Some h try_enter have "\<not> entered" "held_by A m1 = held_by A m" by auto
      with Some assms(2) win e show ?thesis by (auto simp: native_mutex_trylock_def)
    qed
  qed
qed

section \<open>Properties\<close>

text \<open>A thread that tries to get a mutex gets it if and only if no thread has it, neither another nor
  the thread itself; it then has it once, and otherwise the mutex stays as it was and the result is
  \<open>EBUSY\<close>. On Windows, where the system would let the thread in a second time, the code takes that
  back, and so does the same as a POSIX mutex.\<close>

theorem trylock_not_recursive:
  assumes "if windows_mutex A then critical_section_laws A else pthread_mutex_laws A"
    and "native_mutex_trylock A self m = (r, m')"
  shows "if held_by A m = None then r = 0 \<and> held_by A m' = Some (self, 1)
    else r = EBUSY \<and> held_by A m' = held_by A m"
  using assms by (rule native_trylock_once)

text \<open>A critical section that is described by its owner and the number of its entries.\<close>

definition demo_mutex :: "(unit, (nat \<times> nat) option) mutex_api" where
  "demo_mutex = \<lparr>windows_mutex = True, safe_mutex_build = False, held_by = (\<lambda>m. if \<exists>t. m = Some (t, 0) then None else m),
     InitializeCriticalSection = (\<lambda>m. None),
     EnterCriticalSection = (\<lambda>t m. case m of Some (u, Suc n) \<Rightarrow> if u = t then Some (Some (t, n + 2)) else None | _ \<Rightarrow> Some (Some (t, 1))),
     TryEnterCriticalSection = (\<lambda>t m. case m of Some (u, Suc n) \<Rightarrow> if u = t then (True, Some (t, n + 2)) else (False, m) | _ \<Rightarrow> (True, Some (t, 1))),
     RecursionCount = (\<lambda>m. case m of None \<Rightarrow> 0 | Some (t, n) \<Rightarrow> n), LeaveCriticalSection = (\<lambda>t m. left_once m),
     DeleteCriticalSection = (\<lambda>m. m), pthread_mutex_init = (\<lambda>a m. (22, m)), pthread_mutex_lock = (\<lambda>t m. Some (22, m)),
     pthread_mutex_trylock = (\<lambda>t m. (22, m)), pthread_mutex_unlock = (\<lambda>t m. (22, m)), pthread_mutex_destroy = (\<lambda>m. (22, m)),
     safe_mutex_init = (\<lambda>a f l m. (22, m)), safe_mutex_lock = (\<lambda>t b f l m. Some (22, m)),
     safe_mutex_unlock = (\<lambda>t f l m. (22, m)), safe_mutex_destroy = (\<lambda>f l m. (22, m))\<rparr>"

lemma left_once_entered: "left_once m \<noteq> Some (t, 0)"
  by (cases m rule: left_once.cases) simp_all

lemma demo_mutex_laws: "critical_section_laws demo_mutex"
  by (auto simp: left_once_entered critical_section_laws_def demo_mutex_def split: option.splits nat.splits)

theorem trylock_not_recursive_7:
  "native_mutex_trylock demo_mutex 7 (Some (7, 1)) = (EBUSY, Some (7, 1)) \<and>
   (if held_by demo_mutex (Some (7, 1)) = None then (EBUSY :: c_result) = 0 \<and> held_by demo_mutex (Some (7, 1)) = Some (7, 1)
    else (EBUSY :: c_result) = EBUSY \<and> held_by demo_mutex (Some (7, 1)) = held_by demo_mutex (Some (7, 1)))"
proof -
  have t: "native_mutex_trylock demo_mutex 7 (Some (7, 1)) = (EBUSY, Some (7, 1))"
    by (simp add: native_mutex_trylock_def demo_mutex_def)
  have "windows_mutex demo_mutex" by (simp add: demo_mutex_def)
  with trylock_not_recursive [of demo_mutex 7 "Some (7, 1)" EBUSY "Some (7, 1)"] t demo_mutex_laws show ?thesis by simp
qed

end
