(* ===== verification/Mysql_Rwlock.thy ===== *)
theory Mysql_Rwlock
  imports Mysql_Mutex
begin

text \<open>
  The reader-writer lock of \<open>thr_rwlock.h\<close> of the MySQL connector, on Windows and on systems with POSIX
  threads. A Windows SRW lock must be told, when it is released, how it was acquired; the header
  notes this in a flag beside the lock, which is written without protection by another lock. Each
  function is a list of steps, and threads take these steps in any order: the model has all
  interleavings of any number of threads that lock and unlock. The operations of the two systems are
  parameters, with what their documentation promises as a hypothesis.
\<close>

section \<open>The systems\<close>

datatype rw_state = Unlocked | Shared nat | Exclusive

datatype rw_call = Rdlock | Tryrdlock | Wrlock | Trywrlock | Unlock

text \<open>The result \<open>None\<close> means that the caller has to wait, or for the functions with \<open>Try\<close> that they
  return \<open>FALSE\<close>. \<open>rw_state\<close> is not a function of the systems: it says who holds a lock.\<close>

record 's rw_api =
  windows :: bool
  rw_state :: "'s \<Rightarrow> rw_state"
  InitializeSRWLock :: 's
  AcquireSRWLockShared :: "'s \<Rightarrow> 's option"
  TryAcquireSRWLockShared :: "'s \<Rightarrow> 's option"
  AcquireSRWLockExclusive :: "'s \<Rightarrow> 's option"
  TryAcquireSRWLockExclusive :: "'s \<Rightarrow> 's option"
  ReleaseSRWLockShared :: "'s \<Rightarrow> 's"
  ReleaseSRWLockExclusive :: "'s \<Rightarrow> 's"
  pthread_rwlock_init :: "c_result \<times> 's"
  pthread_rwlock_destroy :: "'s \<Rightarrow> c_result \<times> 's"
  pthread_rwlock :: "rw_call \<Rightarrow> 's \<Rightarrow> (c_result \<times> 's) option"

fun readers :: "rw_state \<Rightarrow> nat" where
  "readers (Shared n) = n"
| "readers _ = 0"

fun may_read :: "rw_state \<Rightarrow> rw_state \<Rightarrow> bool" where
  "may_read m m' \<longleftrightarrow> m \<noteq> Exclusive \<and> m' = Shared (Suc (readers m))"

fun released :: "rw_state \<Rightarrow> rw_state" where
  "released (Shared (Suc (Suc n))) = Shared (Suc n)"
| "released _ = Unlocked"

text \<open>The documentation: a lock is given to readers together, or to one writer; a release in the wrong
  mode is not defined.\<close>

definition rw_laws :: "'s rw_api \<Rightarrow> bool" where
  "rw_laws A \<longleftrightarrow> rw_state A (InitializeSRWLock A) = Unlocked \<and>
     (fst (pthread_rwlock_init A) = 0 \<longrightarrow> rw_state A (snd (pthread_rwlock_init A)) = Unlocked) \<and>
     (\<forall>s s'. AcquireSRWLockShared A s = Some s' \<or> TryAcquireSRWLockShared A s = Some s' \<longrightarrow>
        may_read (rw_state A s) (rw_state A s')) \<and>
     (\<forall>s s'. AcquireSRWLockExclusive A s = Some s' \<or> TryAcquireSRWLockExclusive A s = Some s' \<longrightarrow>
        rw_state A s = Unlocked \<and> rw_state A s' = Exclusive) \<and>
     (\<forall>s n. rw_state A s = Shared (Suc n) \<longrightarrow> rw_state A (ReleaseSRWLockShared A s) = released (rw_state A s)) \<and>
     (\<forall>s. rw_state A s = Exclusive \<longrightarrow> rw_state A (ReleaseSRWLockExclusive A s) = Unlocked) \<and>
     (\<forall>f s r s'. pthread_rwlock A f s = Some (r, s') \<longrightarrow>
        (if r \<noteq> 0 then rw_state A s' = rw_state A s
         else if f = Unlock then rw_state A s \<noteq> Unlocked \<longrightarrow> rw_state A s' = released (rw_state A s)
         else if f = Rdlock \<or> f = Tryrdlock then may_read (rw_state A s) (rw_state A s')
         else rw_state A s = Unlocked \<and> rw_state A s' = Exclusive))"

section \<open>The functions of the header\<close>

datatype instr =
    Acquire_Shared | Acquire_Exclusive
  | Try_Shared_Or_Return c_result | Try_Exclusive_Or_Return c_result
  | Set_Have_Exclusive bool | If_Have_Exclusive "instr list" "instr list"
  | Release_Shared | Release_Exclusive
  | Return c_result | Return_Pthread rw_call

definition native_rw_init :: "'s rw_api \<Rightarrow> c_result \<times> 's \<times> bool" where
  "native_rw_init A = (if windows A then (0, InitializeSRWLock A, False)
     else (fst (pthread_rwlock_init A), snd (pthread_rwlock_init A), False))"

definition native_rw_destroy :: "'s rw_api \<Rightarrow> 's \<Rightarrow> c_result \<times> 's" where
  "native_rw_destroy A s = (if windows A then (0, s) else pthread_rwlock_destroy A s)"

definition native_rw_rdlock :: "'s rw_api \<Rightarrow> instr list" where
  "native_rw_rdlock A = (if windows A then [Acquire_Shared, Return 0] else [Return_Pthread Rdlock])"

definition native_rw_tryrdlock :: "'s rw_api \<Rightarrow> instr list" where
  "native_rw_tryrdlock A = (if windows A then [Try_Shared_Or_Return EBUSY, Return 0] else [Return_Pthread Tryrdlock])"

definition native_rw_wrlock :: "'s rw_api \<Rightarrow> instr list" where
  "native_rw_wrlock A = (if windows A then [Acquire_Exclusive, Set_Have_Exclusive True, Return 0]
     else [Return_Pthread Wrlock])"

definition native_rw_trywrlock :: "'s rw_api \<Rightarrow> instr list" where
  "native_rw_trywrlock A = (if windows A then [Try_Exclusive_Or_Return EBUSY, Set_Have_Exclusive True, Return 0]
     else [Return_Pthread Trywrlock])"

definition native_rw_unlock :: "'s rw_api \<Rightarrow> instr list" where
  "native_rw_unlock A = (if windows A
     then [If_Have_Exclusive [Set_Have_Exclusive False, Release_Exclusive] [Release_Shared], Return 0]
     else [Return_Pthread Unlock])"

fun native_rw :: "'s rw_api \<Rightarrow> rw_call \<Rightarrow> instr list" where
  "native_rw A Rdlock = native_rw_rdlock A"
| "native_rw A Tryrdlock = native_rw_tryrdlock A"
| "native_rw A Wrlock = native_rw_wrlock A"
| "native_rw A Trywrlock = native_rw_trywrlock A"
| "native_rw A Unlock = native_rw_unlock A"

lemmas native_defs = native_rw_rdlock_def native_rw_tryrdlock_def native_rw_wrlock_def native_rw_trywrlock_def
  native_rw_unlock_def

section \<open>Locks that prefer readers\<close>

text \<open>Their functions are in the library; the header has the assertions of the debug build.\<close>

record rw_pr_lock =
  active_readers :: "32 word"
  writers_waiting_readers :: "32 word"
  active_writer :: bool
  writer_thread :: nat

definition rw_pr_lock_assert_write_owner :: "('a, 'm) mutex_api \<Rightarrow> nat \<Rightarrow> rw_pr_lock \<Rightarrow> unit res" where
  "rw_pr_lock_assert_write_owner A self rwlock = requireE
     (safe_mutex_build A \<longrightarrow> active_writer rwlock \<and> self = writer_thread rwlock) (Undefined Assertion_failed)"

definition rw_pr_lock_assert_not_write_owner :: "('a, 'm) mutex_api \<Rightarrow> nat \<Rightarrow> rw_pr_lock \<Rightarrow> unit res" where
  "rw_pr_lock_assert_not_write_owner A self rwlock = requireE
     (safe_mutex_build A \<longrightarrow> \<not> active_writer rwlock \<or> self \<noteq> writer_thread rwlock) (Undefined Assertion_failed)"

section \<open>Threads\<close>

datatype mode = Nothing | Reading | Writing

datatype progress = Running "instr list" | Returned c_result

text \<open>One step of a function: with the lock and the flag after it.\<close>

fun exec :: "'s rw_api \<Rightarrow> instr list \<Rightarrow> 's \<Rightarrow> bool \<Rightarrow> ('s \<times> bool \<times> progress) option" where
  "exec A [] l b = None"
| "exec A (Acquire_Shared # is) l b = map_option (\<lambda>l. (l, b, Running is)) (AcquireSRWLockShared A l)"
| "exec A (Acquire_Exclusive # is) l b = map_option (\<lambda>l. (l, b, Running is)) (AcquireSRWLockExclusive A l)"
| "exec A (Try_Shared_Or_Return r # is) l b = (case TryAcquireSRWLockShared A l of
     None \<Rightarrow> Some (l, b, Returned r) | Some l \<Rightarrow> Some (l, b, Running is))"
| "exec A (Try_Exclusive_Or_Return r # is) l b = (case TryAcquireSRWLockExclusive A l of
     None \<Rightarrow> Some (l, b, Returned r) | Some l \<Rightarrow> Some (l, b, Running is))"
| "exec A (Set_Have_Exclusive c # is) l b = Some (l, c, Running is)"
| "exec A (If_Have_Exclusive p q # is) l b = Some (l, b, Running ((if b then p else q) @ is))"
| "exec A (Release_Shared # is) l b = Some (ReleaseSRWLockShared A l, b, Running is)"
| "exec A (Release_Exclusive # is) l b = Some (ReleaseSRWLockExclusive A l, b, Running is)"
| "exec A (Return r # is) l b = Some (l, b, Returned r)"
| "exec A (Return_Pthread f # is) l b = map_option (\<lambda>(r, l). (l, b, Returned r)) (pthread_rwlock A f l)"

text \<open>A thread knows from the results of its calls how it holds the lock.\<close>

record thread =
  running :: "rw_call option"
  code :: "instr list"
  holds :: mode

record 's rw =
  lock :: 's
  have_exclusive_srwlock :: bool
  threads :: "nat \<Rightarrow> thread"

fun acquires :: "rw_call \<Rightarrow> mode" where
  "acquires Rdlock = Reading"
| "acquires Tryrdlock = Reading"
| "acquires Wrlock = Writing"
| "acquires Trywrlock = Writing"
| "acquires Unlock = Nothing"

text \<open>Threads do not lock again what they hold, and unlock only what they hold.\<close>

inductive rw_step :: "'s rw_api \<Rightarrow> 's rw \<Rightarrow> 's rw \<Rightarrow> bool" for A where
  call: "running (threads c t) = None \<Longrightarrow> (f = Unlock) = (holds (threads c t) \<noteq> Nothing) \<Longrightarrow>
    rw_step A c (c\<lparr>threads := (threads c)(t := (threads c t)\<lparr>running := Some f, code := native_rw A f\<rparr>)\<rparr>)"
| continue: "running (threads c t) = Some f \<Longrightarrow>
    exec A (code (threads c t)) (lock c) (have_exclusive_srwlock c) = Some (l, b, Running is) \<Longrightarrow>
    rw_step A c \<lparr>lock = l, have_exclusive_srwlock = b, threads = (threads c)(t := (threads c t)\<lparr>code := is\<rparr>)\<rparr>"
| return: "running (threads c t) = Some f \<Longrightarrow>
    exec A (code (threads c t)) (lock c) (have_exclusive_srwlock c) = Some (l, b, Returned r) \<Longrightarrow>
    rw_step A c \<lparr>lock = l, have_exclusive_srwlock = b, threads = (threads c)(t :=
      \<lparr>running = None, code = [], holds = (if r = 0 then acquires f else holds (threads c t))\<rparr>)\<rparr>"

inductive_cases rw_stepE: "rw_step A c d"

inductive rw_reachable :: "'s rw_api \<Rightarrow> 's rw \<Rightarrow> bool" for A where
  start: "native_rw_init A = (0, l, b) \<Longrightarrow> rw_reachable A
    \<lparr>lock = l, have_exclusive_srwlock = b, threads = (\<lambda>t. \<lparr>running = None, code = [], holds = Nothing\<rparr>)\<rparr>"
| step: "rw_reachable A c \<Longrightarrow> rw_step A c d \<Longrightarrow> rw_reachable A d"

section \<open>Who owns the lock\<close>

text \<open>In the middle of a function a thread may own the lock already, or not any more.\<close>

fun owned :: "thread \<Rightarrow> mode" where
  "owned th = (case running th of None \<Rightarrow> holds th
     | Some f \<Rightarrow> if f = Unlock then if code th = [Return 0] then Nothing else holds th
         else if code th = [Return 0] \<or> code th = [Set_Have_Exclusive True, Return 0] then acquires f else Nothing)"

text \<open>The places in the code where a thread can be.\<close>

fun well_placed :: "'s rw_api \<Rightarrow> thread \<Rightarrow> bool" where
  "well_placed A th = (case running th of None \<Rightarrow> code th = []
     | Some f \<Rightarrow> if f = Unlock
         then code th = native_rw A Unlock \<and> holds th \<noteq> Nothing \<or>
           windows A \<and> holds th = Writing \<and>
             code th \<in> {[Set_Have_Exclusive False, Release_Exclusive, Return 0], [Release_Exclusive, Return 0]} \<or>
           windows A \<and> holds th = Reading \<and> code th = [Release_Shared, Return 0] \<or>
           windows A \<and> code th = [Return 0]
         else holds th = Nothing \<and> (code th = native_rw A f \<or>
           windows A \<and> (code th = [Return 0] \<or> acquires f = Writing \<and> code th = [Set_Have_Exclusive True, Return 0])))"

text \<open>The flag of the writer: not yet set after the lock was acquired, or cleared before it is released.\<close>

fun flag_on :: "thread \<Rightarrow> bool" where
  "flag_on th \<longleftrightarrow> code th \<noteq> [Set_Have_Exclusive True, Return 0] \<and> code th \<noteq> [Release_Exclusive, Return 0]"

declare owned.simps [simp del] well_placed.simps [simp del] flag_on.simps [simp del]

fun matches :: "rw_state \<Rightarrow> (nat \<Rightarrow> mode) \<Rightarrow> bool" where
  "matches Unlocked w \<longleftrightarrow> (\<forall>t. w t = Nothing)"
| "matches (Shared n) w \<longleftrightarrow> 0 < n \<and> finite {t. w t = Reading} \<and> card {t. w t = Reading} = n \<and> (\<forall>t. w t \<noteq> Writing)"
| "matches Exclusive w \<longleftrightarrow> (\<exists>t. w t = Writing \<and> (\<forall>u. u \<noteq> t \<longrightarrow> w u = Nothing))"

definition owners :: "'s rw \<Rightarrow> nat \<Rightarrow> mode" where
  "owners c t = owned (threads c t)"

definition flag_matches :: "'s rw_api \<Rightarrow> bool \<Rightarrow> (nat \<Rightarrow> thread) \<Rightarrow> bool" where
  "flag_matches A b ths \<longleftrightarrow> windows A \<longrightarrow>
     (\<forall>t. owned (ths t) = Writing \<longrightarrow> b = flag_on (ths t)) \<and> ((\<forall>t. owned (ths t) \<noteq> Writing) \<longrightarrow> \<not> b)"

definition rw_inv :: "'s rw_api \<Rightarrow> 's rw \<Rightarrow> bool" where
  "rw_inv A c \<longleftrightarrow> (\<forall>t. well_placed A (threads c t)) \<and> matches (rw_state A (lock c)) (owners c) \<and>
     flag_matches A (have_exclusive_srwlock c) (threads c)"

lemma matches_read:
  assumes "matches m w" "w t = Nothing" "may_read m m'"
  shows "matches m' (w(t := Reading))"
proof (cases m)
  case Unlocked
  with assms have "{u. (w(t := Reading)) u = Reading} = {t}" by auto
  with assms Unlocked show ?thesis by simp
next
  case (Shared n)
  have "{u. (w(t := Reading)) u = Reading} = insert t {u. w u = Reading}" by auto
  with assms Shared show ?thesis by simp
qed (use assms in simp)

lemma matches_write: "matches Unlocked w \<Longrightarrow> matches Exclusive (w(t := Writing))"
  by auto

lemma matches_reader:
  assumes "matches m w" "w t = Reading"
  obtains n where "m = Shared (Suc n)" "matches (released m) (w(t := Nothing))"
proof (cases m)
  case (Shared n)
  have s: "{u. (w(t := Nothing)) u = Reading} = {u. w u = Reading} - {t}" by auto
  from Shared assms obtain k where k: "n = Suc k" by (cases n) auto
  have c: "card ({u. w u = Reading} - {t}) = k" "finite {u. w u = Reading}" using Shared assms k by auto
  have "matches (released m) (w(t := Nothing))"
  proof (cases k)
    case 0
    with c have none: "{u. w u = Reading} - {t} = {}" by simp
    have "w u = Nothing" if "u \<noteq> t" for u
      using none that Shared assms(1) by (cases "w u") auto
    with Shared k 0 show ?thesis by simp
  next
    case (Suc j)
    with Shared k c s assms show ?thesis by simp
  qed
  with Shared k that show ?thesis by blast
qed (use assms in \<open>auto, metis mode.distinct(1,5)\<close>)

lemma matches_writer:
  assumes "matches m w" "w t = Writing"
  shows "m = Exclusive" "matches (released m) (w(t := Nothing))"
proof -
  show "m = Exclusive" using assms by (cases m) auto
  with assms show "matches (released m) (w(t := Nothing))" by auto (metis mode.distinct(3))
qed

section \<open>The invariant\<close>

lemma rw_lawsD:
  assumes "rw_laws A"
  shows "AcquireSRWLockShared A s = Some s' \<Longrightarrow> may_read (rw_state A s) (rw_state A s')"
    "TryAcquireSRWLockShared A s = Some s' \<Longrightarrow> may_read (rw_state A s) (rw_state A s')"
    "AcquireSRWLockExclusive A s = Some s' \<Longrightarrow> rw_state A s = Unlocked \<and> rw_state A s' = Exclusive"
    "TryAcquireSRWLockExclusive A s = Some s' \<Longrightarrow> rw_state A s = Unlocked \<and> rw_state A s' = Exclusive"
    "rw_state A s = Shared (Suc n) \<Longrightarrow> rw_state A (ReleaseSRWLockShared A s) = released (rw_state A s)"
    "rw_state A s = Exclusive \<Longrightarrow> rw_state A (ReleaseSRWLockExclusive A s) = Unlocked"
    "pthread_rwlock A f s = Some (r, s') \<Longrightarrow>
        (if r \<noteq> 0 then rw_state A s' = rw_state A s
         else if f = Unlock then rw_state A s \<noteq> Unlocked \<longrightarrow> rw_state A s' = released (rw_state A s)
         else if f = Rdlock \<or> f = Tryrdlock then may_read (rw_state A s) (rw_state A s')
         else rw_state A s = Unlocked \<and> rw_state A s' = Exclusive)"
  using assms unfolding rw_laws_def by blast+

text \<open>A step of thread \<open>t\<close> to \<open>th\<close> changes the owners at \<open>t\<close> only.\<close>

definition moved :: "'s rw_api \<Rightarrow> 's rw \<Rightarrow> nat \<Rightarrow> 's \<Rightarrow> bool \<Rightarrow> thread \<Rightarrow> bool" where
  "moved A c t l b th \<longleftrightarrow> well_placed A th \<and> matches (rw_state A l) ((owners c)(t := owned th)) \<and>
     (windows A \<longrightarrow> b = (if owned th = Writing then flag_on th
        else if owned (threads c t) = Writing then False else have_exclusive_srwlock c))"

lemma owners_update: "owners (c\<lparr>threads := (threads c)(t := th)\<rparr>) = (owners c)(t := owned th)"
  by (simp add: owners_def fun_eq_iff)

lemma matches_single_writer: "matches m w \<Longrightarrow> w t = Writing \<Longrightarrow> w u = Writing \<Longrightarrow> u = t"
  by (cases m) (auto, metis mode.distinct(3))

lemma inv_moved:
  assumes inv: "rw_inv A c" and m: "moved A c t l b th"
  shows "rw_inv A \<lparr>lock = l, have_exclusive_srwlock = b, threads = (threads c)(t := th)\<rparr>"
proof -
  let ?d = "\<lparr>lock = l, have_exclusive_srwlock = b, threads = (threads c)(t := th)\<rparr>"
  have o: "owners ?d = (owners c)(t := owned th)" by (simp add: owners_def fun_eq_iff)
  have ok: "matches (rw_state A l) (owners ?d)" using m unfolding moved_def o by blast
  have "flag_matches A b (threads ?d)"
    unfolding flag_matches_def
  proof (intro impI conjI allI)
    fix u
    assume w: "windows A" and u: "owned (threads ?d u) = Writing"
    then have b: "b = (if owned th = Writing then flag_on th
        else if owned (threads c t) = Writing then False else have_exclusive_srwlock c)"
      using m unfolding moved_def by blast
    show "b = flag_on (threads ?d u)"
    proof (cases "u = t")
      case True
      with u b show ?thesis by simp
    next
      case False
      with u have cu: "owned (threads c u) = Writing" by simp
      have "owned th \<noteq> Writing"
        using matches_single_writer [OF ok, of t u] u False by (auto simp: owners_def)
      moreover have "owned (threads c t) \<noteq> Writing"
        using matches_single_writer [of "rw_state A (lock c)" "owners c" t u] inv cu False
        unfolding rw_inv_def owners_def by blast
      ultimately have "b = have_exclusive_srwlock c" using b by simp
      with inv cu w False show ?thesis unfolding rw_inv_def flag_matches_def by simp
    qed
  next
    assume w: "windows A" and none: "\<forall>u. owned (threads ?d u) \<noteq> Writing"
    then have th: "owned th \<noteq> Writing" using none by (auto dest: spec [of _ t])
    show "\<not> b"
    proof (cases "owned (threads c t) = Writing")
      case True
      with m w th show ?thesis unfolding moved_def by simp
    next
      case False
      have "owned (threads c u) \<noteq> Writing" for u
        using none False by (cases "u = t") (auto dest: spec [of _ u])
      with inv w have "\<not> have_exclusive_srwlock c" unfolding rw_inv_def flag_matches_def by blast
      with m w th False show ?thesis unfolding moved_def by simp
    qed
  qed
  with inv m ok show ?thesis unfolding rw_inv_def moved_def by simp
qed

section \<open>Every step is one of the lock, or invisible\<close>

text \<open>The specification: who owns the lock, and the three ways in which that changes.\<close>

inductive rw_spec_step :: "(nat \<Rightarrow> mode) \<Rightarrow> (nat \<Rightarrow> mode) \<Rightarrow> bool" where
  spec_read: "w t = Nothing \<Longrightarrow> (\<And>u. w u \<noteq> Writing) \<Longrightarrow> rw_spec_step w (w(t := Reading))"
| spec_write: "(\<And>u. w u = Nothing) \<Longrightarrow> rw_spec_step w (w(t := Writing))"
| spec_release: "w t \<noteq> Nothing \<Longrightarrow> rw_spec_step w (w(t := Nothing))"

definition good_step :: "'s rw_api \<Rightarrow> 's rw \<Rightarrow> nat \<Rightarrow> 's \<Rightarrow> bool \<Rightarrow> thread \<Rightarrow> bool" where
  "good_step A c t l b th \<longleftrightarrow> moved A c t l b th \<and>
     ((owners c)(t := owned th) = owners c \<or> rw_spec_step (owners c) ((owners c)(t := owned th)))"

lemma good_stay:
  assumes "rw_inv A c" "well_placed A th" "owned th = owned (threads c t)" "rw_state A l = rw_state A (lock c)"
    and "windows A \<Longrightarrow> b = (if owned th = Writing then flag_on th else have_exclusive_srwlock c)"
  shows "good_step A c t l b th"
proof -
  have "(owners c)(t := owned th) = owners c" using assms(3) by (simp add: owners_def fun_eq_iff)
  with assms show ?thesis unfolding good_step_def moved_def rw_inv_def by simp
qed

lemma good_read:
  assumes "rw_inv A c" "well_placed A th" "owned th = Reading" "owned (threads c t) = Nothing"
    and "may_read (rw_state A (lock c)) (rw_state A l)" "b = have_exclusive_srwlock c"
  shows "good_step A c t l b th"
proof -
  have m: "matches (rw_state A (lock c)) (owners c)" and t: "owners c t = Nothing"
    using assms by (simp_all add: rw_inv_def owners_def)
  have "owners c u \<noteq> Writing" for u
    using m assms(5) by (cases "rw_state A (lock c)") auto
  then have "rw_spec_step (owners c) ((owners c)(t := Reading))" using t by (intro spec_read)
  with matches_read [OF m t assms(5)] assms show ?thesis unfolding good_step_def moved_def by simp
qed

lemma good_write:
  assumes "rw_inv A c" "well_placed A th" "owned th = Writing" "rw_state A (lock c) = Unlocked"
    and "rw_state A l = Exclusive" "windows A \<Longrightarrow> b = flag_on th"
  shows "good_step A c t l b th"
proof -
  have m: "matches Unlocked (owners c)" using assms by (simp add: rw_inv_def)
  then have "rw_spec_step (owners c) ((owners c)(t := Writing))" by (intro spec_write) simp
  with matches_write [OF m] assms show ?thesis unfolding good_step_def moved_def by simp
qed

lemma good_release:
  assumes "rw_inv A c" "well_placed A th" "owned th = Nothing" "owned (threads c t) \<noteq> Nothing"
    and "rw_state A l = released (rw_state A (lock c))"
    and "windows A \<Longrightarrow> b = (if owned (threads c t) = Writing then False else have_exclusive_srwlock c)"
  shows "good_step A c t l b th"
proof -
  have m: "matches (rw_state A (lock c)) (owners c)" and t: "owners c t \<noteq> Nothing"
    using assms by (simp_all add: rw_inv_def owners_def)
  have "matches (released (rw_state A (lock c))) ((owners c)(t := Nothing))"
    using t by (cases "owners c t") (auto elim: matches_reader [OF m] dest: matches_writer [OF m])
  with t assms show ?thesis unfolding good_step_def moved_def by (simp add: spec_release)
qed

text \<open>What a thread that owns the lock can rely on.\<close>

lemma owner_facts:
  assumes "rw_inv A c"
  shows "owned (threads c t) = Reading \<Longrightarrow> \<exists>n. rw_state A (lock c) = Shared (Suc n)"
    and "owned (threads c t) = Writing \<Longrightarrow> rw_state A (lock c) = Exclusive"
    and "windows A \<Longrightarrow> owned (threads c t) = Writing \<Longrightarrow> have_exclusive_srwlock c = flag_on (threads c t)"
    and "windows A \<Longrightarrow> owned (threads c t) = Reading \<Longrightarrow> \<not> have_exclusive_srwlock c"
    and "windows A \<Longrightarrow> rw_state A (lock c) = Unlocked \<Longrightarrow> \<not> have_exclusive_srwlock c"
    and "owned (threads c t) \<noteq> Nothing \<Longrightarrow> rw_state A (lock c) \<noteq> Unlocked"
proof -
  have m: "matches (rw_state A (lock c)) (owners c)" and f: "flag_matches A (have_exclusive_srwlock c) (threads c)"
    using assms by (simp_all add: rw_inv_def)
  show r: "\<exists>n. rw_state A (lock c) = Shared (Suc n)" if "owned (threads c t) = Reading"
    using matches_reader [OF m, of t] that by (auto simp: owners_def)
  show "rw_state A (lock c) = Exclusive" if "owned (threads c t) = Writing"
    using matches_writer(1) [OF m, of t] that by (simp add: owners_def)
  show "have_exclusive_srwlock c = flag_on (threads c t)" if "windows A" "owned (threads c t) = Writing"
    using f that unfolding flag_matches_def by blast
  have none: "\<not> have_exclusive_srwlock c" if "windows A" "\<And>u. owned (threads c u) \<noteq> Writing"
    using f that unfolding flag_matches_def by blast
  show "\<not> have_exclusive_srwlock c" if "windows A" "owned (threads c t) = Reading"
    using m r [OF that(2)] by (intro none [OF that(1)]) (auto simp: owners_def)
  show "\<not> have_exclusive_srwlock c" if "windows A" "rw_state A (lock c) = Unlocked"
    using m that(2) by (intro none [OF that(1)]) (auto simp: owners_def)
  show "rw_state A (lock c) \<noteq> Unlocked" if "owned (threads c t) \<noteq> Nothing"
    using m that by (auto simp: owners_def)
qed

lemmas place_defs = owned.simps well_placed.simps flag_on.simps native_defs

text \<open>The cases of a call that acquires the lock: the start, the flag to be set, the result to be returned.\<close>

lemma acquire_places:
  assumes "well_placed A th" "running th = Some f" "f \<noteq> Unlock"
  shows "holds th = Nothing"
    and "windows A \<Longrightarrow> code th = native_rw A f \<or> code th = [Return 0] \<or>
      acquires f = Writing \<and> code th = [Set_Have_Exclusive True, Return 0]"
    and "\<not> windows A \<Longrightarrow> code th = [Return_Pthread f]"
  using assms by (cases f; auto simp: place_defs)+

lemma unlock_places:
  assumes "well_placed A th" "running th = Some Unlock"
  shows "\<not> windows A \<Longrightarrow> code th = [Return_Pthread Unlock] \<and> holds th \<noteq> Nothing"
    and "windows A \<Longrightarrow>
      code th = [If_Have_Exclusive [Set_Have_Exclusive False, Release_Exclusive] [Release_Shared], Return 0] \<and> holds th \<noteq> Nothing \<or>
      code th = [Set_Have_Exclusive False, Release_Exclusive, Return 0] \<and> holds th = Writing \<or>
      code th = [Release_Exclusive, Return 0] \<and> holds th = Writing \<or>
      code th = [Release_Shared, Return 0] \<and> holds th = Reading \<or> code th = [Return 0]"
  using assms by (auto simp: place_defs)

lemma continue_acquire_read:
  assumes laws: "rw_laws A" and inv: "rw_inv A c" and win: "windows A"
    and f: "running (threads c t) = Some f" "acquires f = Reading"
    and e: "exec A (code (threads c t)) (lock c) (have_exclusive_srwlock c) = Some (l, b, Running is)"
  shows "good_step A c t l b ((threads c t)\<lparr>code := is\<rparr>)"
proof -
  have p: "well_placed A (threads c t)" using inv by (simp add: rw_inv_def)
  have fU: "f \<noteq> Unlock" using f(2) by auto
  note places = acquire_places [OF p f(1) fU]
  have start: "code (threads c t) = native_rw A f" using places(2) [OF win] e f(2) by auto
  from f(2) have "f = Rdlock \<or> f = Tryrdlock" by (cases f) auto
  with start e win have "may_read (rw_state A (lock c)) (rw_state A l)" "b = have_exclusive_srwlock c" "is = [Return 0]"
    by (auto simp: native_defs rw_lawsD [OF laws] simp del: may_read.simps split: option.splits)
  with places(1) start f win show ?thesis
    by (intro good_read [OF inv]; cases f; simp add: place_defs del: may_read.simps)
qed

lemma continue_acquire_write:
  assumes laws: "rw_laws A" and inv: "rw_inv A c" and win: "windows A"
    and f: "running (threads c t) = Some f" "acquires f = Writing"
    and e: "exec A (code (threads c t)) (lock c) (have_exclusive_srwlock c) = Some (l, b, Running is)"
  shows "good_step A c t l b ((threads c t)\<lparr>code := is\<rparr>)"
proof -
  have p: "well_placed A (threads c t)" using inv by (simp add: rw_inv_def)
  have fU: "f \<noteq> Unlock" using f(2) by auto
  note places = acquire_places [OF p f(1) fU]
  have f': "f = Wrlock \<or> f = Trywrlock" using f(2) by (cases f) auto
  consider "code (threads c t) = native_rw A f" | "code (threads c t) = [Set_Have_Exclusive True, Return 0]"
    using places(2) [OF win] e by auto
  then show ?thesis
  proof cases
    case 1
    with f' e win have s: "rw_state A (lock c) = Unlocked" "rw_state A l = Exclusive" "b = have_exclusive_srwlock c"
        "is = [Set_Have_Exclusive True, Return 0]"
      by (auto simp: native_defs dest: rw_lawsD(3,4) [OF laws] split: option.splits)
    have "\<not> b" using owner_facts(5) [OF inv win s(1)] s(3) by simp
    with s places f win show ?thesis by (intro good_write [OF inv]) (auto simp: place_defs)
  next
    case 2
    with e have "l = lock c" "b" "is = [Return 0]" by auto
    with 2 places f win fU show ?thesis by (intro good_stay [OF inv]) (auto simp: place_defs)
  qed
qed

lemma continue_unlock:
  assumes laws: "rw_laws A" and inv: "rw_inv A c" and win: "windows A" and f: "running (threads c t) = Some Unlock"
    and e: "exec A (code (threads c t)) (lock c) (have_exclusive_srwlock c) = Some (l, b, Running is)"
  shows "good_step A c t l b ((threads c t)\<lparr>code := is\<rparr>)"
proof -
  let ?th = "threads c t"
  have p: "well_placed A ?th" using inv by (simp add: rw_inv_def)
  from unlock_places(2) [OF p f win] e consider
      "code ?th = [If_Have_Exclusive [Set_Have_Exclusive False, Release_Exclusive] [Release_Shared], Return 0]" "holds ?th \<noteq> Nothing"
    | "code ?th = [Set_Have_Exclusive False, Release_Exclusive, Return 0]" "holds ?th = Writing"
    | "code ?th = [Release_Exclusive, Return 0]" "holds ?th = Writing"
    | "code ?th = [Release_Shared, Return 0]" "holds ?th = Reading"
    by auto
  then show ?thesis
  proof cases
    case 1
    then have o: "owned ?th = holds ?th" using f by (simp add: place_defs)
    have flag: "have_exclusive_srwlock c = (holds ?th = Writing)"
      using owner_facts(3,4) [OF inv win, of t] 1 o by (cases "holds ?th") (auto simp: flag_on.simps)
    with 1 e have "l = lock c" "b = have_exclusive_srwlock c"
        "is = (if holds ?th = Writing then [Set_Have_Exclusive False, Release_Exclusive, Return 0] else [Release_Shared, Return 0])"
      by auto
    with 1 f win flag show ?thesis
      by (intro good_stay [OF inv]; cases "holds ?th") (auto simp: place_defs)
  next
    case 2
    then have o: "owned ?th = Writing" using f by (simp add: place_defs)
    with 2 e f win show ?thesis by (intro good_stay [OF inv]) (auto simp: place_defs)
  next
    case 3
    then have o: "owned ?th = Writing" using f by (simp add: place_defs)
    with 3 e f win owner_facts(2,3) [OF inv, of t] show ?thesis
      by (intro good_release [OF inv]) (auto simp: place_defs rw_lawsD(6) [OF laws])
  next
    case 4
    then have o: "owned ?th = Reading" using f by (simp add: place_defs)
    with owner_facts(1) [OF inv, of t] obtain n where "rw_state A (lock c) = Shared (Suc n)" by blast
    with 4 e f win o show ?thesis
      by (intro good_release [OF inv]) (auto simp: place_defs rw_lawsD(5) [OF laws])
  qed
qed

lemma continue_good:
  assumes "rw_laws A" "rw_inv A c" "running (threads c t) = Some f"
    and "exec A (code (threads c t)) (lock c) (have_exclusive_srwlock c) = Some (l, b, Running is)"
  shows "good_step A c t l b ((threads c t)\<lparr>code := is\<rparr>)"
proof (cases "windows A")
  case True
  with assms show ?thesis
    by (cases f) (auto intro: continue_acquire_read continue_acquire_write continue_unlock)
next
  case False
  have p: "well_placed A (threads c t)" using assms(2) by (simp add: rw_inv_def)
  have "code (threads c t) = [Return_Pthread f]"
    using acquire_places(3) [OF p assms(3)] unlock_places(1) [OF p] assms(3) False by (cases "f = Unlock") auto
  with assms(4) show ?thesis by (auto split: prod.splits)
qed

lemma return_good:
  assumes laws: "rw_laws A" and inv: "rw_inv A c" and f: "running (threads c t) = Some f"
    and e: "exec A (code (threads c t)) (lock c) (have_exclusive_srwlock c) = Some (l, b, Returned r)"
  shows "good_step A c t l b \<lparr>running = None, code = [], holds = (if r = 0 then acquires f else holds (threads c t))\<rparr>"
    (is "good_step A c t l b ?th")
proof -
  have p: "well_placed A (threads c t)" using inv by (simp add: rw_inv_def)
  have wp: "well_placed A ?th" by (simp add: well_placed.simps)
  have o: "owned ?th = holds ?th" by (simp add: owned.simps)
  show ?thesis
  proof (cases "windows A")
    case win: True
    have b: "b = have_exclusive_srwlock c" "l = lock c" and r: "r \<noteq> 0 \<Longrightarrow> f = Tryrdlock \<or> f = Trywrlock"
      and ret: "r = 0 \<Longrightarrow> code (threads c t) = [Return 0]" and no: "r \<noteq> 0 \<Longrightarrow> code (threads c t) = native_rw A f"
      using e acquire_places(2) [OF p f _ win] unlock_places(2) [OF p] f win
      by (cases "f = Unlock"; cases f; auto simp: native_defs EBUSY_def split: option.splits)+
    have "owned ?th = owned (threads c t)"
      using r ret no acquire_places(1) [OF p f] f win
      by (cases "r = 0"; cases f) (auto simp: place_defs)
    moreover have "owned ?th = Writing \<Longrightarrow> b = flag_on ?th"
      using owner_facts(3) [OF inv win, of t] calculation b ret no r f win
      by (cases "r = 0"; cases f) (auto simp: place_defs)
    ultimately show ?thesis using wp b by (intro good_stay [OF inv]) simp_all
  next
    case False
    have c: "code (threads c t) = [Return_Pthread f]"
      using acquire_places(3) [OF p f] unlock_places(1) [OF p] f False by (cases "f = Unlock") auto
    with e have "pthread_rwlock A f (lock c) = Some (r, l)" and b: "b = have_exclusive_srwlock c"
      by (auto split: prod.splits)
    note law = rw_lawsD(7) [OF laws this(1)]
    have old: "owned (threads c t) = holds (threads c t)" "f \<noteq> Unlock \<Longrightarrow> holds (threads c t) = Nothing"
        "f = Unlock \<Longrightarrow> holds (threads c t) \<noteq> Nothing"
      using c f False acquire_places(1) [OF p f] unlock_places(1) [OF p] by (auto simp: owned.simps)
    show ?thesis
    proof (cases "r = 0")
      case False
      with law old o wp \<open>\<not> windows A\<close> show ?thesis by (intro good_stay [OF inv]) simp_all
    next
      case r: True
      consider "f = Unlock" | "acquires f = Reading" "f \<noteq> Unlock" | "acquires f = Writing" "f \<noteq> Unlock" by (cases f) auto
      then show ?thesis
      proof cases
        case 1
        with law old o wp r \<open>\<not> windows A\<close> owner_facts(6) [OF inv, of t] show ?thesis
          by (intro good_release [OF inv]) simp_all
      next
        case 2
        then have "f = Rdlock \<or> f = Tryrdlock" by (cases f) auto
        with 2 law old o wp r b show ?thesis
          by (intro good_read [OF inv]) (simp_all del: may_read.simps)
      next
        case 3
        then have "f \<noteq> Rdlock" "f \<noteq> Tryrdlock" by auto
        with 3 law old o wp r \<open>\<not> windows A\<close> show ?thesis
          by (intro good_write [OF inv]) simp_all
      qed
    qed
  qed
qed

lemma call_good:
  assumes inv: "rw_inv A c" and idle: "running (threads c t) = None" and f: "(f = Unlock) = (holds (threads c t) \<noteq> Nothing)"
  shows "good_step A c t (lock c) (have_exclusive_srwlock c) ((threads c t)\<lparr>running := Some f, code := native_rw A f\<rparr>)"
    (is "good_step A c t _ _ ?th")
proof -
  have "well_placed A (threads c t)" using inv by (simp add: rw_inv_def)
  then have code: "code (threads c t) = []" using idle by (simp add: well_placed.simps)
  have "owned ?th = owned (threads c t)" "well_placed A ?th"
    using idle f by (cases f; auto simp: place_defs)+
  moreover have "flag_on ?th" "flag_on (threads c t)"
    using code by (cases f; simp add: place_defs)+
  ultimately show ?thesis using owner_facts(3) [OF inv, of t]
    by (intro good_stay [OF inv]) auto
qed

lemma step_good:
  assumes "rw_laws A" "rw_inv A c" "rw_step A c d"
  shows "rw_inv A d \<and> (owners d = owners c \<or> rw_spec_step (owners c) (owners d))"
proof -
  have "rw_inv A \<lparr>lock = l, have_exclusive_srwlock = b, threads = (threads c)(t := th)\<rparr> \<and>
      (owners \<lparr>lock = l, have_exclusive_srwlock = b, threads = (threads c)(t := th)\<rparr> = owners c \<or>
       rw_spec_step (owners c) (owners \<lparr>lock = l, have_exclusive_srwlock = b, threads = (threads c)(t := th)\<rparr>))"
    if "good_step A c t l b th" for t l b th
  proof -
    have "owners \<lparr>lock = l, have_exclusive_srwlock = b, threads = (threads c)(t := th)\<rparr> = (owners c)(t := owned th)"
      by (simp add: owners_def fun_eq_iff)
    with that inv_moved [OF assms(2)] show ?thesis unfolding good_step_def by metis
  qed
  note good = this
  from assms(3) show ?thesis
  proof cases
    case (call t f)
    have "d = \<lparr>lock = lock c, have_exclusive_srwlock = have_exclusive_srwlock c,
        threads = (threads c)(t := (threads c t)\<lparr>running := Some f, code := native_rw A f\<rparr>)\<rparr>"
      using call(1) by simp
    with good [OF call_good [OF assms(2) call(2,3)]] show ?thesis by simp
  next
    case (continue t f l b "is")
    with good [OF continue_good [OF assms(1,2) continue(2,3)]] show ?thesis by simp
  next
    case (return t f l b r)
    with good [OF return_good [OF assms(1,2) return(2,3)]] show ?thesis by simp
  qed
qed

lemma inv_start:
  assumes "rw_laws A" "native_rw_init A = (0, l, b)"
  shows "rw_inv A \<lparr>lock = l, have_exclusive_srwlock = b, threads = (\<lambda>t. \<lparr>running = None, code = [], holds = Nothing\<rparr>)\<rparr>"
proof -
  have "rw_state A l = Unlocked" "windows A \<Longrightarrow> \<not> b"
    using assms unfolding rw_laws_def native_rw_init_def by (auto split: if_splits)
  then show ?thesis by (simp add: rw_inv_def flag_matches_def owners_def owned.simps well_placed.simps)
qed

lemma rw_invariant: "rw_reachable A c \<Longrightarrow> rw_laws A \<Longrightarrow> rw_inv A c"
  by (induction rule: rw_reachable.induct) (auto dest: step_good intro: inv_start)

text \<open>A release that the system does not define; two threads that both believe to have the lock.\<close>

fun wrong_release :: "rw_state \<Rightarrow> instr list \<Rightarrow> bool" where
  "wrong_release m (Release_Shared # is) \<longleftrightarrow> (case m of Shared (Suc n) \<Rightarrow> False | _ \<Rightarrow> True)"
| "wrong_release m (Release_Exclusive # is) \<longleftrightarrow> m \<noteq> Exclusive"
| "wrong_release m _ \<longleftrightarrow> False"

definition writer_alone :: "'s rw \<Rightarrow> bool" where
  "writer_alone c \<longleftrightarrow> (\<forall>t u. t \<noteq> u \<longrightarrow> running (threads c t) = None \<longrightarrow> running (threads c u) = None \<longrightarrow>
     holds (threads c t) = Writing \<longrightarrow> holds (threads c u) = Nothing)"

lemma inv_no_wrong_release:
  assumes inv: "rw_inv A c"
  shows "\<not> wrong_release (rw_state A (lock c)) (code (threads c t))"
proof -
  have p: "well_placed A (threads c t)" using inv by (simp add: rw_inv_def)
  show ?thesis
  proof (cases "running (threads c t)")
    case None
    with p show ?thesis by (simp add: well_placed.simps)
  next
    case (Some f)
    show ?thesis
    proof (cases "f = Unlock \<and> windows A")
      case True
      with unlock_places(2) [OF p] Some owner_facts(1,2) [OF inv, of t] show ?thesis
        by (auto simp: owned.simps)
    next
      case False
      with acquire_places(2,3) [OF p Some] unlock_places(1) [OF p] Some show ?thesis
        by (cases "windows A"; cases f) (auto simp: native_defs)
    qed
  qed
qed

lemma inv_writer_alone:
  assumes inv: "rw_inv A c"
  shows "writer_alone c"
  unfolding writer_alone_def
proof (intro allI impI)
  fix t u
  assume t: "t \<noteq> u" "running (threads c t) = None" "running (threads c u) = None" "holds (threads c t) = Writing"
  then have o: "owners c t = Writing" "owners c u = holds (threads c u)" by (simp_all add: owners_def owned.simps)
  from inv have m: "matches (rw_state A (lock c)) (owners c)" by (simp add: rw_inv_def)
  with matches_writer(1) [OF m o(1)] have "\<exists>v. owners c v = Writing \<and> (\<forall>u. u \<noteq> v \<longrightarrow> owners c u = Nothing)" by simp
  with o t show "holds (threads c u) = Nothing" by (metis mode.distinct(3))
qed

section \<open>An example\<close>

definition demo_rw :: "rw_state rw_api" where
  "demo_rw = \<lparr>windows = True, rw_state = (\<lambda>m. m), InitializeSRWLock = Unlocked,
     AcquireSRWLockShared = (\<lambda>m. if m = Exclusive then None else Some (Shared (Suc (readers m)))),
     TryAcquireSRWLockShared = (\<lambda>m. if m = Exclusive then None else Some (Shared (Suc (readers m)))),
     AcquireSRWLockExclusive = (\<lambda>m. if m = Unlocked then Some Exclusive else None),
     TryAcquireSRWLockExclusive = (\<lambda>m. if m = Unlocked then Some Exclusive else None),
     ReleaseSRWLockShared = released, ReleaseSRWLockExclusive = released,
     pthread_rwlock_init = (22, Unlocked), pthread_rwlock_destroy = (\<lambda>m. (22, m)), pthread_rwlock = (\<lambda>f m. Some (22, m))\<rparr>"

lemma demo_rw_laws: "rw_laws demo_rw"
  by (auto simp: rw_laws_def demo_rw_def)

definition idle_threads :: "nat \<Rightarrow> thread" where
  "idle_threads t = \<lparr>running = None, code = [], holds = Nothing\<rparr>"

text \<open>Thread 0 has the lock, but has not set the flag.\<close>

definition demo_acquired :: "rw_state rw" where
  "demo_acquired = \<lparr>lock = Exclusive, have_exclusive_srwlock = False, threads = idle_threads(0 :=
     \<lparr>running = Some Wrlock, code = [Set_Have_Exclusive True, Return 0], holds = Nothing\<rparr>)\<rparr>"

lemma demo_reachable: "rw_reachable demo_rw demo_acquired"
proof -
  let ?c0 = "\<lparr>lock = Unlocked, have_exclusive_srwlock = False, threads = idle_threads\<rparr>"
  let ?c1 = "?c0\<lparr>threads := idle_threads(0 := (idle_threads 0)\<lparr>running := Some Wrlock, code := native_rw demo_rw Wrlock\<rparr>)\<rparr>"
  have "rw_reachable demo_rw ?c0"
    using rw_reachable.start [of demo_rw Unlocked False]
    by (simp add: native_rw_init_def demo_rw_def idle_threads_def [abs_def])
  moreover have "rw_step demo_rw ?c0 ?c1"
    using rw_step.call [of ?c0 0 Wrlock demo_rw] by (simp add: idle_threads_def)
  moreover have "rw_step demo_rw ?c1 demo_acquired"
    using rw_step.continue [of ?c1 0 Wrlock demo_rw Exclusive False "[Set_Have_Exclusive True, Return 0]"]
    by (simp add: native_rw_wrlock_def demo_rw_def demo_acquired_def idle_threads_def)
  ultimately show ?thesis by (blast intro: rw_reachable.step)
qed

section \<open>Properties\<close>

text \<open>C31: In every interleaving of threads that lock and unlock, on both systems: the lock is never
  released in another mode than the one it was acquired in, although the flag that tells the mode is
  not protected by anything but the lock itself, and a thread whose call for the write lock has returned
  is the only one that has the lock.\<close>

theorem rwlock_safe:
  assumes "rw_laws A" "rw_reachable A c"
  shows "\<not> wrong_release (rw_state A (lock c)) (code (threads c t)) \<and> writer_alone c"
  using rw_invariant [OF assms(2,1)] by (simp add: inv_no_wrong_release inv_writer_alone)

theorem rwlock_safe_acquired:
  "\<not> wrong_release (rw_state demo_rw (lock demo_acquired)) (code (threads demo_acquired 0)) \<and> writer_alone demo_acquired"
  using demo_rw_laws demo_reachable by (rule rwlock_safe)

text \<open>C32: Each step of each thread inside of these functions implements a step of a reader-writer lock
  (a thread gets the lock for reading when nobody writes, for writing when nobody else has it, or gives it
  back) or does not change who has the lock.\<close>

theorem rwlock_refines:
  assumes "rw_laws A" "rw_reachable A c" "rw_step A c d"
  shows "owners d = owners c \<or> rw_spec_step (owners c) (owners d)"
  using step_good [OF assms(1) rw_invariant [OF assms(2,1)] assms(3)] by blast

theorem rwlock_refines_acquired:
  "owners (demo_acquired\<lparr>have_exclusive_srwlock := True, threads := (threads demo_acquired)(0 :=
      (threads demo_acquired 0)\<lparr>code := [Return 0]\<rparr>)\<rparr>) = owners demo_acquired \<or>
   rw_spec_step (owners demo_acquired) (owners (demo_acquired\<lparr>have_exclusive_srwlock := True,
      threads := (threads demo_acquired)(0 := (threads demo_acquired 0)\<lparr>code := [Return 0]\<rparr>)\<rparr>))"
proof (rule rwlock_refines [OF demo_rw_laws demo_reachable])
  show "rw_step demo_rw demo_acquired (demo_acquired\<lparr>have_exclusive_srwlock := True, threads := (threads demo_acquired)(0 :=
      (threads demo_acquired 0)\<lparr>code := [Return 0]\<rparr>)\<rparr>)"
    using rw_step.continue [of demo_acquired 0 Wrlock demo_rw Exclusive True "[Return 0]"]
    by (simp add: demo_acquired_def)
qed

end
