(* ===== verification/Mysql_Time.thy ===== *)
theory Mysql_Time
  imports Mym_Prelude "HOL-Library.Signed_Division"
begin

text \<open>
  Points in time for waits with a limit: \<open>set_timespec\<close>, \<open>cmp_timespec\<close> and \<open>diff_timespec\<close> of \<open>my_global.h\<close>
  and \<open>get_milliseconds\<close> of \<open>thr_cond.h\<close>, in the two versions of the header: with the \<open>timespec\<close> of the
  system (seconds and nanoseconds since 1970), and with one of its own, for older compilers on
  Windows (a file time in units of 100 ns, and the longest wait in milliseconds). The clock of
  the system is an argument, in units of 100 ns. Unsigned 64-bit values are words; signed values are
  integers, with a range check where C leaves the overflow undefined.
\<close>

type_synonym ulonglong = "64 word"
type_synonym DWORD = "32 word"

definition int64_result :: "int \<Rightarrow> int res" where
  "int64_result x = (if - (2 ^ 63) \<le> x \<and> x < 2 ^ 63 then Inr x else undefined_behaviour Signed_overflow)"

lemma int64_result_ok [simp]: "- (2 ^ 63) \<le> x \<Longrightarrow> x < 2 ^ 63 \<Longrightarrow> int64_result x = Inr x"
  by (simp add: int64_result_def)

definition INT_MAX32 :: ulonglong where "INT_MAX32 = 0x7FFFFFFF"
definition UINT_MAX :: int where "UINT_MAX = 0xFFFFFFFF"
definition INFINITE :: DWORD where "INFINITE = 0xFFFFFFFF"

section \<open>The \<open>timespec\<close> of the system\<close>

record timespec =
  tv_sec :: int
  tv_nsec :: int

text \<open>\<open>narrow\<close> says that \<open>time_t\<close> is narrower than 64 bits.\<close>

definition set_timespec_nsec :: "bool \<Rightarrow> ulonglong \<Rightarrow> ulonglong \<Rightarrow> timespec" where
  "set_timespec_nsec narrow systime nsec =
     (let now = systime + nsec div 100; sec = now div 10000000; sec = (if narrow then min sec INT_MAX32 else sec)
      in \<lparr>tv_sec = uint sec, tv_nsec = uint (now mod 10000000 * 100 + nsec mod 100)\<rparr>)"

definition set_timespec :: "bool \<Rightarrow> ulonglong \<Rightarrow> ulonglong \<Rightarrow> timespec" where
  "set_timespec narrow systime sec = set_timespec_nsec narrow systime (sec * 1000000000)"

definition cmp_timespec :: "timespec \<Rightarrow> timespec \<Rightarrow> int" where
  "cmp_timespec ts1 ts2 =
     (if tv_sec ts1 > tv_sec ts2 \<or> tv_sec ts1 = tv_sec ts2 \<and> tv_nsec ts1 > tv_nsec ts2 then 1
      else if tv_sec ts1 < tv_sec ts2 \<or> tv_sec ts1 = tv_sec ts2 \<and> tv_nsec ts1 < tv_nsec ts2 then - 1
      else 0)"

definition diff_timespec :: "timespec \<Rightarrow> timespec \<Rightarrow> ulonglong res" where
  "diff_timespec ts1 ts2 = bindE (int64_result (tv_sec ts1 - tv_sec ts2)) (\<lambda>d.
     Inr (word_of_int d * 1000000000 + word_of_int (tv_nsec ts1) - word_of_int (tv_nsec ts2)))"

definition get_milliseconds :: "ulonglong \<Rightarrow> timespec \<Rightarrow> DWORD res" where
  "get_milliseconds systime abstime =
     bindE (int64_result (tv_sec abstime * 1000)) (\<lambda>s.
     bindE (int64_result (s + tv_nsec abstime sdiv 1000000)) (\<lambda>f.
     let future = word_of_int f :: ulonglong; now = systime div 10000
     in if future < now then Inr 0 else Inr (ucast (future - now))))"

section \<open>The \<open>timespec\<close> of the header\<close>

record ft_timespec =
  tv_i64 :: int
  max_timeout_msec :: int

definition ft_set_timespec_nsec :: "int \<Rightarrow> ulonglong \<Rightarrow> ft_timespec res" where
  "ft_set_timespec_nsec filetime nsec =
     bindE (int64_result (filetime + uint (nsec div 100))) (\<lambda>tv.
     Inr \<lparr>tv_i64 = tv, max_timeout_msec = uint (min (nsec div 1000000) INT_MAX32)\<rparr>)"

definition ft_cmp_timespec :: "ft_timespec \<Rightarrow> ft_timespec \<Rightarrow> int" where
  "ft_cmp_timespec ts1 ts2 = (if tv_i64 ts1 > tv_i64 ts2 then 1 else if tv_i64 ts1 < tv_i64 ts2 then - 1 else 0)"

definition ft_diff_timespec :: "ft_timespec \<Rightarrow> ft_timespec \<Rightarrow> ulonglong res" where
  "ft_diff_timespec ts1 ts2 = bindE (int64_result (tv_i64 ts1 - tv_i64 ts2)) (\<lambda>d.
     bindE (int64_result (d * 100)) (\<lambda>d. Inr (word_of_int d)))"

definition ft_get_milliseconds :: "int \<Rightarrow> ft_timespec option \<Rightarrow> DWORD res" where
  "ft_get_milliseconds filetime abstime = (case abstime of
     None \<Rightarrow> Inr INFINITE
   | Some ts \<Rightarrow> bindE (int64_result (tv_i64 ts - filetime)) (\<lambda>d.
       let millis = d sdiv 10000 in
       if millis < 0 then Inr 0
       else let millis = (if millis > max_timeout_msec ts then max_timeout_msec ts else millis);
                millis = (if millis > UINT_MAX then UINT_MAX else millis)
            in Inr (word_of_int millis)))"

section \<open>Waits\<close>

text \<open>The length of the remaining wait depends on full ten thousands of units of the clock.\<close>

lemma future_msec:
  fixes now c :: int
  assumes "0 \<le> now" "0 \<le> c" "c < 100"
  shows "now div 10000000 * 1000 + (now mod 10000000 * 100 + c) div 1000000 = now div 10000"
proof -
  have "(now mod 10000000 * 100 + c) div 100 = now mod 10000000" using assms(2,3) by simp
  moreover have "(now mod 10000000 * 100 + c) div (100 * 10000) = (now mod 10000000 * 100 + c) div 100 div 10000"
    by (rule zdiv_zmult2_eq) simp
  ultimately have low: "(now mod 10000000 * 100 + c) div 1000000 = now mod 10000000 div 10000" by simp
  have "now div 10000 = (now mod 10000000 + now div 10000000 * 1000 * 10000) div 10000"
    using div_mult_mod_eq [of now 10000000] by (simp add: algebra_simps)
  also have "\<dots> = now div 10000000 * 1000 + now mod 10000000 div 10000"
    by (rule div_mult_self1) simp
  finally show ?thesis using low by simp
qed

text \<open>The same for the words of the code, as long as the end of the wait is in the range of the clock.\<close>

lemma clock_pos: "0 \<le> uint (systime :: ulonglong) + uint (nsec :: ulonglong) div 100"
  by (simp add: pos_imp_zdiv_nonneg_iff)

lemma set_timespec_int:
  assumes "uint systime + uint nsec div 100 < 2 ^ 64"
  shows "set_timespec_nsec False systime nsec =
    \<lparr>tv_sec = (uint systime + uint nsec div 100) div 10000000,
     tv_nsec = (uint systime + uint nsec div 100) mod 10000000 * 100 + uint nsec mod 100\<rparr>"
proof -
  let ?now = "uint systime + uint nsec div 100"
  have now: "uint (systime + nsec div 100) = ?now"
    using assms clock_pos [of systime nsec] by (simp add: uint_word_ariths uint_div mod_pos_pos_trivial)
  have "uint (x mod 10000000 * 100 + nsec mod 100) = uint x mod 10000000 * 100 + uint nsec mod 100" for x :: ulonglong
  proof -
    have "uint x mod 10000000 < 10000000" "0 \<le> uint x mod 10000000" "uint nsec mod 100 < 100" "0 \<le> uint nsec mod 100"
      by simp_all
    then show ?thesis by (simp add: uint_word_ariths uint_mod)
  qed
  from this [of "systime + nsec div 100"] now show ?thesis by (simp add: set_timespec_nsec_def Let_def uint_div)
qed

lemma ulonglong_to_DWORD: "ucast (word_of_int x :: ulonglong) = (word_of_int x :: DWORD)"
  by (simp add: unsigned_of_int word_of_int_eq_iff)

lemma get_milliseconds_int:
  assumes "uint systime + uint nsec div 100 < 2 ^ 64"
  shows "get_milliseconds later (set_timespec_nsec False systime nsec) =
    (let left = (uint systime + uint nsec div 100) div 10000 - uint later div 10000
     in Inr (if left < 0 then 0 else word_of_int left))"
proof -
  let ?now = "uint systime + uint nsec div 100"
  let ?future = "?now div 10000"
  have nn: "0 \<le> ?now" "0 \<le> ?now mod 10000000 * 100 + uint nsec mod 100" by (rule clock_pos) simp
  have small: "0 \<le> ?future" "?future < 2 ^ 63" using assms nn by simp_all
  have "?now div 10000000 * 1000 \<le> ?now div 10000000 * 1000 + (?now mod 10000000 * 100 + uint nsec mod 100) div 1000000"
    using nn by (simp add: pos_imp_zdiv_nonneg_iff)
  also have f: "\<dots> = ?future" using nn by (intro future_msec) simp_all
  finally have sec: "?now div 10000000 * 1000 < 2 ^ 63" "0 \<le> ?now div 10000000 * 1000"
    using small nn(1) by (simp_all add: pos_imp_zdiv_nonneg_iff)
  have sdiv: "x sdiv 1000000 = x div 1000000" if "0 \<le> x" for x :: int
    using that by (cases "x = 0") (simp_all add: signed_divide_int_def)
  have fu: "uint (word_of_int ?future :: ulonglong) = ?future"
    using small by (simp add: uint_word_of_int mod_pos_pos_trivial)
  have later: "uint (later div 10000) = uint later div 10000" by (simp add: uint_div)
  have less: "(word_of_int ?future :: ulonglong) < later div 10000 \<longleftrightarrow> ?future - uint later div 10000 < 0"
    by (simp only: word_less_def fu later) simp
  have diff: "word_of_int ?future - later div 10000 = (word_of_int (?future - uint later div 10000) :: ulonglong)"
    by (simp only: of_int_diff later [symmetric] word_of_int_uint)
  have cast: "ucast (word_of_int ?future - later div 10000 :: ulonglong) = (word_of_int (?future - uint later div 10000) :: DWORD)"
    unfolding diff by (rule ulonglong_to_DWORD)
  have sum: "?now div 10000000 * 1000 + (?now mod 10000000 * 100 + uint nsec mod 100) sdiv 1000000 = ?future"
    unfolding sdiv [OF nn(2)] by (rule f)
  have r1: "int64_result (?now div 10000000 * 1000) = Inr (?now div 10000000 * 1000)"
    using sec by (intro int64_result_ok) linarith+
  have r2: "int64_result ?future = Inr ?future"
    using small by (intro int64_result_ok) linarith+
  show ?thesis
    unfolding get_milliseconds_def set_timespec_int [OF assms] timespec.simps r1 bindE_simps(2) sum r2 Let_def less cast
    by (simp only: if_distrib [of Inr] cong: if_cong)
qed

section \<open>Properties\<close>

text \<open>The time of a \<open>timespec\<close> in nanoseconds.\<close>

definition nanoseconds :: "timespec \<Rightarrow> int" where
  "nanoseconds ts = tv_sec ts * 1000000000 + tv_nsec ts"

text \<open>For times with nanoseconds in their range, \<open>cmp_timespec\<close> is the sign of their difference and
  \<open>diff_timespec\<close> is the difference in nanoseconds, in 64 bits.\<close>

theorem timespec_order:
  assumes "0 \<le> tv_nsec a" "tv_nsec a < 1000000000" "0 \<le> tv_nsec b" "tv_nsec b < 1000000000"
    and "- (2 ^ 63) \<le> tv_sec a - tv_sec b" "tv_sec a - tv_sec b < 2 ^ 63"
  shows "cmp_timespec a b = sgn (nanoseconds a - nanoseconds b) \<and>
    diff_timespec a b = Inr (word_of_int (nanoseconds a - nanoseconds b))"
proof
  consider "tv_sec a = tv_sec b" | "tv_sec a + 1 \<le> tv_sec b" | "tv_sec b + 1 \<le> tv_sec a" by linarith
  then show "cmp_timespec a b = sgn (nanoseconds a - nanoseconds b)"
    by cases (use assms in \<open>auto simp: cmp_timespec_def nanoseconds_def sgn_if\<close>)
  show "diff_timespec a b = Inr (word_of_int (nanoseconds a - nanoseconds b))"
    using assms(5,6) by (simp add: diff_timespec_def nanoseconds_def algebra_simps)
qed

theorem timespec_order_1_2:
  "cmp_timespec \<lparr>tv_sec = 1, tv_nsec = 999999999\<rparr> \<lparr>tv_sec = 2, tv_nsec = 0\<rparr> = - 1 \<and>
   diff_timespec \<lparr>tv_sec = 1, tv_nsec = 999999999\<rparr> \<lparr>tv_sec = 2, tv_nsec = 0\<rparr> = Inr (- 1)"
  using timespec_order [of "\<lparr>tv_sec = 1, tv_nsec = 999999999\<rparr>" "\<lparr>tv_sec = 2, tv_nsec = 0\<rparr>"]
  by (simp add: nanoseconds_def)

text \<open>On Windows with the \<open>timespec\<close> of the system, the wait for a time that was set \<open>nsec\<close> nanoseconds
  ahead has the remaining whole milliseconds, and none when the time has come; but it is cut to 32 bits.
  A limit of 2^32 milliseconds, less than 50 days, is no wait at all, and one millisecond less waits
  forever.\<close>

theorem timeout_milliseconds:
  assumes "uint systime + uint nsec div 100 < 2 ^ 64"
  shows "get_milliseconds later (set_timespec_nsec False systime nsec) =
      Inr (word_of_int (max 0 ((uint systime + uint nsec div 100) div 10000 - uint later div 10000))) \<and>
    (if nsec = 4294967296000000 \<and> later = systime
     then get_milliseconds later (set_timespec_nsec False systime nsec) = Inr 0 else True) \<and>
    (if nsec = 4294967295000000 \<and> later = systime
     then get_milliseconds later (set_timespec_nsec False systime nsec) = Inr INFINITE else True)"
proof -
  have ahead: "(x + n * 10000) div 10000 - x div 10000 = n" for x n :: int by simp
  have "get_milliseconds later (set_timespec_nsec False systime nsec) =
      Inr (word_of_int (max 0 ((uint systime + uint nsec div 100) div 10000 - uint later div 10000)))"
    by (simp add: get_milliseconds_int [OF assms] Let_def max_def)
  with ahead [of "uint systime" 4294967296] ahead [of "uint systime" 4294967295] show ?thesis
    by (auto simp: INFINITE_def)
qed

theorem timeout_milliseconds_50_days:
  "get_milliseconds 123456 (set_timespec_nsec False 123456 4294967296000000) = Inr 0"
  using timeout_milliseconds [of 123456 4294967296000000 123456] by simp



end
