(* ===== verification/Mysql_Calls.thy ===== *)
theory Mysql_Calls
  imports Mym_Prelude
begin

text \<open>
  The instrumented functions of the headers in \<open>mysql/psi\<close> make two kinds of calls: to a plugin that
  measures, the performance schema, and to the system. This theory has what they share: a function as a
  tree of its calls, branching over the answers; when two functions are the same for a program that
  does not see the plugin; a monitor that follows a function and says whether its calls are
  in order; a bound on the number of calls; and the machine that interleaves the calls of threads.
\<close>

type_synonym ptr = nat

section \<open>Functions as trees\<close>

text \<open>\<open>Ask\<close> is a call of the plugin, or a step that only the plugin depends on, such as reading a handle that
  it has left in an object. \<open>Sys\<close> is a call of the system.\<close>

datatype ('p, 's, 'a, 'r) code =
    Return 'r
  | Ask 'p "ptr \<Rightarrow> ('p, 's, 'a, 'r) code"
  | Sys 's "'a \<Rightarrow> ('p, 's, 'a, 'r) code"

primrec bindC :: "('p, 's, 'a, 'r) code \<Rightarrow> ('r \<Rightarrow> ('p, 's, 'a, 'q) code) \<Rightarrow> ('p, 's, 'a, 'q) code" where
  "bindC (Return r) f = f r"
| "bindC (Ask p k) f = Ask p (\<lambda>a. bindC (k a) f)"
| "bindC (Sys s k) f = Sys s (\<lambda>a. bindC (k a) f)"

text \<open>\<open>tell\<close> is a call that returns nothing, \<open>sys\<close> returns what the system returns.\<close>

abbreviation tell :: "'p \<Rightarrow> ('p, 's, 'a, 'r) code \<Rightarrow> ('p, 's, 'a, 'r) code" where
  "tell p c \<equiv> Ask p (\<lambda>_. c)"

abbreviation sys :: "'s \<Rightarrow> ('p, 's, 'a, 'a) code" where
  "sys s \<equiv> Sys s Return"

lemma bindC_Return [simp]: "bindC c Return = c"
  by (induction c) simp_all

lemma bindC_assoc: "bindC (bindC c f) g = bindC c (\<lambda>x. bindC (f x) g)"
  by (induction c) simp_all

section \<open>What a program can see\<close>

text \<open>\<open>silence\<close> leaves the calls of the system; \<open>same R c d\<close> says that \<open>c\<close>, whatever the plugin answers, makes
  the calls of the system that \<open>d\<close> makes, with results related by \<open>R\<close>.\<close>

primrec silence :: "('p, 's, 'a, 'r) code \<Rightarrow> ('p, 's, 'a, 'r) code" where
  "silence (Return r) = Return r"
| "silence (Ask p k) = silence (k 0)"
| "silence (Sys s k) = Sys s (\<lambda>a. silence (k a))"

primrec same :: "('r \<Rightarrow> 'q \<Rightarrow> bool) \<Rightarrow> ('p, 's, 'a, 'r) code \<Rightarrow> ('p, 's, 'a, 'q) code \<Rightarrow> bool" where
  "same R (Return r) d = (case d of Return q \<Rightarrow> R r q | _ \<Rightarrow> False)"
| "same R (Ask p k) d = (\<forall>a. same R (k a) d)"
| "same R (Sys s k) d = (case d of Sys t l \<Rightarrow> s = t \<and> (\<forall>a. same R (k a) (l a)) | _ \<Rightarrow> False)"

lemma same_cases:
  "same R (Return r) d \<Longrightarrow> \<exists>q. d = Return q \<and> R r q"
  "same R (Sys s k) d \<Longrightarrow> \<exists>l. d = Sys s l \<and> (\<forall>a. same R (k a) (l a))"
  by (auto split: code.splits)

lemma same_bind:
  "same R c d \<Longrightarrow> (\<And>r q. R r q \<Longrightarrow> same S (f r) (g q)) \<Longrightarrow> same S (bindC c f) (bindC d g)"
  by (induction c arbitrary: d) (auto split: code.splits)

lemma same_mono: "same R c d \<Longrightarrow> (\<And>r q. R r q \<Longrightarrow> S r q) \<Longrightarrow> same S c d"
  by (induction c arbitrary: d) (auto split: code.splits)

lemma silence_bind [simp]: "silence (bindC c f) = bindC (silence c) (\<lambda>r. silence (f r))"
  by (induction c) simp_all

text \<open>Functions that only call the system.\<close>

primrec quiet :: "('p, 's, 'a, 'r) code \<Rightarrow> bool" where
  "quiet (Return r) = True"
| "quiet (Ask p k) = False"
| "quiet (Sys s k) = (\<forall>a. quiet (k a))"

lemma quiet_bind: "quiet c \<Longrightarrow> (\<And>r. quiet (f r)) \<Longrightarrow> quiet (bindC c f)"
  by (induction c) simp_all

lemma quiet_silence [simp]: "quiet c \<Longrightarrow> silence c = c"
  by (induction c) (simp_all add: fun_eq_iff)

lemma quiet_same: "quiet c \<Longrightarrow> same (=) c c"
  by (induction c) simp_all

section \<open>Monitors\<close>

datatype ('p, 's, 'a) event = Asked 'p ptr | Did 's 'a

text \<open>A monitor may rule an answer out, when it is not one that a value in memory can have; call an event
  wrong; or go on.\<close>

datatype 'm verdict = Ruled_Out | Wrong | Next 'm

type_synonym ('p, 's, 'a, 'm) monitor = "'m \<Rightarrow> ('p, 's, 'a) event \<Rightarrow> 'm verdict"

primrec accepted :: "('m \<Rightarrow> bool) \<Rightarrow> 'm verdict \<Rightarrow> bool" where
  "accepted P Ruled_Out = True"
| "accepted P Wrong = False"
| "accepted P (Next m) = P m"

lemma accepted_mono: "accepted P v \<Longrightarrow> (\<And>m. v = Next m \<Longrightarrow> P m \<Longrightarrow> Q m) \<Longrightarrow> accepted Q v"
  by (cases v) simp_all

primrec obeys :: "('p, 's, 'a, 'm) monitor \<Rightarrow> ('p, 's, 'a, 'r) code \<Rightarrow> ('r \<Rightarrow> 'm \<Rightarrow> bool) \<Rightarrow> 'm \<Rightarrow> bool" where
  "obeys \<delta> (Return r) Q m = Q r m"
| "obeys \<delta> (Ask p k) Q m = (\<forall>a. accepted (obeys \<delta> (k a) Q) (\<delta> m (Asked p a)))"
| "obeys \<delta> (Sys s k) Q m = (\<forall>a. accepted (obeys \<delta> (k a) Q) (\<delta> m (Did s a)))"

lemma obeys_bind: "obeys \<delta> (bindC c f) Q = obeys \<delta> c (\<lambda>r. obeys \<delta> (f r) Q)"
proof (induction c)
  case (Ask p k)
  then show ?case by (intro ext) simp
next
  case (Sys s k)
  then show ?case by (intro ext) simp
qed (rule ext, simp)

lemma obeys_mono: "obeys \<delta> c P m \<Longrightarrow> (\<And>r m. P r m \<Longrightarrow> Q r m) \<Longrightarrow> obeys \<delta> c Q m"
proof (induction c arbitrary: m)
  case (Ask p k)
  then show ?case by simp (meson accepted_mono rangeI)
next
  case (Sys s k)
  then show ?case by simp (meson accepted_mono rangeI)
qed simp

section \<open>The number of calls\<close>

primrec within :: "('p, 's, 'a, 'r) code \<Rightarrow> nat \<Rightarrow> bool" where
  "within (Return r) n = True"
| "within (Ask p k) n = (case n of 0 \<Rightarrow> False | Suc n \<Rightarrow> \<forall>a. within (k a) n)"
| "within (Sys s k) n = (case n of 0 \<Rightarrow> False | Suc n \<Rightarrow> \<forall>a. within (k a) n)"

lemma within_Suc: "within c n \<Longrightarrow> within c (Suc n)"
  by (induction c arbitrary: n) (auto split: nat.splits)

lemma within_mono: "n \<le> k \<Longrightarrow> within c n \<Longrightarrow> within c k"
  by (induction rule: dec_induct) (auto intro: within_Suc)

lemma within_bind:
  assumes "\<And>r. within (f r) k"
  shows "within c n \<Longrightarrow> within (bindC c f) (n + k)"
proof (induction c arbitrary: n)
  case (Return r)
  show ?case using within_mono [of k "n + k" "f r"] assms by simp
next
  case (Ask p g)
  then show ?case by (cases n) simp_all
next
  case (Sys s g)
  then show ?case by (cases n) simp_all
qed

section \<open>Waits\<close>

text \<open>The shape that most functions have: \<open>if (that->m_psi != NULL)\<close>, where \<open>load\<close> reads the handle, which the
  preprocessor takes out of a build without the interface; and a wait around the call of the system, which
  ends only if the plugin gave a locker for it.\<close>

definition if_handle :: "bool \<Rightarrow> 'p \<Rightarrow> (ptr \<Rightarrow> ('p, 's, 'a, 'r) code) \<Rightarrow> ('p, 's, 'a, 'r) code \<Rightarrow> ('p, 's, 'a, 'r) code" where
  "if_handle have load instr plain =
     (if have then Ask load (\<lambda>p. if p \<noteq> 0 then Ask load instr else plain) else plain)"

definition waiting :: "'p \<Rightarrow> ('p, 's, 'a, 'r) code \<Rightarrow> (ptr \<Rightarrow> 'r \<Rightarrow> 'p) \<Rightarrow> ('p, 's, 'a, 'r) code" where
  "waiting start body stop = Ask start (\<lambda>locker. bindC body (\<lambda>result.
     if locker \<noteq> 0 then tell (stop locker result) (Return result) else Return result))"

lemma same_if_handle: "(\<And>p. same R (instr p) d) \<Longrightarrow> same R plain d \<Longrightarrow> same R (if_handle have load instr plain) d"
  by (simp add: if_handle_def)

lemma same_waiting: "same (=) body d \<Longrightarrow> same (=) (waiting start body stop) d"
  using same_bind [of "(=)" body d "(=)" _ Return] by (simp add: waiting_def)

lemma silence_if_handle [simp]: "silence (if_handle False load instr plain) = silence plain"
  by (simp add: if_handle_def)

text \<open>A monitor for waits. \<open>kind_of\<close> sorts the calls of the plugin: the start of a wait of some kind, the end of the
  wait with a locker, or something else. Between the start and the end the system must have been called,
  and \<open>reports\<close> says that the end is the right one, with the right result. A locker that is not \<open>NULL\<close> is used
  for this once, and a wait for which the plugin gave none is not ended.\<close>

datatype 'k kind = Starts 'k | Ends ptr | Other

datatype ('k, 'a) wait_state = Idle | Waiting 'k ptr | Waited 'k ptr 'a

fun wait_monitor :: "('p \<Rightarrow> 'k kind) \<Rightarrow> ('k \<Rightarrow> 'p \<Rightarrow> 'a \<Rightarrow> bool) \<Rightarrow> ('p, 's, 'a, ('k, 'a) wait_state) monitor" where
  "wait_monitor kind_of reports w (Asked p a) = (case kind_of p of
     Starts k \<Rightarrow> if w = Idle then Next (if a = 0 then Idle else Waiting k a) else Wrong
   | Ends l \<Rightarrow> (case w of Waited k l' r \<Rightarrow> if l' = l \<and> reports k p r then Next Idle else Wrong | _ \<Rightarrow> Wrong)
   | Other \<Rightarrow> Next w)"
| "wait_monitor kind_of reports w (Did s a) = Next (case w of
     Idle \<Rightarrow> Idle | Waiting k l \<Rightarrow> Waited k l a | Waited k l _ \<Rightarrow> Waited k l a)"

lemma wait_monitor_possible: "wait_monitor kind_of reports w e \<noteq> Ruled_Out"
  by (cases e) (auto split: kind.splits wait_state.splits)

text \<open>Functions that differ in their results only.\<close>

definition mapC :: "('r \<Rightarrow> 'q) \<Rightarrow> ('p, 's, 'a, 'r) code \<Rightarrow> ('p, 's, 'a, 'q) code" where
  "mapC f c = bindC c (\<lambda>r. Return (f r))"

section \<open>Threads\<close>

text \<open>
  The state of a machine: what each thread is doing, the memory that the plugin depends on, with the plugin
  itself, the system, and the calls that have been made. An idle thread calls a function from a
  given set at any time; a call of the system may take several steps, which change its state, before it
  returns, and may have to wait for other threads.
\<close>

record ('p, 's, 'a, 'r, 'h, 'w) machine =
  running :: "nat \<Rightarrow> ('p, 's, 'a, 'r) code option"
  hidden :: 'h
  world :: 'w
  events :: "(nat \<times> ('p, 's, 'a) event) list"

type_synonym ('p, 'h) plugin = "nat \<Rightarrow> 'p \<Rightarrow> 'h \<Rightarrow> ptr \<Rightarrow> 'h \<Rightarrow> bool"
type_synonym ('s, 'a, 'w) system = "nat \<Rightarrow> 's \<Rightarrow> 'w \<Rightarrow> 'a option \<Rightarrow> 'w \<Rightarrow> bool"

inductive machine_step :: "('p, 's, 'a, 'r) code set \<Rightarrow> ('p, 'h) plugin \<Rightarrow> ('s, 'a, 'w) system \<Rightarrow>
    ('p, 's, 'a, 'r, 'h, 'w) machine \<Rightarrow> ('p, 's, 'a, 'r, 'h, 'w) machine \<Rightarrow> bool" for F P S where
  call: "running c t = None \<Longrightarrow> f \<in> F \<Longrightarrow> machine_step F P S c (c\<lparr>running := (running c)(t \<mapsto> f)\<rparr>)"
| return: "running c t = Some (Return r) \<Longrightarrow> machine_step F P S c (c\<lparr>running := (running c)(t := None)\<rparr>)"
| ask: "running c t = Some (Ask p k) \<Longrightarrow> P t p (hidden c) a h \<Longrightarrow>
    machine_step F P S c (c\<lparr>running := (running c)(t \<mapsto> k a), hidden := h, events := events c @ [(t, Asked p a)]\<rparr>)"
| progress: "running c t = Some (Sys s k) \<Longrightarrow> S t s (world c) None w \<Longrightarrow>
    machine_step F P S c (c\<lparr>world := w\<rparr>)"
| did: "running c t = Some (Sys s k) \<Longrightarrow> S t s (world c) (Some a) w \<Longrightarrow>
    machine_step F P S c (c\<lparr>running := (running c)(t \<mapsto> k a), world := w, events := events c @ [(t, Did s a)]\<rparr>)"

inductive machine_reachable :: "('p, 's, 'a, 'r) code set \<Rightarrow> ('p, 'h) plugin \<Rightarrow> ('s, 'a, 'w) system \<Rightarrow> 'h \<Rightarrow> 'w \<Rightarrow>
    ('p, 's, 'a, 'r, 'h, 'w) machine \<Rightarrow> bool" for F P S h w where
  start: "machine_reachable F P S h w \<lparr>running = (\<lambda>t. None), hidden = h, world = w, events = []\<rparr>"
| step: "machine_reachable F P S h w c \<Longrightarrow> machine_step F P S c d \<Longrightarrow> machine_reachable F P S h w d"

text \<open>The calls of the system, with the threads that made them.\<close>

fun visible :: "(nat \<times> ('p, 's, 'a) event) list \<Rightarrow> (nat \<times> 's \<times> 'a) list" where
  "visible [] = []"
| "visible ((t, Asked p a) # es) = visible es"
| "visible ((t, Did s a) # es) = (t, s, a) # visible es"

lemma visible_append [simp]: "visible (es @ es') = visible es @ visible es'"
  by (induction es rule: visible.induct) simp_all

text \<open>The events of one thread.\<close>

definition events_of :: "nat \<Rightarrow> (nat \<times> 'e) list \<Rightarrow> 'e list" where
  "events_of t es = map snd (filter (\<lambda>(u, e). u = t) es)"

lemma events_of_simps [simp]:
  "events_of t [] = []"
  "events_of t (es @ [(u, e)]) = (if u = t then events_of t es @ [e] else events_of t es)"
  by (simp_all add: events_of_def)

subsection \<open>Every execution with the plugin is one without it\<close>

text \<open>The threads are in functions that are the same to a program, the systems are in the same state, and the
  same calls of it have been made.\<close>

definition corresponds ::
  "('p, 's, 'a, 'r, 'h, 'w) machine \<Rightarrow> ('p, 's, 'a, 'r, 'i, 'w) machine \<Rightarrow> bool" where
  "corresponds c d \<longleftrightarrow> world c = world d \<and> visible (events c) = visible (events d) \<and>
     (\<forall>t. rel_option (same (=)) (running c t) (running d t))"

lemma corresponds_cases:
  assumes "corresponds c d"
  shows "running c t = None \<Longrightarrow> running d t = None"
    and "running c t = Some f \<Longrightarrow> \<exists>g. running d t = Some g \<and> same (=) f g"
  using assms by (auto simp: corresponds_def option_rel_Some1 dest: spec [of _ t])

lemma corresponds_update:
  "corresponds c d \<Longrightarrow> rel_option (same (=)) f g \<Longrightarrow> w = w' \<Longrightarrow> visible e = visible e' \<Longrightarrow>
   corresponds (c\<lparr>running := (running c)(t := f), hidden := h, world := w, events := events c @ e\<rparr>)
     (d\<lparr>running := (running d)(t := g), hidden := i, world := w', events := events d @ e'\<rparr>)"
  by (simp add: corresponds_def)

lemma corresponds_step:
  assumes step: "machine_step F P S c c'" and cor: "corresponds c d"
    and F: "\<And>f. f \<in> F \<Longrightarrow> \<exists>g \<in> G. same (=) f g"
  shows "\<exists>d'. (d' = d \<or> machine_step G Q S d d') \<and> corresponds c' d'"
  using step
proof cases
  case (call t f)
  with F obtain g where g: "g \<in> G" "same (=) f g" by blast
  have "machine_step G Q S d (d\<lparr>running := (running d)(t \<mapsto> g)\<rparr>)"
    using corresponds_cases(1) [OF cor call(2)] g(1) by (rule machine_step.call)
  moreover have "corresponds c' (d\<lparr>running := (running d)(t \<mapsto> g)\<rparr>)"
    using cor g(2) by (simp add: call corresponds_def)
  ultimately show ?thesis by blast
next
  case (return t r)
  have "running d t = Some (Return r)" using corresponds_cases(2) [OF cor return(2)] by (auto dest: same_cases(1) simp del: same.simps)
  then have "machine_step G Q S d (d\<lparr>running := (running d)(t := None)\<rparr>)" by (rule machine_step.return)
  moreover have "corresponds c' (d\<lparr>running := (running d)(t := None)\<rparr>)" using cor by (simp add: return corresponds_def)
  ultimately show ?thesis by blast
next
  case (ask t p k a h)
  from corresponds_cases(2) [OF cor ask(2)] obtain g where g: "running d t = Some g" "same (=) (k a) g" by auto
  then have "(running d)(t \<mapsto> g) = running d" by auto
  with g cor have "corresponds c' d" by (auto simp: ask corresponds_def)
  then show ?thesis by blast
next
  case (progress t s k w)
  from corresponds_cases(2) [OF cor progress(2)] obtain l where "running d t = Some (Sys s l)"
    by (auto dest: same_cases(2) simp del: same.simps)
  moreover have "world c = world d" using cor by (simp add: corresponds_def)
  ultimately have "machine_step G Q S d (d\<lparr>world := w\<rparr>)"
    using progress by (auto intro: machine_step.progress)
  moreover have "corresponds c' (d\<lparr>world := w\<rparr>)" using cor by (simp add: progress corresponds_def)
  ultimately show ?thesis by blast
next
  case (did t s k a w)
  from corresponds_cases(2) [OF cor did(2)] obtain l where l: "running d t = Some (Sys s l)" "\<And>a. same (=) (k a) (l a)"
    by (auto dest!: same_cases(2) simp del: same.simps)
  have "world c = world d" using cor by (simp add: corresponds_def)
  with did(3) have "S t s (world d) (Some a) w" by simp
  with l(1) have "machine_step G Q S d (d\<lparr>running := (running d)(t \<mapsto> l a), world := w, events := events d @ [(t, Did s a)]\<rparr>)"
    by (rule machine_step.did)
  moreover have "corresponds c' (d\<lparr>running := (running d)(t \<mapsto> l a), world := w, events := events d @ [(t, Did s a)]\<rparr>)"
    using cor l(2) by (simp add: did corresponds_def)
  ultimately show ?thesis by blast
qed

lemma corresponds_reachable:
  assumes "machine_reachable F P S h w c" and "\<And>f. f \<in> F \<Longrightarrow> \<exists>g \<in> G. same (=) f g"
  shows "\<exists>d. machine_reachable G Q S i w d \<and> corresponds c d"
  using assms(1)
proof induction
  case start
  have "corresponds \<lparr>running = (\<lambda>t. None), hidden = h, world = w, events = []\<rparr>
      \<lparr>running = (\<lambda>t. None), hidden = i, world = w, events = []\<rparr>" by (simp add: corresponds_def)
  then show ?case by (blast intro: machine_reachable.start)
next
  case (step c c')
  then obtain d where d: "machine_reachable G Q S i w d" "corresponds c d" by blast
  from corresponds_step [OF step(2) d(2) assms(2)] d(1) show ?case by (blast intro: machine_reachable.step)
qed

subsection \<open>Monitors follow the threads\<close>

text \<open>The states of a monitor after some events, when none was wrong.\<close>

fun follow :: "('p, 's, 'a, 'm) monitor \<Rightarrow> ('p, 's, 'a) event list \<Rightarrow> 'm \<Rightarrow> 'm verdict" where
  "follow \<delta> [] m = Next m"
| "follow \<delta> (e # es) m = (case \<delta> m e of Next m \<Rightarrow> follow \<delta> es m | v \<Rightarrow> v)"

lemma follow_append: "follow \<delta> (es @ es') m = (case follow \<delta> es m of Next m \<Rightarrow> follow \<delta> es' m | v \<Rightarrow> v)"
  by (induction es arbitrary: m) (auto split: verdict.splits)

text \<open>When every function starts and ends in good states of the monitor, a thread is never wrong, whatever the
  others do in between, and in a good state whenever it is idle.\<close>

definition follows :: "('p, 's, 'a, 'm) monitor \<Rightarrow> ('m \<Rightarrow> bool) \<Rightarrow> 'm \<Rightarrow> ('p, 's, 'a, 'r, 'h, 'w) machine \<Rightarrow> nat \<Rightarrow> bool" where
  "follows \<delta> I m c t \<longleftrightarrow> accepted (\<lambda>m. case running c t of None \<Rightarrow> I m | Some f \<Rightarrow> obeys \<delta> f (\<lambda>_. I) m)
     (follow \<delta> (events_of t (events c)) m)"

lemma follow_event:
  assumes "accepted (obeys \<delta> f Q) (follow \<delta> es m)" "\<And>m. obeys \<delta> f Q m \<Longrightarrow> accepted (obeys \<delta> g Q) (\<delta> m e)"
  shows "accepted (obeys \<delta> g Q) (follow \<delta> (es @ [e]) m)"
  using assms by (cases "follow \<delta> es m") (auto simp: follow_append split: verdict.splits dest!: assms(2))

lemma follows_step:
  assumes step: "machine_step F P S c d" and t: "follows \<delta> I m c t"
    and F: "\<And>f m. f \<in> F \<Longrightarrow> I m \<Longrightarrow> obeys \<delta> f (\<lambda>_. I) m"
  shows "follows \<delta> I m d t"
  using step
proof cases
  case (call u f)
  with t F show ?thesis by (auto simp: follows_def elim!: accepted_mono)
next
  case (return u r)
  with t show ?thesis by (auto simp: follows_def elim!: accepted_mono)
next
  case (ask u p k a h)
  show ?thesis
  proof (cases "u = t")
    case True
    have "accepted (obeys \<delta> (k a) (\<lambda>_. I)) (follow \<delta> (events_of t (events c) @ [Asked p a]) m)"
      using t ask True by (intro follow_event [of \<delta> "Ask p k"]) (simp_all add: follows_def del: obeys.simps, simp)
    with ask True show ?thesis by (simp add: follows_def)
  qed (use t ask in \<open>simp add: follows_def\<close>)
next
  case (progress u s k w)
  with t show ?thesis by (simp add: follows_def)
next
  case (did u s k a w)
  show ?thesis
  proof (cases "u = t")
    case True
    have "accepted (obeys \<delta> (k a) (\<lambda>_. I)) (follow \<delta> (events_of t (events c) @ [Did s a]) m)"
      using t did True by (intro follow_event [of \<delta> "Sys s k"]) (simp_all add: follows_def del: obeys.simps, simp)
    with did True show ?thesis by (simp add: follows_def)
  qed (use t did in \<open>simp add: follows_def\<close>)
qed

lemma follows_reachable:
  assumes "machine_reachable F P S h w c" and "I m" and "\<And>f m. f \<in> F \<Longrightarrow> I m \<Longrightarrow> obeys \<delta> f (\<lambda>_. I) m"
  shows "follows \<delta> I m c t"
  using assms(1)
proof induction
  case start
  with assms(2) show ?case by (simp add: follows_def)
next
  case (step c d)
  from follows_step [OF step(2,3) assms(3)] show ?case by blast
qed

text \<open>When the plugin gives no answer that the monitor rules out, the monitor goes on.\<close>

lemma follow_possible:
  assumes "machine_reachable F P S h w c"
    and "\<And>t p h a h' m. P t p h a h' \<Longrightarrow> \<delta> m (Asked p a) \<noteq> Ruled_Out" "\<And>s a m. \<delta> m (Did s a) \<noteq> Ruled_Out"
  shows "follow \<delta> (events_of t (events c)) m \<noteq> Ruled_Out"
  using assms(1)
proof induction
  case (step c d)
  from step(2) show ?case
    by cases (use step(3) assms(2,3) in \<open>auto simp: follow_append split: verdict.splits\<close>)
qed simp

text \<open>The calls of the system that a function makes.\<close>

primrec calls_only :: "('s \<Rightarrow> bool) \<Rightarrow> ('p, 's, 'a, 'r) code \<Rightarrow> bool" where
  "calls_only A (Return r) = True"
| "calls_only A (Ask p k) = (\<forall>a. calls_only A (k a))"
| "calls_only A (Sys s k) = (A s \<and> (\<forall>a. calls_only A (k a)))"

lemma calls_only_running:
  assumes "machine_reachable F P S h w c" and "\<And>f. f \<in> F \<Longrightarrow> calls_only A f"
  shows "\<forall>t f. running c t = Some f \<longrightarrow> calls_only A f"
  using assms(1)
proof induction
  case (step c d)
  from step(2) show ?case
    by cases (use step(3) assms(2) in \<open>fastforce split: if_splits\<close>)+
qed simp

text \<open>Executions in which one thread runs.\<close>

definition thread_reaches :: "('p, 's, 'a, 'r) code set \<Rightarrow> ('p, 'h) plugin \<Rightarrow> ('s, 'a, 'w) system \<Rightarrow> 'h \<Rightarrow> 'w \<Rightarrow> nat \<Rightarrow>
    ('p, 's, 'a, 'r) code \<Rightarrow> (nat \<times> ('p, 's, 'a) event) list \<Rightarrow> 'h \<Rightarrow> 'w \<Rightarrow> bool" where
  "thread_reaches F P S h w t f es h' w' \<longleftrightarrow> (\<exists>c. machine_reachable F P S h w c \<and> running c t = Some f \<and>
     events c = es \<and> hidden c = h' \<and> world c = w')"

lemma thread_reaches_call: "f \<in> F \<Longrightarrow> thread_reaches F P S h w t f [] h w"
  unfolding thread_reaches_def
  by (intro exI conjI, rule machine_reachable.step [OF machine_reachable.start], rule machine_step.call [where t = t and f = f])
    simp_all

lemma thread_reaches_ask:
  assumes "thread_reaches F P S h w t (Ask p k) es h' w'" "P t p h' a h''"
  shows "thread_reaches F P S h w t (k a) (es @ [(t, Asked p a)]) h'' w'"
proof -
  from assms(1) obtain c where c: "machine_reachable F P S h w c" "running c t = Some (Ask p k)" "events c = es"
      "hidden c = h'" "world c = w'" unfolding thread_reaches_def by blast
  from c(2) have "P t p (hidden c) a h'' \<Longrightarrow> machine_step F P S c
      (c\<lparr>running := (running c)(t \<mapsto> k a), hidden := h'', events := events c @ [(t, Asked p a)]\<rparr>)" by (rule machine_step.ask)
  with machine_reachable.step [OF c(1)] c assms(2) show ?thesis unfolding thread_reaches_def by fastforce
qed

lemma thread_reaches_did:
  assumes "thread_reaches F P S h w t (Sys s k) es h' w'" "S t s w' (Some a) w''"
  shows "thread_reaches F P S h w t (k a) (es @ [(t, Did s a)]) h' w''"
proof -
  from assms(1) obtain c where c: "machine_reachable F P S h w c" "running c t = Some (Sys s k)" "events c = es"
      "hidden c = h'" "world c = w'" unfolding thread_reaches_def by blast
  from c(2) have "S t s (world c) (Some a) w'' \<Longrightarrow> machine_step F P S c
      (c\<lparr>running := (running c)(t \<mapsto> k a), world := w'', events := events c @ [(t, Did s a)]\<rparr>)" by (rule machine_step.did)
  with machine_reachable.step [OF c(1)] c assms(2) show ?thesis unfolding thread_reaches_def by fastforce
qed

end
