(* ===== verification/Mysql_Native.thy ===== *)
theory Mysql_Native
  imports Mysql_Calls Mysql_Time
begin

text \<open>
  Threads, thread-local values and condition variables of the systems: \<open>my_thread.h\<close>, \<open>my_thread_local.h\<close> and
  \<open>thr_cond.h\<close>. On Windows the headers give the functions of Windows the results of the POSIX functions, which they
  call elsewhere. Both are calls of the system; their answer is an integer, with addresses and keys
  as numbers. Windows is a parameter.
\<close>

section \<open>Calls\<close>

datatype native_call =
    GetCurrentThreadId | SwitchToThread
  | pthread_self | pthread_equal nat nat | pthread_attr_init ptr | pthread_attr_destroy ptr
  | pthread_attr_setstacksize ptr "64 word" | pthread_attr_setdetachstate ptr "32 word" | pthread_attr_getstacksize ptr ptr
  | sched_yield
  | TlsAlloc | TlsFree DWORD | TlsGetValue DWORD | TlsSetValue DWORD ptr
  | pthread_key_create ptr ptr | pthread_key_delete DWORD | pthread_getspecific DWORD | pthread_setspecific DWORD ptr
  | InitializeConditionVariable ptr | SleepConditionVariableCS ptr ptr DWORD | WakeConditionVariable ptr | WakeAllConditionVariable ptr
  | pthread_cond_init ptr | pthread_cond_destroy ptr | pthread_cond_wait ptr ptr | pthread_cond_timedwait ptr ptr ptr
  | pthread_cond_signal ptr | pthread_cond_broadcast ptr
  | safe_cond_wait ptr ptr ptr "32 word" | safe_cond_timedwait ptr ptr ptr ptr "32 word"
  | my_getsystime | GetSystemTimeAsFileTime

type_synonym 'r native_code = "(unit, native_call, int, 'r) code"

section \<open>Threads\<close>

text \<open>The attributes of a thread on Windows, as the functions of the header leave them: the result, and the
  attributes. Elsewhere the attributes belong to the system.\<close>

record my_thread_attr_t =
  dwStackSize :: DWORD
  detachstate :: "32 word"

definition MY_THREAD_CREATE_JOINABLE :: "32 word" where "MY_THREAD_CREATE_JOINABLE = 0"
definition MY_THREAD_CREATE_DETACHED :: "32 word" where "MY_THREAD_CREATE_DETACHED = 1"

definition my_thread_self :: "bool \<Rightarrow> int native_code" where
  "my_thread_self win = sys (if win then GetCurrentThreadId else pthread_self)"

definition my_thread_equal :: "bool \<Rightarrow> nat \<Rightarrow> nat \<Rightarrow> int native_code" where
  "my_thread_equal win t1 t2 = (if win then Return (of_bool (t1 = t2)) else sys (pthread_equal t1 t2))"

type_synonym attr_code = "(int \<times> my_thread_attr_t) native_code"

definition attr_sys :: "my_thread_attr_t \<Rightarrow> native_call \<Rightarrow> attr_code" where
  "attr_sys attr c = Sys c (\<lambda>r. Return (r, attr))"

definition my_thread_attr_init :: "bool \<Rightarrow> ptr \<Rightarrow> my_thread_attr_t \<Rightarrow> attr_code" where
  "my_thread_attr_init win p attr = (if win then Return (0, attr\<lparr>dwStackSize := 0, detachstate := MY_THREAD_CREATE_JOINABLE\<rparr>)
     else attr_sys attr (pthread_attr_init p))"

definition my_thread_attr_destroy :: "bool \<Rightarrow> ptr \<Rightarrow> my_thread_attr_t \<Rightarrow> attr_code" where
  "my_thread_attr_destroy win p attr = (if win then Return (0, attr\<lparr>dwStackSize := 0, detachstate := MY_THREAD_CREATE_JOINABLE\<rparr>)
     else attr_sys attr (pthread_attr_destroy p))"

definition my_thread_attr_setstacksize :: "bool \<Rightarrow> ptr \<Rightarrow> 64 word \<Rightarrow> my_thread_attr_t \<Rightarrow> attr_code" where
  "my_thread_attr_setstacksize win p stacksize attr = (if win then Return (0, attr\<lparr>dwStackSize := ucast stacksize\<rparr>)
     else attr_sys attr (pthread_attr_setstacksize p stacksize))"

definition my_thread_attr_setdetachstate :: "bool \<Rightarrow> ptr \<Rightarrow> 32 word \<Rightarrow> my_thread_attr_t \<Rightarrow> attr_code" where
  "my_thread_attr_setdetachstate win p state attr = (if win then Return (0, attr\<lparr>detachstate := state\<rparr>)
     else attr_sys attr (pthread_attr_setdetachstate p state))"

text \<open>The value that is stored at the address \<open>stacksize\<close>, when the header stores it.\<close>

definition my_thread_attr_getstacksize :: "bool \<Rightarrow> ptr \<Rightarrow> ptr \<Rightarrow> my_thread_attr_t \<Rightarrow> (int \<times> 64 word option) native_code" where
  "my_thread_attr_getstacksize win p stacksize attr = (if win then Return (0, Some (ucast (dwStackSize attr)))
     else Sys (pthread_attr_getstacksize p stacksize) (\<lambda>r. Return (r, None)))"

definition my_thread_yield :: "bool \<Rightarrow> int native_code" where
  "my_thread_yield win = sys (if win then SwitchToThread else sched_yield)"

section \<open>Thread-local values\<close>

definition TLS_OUT_OF_INDEXES :: DWORD where "TLS_OUT_OF_INDEXES = 0xFFFFFFFF"

text \<open>The result, and the key that is stored when the header stores it.\<close>

definition my_create_thread_local_key :: "bool \<Rightarrow> ptr \<Rightarrow> ptr \<Rightarrow> (int \<times> DWORD option) native_code" where
  "my_create_thread_local_key win key destructor = (if win
     then Sys TlsAlloc (\<lambda>k. let k = word_of_int k in Return (of_bool (k = TLS_OUT_OF_INDEXES), Some k))
     else Sys (pthread_key_create key destructor) (\<lambda>r. Return (r, None)))"

definition my_delete_thread_local_key :: "bool \<Rightarrow> DWORD \<Rightarrow> int native_code" where
  "my_delete_thread_local_key win key =
     (if win then Sys (TlsFree key) (\<lambda>r. Return (of_bool (r = 0))) else sys (pthread_key_delete key))"

definition my_get_thread_local :: "bool \<Rightarrow> DWORD \<Rightarrow> int native_code" where
  "my_get_thread_local win key = sys (if win then TlsGetValue key else pthread_getspecific key)"

definition my_set_thread_local :: "bool \<Rightarrow> DWORD \<Rightarrow> ptr \<Rightarrow> int native_code" where
  "my_set_thread_local win key v =
     (if win then Sys (TlsSetValue key v) (\<lambda>r. Return (of_bool (r = 0))) else sys (pthread_setspecific key v))"

section \<open>Condition variables\<close>

text \<open>The value that the header gives it on systems that have none.\<close>

definition ETIMEDOUT :: int where "ETIMEDOUT = 145"

text \<open>A point in time, of the type that the build has, with its address.\<close>

datatype abstime = Timespec ptr timespec | Ft_Timespec ptr "ft_timespec option"

fun address_of :: "abstime \<Rightarrow> ptr" where
  "address_of (Timespec p ts) = p"
| "address_of (Ft_Timespec p ts) = p"

text \<open>\<open>get_milliseconds\<close> with its call for the time; without a limit, no time is asked for.\<close>

fun milliseconds_left :: "abstime \<Rightarrow> DWORD res native_code" where
  "milliseconds_left (Timespec p ts) = Sys my_getsystime (\<lambda>now. Return (get_milliseconds (word_of_int now) ts))"
| "milliseconds_left (Ft_Timespec p None) = Return (Inr INFINITE)"
| "milliseconds_left (Ft_Timespec p (Some ts)) = Sys GetSystemTimeAsFileTime (\<lambda>now. Return (ft_get_milliseconds now (Some ts)))"

definition native_cond_init :: "bool \<Rightarrow> ptr \<Rightarrow> int native_code" where
  "native_cond_init win cond = (if win then Sys (InitializeConditionVariable cond) (\<lambda>_. Return 0) else sys (pthread_cond_init cond))"

definition native_cond_destroy :: "bool \<Rightarrow> ptr \<Rightarrow> int native_code" where
  "native_cond_destroy win cond = (if win then Return 0 else sys (pthread_cond_destroy cond))"

definition native_cond_timedwait :: "bool \<Rightarrow> ptr \<Rightarrow> ptr \<Rightarrow> abstime \<Rightarrow> int res native_code" where
  "native_cond_timedwait win cond mutex abstime = (if win
     then bindC (milliseconds_left abstime) (\<lambda>t. case t of
         Inl e \<Rightarrow> Return (Inl e)
       | Inr timeout \<Rightarrow> Sys (SleepConditionVariableCS cond mutex timeout) (\<lambda>r. Return (Inr (if r = 0 then ETIMEDOUT else 0))))
     else Sys (pthread_cond_timedwait cond mutex (address_of abstime)) (\<lambda>r. Return (Inr r)))"

definition native_cond_wait :: "bool \<Rightarrow> ptr \<Rightarrow> ptr \<Rightarrow> int native_code" where
  "native_cond_wait win cond mutex = (if win
     then Sys (SleepConditionVariableCS cond mutex INFINITE) (\<lambda>r. Return (if r = 0 then ETIMEDOUT else 0))
     else sys (pthread_cond_wait cond mutex))"

definition native_cond_signal :: "bool \<Rightarrow> ptr \<Rightarrow> int native_code" where
  "native_cond_signal win cond = (if win then Sys (WakeConditionVariable cond) (\<lambda>_. Return 0) else sys (pthread_cond_signal cond))"

definition native_cond_broadcast :: "bool \<Rightarrow> ptr \<Rightarrow> int native_code" where
  "native_cond_broadcast win cond =
     (if win then Sys (WakeAllConditionVariable cond) (\<lambda>_. Return 0) else sys (pthread_cond_broadcast cond))"

definition my_cond_timedwait :: "bool \<Rightarrow> (ptr \<times> 32 word) option \<Rightarrow> ptr \<Rightarrow> ptr \<Rightarrow> abstime \<Rightarrow> int res native_code" where
  "my_cond_timedwait win src cond mp abstime = (case src of
     Some (file, line) \<Rightarrow> Sys (safe_cond_timedwait cond mp (address_of abstime) file line) (\<lambda>r. Return (Inr r))
   | None \<Rightarrow> native_cond_timedwait win cond mp abstime)"

definition my_cond_wait :: "bool \<Rightarrow> (ptr \<times> 32 word) option \<Rightarrow> ptr \<Rightarrow> ptr \<Rightarrow> int native_code" where
  "my_cond_wait win src cond mp = (case src of
     Some (file, line) \<Rightarrow> sys (safe_cond_wait cond mp file line)
   | None \<Rightarrow> native_cond_wait win cond mp)"

section \<open>Facts\<close>

text \<open>One execution: the answers of the system to the calls.\<close>

primrec outcome :: "(native_call \<Rightarrow> int) \<Rightarrow> 'r native_code \<Rightarrow> 'r" where
  "outcome A (Return r) = r"
| "outcome A (Ask p k) = outcome A (k 0)"
| "outcome A (Sys s k) = outcome A (k (A s))"

lemma outcome_bind: "outcome A (bindC c f) = outcome A (f (outcome A c))"
  by (induction c) simp_all

text \<open>What is set is what is read, as far as it fits in a \<open>DWORD\<close>: a larger size loses its upper half.\<close>

lemma stacksize_kept:
  "my_thread_attr_setstacksize True p n attr = Return (0, attr') \<Longrightarrow>
   my_thread_attr_getstacksize True p q attr' = Return (0, Some (take_bit 32 n))"
  by (auto simp: my_thread_attr_setstacksize_def my_thread_attr_getstacksize_def bit_simps intro!: bit_word_eqI)

lemma local_key_error: "fst (outcome A (my_create_thread_local_key True p d)) = 0 \<longleftrightarrow> word_of_int (A TlsAlloc) \<noteq> TLS_OUT_OF_INDEXES"
  by (simp add: my_create_thread_local_key_def Let_def)

text \<open>On Windows a wait for a condition without a limit of time reports that its time has run out whenever
  the call of the system fails, for whatever reason; a wait with a limit does not tell the two apart either.\<close>

theorem wait_failure_is_timeout:
  "outcome A (native_cond_wait True cond mutex) \<in> {0, ETIMEDOUT} \<and>
   (outcome A (native_cond_wait True cond mutex) = ETIMEDOUT \<longleftrightarrow> A (SleepConditionVariableCS cond mutex INFINITE) = 0) \<and>
   outcome A (native_cond_timedwait True cond mutex abstime) =
     bindE (outcome A (milliseconds_left abstime)) (\<lambda>timeout.
       Inr (if A (SleepConditionVariableCS cond mutex timeout) = 0 then ETIMEDOUT else 0))"
  by (simp add: native_cond_wait_def native_cond_timedwait_def outcome_bind ETIMEDOUT_def split: sum.split)

end
