(* ===== verification/Mysql_Thread.thy ===== *)
theory Mysql_Thread
  imports Mysql_Calls
begin

text \<open>
  The instrumented mutexes, locks, condition variables and threads of \<open>mysql/psi/mysql_thread.h\<close>. An object of
  these types has the object of the system and the handle \<open>m_psi\<close> that the plugin left in it. The
  functions of \<open>thr_mutex.h\<close>, \<open>thr_rwlock.h\<close> and \<open>thr_cond.h\<close> around which they are written are the
  calls of the system here; they are modelled in theories of their own. What the preprocessor
  decides is a parameter: which interfaces of the plugin are compiled in, and \<open>SAFE_MUTEX\<close>.
\<close>

section \<open>Types\<close>

record build =
  have_mutex :: bool
  have_rwlock :: bool
  have_cond :: bool
  have_thread :: bool
  safe_mutex :: bool

type_synonym src_loc = "ptr \<times> 32 word"

datatype PSI_mutex_operation = PSI_MUTEX_LOCK | PSI_MUTEX_TRYLOCK

datatype PSI_rwlock_operation =
    PSI_RWLOCK_READLOCK | PSI_RWLOCK_WRITELOCK | PSI_RWLOCK_TRYREADLOCK | PSI_RWLOCK_TRYWRITELOCK
  | PSI_RWLOCK_SHAREDLOCK | PSI_RWLOCK_SHAREDEXCLUSIVELOCK | PSI_RWLOCK_EXCLUSIVELOCK
  | PSI_RWLOCK_TRYSHAREDLOCK | PSI_RWLOCK_TRYSHAREDEXCLUSIVELOCK | PSI_RWLOCK_TRYEXCLUSIVELOCK

datatype PSI_cond_operation = PSI_COND_WAIT | PSI_COND_TIMEDWAIT

text \<open>The objects, by the address of their structure, which is also that of its first member.\<close>

datatype psi_object = Mutex ptr | Rwlock ptr | Prlock ptr | Cond ptr

datatype thread_ask =
    Load_psi psi_object
  | Store_psi psi_object ptr
  | register_mutex ptr ptr int | register_rwlock ptr ptr int | register_cond ptr ptr int | register_thread ptr ptr int
  | init_mutex "32 word" ptr | destroy_mutex ptr | unlock_mutex ptr
  | start_mutex_wait ptr PSI_mutex_operation src_loc | end_mutex_wait ptr int
  | init_rwlock "32 word" ptr | destroy_rwlock ptr | unlock_rwlock ptr
  | start_rwlock_rdwait ptr PSI_rwlock_operation src_loc | end_rwlock_rdwait ptr int
  | start_rwlock_wrwait ptr PSI_rwlock_operation src_loc | end_rwlock_wrwait ptr int
  | init_cond "32 word" ptr | destroy_cond ptr | signal_cond ptr | broadcast_cond ptr
  | start_cond_wait ptr ptr PSI_cond_operation src_loc | end_cond_wait ptr int
  | get_thread | set_thread_id ptr "64 word" | set_thread_THD ptr ptr

text \<open>The calls of the other headers; the place in the source is passed on with \<open>SAFE_MUTEX\<close> only. With the
  plugin, a thread is created by the plugin.\<close>

datatype lock_call =
    My_mutex_init ptr ptr "src_loc option" | My_mutex_destroy ptr "src_loc option"
  | My_mutex_lock ptr "src_loc option" | My_mutex_trylock ptr "src_loc option" | My_mutex_unlock ptr "src_loc option"
  | Safe_mutex_assert_owner ptr | Safe_mutex_assert_not_owner ptr
  | Native_rw_init ptr | Native_rw_destroy ptr | Native_rw_rdlock ptr | Native_rw_tryrdlock ptr
  | Native_rw_wrlock ptr | Native_rw_trywrlock ptr | Native_rw_unlock ptr
  | Rw_pr_init ptr | Rw_pr_destroy ptr | Rw_pr_rdlock ptr | Rw_pr_wrlock ptr | Rw_pr_unlock ptr
  | Rw_pr_lock_assert_write_owner ptr | Rw_pr_lock_assert_not_write_owner ptr
  | Native_cond_init ptr | Native_cond_destroy ptr | Native_cond_signal ptr | Native_cond_broadcast ptr
  | My_cond_wait ptr ptr "src_loc option" | My_cond_timedwait ptr ptr ptr "src_loc option"
  | My_thread_create ptr ptr ptr ptr | spawn_thread "32 word" ptr ptr ptr ptr

text \<open>A function that returns nothing returns 0 here.\<close>

type_synonym code = "(thread_ask, lock_call, int, int) Mysql_Calls.code"

definition checked :: "build \<Rightarrow> src_loc \<Rightarrow> src_loc option" where
  "checked B src = (if safe_mutex B then Some src else None)"

section \<open>Mutexes\<close>

definition inline_mysql_mutex_register :: "build \<Rightarrow> ptr \<Rightarrow> ptr \<Rightarrow> int \<Rightarrow> code" where
  "inline_mysql_mutex_register B category info count =
     (if have_mutex B then tell (register_mutex category info count) (Return 0) else Return 0)"

definition inline_mysql_mutex_init :: "build \<Rightarrow> 32 word \<Rightarrow> ptr \<Rightarrow> ptr \<Rightarrow> src_loc \<Rightarrow> code" where
  "inline_mysql_mutex_init B key that attr src = (let init = sys (My_mutex_init that attr (checked B src)) in
     if have_mutex B then Ask (init_mutex key that) (\<lambda>p. tell (Store_psi (Mutex that) p) init)
     else tell (Store_psi (Mutex that) 0) init)"

definition inline_mysql_mutex_destroy :: "build \<Rightarrow> ptr \<Rightarrow> src_loc \<Rightarrow> code" where
  "inline_mysql_mutex_destroy B that src = (let destroy = sys (My_mutex_destroy that (checked B src)) in
     if_handle (have_mutex B) (Load_psi (Mutex that))
       (\<lambda>p. tell (destroy_mutex p) (tell (Store_psi (Mutex that) 0) destroy)) destroy)"

definition inline_mysql_mutex_lock :: "build \<Rightarrow> ptr \<Rightarrow> src_loc \<Rightarrow> code" where
  "inline_mysql_mutex_lock B that src = (let body = sys (My_mutex_lock that (checked B src)) in
     if_handle (have_mutex B) (Load_psi (Mutex that))
       (\<lambda>p. waiting (start_mutex_wait p PSI_MUTEX_LOCK src) body end_mutex_wait) body)"

definition inline_mysql_mutex_trylock :: "build \<Rightarrow> ptr \<Rightarrow> src_loc \<Rightarrow> code" where
  "inline_mysql_mutex_trylock B that src = (let body = sys (My_mutex_trylock that (checked B src)) in
     if_handle (have_mutex B) (Load_psi (Mutex that))
       (\<lambda>p. waiting (start_mutex_wait p PSI_MUTEX_TRYLOCK src) body end_mutex_wait) body)"

definition inline_mysql_mutex_unlock :: "build \<Rightarrow> ptr \<Rightarrow> src_loc \<Rightarrow> code" where
  "inline_mysql_mutex_unlock B that src = (let unlock = sys (My_mutex_unlock that (checked B src)) in
     if_handle (have_mutex B) (Load_psi (Mutex that)) (\<lambda>p. tell (unlock_mutex p) unlock) unlock)"

section \<open>Reader-writer locks\<close>

definition inline_mysql_rwlock_register :: "build \<Rightarrow> ptr \<Rightarrow> ptr \<Rightarrow> int \<Rightarrow> code" where
  "inline_mysql_rwlock_register B category info count =
     (if have_rwlock B then tell (register_rwlock category info count) (Return 0) else Return 0)"

definition inline_mysql_rwlock_init :: "build \<Rightarrow> 32 word \<Rightarrow> ptr \<Rightarrow> code" where
  "inline_mysql_rwlock_init B key that =
     (if have_rwlock B then Ask (init_rwlock key that) (\<lambda>p. tell (Store_psi (Rwlock that) p) (sys (Native_rw_init that)))
      else tell (Store_psi (Rwlock that) 0) (sys (Native_rw_init that)))"

definition inline_mysql_prlock_init :: "build \<Rightarrow> 32 word \<Rightarrow> ptr \<Rightarrow> code" where
  "inline_mysql_prlock_init B key that =
     (if have_rwlock B then Ask (init_rwlock key that) (\<lambda>p. tell (Store_psi (Prlock that) p) (sys (Rw_pr_init that)))
      else tell (Store_psi (Prlock that) 0) (sys (Rw_pr_init that)))"

definition inline_mysql_rwlock_destroy :: "build \<Rightarrow> ptr \<Rightarrow> code" where
  "inline_mysql_rwlock_destroy B that = if_handle (have_rwlock B) (Load_psi (Rwlock that))
     (\<lambda>p. tell (destroy_rwlock p) (tell (Store_psi (Rwlock that) 0) (sys (Native_rw_destroy that))))
     (sys (Native_rw_destroy that))"

definition inline_mysql_prlock_destroy :: "build \<Rightarrow> ptr \<Rightarrow> code" where
  "inline_mysql_prlock_destroy B that = if_handle (have_rwlock B) (Load_psi (Prlock that))
     (\<lambda>p. tell (destroy_rwlock p) (tell (Store_psi (Prlock that) 0) (sys (Rw_pr_destroy that))))
     (sys (Rw_pr_destroy that))"

definition inline_mysql_rwlock_rdlock :: "build \<Rightarrow> ptr \<Rightarrow> src_loc \<Rightarrow> code" where
  "inline_mysql_rwlock_rdlock B that src = if_handle (have_rwlock B) (Load_psi (Rwlock that))
     (\<lambda>p. waiting (start_rwlock_rdwait p PSI_RWLOCK_READLOCK src) (sys (Native_rw_rdlock that)) end_rwlock_rdwait)
     (sys (Native_rw_rdlock that))"

definition inline_mysql_prlock_rdlock :: "build \<Rightarrow> ptr \<Rightarrow> src_loc \<Rightarrow> code" where
  "inline_mysql_prlock_rdlock B that src = if_handle (have_rwlock B) (Load_psi (Prlock that))
     (\<lambda>p. waiting (start_rwlock_rdwait p PSI_RWLOCK_READLOCK src) (sys (Rw_pr_rdlock that)) end_rwlock_rdwait)
     (sys (Rw_pr_rdlock that))"

definition inline_mysql_rwlock_wrlock :: "build \<Rightarrow> ptr \<Rightarrow> src_loc \<Rightarrow> code" where
  "inline_mysql_rwlock_wrlock B that src = if_handle (have_rwlock B) (Load_psi (Rwlock that))
     (\<lambda>p. waiting (start_rwlock_wrwait p PSI_RWLOCK_WRITELOCK src) (sys (Native_rw_wrlock that)) end_rwlock_wrwait)
     (sys (Native_rw_wrlock that))"

definition inline_mysql_prlock_wrlock :: "build \<Rightarrow> ptr \<Rightarrow> src_loc \<Rightarrow> code" where
  "inline_mysql_prlock_wrlock B that src = if_handle (have_rwlock B) (Load_psi (Prlock that))
     (\<lambda>p. waiting (start_rwlock_wrwait p PSI_RWLOCK_WRITELOCK src) (sys (Rw_pr_wrlock that)) end_rwlock_wrwait)
     (sys (Rw_pr_wrlock that))"

definition inline_mysql_rwlock_tryrdlock :: "build \<Rightarrow> ptr \<Rightarrow> src_loc \<Rightarrow> code" where
  "inline_mysql_rwlock_tryrdlock B that src = if_handle (have_rwlock B) (Load_psi (Rwlock that))
     (\<lambda>p. waiting (start_rwlock_rdwait p PSI_RWLOCK_TRYREADLOCK src) (sys (Native_rw_tryrdlock that)) end_rwlock_rdwait)
     (sys (Native_rw_tryrdlock that))"

definition inline_mysql_rwlock_trywrlock :: "build \<Rightarrow> ptr \<Rightarrow> src_loc \<Rightarrow> code" where
  "inline_mysql_rwlock_trywrlock B that src = if_handle (have_rwlock B) (Load_psi (Rwlock that))
     (\<lambda>p. waiting (start_rwlock_wrwait p PSI_RWLOCK_TRYWRITELOCK src) (sys (Native_rw_trywrlock that)) end_rwlock_wrwait)
     (sys (Native_rw_trywrlock that))"

definition inline_mysql_rwlock_unlock :: "build \<Rightarrow> ptr \<Rightarrow> code" where
  "inline_mysql_rwlock_unlock B that = if_handle (have_rwlock B) (Load_psi (Rwlock that))
     (\<lambda>p. tell (unlock_rwlock p) (sys (Native_rw_unlock that))) (sys (Native_rw_unlock that))"

definition inline_mysql_prlock_unlock :: "build \<Rightarrow> ptr \<Rightarrow> code" where
  "inline_mysql_prlock_unlock B that = if_handle (have_rwlock B) (Load_psi (Prlock that))
     (\<lambda>p. tell (unlock_rwlock p) (sys (Rw_pr_unlock that))) (sys (Rw_pr_unlock that))"

section \<open>Condition variables\<close>

definition inline_mysql_cond_register :: "build \<Rightarrow> ptr \<Rightarrow> ptr \<Rightarrow> int \<Rightarrow> code" where
  "inline_mysql_cond_register B category info count =
     (if have_cond B then tell (register_cond category info count) (Return 0) else Return 0)"

definition inline_mysql_cond_init :: "build \<Rightarrow> 32 word \<Rightarrow> ptr \<Rightarrow> code" where
  "inline_mysql_cond_init B key that =
     (if have_cond B then Ask (init_cond key that) (\<lambda>p. tell (Store_psi (Cond that) p) (sys (Native_cond_init that)))
      else tell (Store_psi (Cond that) 0) (sys (Native_cond_init that)))"

definition inline_mysql_cond_destroy :: "build \<Rightarrow> ptr \<Rightarrow> code" where
  "inline_mysql_cond_destroy B that = if_handle (have_cond B) (Load_psi (Cond that))
     (\<lambda>p. tell (destroy_cond p) (tell (Store_psi (Cond that) 0) (sys (Native_cond_destroy that))))
     (sys (Native_cond_destroy that))"

definition inline_mysql_cond_wait :: "build \<Rightarrow> ptr \<Rightarrow> ptr \<Rightarrow> src_loc \<Rightarrow> code" where
  "inline_mysql_cond_wait B that mutex src = (let body = sys (My_cond_wait that mutex (checked B src)) in
     if_handle (have_cond B) (Load_psi (Cond that))
       (\<lambda>p. Ask (Load_psi (Mutex mutex)) (\<lambda>q. waiting (start_cond_wait p q PSI_COND_WAIT src) body end_cond_wait)) body)"

definition inline_mysql_cond_timedwait :: "build \<Rightarrow> ptr \<Rightarrow> ptr \<Rightarrow> ptr \<Rightarrow> src_loc \<Rightarrow> code" where
  "inline_mysql_cond_timedwait B that mutex abstime src =
     (let body = sys (My_cond_timedwait that mutex abstime (checked B src)) in
     if_handle (have_cond B) (Load_psi (Cond that))
       (\<lambda>p. Ask (Load_psi (Mutex mutex)) (\<lambda>q. waiting (start_cond_wait p q PSI_COND_TIMEDWAIT src) body end_cond_wait)) body)"

definition inline_mysql_cond_signal :: "build \<Rightarrow> ptr \<Rightarrow> code" where
  "inline_mysql_cond_signal B that = if_handle (have_cond B) (Load_psi (Cond that))
     (\<lambda>p. tell (signal_cond p) (sys (Native_cond_signal that))) (sys (Native_cond_signal that))"

definition inline_mysql_cond_broadcast :: "build \<Rightarrow> ptr \<Rightarrow> code" where
  "inline_mysql_cond_broadcast B that = if_handle (have_cond B) (Load_psi (Cond that))
     (\<lambda>p. tell (broadcast_cond p) (sys (Native_cond_broadcast that))) (sys (Native_cond_broadcast that))"

section \<open>Threads\<close>

definition inline_mysql_thread_register :: "build \<Rightarrow> ptr \<Rightarrow> ptr \<Rightarrow> int \<Rightarrow> code" where
  "inline_mysql_thread_register B category info count =
     (if have_thread B then tell (register_thread category info count) (Return 0) else Return 0)"

text \<open>The other functions are only compiled with the interface.\<close>

definition inline_mysql_thread_create :: "32 word \<Rightarrow> ptr \<Rightarrow> ptr \<Rightarrow> ptr \<Rightarrow> ptr \<Rightarrow> code" where
  "inline_mysql_thread_create key thread attr start_routine arg = sys (spawn_thread key thread attr start_routine arg)"

definition inline_mysql_thread_set_psi_id :: "32 word \<Rightarrow> code" where
  "inline_mysql_thread_set_psi_id i = Ask get_thread (\<lambda>psi. tell (set_thread_id psi (ucast i)) (Return 0))"

definition inline_mysql_thread_set_psi_THD :: "ptr \<Rightarrow> code" where
  "inline_mysql_thread_set_psi_THD thd = Ask get_thread (\<lambda>psi. tell (set_thread_THD psi thd) (Return 0))"

section \<open>The macros\<close>

text \<open>The names under which a program calls the functions.\<close>

datatype mutex_macro =
    mysql_mutex_assert_owner ptr | mysql_mutex_assert_not_owner ptr
  | mysql_prlock_assert_write_owner ptr | mysql_prlock_assert_not_write_owner ptr
  | mysql_mutex_register ptr ptr int | mysql_mutex_init "32 word" ptr ptr | mysql_mutex_destroy ptr
  | mysql_mutex_lock ptr | mysql_mutex_trylock ptr | mysql_mutex_unlock ptr

datatype rwlock_macro =
    mysql_rwlock_register ptr ptr int | mysql_rwlock_init "32 word" ptr | mysql_prlock_init "32 word" ptr
  | mysql_rwlock_destroy ptr | mysql_prlock_destroy ptr | mysql_rwlock_rdlock ptr | mysql_prlock_rdlock ptr
  | mysql_rwlock_wrlock ptr | mysql_prlock_wrlock ptr | mysql_rwlock_tryrdlock ptr | mysql_rwlock_trywrlock ptr
  | mysql_rwlock_unlock ptr | mysql_prlock_unlock ptr

datatype cond_macro =
    mysql_cond_register ptr ptr int | mysql_cond_init "32 word" ptr | mysql_cond_destroy ptr
  | mysql_cond_wait ptr ptr | mysql_cond_timedwait ptr ptr ptr | mysql_cond_signal ptr | mysql_cond_broadcast ptr

datatype thread_macro =
    mysql_thread_register ptr ptr int | mysql_thread_create "32 word" ptr ptr ptr ptr
  | mysql_thread_set_psi_id "32 word" | mysql_thread_set_psi_THD ptr

fun expand_mutex :: "build \<Rightarrow> src_loc \<Rightarrow> mutex_macro \<Rightarrow> code" where
  "expand_mutex B src (mysql_mutex_assert_owner M) =
     (if safe_mutex B then Sys (Safe_mutex_assert_owner M) (\<lambda>_. Return 0) else Return 0)"
| "expand_mutex B src (mysql_mutex_assert_not_owner M) =
     (if safe_mutex B then Sys (Safe_mutex_assert_not_owner M) (\<lambda>_. Return 0) else Return 0)"
| "expand_mutex B src (mysql_prlock_assert_write_owner M) = Sys (Rw_pr_lock_assert_write_owner M) (\<lambda>_. Return 0)"
| "expand_mutex B src (mysql_prlock_assert_not_write_owner M) = Sys (Rw_pr_lock_assert_not_write_owner M) (\<lambda>_. Return 0)"
| "expand_mutex B src (mysql_mutex_register P1 P2 P3) = inline_mysql_mutex_register B P1 P2 P3"
| "expand_mutex B src (mysql_mutex_init K M A) = inline_mysql_mutex_init B K M A src"
| "expand_mutex B src (mysql_mutex_destroy M) = inline_mysql_mutex_destroy B M src"
| "expand_mutex B src (mysql_mutex_lock M) = inline_mysql_mutex_lock B M src"
| "expand_mutex B src (mysql_mutex_trylock M) = inline_mysql_mutex_trylock B M src"
| "expand_mutex B src (mysql_mutex_unlock M) = inline_mysql_mutex_unlock B M src"

fun expand_rwlock :: "build \<Rightarrow> src_loc \<Rightarrow> rwlock_macro \<Rightarrow> code" where
  "expand_rwlock B src (mysql_rwlock_register P1 P2 P3) = inline_mysql_rwlock_register B P1 P2 P3"
| "expand_rwlock B src (mysql_rwlock_init K RW) = inline_mysql_rwlock_init B K RW"
| "expand_rwlock B src (mysql_prlock_init K RW) = inline_mysql_prlock_init B K RW"
| "expand_rwlock B src (mysql_rwlock_destroy RW) = inline_mysql_rwlock_destroy B RW"
| "expand_rwlock B src (mysql_prlock_destroy RW) = inline_mysql_prlock_destroy B RW"
| "expand_rwlock B src (mysql_rwlock_rdlock RW) = inline_mysql_rwlock_rdlock B RW src"
| "expand_rwlock B src (mysql_prlock_rdlock RW) = inline_mysql_prlock_rdlock B RW src"
| "expand_rwlock B src (mysql_rwlock_wrlock RW) = inline_mysql_rwlock_wrlock B RW src"
| "expand_rwlock B src (mysql_prlock_wrlock RW) = inline_mysql_prlock_wrlock B RW src"
| "expand_rwlock B src (mysql_rwlock_tryrdlock RW) = inline_mysql_rwlock_tryrdlock B RW src"
| "expand_rwlock B src (mysql_rwlock_trywrlock RW) = inline_mysql_rwlock_trywrlock B RW src"
| "expand_rwlock B src (mysql_rwlock_unlock RW) = inline_mysql_rwlock_unlock B RW"
| "expand_rwlock B src (mysql_prlock_unlock RW) = inline_mysql_prlock_unlock B RW"

fun expand_cond :: "build \<Rightarrow> src_loc \<Rightarrow> cond_macro \<Rightarrow> code" where
  "expand_cond B src (mysql_cond_register P1 P2 P3) = inline_mysql_cond_register B P1 P2 P3"
| "expand_cond B src (mysql_cond_init K C) = inline_mysql_cond_init B K C"
| "expand_cond B src (mysql_cond_destroy C) = inline_mysql_cond_destroy B C"
| "expand_cond B src (mysql_cond_wait C M) = inline_mysql_cond_wait B C M src"
| "expand_cond B src (mysql_cond_timedwait C M W) = inline_mysql_cond_timedwait B C M W src"
| "expand_cond B src (mysql_cond_signal C) = inline_mysql_cond_signal B C"
| "expand_cond B src (mysql_cond_broadcast C) = inline_mysql_cond_broadcast B C"

fun expand_thread :: "build \<Rightarrow> src_loc \<Rightarrow> thread_macro \<Rightarrow> code" where
  "expand_thread B src (mysql_thread_register P1 P2 P3) = inline_mysql_thread_register B P1 P2 P3"
| "expand_thread B src (mysql_thread_create K P1 P2 P3 P4) =
     (if have_thread B then inline_mysql_thread_create K P1 P2 P3 P4 else sys (My_thread_create P1 P2 P3 P4))"
| "expand_thread B src (mysql_thread_set_psi_id I) =
     (if have_thread B then inline_mysql_thread_set_psi_id I else Return 0)"
| "expand_thread B src (mysql_thread_set_psi_THD T) =
     (if have_thread B then inline_mysql_thread_set_psi_THD T else Return 0)"

text \<open>A macro at a place in the source.\<close>

datatype macro = Mutex_Macro mutex_macro | Rwlock_Macro rwlock_macro | Cond_Macro cond_macro | Thread_Macro thread_macro

fun expand :: "build \<Rightarrow> src_loc \<times> macro \<Rightarrow> code" where
  "expand B (src, Mutex_Macro m) = expand_mutex B src m"
| "expand B (src, Rwlock_Macro m) = expand_rwlock B src m"
| "expand B (src, Cond_Macro m) = expand_cond B src m"
| "expand B (src, Thread_Macro m) = expand_thread B src m"

end
