(* ===== verification/Mysql_Thread_Laws.thy ===== *)
theory Mysql_Thread_Laws
  imports Mysql_Thread
begin

text \<open>
  What holds of every macro of \<open>mysql_thread.h\<close>: it makes the same calls of the system as in a build without
  the plugin; its waits are complete; it makes few calls; and it uses no handle of the plugin that
  has been destroyed.
\<close>

lemmas inline_mutex_defs =
  inline_mysql_mutex_register_def inline_mysql_mutex_init_def inline_mysql_mutex_destroy_def
  inline_mysql_mutex_lock_def inline_mysql_mutex_trylock_def inline_mysql_mutex_unlock_def

lemmas inline_rwlock_defs =
  inline_mysql_rwlock_register_def inline_mysql_rwlock_init_def inline_mysql_prlock_init_def
  inline_mysql_rwlock_destroy_def inline_mysql_prlock_destroy_def inline_mysql_rwlock_rdlock_def
  inline_mysql_prlock_rdlock_def inline_mysql_rwlock_wrlock_def inline_mysql_prlock_wrlock_def
  inline_mysql_rwlock_tryrdlock_def inline_mysql_rwlock_trywrlock_def inline_mysql_rwlock_unlock_def
  inline_mysql_prlock_unlock_def

lemmas inline_cond_defs =
  inline_mysql_cond_register_def inline_mysql_cond_init_def inline_mysql_cond_destroy_def inline_mysql_cond_wait_def
  inline_mysql_cond_timedwait_def inline_mysql_cond_signal_def inline_mysql_cond_broadcast_def

lemmas inline_thread_defs =
  inline_mysql_thread_register_def inline_mysql_thread_create_def inline_mysql_thread_set_psi_id_def
  inline_mysql_thread_set_psi_THD_def

lemmas inline_lock_defs = inline_mutex_defs inline_rwlock_defs inline_cond_defs inline_thread_defs

section \<open>With the plugin and without\<close>

definition plain_build :: "build \<Rightarrow> build" where
  "plain_build B = B\<lparr>have_mutex := False, have_rwlock := False, have_cond := False, have_thread := False\<rparr>"

lemma plain_build_simps [simp]:
  "have_mutex (plain_build B) = False" "have_rwlock (plain_build B) = False" "have_cond (plain_build B) = False"
  "have_thread (plain_build B) = False" "checked (plain_build B) src = checked B src"
  "safe_mutex (plain_build B) = safe_mutex B"
  by (simp_all add: plain_build_def checked_def)

text \<open>All macros but the one that creates a thread, which the plugin does itself.\<close>

fun creates_thread :: "macro \<Rightarrow> bool" where
  "creates_thread (Thread_Macro (mysql_thread_create K P1 P2 P3 P4)) = True"
| "creates_thread _ = False"

lemma same_if_handle_silence: "(\<And>p. same R (instr p) (silence plain)) \<Longrightarrow> same R plain (silence plain) \<Longrightarrow>
    same R (if_handle have load instr plain) (silence (if_handle False load instr' plain))"
  by (simp add: same_if_handle)

lemma same_expand:
  assumes "\<not> creates_thread m"
  shows "same (=) (expand B (src, m)) (silence (expand (plain_build B) (src, m)))"
proof (cases m)
  case (Mutex_Macro a)
  then show ?thesis by (cases a) (simp_all add: inline_mutex_defs Let_def same_if_handle same_waiting)
next
  case (Rwlock_Macro a)
  then show ?thesis by (cases a) (simp_all add: inline_rwlock_defs same_if_handle same_waiting)
next
  case (Cond_Macro a)
  then show ?thesis by (cases a) (simp_all add: inline_cond_defs Let_def same_if_handle same_waiting)
next
  case (Thread_Macro a)
  with assms show ?thesis by (cases a) (simp_all add: inline_thread_defs)
qed

section \<open>Waits\<close>

datatype wait_kind = Mutex_Wait | Read_Wait | Write_Wait | Cond_Wait

fun wait_of :: "thread_ask \<Rightarrow> wait_kind kind" where
  "wait_of (start_mutex_wait p op src) = Starts Mutex_Wait"
| "wait_of (end_mutex_wait l r) = Ends l"
| "wait_of (start_rwlock_rdwait p op src) = Starts Read_Wait"
| "wait_of (end_rwlock_rdwait l r) = Ends l"
| "wait_of (start_rwlock_wrwait p op src) = Starts Write_Wait"
| "wait_of (end_rwlock_wrwait l r) = Ends l"
| "wait_of (start_cond_wait p q op src) = Starts Cond_Wait"
| "wait_of (end_cond_wait l r) = Ends l"
| "wait_of _ = Other"

fun reports_result :: "wait_kind \<Rightarrow> thread_ask \<Rightarrow> int \<Rightarrow> bool" where
  "reports_result Mutex_Wait (end_mutex_wait l r) a = (r = a)"
| "reports_result Read_Wait (end_rwlock_rdwait l r) a = (r = a)"
| "reports_result Write_Wait (end_rwlock_wrwait l r) a = (r = a)"
| "reports_result Cond_Wait (end_cond_wait l r) a = (r = a)"
| "reports_result _ _ a = False"

abbreviation thread_waits :: "(thread_ask, lock_call, int, (wait_kind, int) wait_state) monitor" where
  "thread_waits \<equiv> wait_monitor wait_of reports_result"

lemma expand_waits: "obeys thread_waits (expand B (src, m)) (\<lambda>_ w. w = Idle) Idle"
proof (cases m)
  case (Mutex_Macro a)
  then show ?thesis by (cases a) (simp_all add: inline_mutex_defs Let_def if_handle_def waiting_def)
next
  case (Rwlock_Macro a)
  then show ?thesis by (cases a) (simp_all add: inline_rwlock_defs if_handle_def waiting_def)
next
  case (Cond_Macro a)
  then show ?thesis by (cases a) (simp_all add: inline_cond_defs Let_def if_handle_def waiting_def)
next
  case (Thread_Macro a)
  then show ?thesis by (cases a) (simp_all add: inline_thread_defs)
qed

lemma expand_within: "within (expand B (src, m)) 6"
proof (cases m)
  case (Mutex_Macro a)
  then show ?thesis by (cases a) (simp_all add: inline_mutex_defs Let_def if_handle_def waiting_def eval_nat_numeral)
next
  case (Rwlock_Macro a)
  then show ?thesis by (cases a) (simp_all add: inline_rwlock_defs if_handle_def waiting_def eval_nat_numeral)
next
  case (Cond_Macro a)
  then show ?thesis by (cases a) (simp_all add: inline_cond_defs Let_def if_handle_def waiting_def eval_nat_numeral)
next
  case (Thread_Macro a)
  then show ?thesis by (cases a) (simp_all add: inline_thread_defs eval_nat_numeral)
qed

section \<open>Handles\<close>

text \<open>The handles that the plugin has given out and not destroyed, by their types, and what is in the objects.\<close>

datatype handle = Mutex_Handle ptr | Rwlock_Handle ptr | Cond_Handle ptr

fun handle_in :: "psi_object \<Rightarrow> ptr \<Rightarrow> handle" where
  "handle_in (Mutex that) p = Mutex_Handle p"
| "handle_in (Rwlock that) p = Rwlock_Handle p"
| "handle_in (Prlock that) p = Rwlock_Handle p"
| "handle_in (Cond that) p = Cond_Handle p"

record handles =
  live :: "handle set"
  stored :: "psi_object \<Rightarrow> ptr"

definition given :: "(ptr \<Rightarrow> handle) \<Rightarrow> ptr \<Rightarrow> handles \<Rightarrow> handles verdict" where
  "given H p s = (if p = 0 then Next s else if H p \<in> live s then Ruled_Out else Next (s\<lparr>live := insert (H p) (live s)\<rparr>))"

definition used :: "handle \<Rightarrow> handles \<Rightarrow> handles verdict" where
  "used h s = (if h \<in> live s then Next s else Wrong)"

definition destroyed :: "handle \<Rightarrow> handles \<Rightarrow> handles verdict" where
  "destroyed h s = (if h \<in> live s then Next (s\<lparr>live := live s - {h}\<rparr>) else Wrong)"

text \<open>The plugin never gives out a handle twice; the memory returns what was stored last.\<close>

fun handle_monitor :: "(thread_ask, lock_call, int, handles) monitor" where
  "handle_monitor s (Asked (Load_psi ob) a) = (if a = stored s ob then Next s else Ruled_Out)"
| "handle_monitor s (Asked (Store_psi ob p) a) = Next (s\<lparr>stored := (stored s)(ob := p)\<rparr>)"
| "handle_monitor s (Asked (init_mutex k ob) a) = given Mutex_Handle a s"
| "handle_monitor s (Asked (init_rwlock k ob) a) = given Rwlock_Handle a s"
| "handle_monitor s (Asked (init_cond k ob) a) = given Cond_Handle a s"
| "handle_monitor s (Asked (destroy_mutex p) a) = destroyed (Mutex_Handle p) s"
| "handle_monitor s (Asked (destroy_rwlock p) a) = destroyed (Rwlock_Handle p) s"
| "handle_monitor s (Asked (destroy_cond p) a) = destroyed (Cond_Handle p) s"
| "handle_monitor s (Asked (start_mutex_wait p op src) a) = used (Mutex_Handle p) s"
| "handle_monitor s (Asked (unlock_mutex p) a) = used (Mutex_Handle p) s"
| "handle_monitor s (Asked (start_rwlock_rdwait p op src) a) = used (Rwlock_Handle p) s"
| "handle_monitor s (Asked (start_rwlock_wrwait p op src) a) = used (Rwlock_Handle p) s"
| "handle_monitor s (Asked (unlock_rwlock p) a) = used (Rwlock_Handle p) s"
| "handle_monitor s (Asked (signal_cond p) a) = used (Cond_Handle p) s"
| "handle_monitor s (Asked (broadcast_cond p) a) = used (Cond_Handle p) s"
| "handle_monitor s (Asked (start_cond_wait p q op src) a) =
     (if q \<noteq> 0 \<and> Mutex_Handle q \<notin> live s then Wrong else used (Cond_Handle p) s)"
| "handle_monitor s _ = Next s"

text \<open>Every object has no handle, or a living one that no other object has.\<close>

definition handles_ok :: "handles \<Rightarrow> bool" where
  "handles_ok s \<longleftrightarrow> (\<forall>ob. stored s ob \<noteq> 0 \<longrightarrow> handle_in ob (stored s ob) \<in> live s) \<and>
     (\<forall>ob ob'. stored s ob \<noteq> 0 \<longrightarrow> stored s ob' \<noteq> 0 \<longrightarrow> handle_in ob (stored s ob) = handle_in ob' (stored s ob') \<longrightarrow> ob = ob')"

lemma handles_ok_live: "handles_ok s \<Longrightarrow> stored s ob \<noteq> 0 \<Longrightarrow> handle_in ob (stored s ob) \<in> live s"
  by (simp add: handles_ok_def)

lemma handles_ok_given:
  "handles_ok s \<Longrightarrow> p = 0 \<or> handle_in ob p \<notin> live s \<Longrightarrow>
   handles_ok (s\<lparr>live := insert (handle_in ob p) (live s), stored := (stored s)(ob := p)\<rparr>)"
  unfolding handles_ok_def by (auto simp: fun_upd_apply) metis

lemma handles_ok_none: "handles_ok s \<Longrightarrow> handles_ok (s\<lparr>stored := (stored s)(ob := 0)\<rparr>)"
  unfolding handles_ok_def by (simp add: fun_upd_apply)

lemma handles_ok_destroyed:
  "handles_ok s \<Longrightarrow> stored s ob \<noteq> 0 \<Longrightarrow>
   handles_ok (s\<lparr>live := live s - {handle_in ob (stored s ob)}, stored := (stored s)(ob := 0)\<rparr>)"
  unfolding handles_ok_def by (auto simp: fun_upd_apply)

lemmas handle_steps = given_def used_def destroyed_def

lemmas live_handles =
  handles_ok_live [where ob = "Mutex m" for m, simplified] handles_ok_live [where ob = "Rwlock m" for m, simplified]
  handles_ok_live [where ob = "Prlock m" for m, simplified] handles_ok_live [where ob = "Cond m" for m, simplified]

lemmas given_handles =
  handles_ok_given [where ob = "Mutex m" for m, simplified] handles_ok_given [where ob = "Rwlock m" for m, simplified]
  handles_ok_given [where ob = "Prlock m" for m, simplified] handles_ok_given [where ob = "Cond m" for m, simplified]

lemmas destroyed_handles =
  handles_ok_destroyed [where ob = "Mutex m" for m, simplified] handles_ok_destroyed [where ob = "Rwlock m" for m, simplified]
  handles_ok_destroyed [where ob = "Prlock m" for m, simplified] handles_ok_destroyed [where ob = "Cond m" for m, simplified]

lemmas handle_rules = handles_ok_none live_handles given_handles destroyed_handles

lemma expand_handles:
  assumes "handles_ok s"
  shows "obeys handle_monitor (expand B (src, m)) (\<lambda>_. handles_ok) s"
proof (cases m)
  case (Mutex_Macro a)
  then show ?thesis using assms
    by (cases a) (simp_all add: inline_mutex_defs Let_def if_handle_def waiting_def handle_steps handle_rules)
next
  case (Rwlock_Macro a)
  then show ?thesis using assms
    by (cases a) (simp_all add: inline_rwlock_defs if_handle_def waiting_def handle_steps handle_rules)
next
  case (Cond_Macro a)
  then show ?thesis using assms
    by (cases a) (auto simp: inline_cond_defs Let_def if_handle_def waiting_def handle_steps handle_rules)
next
  case (Thread_Macro a)
  then show ?thesis using assms by (cases a) (simp_all add: inline_thread_defs)
qed

end
