(* ===== verification/Mysql_Thread_Owner.thy ===== *)
theory Mysql_Thread_Owner
  imports Mysql_Thread_Laws Mysql_Mutex
begin

text \<open>
  The instrumented mutexes on top of the native ones of \<open>thr_mutex.h\<close>: any number of threads lock, try to lock and
  unlock them. The plugin keeps the owner of a mutex from what it is told: the thread whose wait ended with success, until
  that thread tells that it unlocks. The functions tell of a lock after it was taken and of an
  unlock before it is done, so these beliefs are never ahead of the mutexes.
\<close>

section \<open>The native mutexes as a system\<close>

definition place :: "src_loc option \<Rightarrow> src_loc" where
  "place src = (case src of None \<Rightarrow> (0, 0) | Some l \<Rightarrow> l)"

text \<open>To unlock a mutex that the thread does not have is undefined: there is no step.\<close>

inductive mutex_system :: "('x, 'm) mutex_api \<Rightarrow> (lock_call, int, ptr \<Rightarrow> 'm) system" for A where
  lock: "my_mutex_lock A t (fst (place src)) (snd (place src)) (w m) = Some (r, x) \<Longrightarrow>
    mutex_system A t (My_mutex_lock m src) w (Some (sint r)) (w(m := x))"
| trylock: "my_mutex_trylock A t (fst (place src)) (snd (place src)) (w m) = Some (r, x) \<Longrightarrow>
    mutex_system A t (My_mutex_trylock m src) w (Some (sint r)) (w(m := x))"
| unlock: "held_by A (w m) = Some (t, n) \<Longrightarrow>
    my_mutex_unlock A t (fst (place src)) (snd (place src)) (w m) = (r, x) \<Longrightarrow>
    mutex_system A t (My_mutex_unlock m src) w (Some (sint r)) (w(m := x))"

inductive_cases mutex_system_lock: "mutex_system A t (My_mutex_lock m src) w a w'"
inductive_cases mutex_system_trylock: "mutex_system A t (My_mutex_trylock m src) w a w'"
inductive_cases mutex_system_unlock: "mutex_system A t (My_mutex_unlock m src) w a w'"

text \<open>The documentation of POSIX mutexes, for locking and unlocking.\<close>

definition pthread_mutex_lock_laws :: "('x, 'm) mutex_api \<Rightarrow> bool" where
  "pthread_mutex_lock_laws A \<longleftrightarrow>
     (\<forall>t m r m'. pthread_mutex_lock A t m = Some (r, m') \<longrightarrow>
        (if r = 0 then held_by A m = None \<and> held_by A m' = Some (t, 1) else held_by A m' = held_by A m)) \<and>
     (\<forall>t n m r m'. held_by A m = Some (t, n) \<longrightarrow> pthread_mutex_unlock A t m = (r, m') \<longrightarrow>
        held_by A m' = (if r = 0 then None else held_by A m))"

definition mutex_laws :: "('x, 'm) mutex_api \<Rightarrow> bool" where
  "mutex_laws A \<longleftrightarrow> (if windows_mutex A then critical_section_laws A
     else pthread_mutex_laws A \<and> pthread_mutex_lock_laws A)"

definition holder :: "('x, 'm) mutex_api \<Rightarrow> 'm \<Rightarrow> nat option" where
  "holder A x = map_option fst (held_by A x)"

lemma holder_Some [simp]: "held_by A x = Some (t, n) \<Longrightarrow> holder A x = Some t"
  by (simp add: holder_def)

lemma native_lock_holder:
  assumes "mutex_laws A" "native_mutex_lock A t x = Some (r, x')"
  shows "if r = 0 then holder A x' = Some t \<and> (holder A x = None \<or> holder A x = Some t) else holder A x' = holder A x"
proof (cases "windows_mutex A")
  case True
  with assms(2) have e: "EnterCriticalSection A t x = Some x'" and r: "r = 0"
    by (auto simp: native_mutex_lock_def)
  from assms(1) True have "critical_section_laws A" by (simp add: mutex_laws_def)
  with e have "held_by A x = None \<or> (\<exists>n. held_by A x = Some (t, n))" "held_by A x' = entered_by t (held_by A x)"
    unfolding critical_section_laws_def by blast+
  with r show ?thesis by (auto simp: holder_def)
next
  case False
  with assms have "if r = 0 then held_by A x = None \<and> held_by A x' = Some (t, 1) else held_by A x' = held_by A x"
    unfolding mutex_laws_def pthread_mutex_lock_laws_def native_mutex_lock_def by simp
  then show ?thesis by (auto simp: holder_def split: if_splits)
qed

lemma native_trylock_holder:
  assumes "mutex_laws A" "native_mutex_trylock A t x = (r, x')"
  shows "if r = 0 then holder A x' = Some t \<and> (holder A x = None \<or> holder A x = Some t) else holder A x' = holder A x"
proof -
  have "if windows_mutex A then critical_section_laws A else pthread_mutex_laws A"
    using assms(1) by (simp add: mutex_laws_def split: if_splits)
  from native_trylock_once [OF this assms(2)] show ?thesis
    by (auto simp: holder_def EBUSY_def split: if_splits)
qed

lemma native_unlock_holder:
  assumes "mutex_laws A" "native_mutex_unlock A t x = (r, x')" "held_by A x = Some (t, n)"
  shows "holder A x' = None \<or> holder A x' = Some t"
proof (cases "windows_mutex A")
  case True
  with assms have x': "x' = LeaveCriticalSection A t x" by (simp add: native_mutex_unlock_def)
  from assms(1) True have "critical_section_laws A" by (simp add: mutex_laws_def)
  with assms(3) x' have "held_by A x' = left_once (Some (t, n))" unfolding critical_section_laws_def by metis
  then show ?thesis by (cases "Some (t, n)" rule: left_once.cases) (auto simp: holder_def)
next
  case False
  with assms have "held_by A x' = (if r = 0 then None else held_by A x)"
    unfolding mutex_laws_def pthread_mutex_lock_laws_def native_mutex_unlock_def by simp
  with assms(3) show ?thesis by (auto simp: holder_def)
qed

section \<open>What a thread holds, and what the plugin believes\<close>

fun holding :: "ptr set \<Rightarrow> (thread_ask, lock_call, int) event \<Rightarrow> ptr set" where
  "holding H (Did (My_mutex_lock m src) r) = (if r = 0 then insert m H else H)"
| "holding H (Did (My_mutex_trylock m src) r) = (if r = 0 then insert m H else H)"
| "holding H (Did (My_mutex_unlock m src) r) = H - {m}"
| "holding H e = H"

text \<open>The wait that is going on, with its handle and its locker, and the handles of the mutexes of the thread.\<close>

type_synonym belief = "(ptr \<times> ptr) option \<times> ptr set"

fun believe :: "belief \<Rightarrow> (thread_ask, lock_call, int) event \<Rightarrow> belief" where
  "believe b (Asked (start_mutex_wait p op src) l) = (Some (p, l), snd b)"
| "believe b (Asked (end_mutex_wait l r) a) = (None, if r = 0
     then (case fst b of Some (p, l') \<Rightarrow> if l' = l then insert p (snd b) else snd b | None \<Rightarrow> snd b) else snd b)"
| "believe b (Asked (unlock_mutex p) a) = (fst b, snd b - {p})"
| "believe b e = b"

definition believed :: "nat \<Rightarrow> (nat \<times> (thread_ask, lock_call, int) event) list \<Rightarrow> ptr set" where
  "believed t es = snd (foldl believe (None, {}) (events_of t es))"

definition held :: "nat \<Rightarrow> (nat \<times> (thread_ask, lock_call, int) event) list \<Rightarrow> ptr set" where
  "held t es = foldl holding {} (events_of t es)"

text \<open>The beliefs about a thread are about mutexes that it holds.\<close>

definition justified :: "(ptr \<Rightarrow> ptr) \<Rightarrow> belief \<times> ptr set \<Rightarrow> bool" where
  "justified psi_of s \<longleftrightarrow> (\<forall>p \<in> snd (fst s). p \<noteq> 0 \<and> (\<exists>m \<in> snd s. psi_of m = p))"

fun wrong_handle :: "(ptr \<Rightarrow> ptr) \<Rightarrow> (thread_ask, lock_call, int) event \<Rightarrow> bool" where
  "wrong_handle psi_of (Asked (Load_psi (Mutex m)) a) = (a \<noteq> psi_of m)"
| "wrong_handle psi_of e = False"

definition owner_monitor :: "(ptr \<Rightarrow> ptr) \<Rightarrow> (thread_ask, lock_call, int, belief \<times> ptr set) monitor" where
  "owner_monitor psi_of s e = (if wrong_handle psi_of e then Ruled_Out
     else let s = (believe (fst s) e, holding (snd s) e) in if justified psi_of s then Next s else Wrong)"

lemma follow_owner:
  "follow (owner_monitor psi_of) es s = Next u \<Longrightarrow> u = (foldl believe (fst s) es, foldl holding (snd s) es)"
proof (induction es arbitrary: s)
  case (Cons e es)
  then obtain v where v: "owner_monitor psi_of s e = Next v" "follow (owner_monitor psi_of) es v = Next u"
    by (auto split: verdict.splits)
  then have "v = (believe (fst s) e, holding (snd s) e)"
    by (auto simp: owner_monitor_def Let_def split: if_splits)
  with Cons.IH [OF v(2)] show ?case by simp
qed simp

section \<open>The functions\<close>

fun locking :: "mutex_macro \<Rightarrow> bool" where
  "locking (mysql_mutex_lock m) = True"
| "locking (mysql_mutex_trylock m) = True"
| "locking (mysql_mutex_unlock m) = True"
| "locking _ = False"

definition mutex_functions :: "build \<Rightarrow> code set" where
  "mutex_functions B = {expand B (src, Mutex_Macro m) | src m. locking m}"

fun mutex_call :: "lock_call \<Rightarrow> bool" where
  "mutex_call (My_mutex_lock m src) = True"
| "mutex_call (My_mutex_trylock m src) = True"
| "mutex_call (My_mutex_unlock m src) = True"
| "mutex_call _ = False"

text \<open>The handles stay in the mutexes; all other answers are up to the plugin.\<close>

fun psi_memory :: "(ptr \<Rightarrow> ptr) \<Rightarrow> (thread_ask, unit) plugin" where
  "psi_memory psi_of t (Load_psi (Mutex m)) h a h' = (a = psi_of m)"
| "psi_memory psi_of t p h a h' = True"

lemma mutex_functions_cases:
  assumes "f \<in> mutex_functions B"
  obtains m src where "f = inline_mysql_mutex_lock B m src" | m src where "f = inline_mysql_mutex_trylock B m src"
    | m src where "f = inline_mysql_mutex_unlock B m src"
proof -
  from assms obtain src m where f: "f = expand B (src, Mutex_Macro m)" "locking m" by (auto simp: mutex_functions_def)
  with that show ?thesis by (cases m) auto
qed

lemma mutex_functions_calls: "f \<in> mutex_functions B \<Longrightarrow> calls_only mutex_call f"
  by (erule mutex_functions_cases) (simp_all add: inline_mutex_defs Let_def if_handle_def waiting_def)

lemma justified_lock: "justified psi_of ((b, P), H) \<Longrightarrow> justified psi_of ((c, P), insert m H)"
  by (auto simp: justified_def)

lemma mutex_functions_justified:
  assumes "f \<in> mutex_functions B" "justified psi_of s" "have_mutex B"
  shows "obeys (owner_monitor psi_of) f (\<lambda>_. justified psi_of) s"
  using assms(1)
proof (cases rule: mutex_functions_cases)
  case (1 m src)
  with assms(2) show ?thesis
    by (auto simp: inline_mutex_defs Let_def if_handle_def waiting_def owner_monitor_def justified_def)
next
  case (2 m src)
  with assms(2) show ?thesis
    by (auto simp: inline_mutex_defs Let_def if_handle_def waiting_def owner_monitor_def justified_def)
next
  case (3 m src)
  with assms(2) show ?thesis
    using assms(3) by (auto simp: inline_mutex_defs Let_def if_handle_def owner_monitor_def justified_def)
qed

section \<open>All threads together\<close>

lemma held_simps:
  "held t (es @ [(u, e)]) = (if u = t then holding (held t es) e else held t es)"
  by (simp add: held_def)

lemma sint_zero: "sint (r :: 32 word) = 0 \<longleftrightarrow> r = 0"
  by (metis signed_0 signed_word_eqI)

lemma mutex_system_holder:
  assumes laws: "mutex_laws A" "\<not> safe_mutex_build A"
    and s: "mutex_system A t s w (Some a) w'" "mutex_call s"
    and ok: "\<And>u m. m \<in> H u \<Longrightarrow> holder A (w m) = Some u"
    and m: "m \<in> (H(t := holding (H t) (Did s a))) u"
  shows "holder A (w' m) = Some u"
proof (cases s)
  case (My_mutex_lock k src)
  from s(1) obtain r x where x: "native_mutex_lock A t (w k) = Some (r, x)" "a = sint r" "w' = w(k := x)"
    unfolding My_mutex_lock by (auto elim!: mutex_system_lock simp: my_mutex_lock_def laws(2))
  from native_lock_holder [OF laws(1) x(1)] ok [of m u] ok [of k u] m x(2,3) show ?thesis
    by (auto simp: My_mutex_lock sint_zero split: if_splits)
next
  case (My_mutex_trylock k src)
  from s(1) obtain r x where x: "native_mutex_trylock A t (w k) = (r, x)" "a = sint r" "w' = w(k := x)"
    unfolding My_mutex_trylock by (auto elim!: mutex_system_trylock simp: my_mutex_trylock_def laws(2))
  from native_trylock_holder [OF laws(1) x(1)] ok [of m u] ok [of k u] m x(2,3) show ?thesis
    by (auto simp: My_mutex_trylock sint_zero split: if_splits)
next
  case (My_mutex_unlock k src)
  from s(1) obtain n r x where x: "held_by A (w k) = Some (t, n)" "native_mutex_unlock A t (w k) = (r, x)" "w' = w(k := x)"
    unfolding My_mutex_unlock by (auto elim!: mutex_system_unlock simp: my_mutex_unlock_def laws(2))
  from ok [of m u] ok [of k u] m x(1,3) show ?thesis
    by (auto simp: My_mutex_unlock split: if_splits)
qed (use s(2) in simp_all)

lemma held_holder:
  assumes laws: "mutex_laws A" "\<not> safe_mutex_build A"
    and r: "machine_reachable (mutex_functions B) P (mutex_system A) h w c"
  shows "m \<in> held t (events c) \<Longrightarrow> holder A (world c m) = Some t"
  using r
proof (induction arbitrary: m t)
  case start
  then show ?case by (simp add: held_def)
next
  case (step c d)
  from step.hyps(2) show ?case
  proof cases
    case (progress u s k w')
    then show ?thesis by (auto elim: mutex_system.cases)
  next
    case (did u s k a w')
    have "\<forall>t f. running c t = Some f \<longrightarrow> calls_only mutex_call f"
      using step.hyps(1) mutex_functions_calls by (rule calls_only_running)
    with did(2) have "calls_only mutex_call (Sys s k)" by blast
    then have s: "mutex_call s" by simp
    have "m \<in> ((\<lambda>t. held t (events c))(u := holding (held u (events c)) (Did s a))) t"
      using step.prems did by (auto simp: held_simps split: if_splits)
    with step.IH show ?thesis unfolding did
      using mutex_system_holder [OF laws did(3) s, of "\<lambda>t. held t (events c)"] by simp
  qed (use step in \<open>auto simp: held_simps split: if_splits\<close>)
qed

lemma believed_held:
  assumes "machine_reachable (mutex_functions B) (psi_memory psi_of) S h w c" "p \<in> believed t (events c)" "have_mutex B"
  obtains m where "m \<in> held t (events c)" "psi_of m = p" "p \<noteq> 0"
proof -
  let ?f = "follow (owner_monitor psi_of) (events_of t (events c)) ((None, {}), {})"
  have start: "justified psi_of ((None, {}), {})" by (simp add: justified_def)
  have "follows (owner_monitor psi_of) (justified psi_of) ((None, {}), {}) c t"
    using assms(1) start by (rule follows_reachable) (rule mutex_functions_justified [OF _ _ assms(3)])
  then have ok: "?f \<noteq> Wrong" by (auto simp: follows_def)
  have "?f \<noteq> Ruled_Out"
  proof (rule follow_possible [OF assms(1)])
    fix t p h a h' and m :: "belief \<times> ptr set"
    show "psi_memory psi_of t p h a h' \<Longrightarrow> owner_monitor psi_of m (Asked p a) \<noteq> Ruled_Out"
      by (cases "(psi_of, t, p, h, a, h')" rule: psi_memory.cases) (auto simp: owner_monitor_def Let_def)
  qed (auto simp: owner_monitor_def Let_def)
  with ok obtain s where s: "?f = Next s" by (cases ?f) auto
  from follow_owner [OF s] have eq: "s = ((fst (fst s), believed t (events c)), held t (events c))"
    by (simp add: believed_def held_def prod_eq_iff)
  have "justified psi_of s"
  proof (cases "events_of t (events c)" rule: rev_cases)
    case Nil
    with s start show ?thesis by simp
  next
    case (snoc es e)
    with s obtain v where "owner_monitor psi_of v e = Next s" by (auto simp: follow_append split: verdict.splits)
    then show ?thesis by (auto simp: owner_monitor_def Let_def split: if_splits)
  qed
  with eq assms(2) that show ?thesis unfolding justified_def by (metis fst_conv snd_conv)
qed

lemma one_owner:
  assumes "mutex_laws A" "\<not> safe_mutex_build A"
    and "machine_reachable (mutex_functions B) (psi_memory psi_of) (mutex_system A) h w c"
    and "\<And>m k. psi_of m \<noteq> 0 \<Longrightarrow> psi_of m = psi_of k \<Longrightarrow> m = k"
    and "p \<in> believed t (events c)" "p \<in> believed u (events c)" "have_mutex B"
  shows "t = u"
proof -
  from believed_held [OF assms(3,5,7)] obtain m where m: "m \<in> held t (events c)" "psi_of m = p" "p \<noteq> 0" .
  from believed_held [OF assms(3,6,7)] obtain k where k: "k \<in> held u (events c)" "psi_of k = p" .
  with m assms(4) have "k = m" by metis
  with held_holder [OF assms(1-3) m(1)] held_holder [OF assms(1-3) k(1)] show ?thesis by simp
qed

end
