(* ===== verification/Mysql_Thread_Properties.thy ===== *)
theory Mysql_Thread_Properties
  imports Mysql_Thread_Owner
begin

text \<open>Properties of the instrumented mutexes, locks, condition variables and threads.\<close>

section \<open>An example\<close>

text \<open>A build with everything, a plugin that gives every mutex its address as a handle, and the lock of a mutex by thread 1.\<close>

definition demo_build :: build where
  "demo_build = \<lparr>have_mutex = True, have_rwlock = True, have_cond = True, have_thread = True, safe_mutex = False\<rparr>"

definition demo_world :: "ptr \<Rightarrow> (nat \<times> nat) option" where
  "demo_world m = None"

definition demo_events :: "(nat \<times> (thread_ask, lock_call, int) event) list" where
  "demo_events = [(1, Asked (Load_psi (Mutex 7)) 7), (1, Asked (Load_psi (Mutex 7)) 7),
     (1, Asked (start_mutex_wait 7 PSI_MUTEX_LOCK (100, 20)) 5), (1, Did (My_mutex_lock 7 None) 0),
     (1, Asked (end_mutex_wait 5 0) 0)]"

lemma demo_lock_code:
  "inline_mysql_mutex_lock demo_build 7 (100, 20) = Ask (Load_psi (Mutex 7)) (\<lambda>p. if p \<noteq> 0
     then Ask (Load_psi (Mutex 7)) (\<lambda>p. Ask (start_mutex_wait p PSI_MUTEX_LOCK (100, 20)) (\<lambda>l.
       Sys (My_mutex_lock 7 None) (\<lambda>r. if l \<noteq> 0 then Ask (end_mutex_wait l r) (\<lambda>_. Return r) else Return r)))
     else sys (My_mutex_lock 7 None))"
  by (simp add: inline_mysql_mutex_lock_def Let_def if_handle_def waiting_def demo_build_def checked_def fun_eq_iff)

lemma demo_reaches:
  assumes "inline_mysql_mutex_lock demo_build 7 (100, 20) \<in> F"
  shows "thread_reaches F (psi_memory (\<lambda>m. m)) (mutex_system demo_mutex) () demo_world 1 (Return 0) demo_events
    () (demo_world(7 := Some (1, 1)))"
proof -
  let ?R = "thread_reaches F (psi_memory (\<lambda>m. m)) (mutex_system demo_mutex) () demo_world 1"
  from thread_reaches_call [OF assms] have "?R (inline_mysql_mutex_lock demo_build 7 (100, 20)) [] () demo_world" .
  from thread_reaches_ask [OF this [unfolded demo_lock_code], of 7 "()"]
  have "?R (Ask (Load_psi (Mutex 7)) (\<lambda>p. Ask (start_mutex_wait p PSI_MUTEX_LOCK (100, 20)) (\<lambda>l.
       Sys (My_mutex_lock 7 None) (\<lambda>r. if l \<noteq> 0 then Ask (end_mutex_wait l r) (\<lambda>_. Return r) else Return r))))
     [(1, Asked (Load_psi (Mutex 7)) 7)] () demo_world" by simp
  from thread_reaches_ask [OF thread_reaches_ask [OF this, of 7 "()"], of 5 "()"]
  have w: "?R (Sys (My_mutex_lock 7 None) (\<lambda>r. Ask (end_mutex_wait 5 r) (\<lambda>_. Return r)))
     [(1, Asked (Load_psi (Mutex 7)) 7), (1, Asked (Load_psi (Mutex 7)) 7),
      (1, Asked (start_mutex_wait 7 PSI_MUTEX_LOCK (100, 20)) 5)] () demo_world" by simp
  have "mutex_system demo_mutex 1 (My_mutex_lock 7 None) demo_world (Some (sint (0 :: 32 word))) (demo_world(7 := Some (1, 1)))"
    by (rule mutex_system.lock) (simp add: demo_mutex_def demo_world_def my_mutex_lock_def native_mutex_lock_def)
  then have l: "mutex_system demo_mutex 1 (My_mutex_lock 7 None) demo_world (Some 0) (demo_world(7 := Some (1, 1)))"
    unfolding signed_0 .
  from thread_reaches_did [OF w, of 0 "demo_world(7 := Some (1, 1))"] l
  have "?R (Ask (end_mutex_wait 5 0) (\<lambda>_. Return 0))
     [(1, Asked (Load_psi (Mutex 7)) 7), (1, Asked (Load_psi (Mutex 7)) 7),
      (1, Asked (start_mutex_wait 7 PSI_MUTEX_LOCK (100, 20)) 5), (1, Did (My_mutex_lock 7 None) 0)]
     () (demo_world(7 := Some (1, 1)))" by simp
  from thread_reaches_ask [OF this, of 0 "()"] show ?thesis by (simp add: demo_events_def)
qed

lemma demo_windows: "windows_mutex demo_mutex" "\<not> safe_mutex_build demo_mutex"
  by (simp_all add: demo_mutex_def)

type_synonym demo_machine = "(thread_ask, lock_call, int, int, unit, ptr \<Rightarrow> (nat \<times> nat) option) machine"

section \<open>Properties\<close>

text \<open>C11: Every execution of threads that use the instrumented objects, with any plugin, is one of the build without
  the plugin: there the same calls of the system have been made by the same threads in the same
  order with the same results, the system is in the same state, and every thread is at the
  corresponding point of the same function. Only the creation of threads is left to the plugin.\<close>

theorem thread_instrumentation_transparent:
  assumes "machine_reachable (expand B ` {(src, m). \<not> creates_thread m}) P S h w c"
  shows "\<exists>d. machine_reachable ((\<lambda>x. silence (expand (plain_build B) x)) ` {(src, m). \<not> creates_thread m})
      (\<lambda>_ _ _ _ _. False) S () w d \<and> corresponds c d"
  using assms by (rule corresponds_reachable) (auto intro: same_expand)

theorem thread_instrumentation_transparent_lock:
  "\<exists>(c :: demo_machine) d. events c = demo_events \<and> machine_reachable ((\<lambda>x. silence (expand (plain_build demo_build) x)) ` {(src, m). \<not> creates_thread m})
      (\<lambda>_ _ _ _ _. False) (mutex_system demo_mutex) () demo_world d \<and> corresponds c d \<and>
     visible (events d) = [(1, My_mutex_lock 7 None, 0)]"
proof -
  let ?F = "expand demo_build ` {(src, m). \<not> creates_thread m}"
  have "expand demo_build ((100, 20), Mutex_Macro (mysql_mutex_lock 7)) \<in> ?F" by (rule imageI) simp
  then have "inline_mysql_mutex_lock demo_build 7 (100, 20) \<in> ?F" by simp
  from demo_reaches [OF this] obtain c where c: "machine_reachable ?F (psi_memory (\<lambda>m. m)) (mutex_system demo_mutex) () demo_world c"
      "events c = demo_events" unfolding thread_reaches_def by blast
  from thread_instrumentation_transparent [OF c(1)] obtain d where d: "machine_reachable
      ((\<lambda>x. silence (expand (plain_build demo_build) x)) ` {(src, m). \<not> creates_thread m})
      (\<lambda>_ _ _ _ _. False) (mutex_system demo_mutex) () demo_world d" "corresponds c d" by blast
  from d(2) c(2) have "visible (events d) = [(1, My_mutex_lock 7 None, 0)]"
    by (simp add: corresponds_def demo_events_def)
  with c(2) d show ?thesis by blast
qed

text \<open>C12: Whatever the plugin and the other threads do, each thread starts a wait only when it is in none, makes
  exactly the call of the system that the wait is for, and ends the wait with the locker that it was
  given and the result of that call, for an object of the same kind; without a locker it does
  not end it. A thread between two calls is in no wait.\<close>

theorem thread_waits_complete:
  assumes "machine_reachable (range (expand B)) P S h w c"
  shows "\<exists>v. follow thread_waits (events_of t (events c)) Idle = Next v \<and> (running c t = None \<longrightarrow> v = Idle)"
proof -
  have "follows thread_waits (\<lambda>w. w = Idle) Idle c t"
    using assms by (rule follows_reachable) (use expand_waits in \<open>auto simp: image_iff\<close>)
  then have ok: "accepted (\<lambda>v. running c t = None \<longrightarrow> v = Idle) (follow thread_waits (events_of t (events c)) Idle)"
    unfolding follows_def by (elim accepted_mono) (simp split: option.splits)
  have "follow thread_waits (events_of t (events c)) Idle \<noteq> Ruled_Out"
    using assms by (rule follow_possible) (rule wait_monitor_possible)+
  with ok show ?thesis by (cases "follow thread_waits (events_of t (events c)) Idle") auto
qed

theorem thread_waits_complete_lock:
  "\<exists>v. follow thread_waits (events_of 1 demo_events) Idle = Next v \<and> (v = Idle \<or> False)"
proof -
  have "expand demo_build ((100, 20), Mutex_Macro (mysql_mutex_lock 7)) \<in> range (expand demo_build)" by (rule rangeI)
  then have "inline_mysql_mutex_lock demo_build 7 (100, 20) \<in> range (expand demo_build)" by simp
  from demo_reaches [OF this] obtain c where c: "machine_reachable (range (expand demo_build)) (psi_memory (\<lambda>m. m))
      (mutex_system demo_mutex) () demo_world c" "events c = demo_events" "running c 1 = Some (Return 0)"
    unfolding thread_reaches_def by blast
  from machine_reachable.step [OF c(1) machine_step.return [OF c(3)]]
  have "machine_reachable (range (expand demo_build)) (psi_memory (\<lambda>m. m)) (mutex_system demo_mutex) () demo_world
      (c\<lparr>running := (running c)(1 := None)\<rparr>)" .
  from thread_waits_complete [OF this, of 1] c(2) show ?thesis by simp
qed


text \<open>A thread that uses macros one after the other.\<close>

primrec run_macros :: "build \<Rightarrow> (src_loc \<times> macro) list \<Rightarrow> code" where
  "run_macros B [] = Return 0"
| "run_macros B (m # ms) = bindC (expand B m) (\<lambda>_. run_macros B ms)"

lemma run_macros_handles: "handles_ok s \<Longrightarrow> obeys handle_monitor (run_macros B ms) (\<lambda>_. handles_ok) s"
proof (induction ms arbitrary: s)
  case (Cons m ms)
  obtain src x where m: "m = (src, x)" by (cases m)
  from expand_handles [OF Cons.prems] show ?case
    unfolding run_macros.simps obeys_bind m by (rule obeys_mono) (rule Cons.IH)
qed simp

text \<open>C13: A thread that starts with objects without handles and initialises, uses and destroys them in any order
  never hands the plugin a handle that it has destroyed or never got: each object has no handle, or a living
  one of its own kind that no other object has. An object may be destroyed twice.\<close>

theorem handles_never_dangling:
  "obeys handle_monitor (run_macros B ms) (\<lambda>_. handles_ok) \<lparr>live = {}, stored = (\<lambda>ob. 0)\<rparr>"
  by (rule run_macros_handles) (simp add: handles_ok_def)

text \<open>C10: The owners that the plugin keeps for the instrumented mutexes are right, for any number of threads that
  lock, try to lock and unlock native mutexes, on Windows and with POSIX threads: the threads of
  which it believes that they own a mutex do have that mutex, and it never believes that two threads own the same one.\<close>

theorem plugin_one_owner:
  assumes "mutex_laws A" "\<not> safe_mutex_build A" "have_mutex B"
    and "\<And>m k. psi_of m \<noteq> 0 \<Longrightarrow> psi_of m = psi_of k \<Longrightarrow> m = k"
    and "machine_reachable (mutex_functions B) (psi_memory psi_of) (mutex_system A) h w c" "t \<noteq> u"
  shows "(\<forall>p \<in> believed t (events c). \<exists>m. psi_of m = p \<and> holder A (world c m) = Some t) \<and>
    believed t (events c) \<inter> believed u (events c) = {}"
proof (intro conjI ballI)
  fix p
  assume "p \<in> believed t (events c)"
  then obtain m where "m \<in> held t (events c)" "psi_of m = p"
    using believed_held [OF assms(5) _ assms(3)] by blast
  with held_holder [OF assms(1,2,5)] show "\<exists>m. psi_of m = p \<and> holder A (world c m) = Some t" by blast
next
  show "believed t (events c) \<inter> believed u (events c) = {}"
    using one_owner [OF assms(1,2,5,4) _ _ assms(3)] assms(6) by blast
qed

theorem plugin_one_owner_lock:
  "\<exists>c :: demo_machine. believed 1 (events c) = {7} \<and> holder demo_mutex (world c 7) = Some 1 \<and>
     believed 1 (events c) \<inter> believed 2 (events c) = {}"
proof -
  have "expand demo_build ((100, 20), Mutex_Macro (mysql_mutex_lock 7)) \<in> mutex_functions demo_build"
    unfolding mutex_functions_def using locking.simps(1) by blast
  then have "inline_mysql_mutex_lock demo_build 7 (100, 20) \<in> mutex_functions demo_build" by simp
  from demo_reaches [OF this] obtain c where c: "machine_reachable (mutex_functions demo_build) (psi_memory (\<lambda>m. m))
      (mutex_system demo_mutex) () demo_world c" "events c = demo_events"
    unfolding thread_reaches_def by blast
  have laws: "mutex_laws demo_mutex" using demo_mutex_laws demo_windows by (simp add: mutex_laws_def)
  have "have_mutex demo_build" by (simp add: demo_build_def)
  from plugin_one_owner [OF laws demo_windows(2) this _ c(1), of 1 2]
  have "\<forall>p \<in> believed 1 (events c). \<exists>m. m = p \<and> holder demo_mutex (world c m) = Some 1"
    "believed 1 (events c) \<inter> believed 2 (events c) = {}" by simp_all
  moreover have "believed 1 (events c) = {7}" by (simp add: c(2) demo_events_def believed_def events_of_def)
  ultimately show ?thesis by auto
qed

end
