(* ===== verification/Mysql_Socket.thy ===== *)
theory Mysql_Socket
  imports Mysql_Calls
begin

unbundle bit_operations_syntax

text \<open>
  The instrumented sockets of \<open>mysql/psi/mysql_socket.h\<close>: a descriptor and the handle of the plugin, passed by
  value. The functions of the system around which they are written are calls; their answer is the
  result, with the length that the call leaves in its last argument where that is a local variable. The
  build with \<open>HAVE_PSI_SOCKET_INTERFACE\<close>, and Windows, are parameters.
\<close>

section \<open>Types\<close>

type_synonym src_loc = "ptr \<times> 32 word"
type_synonym size_t = "32 word"
type_synonym socklen_t = "32 word"

record socket_build =
  have_socket :: bool
  on_win32 :: bool
  O_NONBLOCK :: "32 word"

datatype PSI_socket_state = PSI_SOCKET_STATE_IDLE | PSI_SOCKET_STATE_ACTIVE

datatype PSI_socket_operation =
    PSI_SOCKET_CREATE | PSI_SOCKET_CONNECT | PSI_SOCKET_BIND | PSI_SOCKET_CLOSE | PSI_SOCKET_SEND | PSI_SOCKET_RECV
  | PSI_SOCKET_SENDTO | PSI_SOCKET_RECVFROM | PSI_SOCKET_SENDMSG | PSI_SOCKET_RECVMSG | PSI_SOCKET_SEEK
  | PSI_SOCKET_OPT | PSI_SOCKET_STAT | PSI_SOCKET_SHUTDOWN | PSI_SOCKET_SELECT

record MYSQL_SOCKET =
  fd :: int
  m_psi :: ptr

definition INVALID_SOCKET :: int where "INVALID_SOCKET = - 1"

datatype socket_ask =
    register_socket ptr ptr int
  | init_socket "32 word" int ptr socklen_t
  | destroy_socket ptr
  | set_socket_info ptr ptr socklen_t
  | set_socket_thread_owner ptr
  | set_socket_state ptr PSI_socket_state
  | start_socket_wait ptr PSI_socket_operation size_t src_loc
  | end_socket_wait ptr size_t

datatype socket_call =
    Sys_socket int int int | Sys_bind int ptr socklen_t | Sys_getsockname int ptr ptr | Sys_connect int ptr socklen_t
  | Sys_getpeername int ptr ptr | Sys_send int ptr int int | Sys_recv int ptr int int
  | Sys_sendto int ptr int int ptr socklen_t | Sys_recvfrom int ptr int int ptr ptr
  | Sys_getsockopt int int int ptr ptr | Sys_setsockopt int int int ptr socklen_t
  | Sys_ioctlsocket_FIONBIO int | Sys_fcntl_F_GETFL int | Sys_fcntl_F_SETFL int int | Sys_errno
  | Sys_listen int int | Load_length ptr | Sys_accept int ptr socklen_t | Sys_closesocket int | Sys_shutdown int int
  | Load_DisconnectEx | Sys_WSAIoctl_DisconnectEx int | Sys_DisconnectEx int

type_synonym 'r socket_code = "(socket_ask, socket_call, int \<times> socklen_t, 'r) code"

definition sys_int :: "socket_call \<Rightarrow> int socket_code" where
  "sys_int s = Sys s (\<lambda>a. Return (fst a))"

section \<open>Helpers\<close>

definition mysql_socket_invalid :: MYSQL_SOCKET where
  "mysql_socket_invalid = \<lparr>fd = INVALID_SOCKET, m_psi = 0\<rparr>"

definition mysql_socket_set_address :: "socket_build \<Rightarrow> MYSQL_SOCKET \<Rightarrow> ptr \<Rightarrow> socklen_t \<Rightarrow> int socket_code" where
  "mysql_socket_set_address N socket addr addr_len =
     (if have_socket N \<and> m_psi socket \<noteq> 0 then tell (set_socket_info (m_psi socket) addr addr_len) (Return 0) else Return 0)"

definition mysql_socket_set_thread_owner :: "socket_build \<Rightarrow> MYSQL_SOCKET \<Rightarrow> int socket_code" where
  "mysql_socket_set_thread_owner N socket =
     (if have_socket N \<and> m_psi socket \<noteq> 0 then tell (set_socket_thread_owner (m_psi socket)) (Return 0) else Return 0)"

definition mysql_socket_getfd :: "MYSQL_SOCKET \<Rightarrow> int" where
  "mysql_socket_getfd mysql_socket = fd mysql_socket"

text \<open>A pointer to a socket is \<open>None\<close> when it is \<open>NULL\<close>.\<close>

definition mysql_socket_setfd :: "MYSQL_SOCKET option \<Rightarrow> int \<Rightarrow> MYSQL_SOCKET option" where
  "mysql_socket_setfd mysql_socket f = map_option (fd_update (\<lambda>_. f)) mysql_socket"

text \<open>Waits that a program starts and ends itself; only with the interface.\<close>

definition inline_mysql_start_socket_wait ::
  "MYSQL_SOCKET \<Rightarrow> PSI_socket_operation \<Rightarrow> size_t \<Rightarrow> src_loc \<Rightarrow> ptr socket_code" where
  "inline_mysql_start_socket_wait mysql_socket oper byte_count src =
     (if m_psi mysql_socket \<noteq> 0 then Ask (start_socket_wait (m_psi mysql_socket) oper byte_count src) Return else Return 0)"

definition inline_mysql_end_socket_wait :: "ptr \<Rightarrow> size_t \<Rightarrow> int socket_code" where
  "inline_mysql_end_socket_wait locker byte_count =
     (if locker \<noteq> 0 then tell (end_socket_wait locker byte_count) (Return 0) else Return 0)"

definition inline_mysql_socket_set_state :: "MYSQL_SOCKET \<Rightarrow> PSI_socket_state \<Rightarrow> int socket_code" where
  "inline_mysql_socket_set_state socket state =
     (if m_psi socket \<noteq> 0 then tell (set_socket_state (m_psi socket) state) (Return 0) else Return 0)"

section \<open>The functions\<close>

text \<open>The shape of most of them: a wait when the socket has a handle, which reports a number of bytes.\<close>

definition in_wait :: "socket_build \<Rightarrow> MYSQL_SOCKET \<Rightarrow> PSI_socket_operation \<Rightarrow> size_t \<Rightarrow> src_loc \<Rightarrow> 'r socket_code \<Rightarrow>
    ('r \<Rightarrow> size_t) \<Rightarrow> 'r socket_code" where
  "in_wait N mysql_socket oper count src body bytes = (if have_socket N \<and> m_psi mysql_socket \<noteq> 0
     then waiting (start_socket_wait (m_psi mysql_socket) oper count src) body (\<lambda>locker result. end_socket_wait locker (bytes result))
     else body)"

text \<open>\<open>(result > -1) ? result : 0\<close>, and \<open>IF_WIN((int),) n\<close>\<close>

definition transferred :: "int \<Rightarrow> size_t" where
  "transferred result = (if result > - 1 then word_of_int result else 0)"

definition len_arg :: "socket_build \<Rightarrow> size_t \<Rightarrow> int" where
  "len_arg N n = (if on_win32 N then sint n else uint n)"

definition inline_mysql_socket_register :: "ptr \<Rightarrow> ptr \<Rightarrow> int \<Rightarrow> int socket_code" where
  "inline_mysql_socket_register category info count = tell (register_socket category info count) (Return 0)"

definition inline_mysql_socket_socket :: "socket_build \<Rightarrow> 32 word \<Rightarrow> int \<Rightarrow> int \<Rightarrow> int \<Rightarrow> MYSQL_SOCKET socket_code" where
  "inline_mysql_socket_socket N key domain type protocol = Sys (Sys_socket domain type protocol) (\<lambda>a.
     let mysql_socket = mysql_socket_invalid\<lparr>fd := fst a\<rparr> in
     if have_socket N \<and> fd mysql_socket \<noteq> INVALID_SOCKET
     then Ask (init_socket key (fd mysql_socket) 0 0) (\<lambda>p. Return (mysql_socket\<lparr>m_psi := p\<rparr>))
     else Return mysql_socket)"

definition inline_mysql_socket_bind :: "socket_build \<Rightarrow> src_loc \<Rightarrow> MYSQL_SOCKET \<Rightarrow> ptr \<Rightarrow> socklen_t \<Rightarrow> int socket_code" where
  "inline_mysql_socket_bind N src mysql_socket addr len = (if have_socket N \<and> m_psi mysql_socket \<noteq> 0
     then waiting (start_socket_wait (m_psi mysql_socket) PSI_SOCKET_BIND 0 src)
       (bindC (sys_int (Sys_bind (fd mysql_socket) addr len)) (\<lambda>result.
         if result = 0 then tell (set_socket_info (m_psi mysql_socket) addr len) (Return result) else Return result))
       (\<lambda>locker result. end_socket_wait locker 0)
     else sys_int (Sys_bind (fd mysql_socket) addr len))"

definition inline_mysql_socket_getsockname :: "socket_build \<Rightarrow> src_loc \<Rightarrow> MYSQL_SOCKET \<Rightarrow> ptr \<Rightarrow> ptr \<Rightarrow> int socket_code" where
  "inline_mysql_socket_getsockname N src mysql_socket addr len =
     in_wait N mysql_socket PSI_SOCKET_BIND 0 src (sys_int (Sys_getsockname (fd mysql_socket) addr len)) (\<lambda>_. 0)"

definition inline_mysql_socket_connect :: "socket_build \<Rightarrow> src_loc \<Rightarrow> MYSQL_SOCKET \<Rightarrow> ptr \<Rightarrow> socklen_t \<Rightarrow> int socket_code" where
  "inline_mysql_socket_connect N src mysql_socket addr len =
     in_wait N mysql_socket PSI_SOCKET_CONNECT 0 src (sys_int (Sys_connect (fd mysql_socket) addr len)) (\<lambda>_. 0)"

definition inline_mysql_socket_getpeername :: "socket_build \<Rightarrow> src_loc \<Rightarrow> MYSQL_SOCKET \<Rightarrow> ptr \<Rightarrow> ptr \<Rightarrow> int socket_code" where
  "inline_mysql_socket_getpeername N src mysql_socket addr len =
     in_wait N mysql_socket PSI_SOCKET_BIND 0 src (sys_int (Sys_getpeername (fd mysql_socket) addr len)) (\<lambda>_. 0)"

definition inline_mysql_socket_send :: "socket_build \<Rightarrow> src_loc \<Rightarrow> MYSQL_SOCKET \<Rightarrow> ptr \<Rightarrow> size_t \<Rightarrow> int \<Rightarrow> int socket_code" where
  "inline_mysql_socket_send N src mysql_socket buf n flags =
     in_wait N mysql_socket PSI_SOCKET_SEND n src (sys_int (Sys_send (fd mysql_socket) buf (len_arg N n) flags)) transferred"

definition inline_mysql_socket_recv :: "socket_build \<Rightarrow> src_loc \<Rightarrow> MYSQL_SOCKET \<Rightarrow> ptr \<Rightarrow> size_t \<Rightarrow> int \<Rightarrow> int socket_code" where
  "inline_mysql_socket_recv N src mysql_socket buf n flags =
     in_wait N mysql_socket PSI_SOCKET_RECV 0 src (sys_int (Sys_recv (fd mysql_socket) buf (len_arg N n) flags)) transferred"

definition inline_mysql_socket_sendto ::
  "socket_build \<Rightarrow> src_loc \<Rightarrow> MYSQL_SOCKET \<Rightarrow> ptr \<Rightarrow> size_t \<Rightarrow> int \<Rightarrow> ptr \<Rightarrow> socklen_t \<Rightarrow> int socket_code" where
  "inline_mysql_socket_sendto N src mysql_socket buf n flags addr addr_len =
     in_wait N mysql_socket PSI_SOCKET_SEND n src
       (sys_int (Sys_sendto (fd mysql_socket) buf (len_arg N n) flags addr addr_len)) transferred"

definition inline_mysql_socket_recvfrom ::
  "socket_build \<Rightarrow> src_loc \<Rightarrow> MYSQL_SOCKET \<Rightarrow> ptr \<Rightarrow> size_t \<Rightarrow> int \<Rightarrow> ptr \<Rightarrow> ptr \<Rightarrow> int socket_code" where
  "inline_mysql_socket_recvfrom N src mysql_socket buf n flags addr addr_len =
     in_wait N mysql_socket PSI_SOCKET_RECV 0 src
       (sys_int (Sys_recvfrom (fd mysql_socket) buf (len_arg N n) flags addr addr_len)) transferred"

definition inline_mysql_socket_getsockopt ::
  "socket_build \<Rightarrow> src_loc \<Rightarrow> MYSQL_SOCKET \<Rightarrow> int \<Rightarrow> int \<Rightarrow> ptr \<Rightarrow> ptr \<Rightarrow> int socket_code" where
  "inline_mysql_socket_getsockopt N src mysql_socket level optname optval optlen =
     in_wait N mysql_socket PSI_SOCKET_OPT 0 src (sys_int (Sys_getsockopt (fd mysql_socket) level optname optval optlen)) (\<lambda>_. 0)"

definition inline_mysql_socket_setsockopt ::
  "socket_build \<Rightarrow> src_loc \<Rightarrow> MYSQL_SOCKET \<Rightarrow> int \<Rightarrow> int \<Rightarrow> ptr \<Rightarrow> socklen_t \<Rightarrow> int socket_code" where
  "inline_mysql_socket_setsockopt N src mysql_socket level optname optval optlen =
     in_wait N mysql_socket PSI_SOCKET_OPT 0 src (sys_int (Sys_setsockopt (fd mysql_socket) level optname optval optlen)) (\<lambda>_. 0)"

definition set_socket_nonblock :: "socket_build \<Rightarrow> int \<Rightarrow> int socket_code" where
  "set_socket_nonblock N f = (if on_win32 N then sys_int (Sys_ioctlsocket_FIONBIO f)
     else bindC (sys_int (Sys_fcntl_F_GETFL f)) (\<lambda>fd_flags.
       if fd_flags < 0 then sys_int Sys_errno
       else bindC (sys_int (Sys_fcntl_F_SETFL f (sint ((word_of_int fd_flags :: 32 word) OR O_NONBLOCK N)))) (\<lambda>r.
         if r = - 1 then sys_int Sys_errno else Return 0)))"

definition inline_mysql_sock_set_nonblocking :: "socket_build \<Rightarrow> src_loc \<Rightarrow> MYSQL_SOCKET \<Rightarrow> int socket_code" where
  "inline_mysql_sock_set_nonblocking N src mysql_socket =
     in_wait N mysql_socket PSI_SOCKET_OPT 0 src (set_socket_nonblock N (fd mysql_socket)) (\<lambda>_. 0)"

definition inline_mysql_socket_listen :: "socket_build \<Rightarrow> src_loc \<Rightarrow> MYSQL_SOCKET \<Rightarrow> int \<Rightarrow> int socket_code" where
  "inline_mysql_socket_listen N src mysql_socket backlog =
     in_wait N mysql_socket PSI_SOCKET_CONNECT 0 src (sys_int (Sys_listen (fd mysql_socket) backlog)) (\<lambda>_. 0)"

text \<open>The length is read from the caller's variable and never written back to it.\<close>

definition inline_mysql_socket_accept ::
  "socket_build \<Rightarrow> src_loc \<Rightarrow> 32 word \<Rightarrow> MYSQL_SOCKET \<Rightarrow> ptr \<Rightarrow> ptr \<Rightarrow> MYSQL_SOCKET socket_code" where
  "inline_mysql_socket_accept N src key socket_listen addr addr_len =
     bindC (if addr_len \<noteq> 0 then Sys (Load_length addr_len) (\<lambda>a. Return (snd a)) else Return 0) (\<lambda>addr_length.
     bindC (in_wait N socket_listen PSI_SOCKET_CONNECT 0 src (sys (Sys_accept (fd socket_listen) addr addr_length)) (\<lambda>_. 0)) (\<lambda>(f, addr_length).
     let socket_accept = mysql_socket_invalid\<lparr>fd := f\<rparr> in
     if have_socket N \<and> fd socket_accept \<noteq> INVALID_SOCKET
     then Ask (init_socket key (fd socket_accept) addr addr_length) (\<lambda>p. Return (socket_accept\<lparr>m_psi := p\<rparr>))
     else Return socket_accept))"

definition inline_mysql_socket_close :: "socket_build \<Rightarrow> src_loc \<Rightarrow> MYSQL_SOCKET \<Rightarrow> int socket_code" where
  "inline_mysql_socket_close N src mysql_socket = (if have_socket N \<and> m_psi mysql_socket \<noteq> 0
     then bindC (waiting (start_socket_wait (m_psi mysql_socket) PSI_SOCKET_CLOSE 0 src) (sys_int (Sys_closesocket (fd mysql_socket)))
         (\<lambda>locker result. end_socket_wait locker 0))
       (\<lambda>result. if m_psi mysql_socket \<noteq> 0 then tell (destroy_socket (m_psi mysql_socket)) (Return result) else Return result)
     else sys_int (Sys_closesocket (fd mysql_socket)))"

text \<open>On Windows, \<open>DisconnectEx\<close> is looked up once, in a static variable, and \<open>how\<close> is only used without it.\<close>

definition disconnect :: "socket_build \<Rightarrow> MYSQL_SOCKET \<Rightarrow> int \<Rightarrow> int socket_code" where
  "disconnect N mysql_socket how = (if on_win32 N
     then Sys Load_DisconnectEx (\<lambda>f. if fst f \<noteq> 0
       then bindC (sys_int (Sys_DisconnectEx (fd mysql_socket))) (\<lambda>b. Return (if b = 1 then 0 else - 1))
       else sys_int (Sys_shutdown (fd mysql_socket) how))
     else sys_int (Sys_shutdown (fd mysql_socket) how))"

definition inline_mysql_socket_shutdown :: "socket_build \<Rightarrow> src_loc \<Rightarrow> MYSQL_SOCKET \<Rightarrow> int \<Rightarrow> int socket_code" where
  "inline_mysql_socket_shutdown N src mysql_socket how =
     bindC (if on_win32 N then Sys Load_DisconnectEx (\<lambda>f.
         if fst f = 0 then Sys (Sys_WSAIoctl_DisconnectEx (fd mysql_socket)) (\<lambda>_. Return 0) else Return 0)
       else Return (0 :: int)) (\<lambda>_.
     in_wait N mysql_socket PSI_SOCKET_SHUTDOWN 0 src (disconnect N mysql_socket how) (\<lambda>_. 0))"

section \<open>The macros\<close>

datatype socket_macro =
    mysql_socket_register ptr ptr int
  | MYSQL_SOCKET_SET_STATE MYSQL_SOCKET PSI_socket_state
  | mysql_socket_socket "32 word" int int int
  | mysql_socket_bind MYSQL_SOCKET ptr socklen_t
  | mysql_socket_getsockname MYSQL_SOCKET ptr ptr
  | mysql_socket_connect MYSQL_SOCKET ptr socklen_t
  | mysql_socket_getpeername MYSQL_SOCKET ptr ptr
  | mysql_socket_send MYSQL_SOCKET ptr size_t int
  | mysql_socket_recv MYSQL_SOCKET ptr size_t int

datatype socket_macro2 =
    mysql_socket_sendto MYSQL_SOCKET ptr size_t int ptr socklen_t
  | mysql_socket_recvfrom MYSQL_SOCKET ptr size_t int ptr ptr
  | mysql_socket_getsockopt MYSQL_SOCKET int int ptr ptr
  | mysql_socket_setsockopt MYSQL_SOCKET int int ptr socklen_t
  | mysql_sock_set_nonblocking MYSQL_SOCKET
  | mysql_socket_listen MYSQL_SOCKET int
  | mysql_socket_accept "32 word" MYSQL_SOCKET ptr ptr
  | mysql_socket_close MYSQL_SOCKET
  | mysql_socket_shutdown MYSQL_SOCKET int

datatype socket_result = Integer int | Socket MYSQL_SOCKET

fun expand_socket :: "socket_build \<Rightarrow> src_loc \<Rightarrow> socket_macro \<Rightarrow> socket_result socket_code" where
  "expand_socket N src (mysql_socket_register P1 P2 P3) =
     mapC Integer (if have_socket N then inline_mysql_socket_register P1 P2 P3 else Return 0)"
| "expand_socket N src (MYSQL_SOCKET_SET_STATE S ST) =
     mapC Integer (if have_socket N then inline_mysql_socket_set_state S ST else Return 0)"
| "expand_socket N src (mysql_socket_socket K D T P) = mapC Socket (inline_mysql_socket_socket N K D T P)"
| "expand_socket N src (mysql_socket_bind FD AP L) = mapC Integer (inline_mysql_socket_bind N src FD AP L)"
| "expand_socket N src (mysql_socket_getsockname FD AP LP) = mapC Integer (inline_mysql_socket_getsockname N src FD AP LP)"
| "expand_socket N src (mysql_socket_connect FD AP L) = mapC Integer (inline_mysql_socket_connect N src FD AP L)"
| "expand_socket N src (mysql_socket_getpeername FD AP LP) = mapC Integer (inline_mysql_socket_getpeername N src FD AP LP)"
| "expand_socket N src (mysql_socket_send FD B n FL) = mapC Integer (inline_mysql_socket_send N src FD B n FL)"
| "expand_socket N src (mysql_socket_recv FD B n FL) = mapC Integer (inline_mysql_socket_recv N src FD B n FL)"

fun expand_socket2 :: "socket_build \<Rightarrow> src_loc \<Rightarrow> socket_macro2 \<Rightarrow> socket_result socket_code" where
  "expand_socket2 N src (mysql_socket_sendto FD B n FL AP L) = mapC Integer (inline_mysql_socket_sendto N src FD B n FL AP L)"
| "expand_socket2 N src (mysql_socket_recvfrom FD B n FL AP LP) = mapC Integer (inline_mysql_socket_recvfrom N src FD B n FL AP LP)"
| "expand_socket2 N src (mysql_socket_getsockopt FD LV ON OP OL) = mapC Integer (inline_mysql_socket_getsockopt N src FD LV ON OP OL)"
| "expand_socket2 N src (mysql_socket_setsockopt FD LV ON OP OL) = mapC Integer (inline_mysql_socket_setsockopt N src FD LV ON OP OL)"
| "expand_socket2 N src (mysql_sock_set_nonblocking FD) = mapC Integer (inline_mysql_sock_set_nonblocking N src FD)"
| "expand_socket2 N src (mysql_socket_listen FD n) = mapC Integer (inline_mysql_socket_listen N src FD n)"
| "expand_socket2 N src (mysql_socket_accept K FD AP LP) = mapC Socket (inline_mysql_socket_accept N src K FD AP LP)"
| "expand_socket2 N src (mysql_socket_close FD) = mapC Integer (inline_mysql_socket_close N src FD)"
| "expand_socket2 N src (mysql_socket_shutdown FD H) = mapC Integer (inline_mysql_socket_shutdown N src FD H)"

end
