(* ===== verification/Mysql_Socket_Properties.thy ===== *)
theory Mysql_Socket_Properties
  imports Mysql_Socket
begin

text \<open>Properties of the instrumented sockets.\<close>

lemmas inline_socket_defs =
  inline_mysql_socket_register_def inline_mysql_socket_set_state_def inline_mysql_socket_socket_def
  inline_mysql_socket_bind_def inline_mysql_socket_getsockname_def inline_mysql_socket_connect_def
  inline_mysql_socket_getpeername_def inline_mysql_socket_send_def inline_mysql_socket_recv_def
  inline_mysql_socket_sendto_def inline_mysql_socket_recvfrom_def inline_mysql_socket_getsockopt_def
  inline_mysql_socket_setsockopt_def inline_mysql_sock_set_nonblocking_def inline_mysql_socket_listen_def
  inline_mysql_socket_accept_def inline_mysql_socket_close_def inline_mysql_socket_shutdown_def

lemmas socket_steps = in_wait_def waiting_def sys_int_def mapC_def Let_def

section \<open>With the plugin and without\<close>

definition plain_sockets :: "socket_build \<Rightarrow> socket_build" where
  "plain_sockets N = N\<lparr>have_socket := False\<rparr>"

lemma plain_sockets_simps [simp]:
  "have_socket (plain_sockets N) = False" "on_win32 (plain_sockets N) = on_win32 N"
  "O_NONBLOCK (plain_sockets N) = O_NONBLOCK N" "len_arg (plain_sockets N) n = len_arg N n"
  "set_socket_nonblock (plain_sockets N) f = set_socket_nonblock N f" "disconnect (plain_sockets N) s how = disconnect N s how"
  by (simp_all add: plain_sockets_def len_arg_def set_socket_nonblock_def disconnect_def cong: if_cong)

text \<open>Without the plugin no socket has a handle.\<close>

definition bare :: "MYSQL_SOCKET \<Rightarrow> MYSQL_SOCKET" where
  "bare s = s\<lparr>m_psi := 0\<rparr>"

lemma fd_bare [simp]: "fd (bare s) = fd s"
  by (simp add: bare_def)

fun forget :: "socket_macro \<Rightarrow> socket_macro" where
  "forget (mysql_socket_register a b c) = mysql_socket_register a b c"
| "forget (MYSQL_SOCKET_SET_STATE s a) = MYSQL_SOCKET_SET_STATE (bare s) a"
| "forget (mysql_socket_socket a b c d) = mysql_socket_socket a b c d"
| "forget (mysql_socket_bind s a b) = mysql_socket_bind (bare s) a b"
| "forget (mysql_socket_getsockname s a b) = mysql_socket_getsockname (bare s) a b"
| "forget (mysql_socket_connect s a b) = mysql_socket_connect (bare s) a b"
| "forget (mysql_socket_getpeername s a b) = mysql_socket_getpeername (bare s) a b"
| "forget (mysql_socket_send s a b c) = mysql_socket_send (bare s) a b c"
| "forget (mysql_socket_recv s a b c) = mysql_socket_recv (bare s) a b c"

fun forget2 :: "socket_macro2 \<Rightarrow> socket_macro2" where
  "forget2 (mysql_socket_sendto s a b c d e) = mysql_socket_sendto (bare s) a b c d e"
| "forget2 (mysql_socket_recvfrom s a b c d e) = mysql_socket_recvfrom (bare s) a b c d e"
| "forget2 (mysql_socket_getsockopt s a b c d) = mysql_socket_getsockopt (bare s) a b c d"
| "forget2 (mysql_socket_setsockopt s a b c d) = mysql_socket_setsockopt (bare s) a b c d"
| "forget2 (mysql_sock_set_nonblocking s) = mysql_sock_set_nonblocking (bare s)"
| "forget2 (mysql_socket_listen s a) = mysql_socket_listen (bare s) a"
| "forget2 (mysql_socket_accept k s a b) = mysql_socket_accept k (bare s) a b"
| "forget2 (mysql_socket_close s) = mysql_socket_close (bare s)"
| "forget2 (mysql_socket_shutdown s a) = mysql_socket_shutdown (bare s) a"

fun alike :: "socket_result \<Rightarrow> socket_result \<Rightarrow> bool" where
  "alike (Integer i) r = (r = Integer i)"
| "alike (Socket s) r = (r = Socket (bare s))"

lemma disconnect_bare [simp]: "disconnect N (bare s) how = disconnect N s how"
  by (simp add: disconnect_def cong: if_cong)

lemma in_wait_plain [simp]: "in_wait (plain_sockets N) s oper n src body bytes = body"
  by (simp add: in_wait_def)

lemma same_in_wait: "same (=) body d \<Longrightarrow> same (=) (in_wait N s oper n src body bytes) d"
  by (simp add: in_wait_def same_waiting)

lemma same_mapC: "same (=) c d \<Longrightarrow> same alike (mapC Integer c) (mapC Integer d)"
  unfolding mapC_def by (rule same_bind [of "(=)"]) simp_all

lemma silence_mapC [simp]: "silence (mapC f c) = mapC f (silence c)"
  by (simp add: mapC_def)

lemma quiet_steps [simp]: "quiet (sys_int s)" "quiet (sys s)" "quiet (set_socket_nonblock N f)" "quiet (disconnect N s' how)"
  by (auto simp: sys_int_def set_socket_nonblock_def disconnect_def intro!: quiet_bind)

lemma same_body: "quiet c \<Longrightarrow> same alike (mapC Integer (in_wait N s oper n src c bytes)) (mapC Integer c)"
  by (intro same_mapC same_in_wait quiet_same)

lemma same_bind_refl: "quiet c \<Longrightarrow> (\<And>r. same R (f r) (g r)) \<Longrightarrow> same R (bindC c f) (bindC c g)"
  by (rule same_bind [OF quiet_same]) auto

lemma same_bind_wait: "quiet c \<Longrightarrow> (\<And>r. same R (f r) (g r)) \<Longrightarrow> same R (bindC (in_wait N s oper n src c bytes) f) (bindC c g)"
  by (rule same_bind [OF same_in_wait [OF quiet_same]]) auto

lemma same_socket: "same alike (expand_socket N src c) (silence (expand_socket (plain_sockets N) src (forget c)))"
proof (cases c)
  case (mysql_socket_bind s addr len)
  show ?thesis
    by (simp add: mysql_socket_bind inline_mysql_socket_bind_def mapC_def waiting_def sys_int_def)
next
  case (mysql_socket_socket k d t p)
  show ?thesis
    by (simp add: mysql_socket_socket inline_mysql_socket_socket_def mapC_def Let_def bare_def mysql_socket_invalid_def)
qed (simp_all add: inline_socket_defs same_body, simp_all add: mapC_def)

lemma same_socket2: "same alike (expand_socket2 N src c) (silence (expand_socket2 (plain_sockets N) src (forget2 c)))"
proof (cases c)
  case (mysql_socket_accept k s a p)
  show ?thesis
    by (cases "p = 0") (simp_all add: mysql_socket_accept inline_mysql_socket_accept_def in_wait_def waiting_def mapC_def Let_def
      case_prod_beta bare_def mysql_socket_invalid_def)
next
  case (mysql_socket_close s)
  show ?thesis
    by (simp add: mysql_socket_close inline_mysql_socket_close_def mapC_def waiting_def sys_int_def)
next
  case (mysql_socket_shutdown s how)
  show ?thesis
    using same_body [of "disconnect N s how"]
    by (simp add: mysql_socket_shutdown inline_mysql_socket_shutdown_def mapC_def bindC_assoc)
qed (simp_all add: inline_socket_defs same_body)

section \<open>Waits\<close>

fun socket_kind :: "socket_ask \<Rightarrow> PSI_socket_operation kind" where
  "socket_kind (start_socket_wait p oper n src) = Starts oper"
| "socket_kind (end_socket_wait l n) = Ends l"
| "socket_kind _ = Other"

text \<open>Sending and receiving report the bytes, and none when they failed; everything else reports none.\<close>

fun socket_report :: "PSI_socket_operation \<Rightarrow> socket_ask \<Rightarrow> int \<times> socklen_t \<Rightarrow> bool" where
  "socket_report oper (end_socket_wait l n) a =
     (n = (if oper = PSI_SOCKET_SEND \<or> oper = PSI_SOCKET_RECV then transferred (fst a) else 0))"
| "socket_report _ _ _ = False"

abbreviation socket_waits :: "(socket_ask, socket_call, int \<times> socklen_t, (PSI_socket_operation, int \<times> socklen_t) wait_state) monitor" where
  "socket_waits \<equiv> wait_monitor socket_kind socket_report"

lemma obeys_quiet:
  assumes "quiet c" "oper \<noteq> PSI_SOCKET_SEND" "oper \<noteq> PSI_SOCKET_RECV"
  shows "\<And>a. obeys socket_waits c (\<lambda>_ w. \<exists>a. w = Waited oper l a) (Waited oper l a)"
  using assms(1) by (induction c) simp_all

lemma socket_waits_simple:
  "obeys socket_waits (expand_socket N src c) (\<lambda>_ w. w = Idle) Idle"
  by (cases c) (simp_all add: inline_socket_defs socket_steps)

lemma obeys_idle: "quiet c \<Longrightarrow> obeys socket_waits c (\<lambda>_ w. w = Idle) Idle"
  by (induction c) simp_all

text \<open>A wait around a body that calls the system at least once.\<close>

lemma waits_body:
  assumes "quiet c" "\<And>r. c \<noteq> Return r" "oper \<noteq> PSI_SOCKET_SEND" "oper \<noteq> PSI_SOCKET_RECV"
  shows "obeys socket_waits (in_wait N s oper n src c (\<lambda>_. 0)) (\<lambda>_ w. w = Idle) Idle"
proof (cases c)
  case (Sys t k)
  have "\<forall>a. quiet (k a)" using assms(1) unfolding Sys quiet.simps .
  then have "quiet (k a)" for a by blast
  from obeys_quiet [OF this assms(3,4)] have w: "obeys socket_waits (k a) (\<lambda>_ w. \<exists>a. w = Waited oper l a) (Waited oper l a)" for a l .
  have "obeys socket_waits (bindC (k a) (\<lambda>r. tell (end_socket_wait l 0) (Return r))) (\<lambda>_ w. w = Idle) (Waited oper l a)" for a l
    unfolding obeys_bind by (rule obeys_mono [OF w]) (auto simp: assms(3,4))
  moreover have "obeys socket_waits (k a) (\<lambda>_ w. w = Idle) Idle" for a
    using \<open>\<And>a. quiet (k a)\<close> by (rule obeys_idle)
  ultimately show ?thesis by (simp add: Sys in_wait_def waiting_def)
qed (use assms in simp_all)

lemma obeys_mapC: "obeys \<delta> (mapC f c) Q = obeys \<delta> c (\<lambda>r. Q (f r))"
proof -
  have "(\<lambda>r. obeys \<delta> (Return (f r)) Q) = (\<lambda>r. Q (f r))" by (intro ext) simp
  then show ?thesis by (simp add: mapC_def obeys_bind)
qed

lemma body_calls: "set_socket_nonblock N f \<noteq> Return r" "disconnect N s how \<noteq> Return r"
  by (simp_all add: set_socket_nonblock_def disconnect_def sys_int_def)

lemma socket_waits_more:
  "obeys socket_waits (expand_socket2 N src c) (\<lambda>_ w. w = Idle) Idle"
proof (cases c)
  case (mysql_sock_set_nonblocking s)
  show ?thesis
    by (simp add: mysql_sock_set_nonblocking inline_mysql_sock_set_nonblocking_def obeys_mapC waits_body body_calls)
next
  case (mysql_socket_shutdown s how)
  show ?thesis
    by (simp add: mysql_socket_shutdown inline_mysql_socket_shutdown_def obeys_mapC obeys_bind waits_body body_calls)
next
  case (mysql_socket_accept k s a p)
  show ?thesis
    by (cases "p = 0") (simp_all add: mysql_socket_accept inline_mysql_socket_accept_def socket_steps case_prod_beta)
qed (simp_all add: inline_socket_defs socket_steps)

section \<open>Properties\<close>

text \<open>C15: For every socket function, whatever the plugin answers: the calls of the system, and the result up to the
  handle in a new socket, are the same as in the build without the plugin, where no socket has a handle.\<close>

theorem socket_instrumentation_transparent:
  "same alike (expand_socket N src c) (silence (expand_socket (plain_sockets N) src (forget c))) \<and>
   same alike (expand_socket2 N src d) (silence (expand_socket2 (plain_sockets N) src (forget2 d)))"
  by (simp only: same_socket same_socket2 simp_thms)


text \<open>\<open>mysql_socket_accept\<close> does not return the length of the peer's address, although it stands for \<open>accept\<close>: the
  caller's length is read, and \<open>accept\<close> is given the address of a local variable; no other call is made, so the
  caller's variable keeps the size of the buffer, and the result does not depend on the length.\<close>

theorem accept_length_lost:
  "silence (inline_mysql_socket_accept N src key s addr addr_len) = (if addr_len = 0
     then Sys (Sys_accept (fd s) addr 0) (\<lambda>b. Return \<lparr>fd = fst b, m_psi = 0\<rparr>)
     else Sys (Load_length addr_len) (\<lambda>a. Sys (Sys_accept (fd s) addr (snd a)) (\<lambda>b. Return \<lparr>fd = fst b, m_psi = 0\<rparr>)))"
  by (simp add: inline_mysql_socket_accept_def in_wait_def waiting_def Let_def case_prod_beta mysql_socket_invalid_def
      fun_eq_iff)

end
