(* ===== verification/Mysql_Events.thy ===== *)
theory Mysql_Events
  imports Mysql_Calls
begin

text \<open>
  The smaller headers of \<open>mysql/psi\<close>: statements, transactions, stages, prepared statements, stored programs, tables,
  metadata locks, idle waits and memory. Their functions only talk to the plugin; a macro whose interface is not
  compiled in expands to \<open>NULL\<close>, or to nothing, which are both 0 here. \<open>HAVE_PSI_STATEMENT_DIGEST_INTERFACE\<close> is only defined with
  \<open>HAVE_PSI_STATEMENT_INTERFACE\<close>.
\<close>

record events_build =
  have_statement :: bool
  have_digest :: bool
  have_transaction :: bool
  have_stage :: bool
  have_ps :: bool
  have_sp :: bool
  have_table :: bool
  have_metadata :: bool
  have_idle :: bool
  have_memory :: bool

type_synonym size_t = "32 word"
type_synonym src_loc = "ptr \<times> 32 word"

datatype PSI_table_lock_operation = PSI_TABLE_LOCK | PSI_TABLE_EXTERNAL_LOCK

datatype event_ask =
    register_statement ptr ptr int
  | digest_start ptr | digest_end ptr ptr
  | get_thread_statement_locker ptr "32 word" ptr ptr | start_statement ptr ptr "32 word" src_loc
  | refine_statement ptr "32 word" | set_statement_text ptr ptr "32 word"
  | set_statement_lock_time ptr "64 word" | set_statement_rows_sent ptr "64 word" | set_statement_rows_examined ptr "64 word"
  | end_statement ptr ptr
  | get_thread_transaction_locker ptr ptr ptr int bool bool | start_transaction ptr src_loc
  | set_transaction_gtid ptr ptr ptr | set_transaction_xid ptr ptr int | set_transaction_xa_state ptr int
  | set_transaction_trxid ptr ptr | inc_transaction_savepoints ptr "32 word"
  | inc_transaction_rollback_to_savepoint ptr "32 word" | inc_transaction_release_savepoint ptr "32 word"
  | end_transaction ptr bool

datatype other_ask =
    register_stage ptr ptr int | start_stage "32 word" src_loc | end_stage
  | create_prepared_stmt ptr "32 word" ptr ptr size_t ptr size_t | execute_prepared_stmt ptr ptr
  | destroy_prepared_stmt ptr | reprepare_prepared_stmt ptr
  | start_sp ptr ptr | end_sp ptr | drop_sp "32 word" ptr "32 word" ptr "32 word" | get_sp_share "32 word" ptr "32 word" ptr "32 word"
  | start_table_lock_wait ptr ptr PSI_table_lock_operation "32 word" src_loc | end_table_lock_wait ptr | unlock_table ptr
  | create_metadata_lock ptr ptr int int int src_loc | set_metadata_lock_status ptr int | destroy_metadata_lock ptr
  | start_idle_wait ptr src_loc | end_idle_wait ptr
  | register_memory ptr ptr int

text \<open>The functions make no call of the system. Those that return nothing return 0.\<close>

datatype ask = Event event_ask | Misc other_ask

type_synonym event_code = "(ask, unit, unit, ptr) code"

text \<open>\<open>if (likely(locker != NULL)) ...\<close>\<close>

definition unless_null :: "ptr \<Rightarrow> ask \<Rightarrow> event_code" where
  "unless_null locker a = (if locker \<noteq> 0 then tell a (Return 0) else Return 0)"

section \<open>Statements\<close>

definition inline_mysql_statement_register :: "ptr \<Rightarrow> ptr \<Rightarrow> int \<Rightarrow> event_code" where
  "inline_mysql_statement_register category info count = tell (Event (register_statement category info count)) (Return 0)"

definition inline_mysql_digest_start :: "ptr \<Rightarrow> event_code" where
  "inline_mysql_digest_start locker = (if locker \<noteq> 0 then Ask (Event (digest_start locker)) Return else Return 0)"

definition inline_mysql_digest_end :: "ptr \<Rightarrow> ptr \<Rightarrow> event_code" where
  "inline_mysql_digest_end locker digest = unless_null locker (Event (digest_end locker digest))"

definition inline_mysql_start_statement ::
  "ptr \<Rightarrow> 32 word \<Rightarrow> ptr \<Rightarrow> 32 word \<Rightarrow> ptr \<Rightarrow> ptr \<Rightarrow> src_loc \<Rightarrow> event_code" where
  "inline_mysql_start_statement state key db db_len charset sp_share src =
     Ask (Event (get_thread_statement_locker state key charset sp_share)) (\<lambda>locker.
       if locker \<noteq> 0 then tell (Event (start_statement locker db db_len src)) (Return locker) else Return locker)"

definition inline_mysql_refine_statement :: "ptr \<Rightarrow> 32 word \<Rightarrow> event_code" where
  "inline_mysql_refine_statement locker key =
     (if locker \<noteq> 0 then Ask (Event (refine_statement locker key)) Return else Return locker)"

definition inline_mysql_set_statement_text :: "ptr \<Rightarrow> ptr \<Rightarrow> 32 word \<Rightarrow> event_code" where
  "inline_mysql_set_statement_text locker stmt_text text_len = unless_null locker (Event (set_statement_text locker stmt_text text_len))"

definition inline_mysql_set_statement_lock_time :: "ptr \<Rightarrow> 64 word \<Rightarrow> event_code" where
  "inline_mysql_set_statement_lock_time locker count = unless_null locker (Event (set_statement_lock_time locker count))"

definition inline_mysql_set_statement_rows_sent :: "ptr \<Rightarrow> 64 word \<Rightarrow> event_code" where
  "inline_mysql_set_statement_rows_sent locker count = unless_null locker (Event (set_statement_rows_sent locker count))"

definition inline_mysql_set_statement_rows_examined :: "ptr \<Rightarrow> 64 word \<Rightarrow> event_code" where
  "inline_mysql_set_statement_rows_examined locker count = unless_null locker (Event (set_statement_rows_examined locker count))"

definition inline_mysql_end_statement :: "ptr \<Rightarrow> ptr \<Rightarrow> event_code" where
  "inline_mysql_end_statement locker stmt_da =
     tell (Misc end_stage) (unless_null locker (Event (end_statement locker stmt_da)))"

datatype statement_macro =
    mysql_statement_register ptr ptr int | MYSQL_DIGEST_START ptr | MYSQL_DIGEST_END ptr ptr
  | MYSQL_START_STATEMENT ptr "32 word" ptr "32 word" ptr ptr | MYSQL_REFINE_STATEMENT ptr "32 word"
  | MYSQL_SET_STATEMENT_TEXT ptr ptr "32 word" | MYSQL_SET_STATEMENT_LOCK_TIME ptr "64 word"
  | MYSQL_SET_STATEMENT_ROWS_SENT ptr "64 word" | MYSQL_SET_STATEMENT_ROWS_EXAMINED ptr "64 word"
  | MYSQL_END_STATEMENT ptr ptr

fun expand_statement :: "events_build \<Rightarrow> src_loc \<Rightarrow> statement_macro \<Rightarrow> event_code" where
  "expand_statement B src (mysql_statement_register P1 P2 P3) =
     (if have_statement B then inline_mysql_statement_register P1 P2 P3 else Return 0)"
| "expand_statement B src (MYSQL_DIGEST_START LOCKER) =
     (if have_digest B then inline_mysql_digest_start LOCKER else Return 0)"
| "expand_statement B src (MYSQL_DIGEST_END LOCKER DIGEST) =
     (if have_digest B then inline_mysql_digest_end LOCKER DIGEST else Return 0)"
| "expand_statement B src (MYSQL_START_STATEMENT STATE K DB DB_LEN CS SPS) =
     (if have_statement B then inline_mysql_start_statement STATE K DB DB_LEN CS SPS src else Return 0)"
| "expand_statement B src (MYSQL_REFINE_STATEMENT LOCKER K) =
     (if have_statement B then inline_mysql_refine_statement LOCKER K else Return 0)"
| "expand_statement B src (MYSQL_SET_STATEMENT_TEXT LOCKER P1 P2) =
     (if have_statement B then inline_mysql_set_statement_text LOCKER P1 P2 else Return 0)"
| "expand_statement B src (MYSQL_SET_STATEMENT_LOCK_TIME LOCKER P1) =
     (if have_statement B then inline_mysql_set_statement_lock_time LOCKER P1 else Return 0)"
| "expand_statement B src (MYSQL_SET_STATEMENT_ROWS_SENT LOCKER P1) =
     (if have_statement B then inline_mysql_set_statement_rows_sent LOCKER P1 else Return 0)"
| "expand_statement B src (MYSQL_SET_STATEMENT_ROWS_EXAMINED LOCKER P1) =
     (if have_statement B then inline_mysql_set_statement_rows_examined LOCKER P1 else Return 0)"
| "expand_statement B src (MYSQL_END_STATEMENT LOCKER DA) =
     (if have_statement B then inline_mysql_end_statement LOCKER DA else Return 0)"

section \<open>Transactions\<close>

definition inline_mysql_start_transaction :: "ptr \<Rightarrow> ptr \<Rightarrow> ptr \<Rightarrow> int \<Rightarrow> bool \<Rightarrow> bool \<Rightarrow> src_loc \<Rightarrow> event_code" where
  "inline_mysql_start_transaction state xid trxid isolation_level read_only autocommit src =
     Ask (Event (get_thread_transaction_locker state xid trxid isolation_level read_only autocommit)) (\<lambda>locker.
       if locker \<noteq> 0 then tell (Event (start_transaction locker src)) (Return locker) else Return locker)"

definition inline_mysql_set_transaction_gtid :: "ptr \<Rightarrow> ptr \<Rightarrow> ptr \<Rightarrow> event_code" where
  "inline_mysql_set_transaction_gtid locker sid gtid_spec = unless_null locker (Event (set_transaction_gtid locker sid gtid_spec))"

definition inline_mysql_set_transaction_xid :: "ptr \<Rightarrow> ptr \<Rightarrow> int \<Rightarrow> event_code" where
  "inline_mysql_set_transaction_xid locker xid xa_state = unless_null locker (Event (set_transaction_xid locker xid xa_state))"

definition inline_mysql_set_transaction_xa_state :: "ptr \<Rightarrow> int \<Rightarrow> event_code" where
  "inline_mysql_set_transaction_xa_state locker xa_state = unless_null locker (Event (set_transaction_xa_state locker xa_state))"

definition inline_mysql_set_transaction_trxid :: "ptr \<Rightarrow> ptr \<Rightarrow> event_code" where
  "inline_mysql_set_transaction_trxid locker trxid = unless_null locker (Event (set_transaction_trxid locker trxid))"

definition inline_mysql_inc_transaction_savepoints :: "ptr \<Rightarrow> 32 word \<Rightarrow> event_code" where
  "inline_mysql_inc_transaction_savepoints locker count = unless_null locker (Event (inc_transaction_savepoints locker count))"

definition inline_mysql_inc_transaction_rollback_to_savepoint :: "ptr \<Rightarrow> 32 word \<Rightarrow> event_code" where
  "inline_mysql_inc_transaction_rollback_to_savepoint locker count =
     unless_null locker (Event (inc_transaction_rollback_to_savepoint locker count))"

definition inline_mysql_inc_transaction_release_savepoint :: "ptr \<Rightarrow> 32 word \<Rightarrow> event_code" where
  "inline_mysql_inc_transaction_release_savepoint locker count =
     unless_null locker (Event (inc_transaction_release_savepoint locker count))"

definition inline_mysql_rollback_transaction :: "ptr \<Rightarrow> event_code" where
  "inline_mysql_rollback_transaction locker = unless_null locker (Event (end_transaction locker False))"

definition inline_mysql_commit_transaction :: "ptr \<Rightarrow> event_code" where
  "inline_mysql_commit_transaction locker = unless_null locker (Event (end_transaction locker True))"

datatype transaction_macro =
    MYSQL_START_TRANSACTION ptr ptr ptr int bool bool | MYSQL_SET_TRANSACTION_GTID ptr ptr ptr
  | MYSQL_SET_TRANSACTION_XID ptr ptr int | MYSQL_SET_TRANSACTION_XA_STATE ptr int | MYSQL_SET_TRANSACTION_TRXID ptr ptr
  | MYSQL_INC_TRANSACTION_SAVEPOINTS ptr "32 word" | MYSQL_INC_TRANSACTION_ROLLBACK_TO_SAVEPOINT ptr "32 word"
  | MYSQL_INC_TRANSACTION_RELEASE_SAVEPOINT ptr "32 word" | MYSQL_ROLLBACK_TRANSACTION ptr | MYSQL_COMMIT_TRANSACTION ptr

fun expand_transaction :: "events_build \<Rightarrow> src_loc \<Rightarrow> transaction_macro \<Rightarrow> event_code" where
  "expand_transaction B src (MYSQL_START_TRANSACTION STATE XID TRXID ISO RO AC) =
     (if have_transaction B then inline_mysql_start_transaction STATE XID TRXID ISO RO AC src else Return 0)"
| "expand_transaction B src (MYSQL_SET_TRANSACTION_GTID LOCKER P1 P2) =
     (if have_transaction B then inline_mysql_set_transaction_gtid LOCKER P1 P2 else Return 0)"
| "expand_transaction B src (MYSQL_SET_TRANSACTION_XID LOCKER P1 P2) =
     (if have_transaction B then inline_mysql_set_transaction_xid LOCKER P1 P2 else Return 0)"
| "expand_transaction B src (MYSQL_SET_TRANSACTION_XA_STATE LOCKER P1) =
     (if have_transaction B then inline_mysql_set_transaction_xa_state LOCKER P1 else Return 0)"
| "expand_transaction B src (MYSQL_SET_TRANSACTION_TRXID LOCKER P1) =
     (if have_transaction B then inline_mysql_set_transaction_trxid LOCKER P1 else Return 0)"
| "expand_transaction B src (MYSQL_INC_TRANSACTION_SAVEPOINTS LOCKER P1) =
     (if have_transaction B then inline_mysql_inc_transaction_savepoints LOCKER P1 else Return 0)"
| "expand_transaction B src (MYSQL_INC_TRANSACTION_ROLLBACK_TO_SAVEPOINT LOCKER P1) =
     (if have_transaction B then inline_mysql_inc_transaction_rollback_to_savepoint LOCKER P1 else Return 0)"
| "expand_transaction B src (MYSQL_INC_TRANSACTION_RELEASE_SAVEPOINT LOCKER P1) =
     (if have_transaction B then inline_mysql_inc_transaction_release_savepoint LOCKER P1 else Return 0)"
| "expand_transaction B src (MYSQL_ROLLBACK_TRANSACTION LOCKER) =
     (if have_transaction B then inline_mysql_rollback_transaction LOCKER else Return 0)"
| "expand_transaction B src (MYSQL_COMMIT_TRANSACTION LOCKER) =
     (if have_transaction B then inline_mysql_commit_transaction LOCKER else Return 0)"

section \<open>Stages\<close>

definition inline_mysql_stage_register :: "ptr \<Rightarrow> ptr \<Rightarrow> int \<Rightarrow> event_code" where
  "inline_mysql_stage_register category info count = tell (Misc (register_stage category info count)) (Return 0)"

definition inline_mysql_set_stage :: "32 word \<Rightarrow> src_loc \<Rightarrow> event_code" where
  "inline_mysql_set_stage key src = Ask (Misc (start_stage key src)) Return"

definition inline_mysql_end_stage :: event_code where
  "inline_mysql_end_stage = tell (Misc end_stage) (Return 0)"

text \<open>The progress of a stage, which the program counts itself in a structure of the plugin. A pointer to it
  is \<open>None\<close> when it is \<open>NULL\<close>.\<close>

record PSI_stage_progress =
  m_work_completed :: "64 word"
  m_work_estimated :: "64 word"

definition inline_mysql_stage_set_work_completed :: "PSI_stage_progress option \<Rightarrow> 64 word \<Rightarrow> PSI_stage_progress option" where
  "inline_mysql_stage_set_work_completed progress val = map_option (m_work_completed_update (\<lambda>_. val)) progress"

definition inline_mysql_stage_get_work_completed :: "PSI_stage_progress option \<Rightarrow> 64 word res" where
  "inline_mysql_stage_get_work_completed progress = (case progress of
     None \<Rightarrow> undefined_behaviour Null_dereference | Some p \<Rightarrow> Inr (m_work_completed p))"

definition inline_mysql_stage_inc_work_completed :: "PSI_stage_progress option \<Rightarrow> 64 word \<Rightarrow> PSI_stage_progress option" where
  "inline_mysql_stage_inc_work_completed progress val = map_option (m_work_completed_update (\<lambda>n. n + val)) progress"

definition inline_mysql_stage_set_work_estimated :: "PSI_stage_progress option \<Rightarrow> 64 word \<Rightarrow> PSI_stage_progress option" where
  "inline_mysql_stage_set_work_estimated progress val = map_option (m_work_estimated_update (\<lambda>_. val)) progress"

definition inline_mysql_stage_get_work_estimated :: "PSI_stage_progress option \<Rightarrow> 64 word res" where
  "inline_mysql_stage_get_work_estimated progress = (case progress of
     None \<Rightarrow> undefined_behaviour Null_dereference | Some p \<Rightarrow> Inr (m_work_estimated p))"

datatype stage_macro =
    mysql_stage_register ptr ptr int | MYSQL_SET_STAGE "32 word" ptr "32 word" | mysql_set_stage "32 word" | mysql_end_stage

fun expand_stage :: "events_build \<Rightarrow> src_loc \<Rightarrow> stage_macro \<Rightarrow> event_code" where
  "expand_stage B src (mysql_stage_register P1 P2 P3) =
     (if have_stage B then inline_mysql_stage_register P1 P2 P3 else Return 0)"
| "expand_stage B src (MYSQL_SET_STAGE K F L) = (if have_stage B then inline_mysql_set_stage K (F, L) else Return 0)"
| "expand_stage B src (mysql_set_stage K) = (if have_stage B then inline_mysql_set_stage K src else Return 0)"
| "expand_stage B src mysql_end_stage = (if have_stage B then inline_mysql_end_stage else Return 0)"

datatype progress_macro =
    mysql_stage_set_work_completed "64 word" | mysql_stage_inc_work_completed "64 word" | mysql_stage_set_work_estimated "64 word"

fun expand_progress :: "events_build \<Rightarrow> progress_macro \<Rightarrow> PSI_stage_progress option \<Rightarrow> PSI_stage_progress option" where
  "expand_progress B (mysql_stage_set_work_completed P2) P1 = (if have_stage B then inline_mysql_stage_set_work_completed P1 P2 else P1)"
| "expand_progress B (mysql_stage_inc_work_completed P2) P1 = (if have_stage B then inline_mysql_stage_inc_work_completed P1 P2 else P1)"
| "expand_progress B (mysql_stage_set_work_estimated P2) P1 = (if have_stage B then inline_mysql_stage_set_work_estimated P1 P2 else P1)"

section \<open>Prepared statements and stored programs\<close>

definition inline_mysql_create_prepared_stmt ::
  "ptr \<Rightarrow> 32 word \<Rightarrow> ptr \<Rightarrow> ptr \<Rightarrow> size_t \<Rightarrow> ptr \<Rightarrow> size_t \<Rightarrow> event_code" where
  "inline_mysql_create_prepared_stmt identity stmt_id locker stmt_name stmt_name_length sqltext sqltext_length =
     (if locker = 0 then Return 0
      else Ask (Misc (create_prepared_stmt identity stmt_id locker stmt_name stmt_name_length sqltext sqltext_length)) Return)"

definition inline_mysql_execute_prepared_stmt :: "ptr \<Rightarrow> ptr \<Rightarrow> event_code" where
  "inline_mysql_execute_prepared_stmt locker prepared_stmt =
     (if prepared_stmt \<noteq> 0 \<and> locker \<noteq> 0 then tell (Misc (execute_prepared_stmt locker prepared_stmt)) (Return 0) else Return 0)"

definition inline_mysql_destroy_prepared_stmt :: "ptr \<Rightarrow> event_code" where
  "inline_mysql_destroy_prepared_stmt prepared_stmt = unless_null prepared_stmt (Misc (destroy_prepared_stmt prepared_stmt))"

definition inline_mysql_reprepare_prepared_stmt :: "ptr \<Rightarrow> event_code" where
  "inline_mysql_reprepare_prepared_stmt prepared_stmt = unless_null prepared_stmt (Misc (reprepare_prepared_stmt prepared_stmt))"

definition inline_mysql_start_sp :: "ptr \<Rightarrow> ptr \<Rightarrow> event_code" where
  "inline_mysql_start_sp state sp_share = Ask (Misc (start_sp state sp_share)) Return"

definition inline_mysql_end_sp :: "ptr \<Rightarrow> event_code" where
  "inline_mysql_end_sp locker = unless_null locker (Misc (end_sp locker))"

definition inline_mysql_drop_sp :: "32 word \<Rightarrow> ptr \<Rightarrow> 32 word \<Rightarrow> ptr \<Rightarrow> 32 word \<Rightarrow> event_code" where
  "inline_mysql_drop_sp sp_type schema_name schema_name_length object_name object_name_length =
     tell (Misc (drop_sp sp_type schema_name schema_name_length object_name object_name_length)) (Return 0)"

definition inline_mysql_get_sp_share :: "32 word \<Rightarrow> ptr \<Rightarrow> 32 word \<Rightarrow> ptr \<Rightarrow> 32 word \<Rightarrow> event_code" where
  "inline_mysql_get_sp_share sp_type schema_name schema_name_length object_name object_name_length =
     Ask (Misc (get_sp_share sp_type schema_name schema_name_length object_name object_name_length)) Return"

datatype ps_macro =
    MYSQL_CREATE_PS ptr "32 word" ptr ptr size_t ptr size_t | MYSQL_EXECUTE_PS ptr ptr | MYSQL_DESTROY_PS ptr
  | MYSQL_REPREPARE_PS ptr

fun expand_ps :: "events_build \<Rightarrow> ps_macro \<Rightarrow> event_code" where
  "expand_ps B (MYSQL_CREATE_PS IDENTITY ID LOCKER NAME NAME_LENGTH SQLTEXT SQLTEXT_LENGTH) = (if have_ps B
     then inline_mysql_create_prepared_stmt IDENTITY ID LOCKER NAME NAME_LENGTH SQLTEXT SQLTEXT_LENGTH else Return 0)"
| "expand_ps B (MYSQL_EXECUTE_PS LOCKER PREPARED_STMT) =
     (if have_ps B then inline_mysql_execute_prepared_stmt LOCKER PREPARED_STMT else Return 0)"
| "expand_ps B (MYSQL_DESTROY_PS PREPARED_STMT) =
     (if have_ps B then inline_mysql_destroy_prepared_stmt PREPARED_STMT else Return 0)"
| "expand_ps B (MYSQL_REPREPARE_PS PREPARED_STMT) =
     (if have_ps B then inline_mysql_reprepare_prepared_stmt PREPARED_STMT else Return 0)"

datatype sp_macro =
    MYSQL_START_SP ptr ptr | MYSQL_END_SP ptr | MYSQL_DROP_SP "32 word" ptr "32 word" ptr "32 word"
  | MYSQL_GET_SP_SHARE "32 word" ptr "32 word" ptr "32 word"

fun expand_sp :: "events_build \<Rightarrow> sp_macro \<Rightarrow> event_code" where
  "expand_sp B (MYSQL_START_SP STATE SP_SHARE) = (if have_sp B then inline_mysql_start_sp STATE SP_SHARE else Return 0)"
| "expand_sp B (MYSQL_END_SP LOCKER) = (if have_sp B then inline_mysql_end_sp LOCKER else Return 0)"
| "expand_sp B (MYSQL_DROP_SP OT SN SNL ON ONL) = (if have_sp B then inline_mysql_drop_sp OT SN SNL ON ONL else Return 0)"
| "expand_sp B (MYSQL_GET_SP_SHARE OT SN SNL ON ONL) =
     (if have_sp B then inline_mysql_get_sp_share OT SN SNL ON ONL else Return 0)"

section \<open>Tables, metadata locks, idle waits, memory\<close>

definition inline_mysql_start_table_lock_wait :: "ptr \<Rightarrow> ptr \<Rightarrow> PSI_table_lock_operation \<Rightarrow> 32 word \<Rightarrow> src_loc \<Rightarrow> event_code" where
  "inline_mysql_start_table_lock_wait state psi oper flags src =
     (if psi \<noteq> 0 then Ask (Misc (start_table_lock_wait state psi oper flags src)) Return else Return 0)"

definition inline_mysql_end_table_lock_wait :: "ptr \<Rightarrow> event_code" where
  "inline_mysql_end_table_lock_wait locker = unless_null locker (Misc (end_table_lock_wait locker))"

definition inline_mysql_unlock_table :: "ptr \<Rightarrow> event_code" where
  "inline_mysql_unlock_table table = unless_null table (Misc (unlock_table table))"

definition inline_mysql_mdl_create :: "ptr \<Rightarrow> ptr \<Rightarrow> int \<Rightarrow> int \<Rightarrow> int \<Rightarrow> src_loc \<Rightarrow> event_code" where
  "inline_mysql_mdl_create identity mdl_key mdl_type mdl_duration mdl_status src =
     Ask (Misc (create_metadata_lock identity mdl_key mdl_type mdl_duration mdl_status src)) Return"

definition inline_mysql_mdl_set_status :: "ptr \<Rightarrow> int \<Rightarrow> event_code" where
  "inline_mysql_mdl_set_status psi mdl_status = unless_null psi (Misc (set_metadata_lock_status psi mdl_status))"

definition inline_mysql_mdl_destroy :: "ptr \<Rightarrow> src_loc \<Rightarrow> event_code" where
  "inline_mysql_mdl_destroy psi src = unless_null psi (Misc (destroy_metadata_lock psi))"

definition inline_mysql_start_idle_wait :: "ptr \<Rightarrow> src_loc \<Rightarrow> event_code" where
  "inline_mysql_start_idle_wait state src = Ask (Misc (start_idle_wait state src)) Return"

definition inline_mysql_end_idle_wait :: "ptr \<Rightarrow> event_code" where
  "inline_mysql_end_idle_wait locker = unless_null locker (Misc (end_idle_wait locker))"

definition inline_mysql_memory_register :: "events_build \<Rightarrow> ptr \<Rightarrow> ptr \<Rightarrow> int \<Rightarrow> event_code" where
  "inline_mysql_memory_register B category info count =
     (if have_memory B then tell (Misc (register_memory category info count)) (Return 0) else Return 0)"

text \<open>\<open>MYSQL_START_TABLE_LOCK_WAIT\<close> and \<open>MYSQL_START_IDLE_WAIT\<close> assign the locker to the variable \<open>LOCKER\<close>, which a build
  without the interface leaves as it is. What they return here is the variable afterwards.\<close>

datatype table_macro =
    MYSQL_START_TABLE_LOCK_WAIT ptr ptr ptr PSI_table_lock_operation "32 word" | MYSQL_END_TABLE_LOCK_WAIT ptr | MYSQL_UNLOCK_TABLE ptr

fun expand_table :: "events_build \<Rightarrow> src_loc \<Rightarrow> table_macro \<Rightarrow> event_code" where
  "expand_table B src (MYSQL_START_TABLE_LOCK_WAIT LOCKER STATE PSI OP FLAGS) =
     (if have_table B then inline_mysql_start_table_lock_wait STATE PSI OP FLAGS src else Return LOCKER)"
| "expand_table B src (MYSQL_END_TABLE_LOCK_WAIT LOCKER) =
     (if have_table B then inline_mysql_end_table_lock_wait LOCKER else Return 0)"
| "expand_table B src (MYSQL_UNLOCK_TABLE T) = (if have_table B then inline_mysql_unlock_table T else Return 0)"

datatype mdl_macro =
    mysql_mdl_create ptr ptr int int int ptr "32 word" | mysql_mdl_set_status ptr int | mysql_mdl_destroy ptr

fun expand_mdl :: "events_build \<Rightarrow> src_loc \<Rightarrow> mdl_macro \<Rightarrow> event_code" where
  "expand_mdl B src (mysql_mdl_create I K T D S F L) = (if have_metadata B then inline_mysql_mdl_create I K T D S (F, L) else Return 0)"
| "expand_mdl B src (mysql_mdl_set_status L S) = (if have_metadata B then inline_mysql_mdl_set_status L S else Return 0)"
| "expand_mdl B src (mysql_mdl_destroy M) = (if have_metadata B then inline_mysql_mdl_destroy M src else Return 0)"

datatype idle_macro = MYSQL_START_IDLE_WAIT ptr ptr | MYSQL_END_IDLE_WAIT ptr

fun expand_idle :: "events_build \<Rightarrow> src_loc \<Rightarrow> idle_macro \<Rightarrow> event_code" where
  "expand_idle B src (MYSQL_START_IDLE_WAIT LOCKER STATE) =
     (if have_idle B then inline_mysql_start_idle_wait STATE src else Return LOCKER)"
| "expand_idle B src (MYSQL_END_IDLE_WAIT LOCKER) = (if have_idle B then inline_mysql_end_idle_wait LOCKER else Return 0)"

end
