(* ===== verification/Mysql_Events_Properties.thy ===== *)
theory Mysql_Events_Properties
  imports Mysql_Events
begin

text \<open>
  The protocol that the headers of \<open>Mysql_Events\<close> share, as a locale: a program gets a locker from the function that
  starts something, hands it to others, one of which may replace it, and to the one that ends it. What
  follows from the contract is proved once and used for statements, transactions, stored
  programs, waits for tables and idle waits.
\<close>

lemmas inline_event_defs =
  inline_mysql_statement_register_def inline_mysql_digest_start_def inline_mysql_digest_end_def
  inline_mysql_start_statement_def inline_mysql_refine_statement_def inline_mysql_set_statement_text_def
  inline_mysql_set_statement_lock_time_def inline_mysql_set_statement_rows_sent_def
  inline_mysql_set_statement_rows_examined_def inline_mysql_end_statement_def
  inline_mysql_start_transaction_def inline_mysql_set_transaction_gtid_def inline_mysql_set_transaction_xid_def
  inline_mysql_set_transaction_xa_state_def inline_mysql_set_transaction_trxid_def
  inline_mysql_inc_transaction_savepoints_def inline_mysql_inc_transaction_rollback_to_savepoint_def
  inline_mysql_inc_transaction_release_savepoint_def inline_mysql_rollback_transaction_def
  inline_mysql_commit_transaction_def
  inline_mysql_stage_register_def inline_mysql_set_stage_def inline_mysql_end_stage_def
  inline_mysql_create_prepared_stmt_def inline_mysql_execute_prepared_stmt_def inline_mysql_destroy_prepared_stmt_def
  inline_mysql_reprepare_prepared_stmt_def inline_mysql_start_sp_def inline_mysql_end_sp_def inline_mysql_drop_sp_def
  inline_mysql_get_sp_share_def inline_mysql_start_table_lock_wait_def inline_mysql_end_table_lock_wait_def
  inline_mysql_unlock_table_def inline_mysql_mdl_create_def inline_mysql_mdl_set_status_def inline_mysql_mdl_destroy_def
  inline_mysql_start_idle_wait_def inline_mysql_end_idle_wait_def inline_mysql_memory_register_def unless_null_def

section \<open>The life of a locker\<close>

text \<open>What a call of the plugin does with a locker: it gives one, which \<open>Begins\<close> has to confirm; gives one that is in use at once;
  uses it; gives another in its place; or takes it back.\<close>

datatype role = Gives | Opens | Begins ptr | Uses ptr | Replaces ptr | Takes ptr | Nothing

datatype locker_state = Closed | Given ptr | Open ptr

definition holds :: "ptr \<Rightarrow> locker_state" where
  "holds locker = (if locker = 0 then Closed else Open locker)"

fun locker_monitor :: "('p \<Rightarrow> role) \<Rightarrow> ('p, 's, 'a, locker_state) monitor" where
  "locker_monitor role s (Asked p a) = (case role p of
     Gives \<Rightarrow> if s = Closed then Next (if a = 0 then Closed else Given a) else Wrong
   | Opens \<Rightarrow> if s = Closed then Next (holds a) else Wrong
   | Begins l \<Rightarrow> if s = Given l then Next (Open l) else Wrong
   | Uses l \<Rightarrow> if s = Open l then Next s else Wrong
   | Replaces l \<Rightarrow> if s = Open l then Next (holds a) else Wrong
   | Takes l \<Rightarrow> if s = Open l then Next Closed else Wrong
   | Nothing \<Rightarrow> Next s)"
| "locker_monitor role s (Did c a) = Next s"

text \<open>A program that keeps the locker in a variable: it starts, takes any steps, and finishes.\<close>

primrec uses :: "('u \<Rightarrow> ptr \<Rightarrow> event_code) \<Rightarrow> 'u list \<Rightarrow> ptr \<Rightarrow> event_code" where
  "uses step [] locker = Return locker"
| "uses step (u # us) locker = bindC (step u locker) (uses step us)"

definition life :: "event_code \<Rightarrow> ('u \<Rightarrow> ptr \<Rightarrow> event_code) \<Rightarrow> 'u list \<Rightarrow> (ptr \<Rightarrow> event_code) \<Rightarrow> event_code" where
  "life start step us finish = bindC start (\<lambda>locker. bindC (uses step us locker) finish)"

locale locker_protocol =
  fixes role :: "ask \<Rightarrow> role" and live :: "ptr \<Rightarrow> bool"
    and start :: "'s \<Rightarrow> event_code" and step :: "'u \<Rightarrow> ptr \<Rightarrow> event_code" and finish :: "'f \<Rightarrow> ptr \<Rightarrow> event_code"
  assumes start_holds: "obeys (locker_monitor role) (start a) (\<lambda>l s. s = holds l \<and> live l) Closed"
    and step_holds: "live l \<Longrightarrow> obeys (locker_monitor role) (step u l) (\<lambda>l s. s = holds l \<and> live l) (holds l)"
    and finish_closes: "live l \<Longrightarrow> obeys (locker_monitor role) (finish f l) (\<lambda>_ s. s = Closed) (holds l)"
begin

lemma uses_holds: "live l \<Longrightarrow> obeys (locker_monitor role) (uses step us l) (\<lambda>l s. s = holds l \<and> live l) (holds l)"
proof (induction us arbitrary: l)
  case (Cons u us)
  from step_holds [OF Cons.prems] show ?case
    unfolding uses.simps obeys_bind by (rule obeys_mono) (auto intro: Cons.IH)
qed simp

lemma life_closes: "obeys (locker_monitor role) (life (start a) step us (finish f)) (\<lambda>_ s. s = Closed) Closed"
  unfolding life_def obeys_bind
  by (rule obeys_mono [OF start_holds]) (auto intro: obeys_mono [OF uses_holds] finish_closes)

end

subsection \<open>Statements\<close>

fun statement_role :: "ask \<Rightarrow> role" where
  "statement_role (Event (get_thread_statement_locker s k c p)) = Gives"
| "statement_role (Event (start_statement l db n src)) = Begins l"
| "statement_role (Event (refine_statement l k)) = Replaces l"
| "statement_role (Event (set_statement_text l p n)) = Uses l"
| "statement_role (Event (set_statement_lock_time l n)) = Uses l"
| "statement_role (Event (set_statement_rows_sent l n)) = Uses l"
| "statement_role (Event (set_statement_rows_examined l n)) = Uses l"
| "statement_role (Event (digest_start l)) = Uses l"
| "statement_role (Event (end_statement l da)) = Takes l"
| "statement_role _ = Nothing"

text \<open>What a program may do between the start and the end: \<open>locker= MYSQL_REFINE_STATEMENT(locker, K)\<close>, or one of the
  macros that leave the locker.\<close>

datatype statement_use =
    Refine "32 word" | Set_Text ptr "32 word" | Lock_Time "64 word" | Rows_Sent "64 word" | Rows_Examined "64 word" | Digest ptr

fun use_statement :: "events_build \<Rightarrow> src_loc \<Rightarrow> statement_use \<Rightarrow> ptr \<Rightarrow> event_code" where
  "use_statement B src (Refine k) l = expand_statement B src (MYSQL_REFINE_STATEMENT l k)"
| "use_statement B src (Set_Text p n) l = bindC (expand_statement B src (MYSQL_SET_STATEMENT_TEXT l p n)) (\<lambda>_. Return l)"
| "use_statement B src (Lock_Time n) l = bindC (expand_statement B src (MYSQL_SET_STATEMENT_LOCK_TIME l n)) (\<lambda>_. Return l)"
| "use_statement B src (Rows_Sent n) l = bindC (expand_statement B src (MYSQL_SET_STATEMENT_ROWS_SENT l n)) (\<lambda>_. Return l)"
| "use_statement B src (Rows_Examined n) l = bindC (expand_statement B src (MYSQL_SET_STATEMENT_ROWS_EXAMINED l n)) (\<lambda>_. Return l)"
| "use_statement B src (Digest d) l = bindC (expand_statement B src (MYSQL_DIGEST_START l)) (\<lambda>dl.
     bindC (expand_statement B src (MYSQL_DIGEST_END dl d)) (\<lambda>_. Return l))"

definition start_of_statement :: "events_build \<Rightarrow> src_loc \<Rightarrow> ptr \<times> 32 word \<times> ptr \<times> 32 word \<times> ptr \<times> ptr \<Rightarrow> event_code" where
  "start_of_statement B src = (\<lambda>(state, k, db, n, cs, sps). expand_statement B src (MYSQL_START_STATEMENT state k db n cs sps))"

definition end_of_statement :: "events_build \<Rightarrow> src_loc \<Rightarrow> ptr \<Rightarrow> ptr \<Rightarrow> event_code" where
  "end_of_statement B src da locker = expand_statement B src (MYSQL_END_STATEMENT locker da)"

interpretation statement: locker_protocol statement_role "\<lambda>l. have_statement B \<or> l = 0"
  "start_of_statement B src" "use_statement B src" "end_of_statement B src" for B src
proof (unfold_locales, goal_cases)
  case (1 a)
  show ?case by (cases a) (auto simp: start_of_statement_def inline_event_defs holds_def)
next
  case (2 l u)
  then show ?case by (cases u) (auto simp: inline_event_defs holds_def)
next
  case (3 l f)
  then show ?case by (auto simp: end_of_statement_def inline_event_defs holds_def)
qed

subsection \<open>Transactions\<close>

fun transaction_role :: "ask \<Rightarrow> role" where
  "transaction_role (Event (get_thread_transaction_locker s x t i r a)) = Gives"
| "transaction_role (Event (start_transaction l src)) = Begins l"
| "transaction_role (Event (set_transaction_gtid l p q)) = Uses l"
| "transaction_role (Event (set_transaction_xid l p n)) = Uses l"
| "transaction_role (Event (set_transaction_xa_state l n)) = Uses l"
| "transaction_role (Event (set_transaction_trxid l p)) = Uses l"
| "transaction_role (Event (inc_transaction_savepoints l n)) = Uses l"
| "transaction_role (Event (inc_transaction_rollback_to_savepoint l n)) = Uses l"
| "transaction_role (Event (inc_transaction_release_savepoint l n)) = Uses l"
| "transaction_role (Event (end_transaction l c)) = Takes l"
| "transaction_role _ = Nothing"

datatype transaction_use =
    Gtid ptr ptr | Xid ptr int | Xa_State int | Trxid ptr | Savepoints "32 word" | Rollback_To "32 word" | Release "32 word"

fun transaction_macro_of :: "transaction_use \<Rightarrow> ptr \<Rightarrow> transaction_macro" where
  "transaction_macro_of (Gtid p q) l = MYSQL_SET_TRANSACTION_GTID l p q"
| "transaction_macro_of (Xid p n) l = MYSQL_SET_TRANSACTION_XID l p n"
| "transaction_macro_of (Xa_State n) l = MYSQL_SET_TRANSACTION_XA_STATE l n"
| "transaction_macro_of (Trxid p) l = MYSQL_SET_TRANSACTION_TRXID l p"
| "transaction_macro_of (Savepoints n) l = MYSQL_INC_TRANSACTION_SAVEPOINTS l n"
| "transaction_macro_of (Rollback_To n) l = MYSQL_INC_TRANSACTION_ROLLBACK_TO_SAVEPOINT l n"
| "transaction_macro_of (Release n) l = MYSQL_INC_TRANSACTION_RELEASE_SAVEPOINT l n"

definition use_transaction :: "events_build \<Rightarrow> src_loc \<Rightarrow> transaction_use \<Rightarrow> ptr \<Rightarrow> event_code" where
  "use_transaction B src u locker = bindC (expand_transaction B src (transaction_macro_of u locker)) (\<lambda>_. Return locker)"

definition start_of_transaction :: "events_build \<Rightarrow> src_loc \<Rightarrow> ptr \<times> ptr \<times> ptr \<times> int \<times> bool \<times> bool \<Rightarrow> event_code" where
  "start_of_transaction B src = (\<lambda>(state, xid, trxid, iso, ro, ac).
     expand_transaction B src (MYSQL_START_TRANSACTION state xid trxid iso ro ac))"

definition end_of_transaction :: "events_build \<Rightarrow> src_loc \<Rightarrow> bool \<Rightarrow> ptr \<Rightarrow> event_code" where
  "end_of_transaction B src commit locker = expand_transaction B src
     (if commit then MYSQL_COMMIT_TRANSACTION locker else MYSQL_ROLLBACK_TRANSACTION locker)"

interpretation transaction: locker_protocol transaction_role "\<lambda>l. have_transaction B \<or> l = 0"
  "start_of_transaction B src" "use_transaction B src" "end_of_transaction B src" for B src
proof (unfold_locales, goal_cases)
  case (1 a)
  show ?case by (cases a) (auto simp: start_of_transaction_def inline_event_defs holds_def)
next
  case (2 l u)
  then show ?case by (cases u) (auto simp: use_transaction_def inline_event_defs holds_def)
next
  case (3 l f)
  then show ?case by (auto simp: end_of_transaction_def inline_event_defs holds_def)
qed

subsection \<open>Stored programs, waits for tables, idle waits\<close>

fun brief_role :: "ask \<Rightarrow> role" where
  "brief_role (Misc (start_sp s p)) = Opens"
| "brief_role (Misc (end_sp l)) = Takes l"
| "brief_role (Misc (start_table_lock_wait s p oper n src)) = Opens"
| "brief_role (Misc (end_table_lock_wait l)) = Takes l"
| "brief_role (Misc (start_idle_wait s src)) = Opens"
| "brief_role (Misc (end_idle_wait l)) = Takes l"
| "brief_role _ = Nothing"

text \<open>The variable of a table or an idle wait is \<open>NULL\<close> before.\<close>

datatype brief = Stored_Program ptr ptr | Table_Lock ptr ptr PSI_table_lock_operation "32 word" | Idle_Wait ptr

datatype brief_kind = Sp | Table | Idle

fun kind_of :: "brief \<Rightarrow> brief_kind" where
  "kind_of (Stored_Program s p) = Sp" | "kind_of (Table_Lock s p oper n) = Table" | "kind_of (Idle_Wait s) = Idle"

fun start_brief :: "events_build \<Rightarrow> src_loc \<Rightarrow> brief \<Rightarrow> event_code" where
  "start_brief B src (Stored_Program s p) = expand_sp B (MYSQL_START_SP s p)"
| "start_brief B src (Table_Lock s p oper n) = expand_table B src (MYSQL_START_TABLE_LOCK_WAIT 0 s p oper n)"
| "start_brief B src (Idle_Wait s) = expand_idle B src (MYSQL_START_IDLE_WAIT 0 s)"

fun end_brief :: "events_build \<Rightarrow> src_loc \<Rightarrow> brief_kind \<Rightarrow> ptr \<Rightarrow> event_code" where
  "end_brief B src Sp l = expand_sp B (MYSQL_END_SP l)"
| "end_brief B src Table l = expand_table B src (MYSQL_END_TABLE_LOCK_WAIT l)"
| "end_brief B src Idle l = expand_idle B src (MYSQL_END_IDLE_WAIT l)"

fun have_brief :: "events_build \<Rightarrow> brief_kind \<Rightarrow> bool" where
  "have_brief B Sp = have_sp B" | "have_brief B Table = have_table B" | "have_brief B Idle = have_idle B"

interpretation brief: locker_protocol brief_role "\<lambda>l. have_brief B (kind_of b) \<or> l = 0"
  "\<lambda>_ :: unit. start_brief B src b" "\<lambda>(_ :: unit) l. Return l" "\<lambda>_ :: unit. end_brief B src (kind_of b)" for B src b
  by (unfold_locales; cases b) (auto simp: inline_event_defs holds_def)

section \<open>The other calls\<close>

text \<open>Every call about an object of the plugin has one: the prepared statement, the table, the metadata lock.\<close>

fun object_of :: "ask \<Rightarrow> ptr option" where
  "object_of (Misc (execute_prepared_stmt l p)) = Some p"
| "object_of (Misc (destroy_prepared_stmt p)) = Some p"
| "object_of (Misc (reprepare_prepared_stmt p)) = Some p"
| "object_of (Misc (create_prepared_stmt i n l p1 n1 p2 n2)) = Some l"
| "object_of (Misc (start_table_lock_wait s p oper n src)) = Some p"
| "object_of (Misc (unlock_table p)) = Some p"
| "object_of (Misc (set_metadata_lock_status p n)) = Some p"
| "object_of (Misc (destroy_metadata_lock p)) = Some p"
| "object_of _ = None"

fun no_null :: "(ask, 's, 'a, unit) monitor" where
  "no_null s (Asked p a) = (if object_of p = Some 0 then Wrong else Next s)"
| "no_null s (Did c a) = Next s"

section \<open>Properties\<close>

text \<open>C17: A program that keeps its locker in a variable, from \<open>MYSQL_START_STATEMENT\<close> over any steps, refinements
  included, to \<open>MYSQL_END_STATEMENT\<close>, or from \<open>MYSQL_START_TRANSACTION\<close> to a commit or a rollback, makes the calls of the
  plugin in order, whatever it answers: no \<open>NULL\<close> locker, each locker is started once before it is used, the one that a
  refinement replaced is not used again, and the last one is ended, once, unless it is \<open>NULL\<close>.\<close>

theorem lockers_ended_once:
  "obeys (locker_monitor statement_role) (life (start_of_statement B src a) (use_statement B src) us (end_of_statement B src da))
     (\<lambda>_ s. s = Closed) Closed \<and>
   obeys (locker_monitor transaction_role) (life (start_of_transaction B src b) (use_transaction B src) vs (end_of_transaction B src c))
     (\<lambda>_ s. s = Closed) Closed"
  by (intro conjI statement.life_closes transaction.life_closes)

lemma brief_lockers_ended_once:
  "obeys (locker_monitor brief_role) (bindC (start_brief B src b) (end_brief B src (kind_of b))) (\<lambda>_ s. s = Closed) Closed"
  using brief.life_closes [where us = "[]"] by (simp add: life_def)

lemma objects_not_null:
  "obeys no_null (expand_ps B m) (\<lambda>_ _. True) ()" "obeys no_null (expand_table B src n) (\<lambda>_ _. True) ()"
  "obeys no_null (expand_mdl B src q) (\<lambda>_ _. True) ()"
  subgoal by (cases m) (simp_all add: inline_event_defs)
  subgoal by (cases n) (simp_all add: inline_event_defs)
  subgoal by (cases q) (simp_all add: inline_event_defs)
  done

text \<open>The progress of a stage that the plugin does not measure (\<open>mysql_set_stage\<close> returned \<open>NULL\<close>) may be set and
  increased, which does nothing, but reading it dereferences the null pointer.\<close>

theorem stage_progress_null:
  "expand_progress B m None = None \<and>
   inline_mysql_stage_get_work_completed None = undefined_behaviour Null_dereference \<and>
   inline_mysql_stage_get_work_estimated None = undefined_behaviour Null_dereference"
  by (cases m) (simp_all add: inline_mysql_stage_set_work_completed_def inline_mysql_stage_inc_work_completed_def
    inline_mysql_stage_set_work_estimated_def inline_mysql_stage_get_work_completed_def inline_mysql_stage_get_work_estimated_def)

end
