(* ===== verification/Mysql_Psi.thy ===== *)
theory Mysql_Psi
  imports Mym_Prelude
begin

text \<open>
  What the preprocessor makes of the options of a build in \<open>mysql/psi/psi.h\<close>, \<open>psi_base.h\<close> and \<open>psi_memory.h\<close>: which
  interfaces of the performance schema are compiled in, and which version of them.
\<close>

datatype instrument =
    THREAD | MUTEX | RWLOCK | COND | FILE | TABLE | SOCKET | STAGE | STATEMENT | SP | PS | IDLE | STATEMENT_DIGEST
  | METADATA | MEMORY | TRANSACTION

record psi_options =
  HAVE_PSI_INTERFACE :: bool
  DISABLE_ALL_PSI :: bool
  DISABLE_PSI :: "instrument \<Rightarrow> bool"
  USE_PSI_1 :: bool
  USE_PSI_2 :: bool

text \<open>\<open>DISABLE_PSI_...\<close> after the block for \<open>DISABLE_ALL_PSI\<close>, which defines it for every instrument.\<close>

definition disabled :: "psi_options \<Rightarrow> instrument \<Rightarrow> bool" where
  "disabled Z i \<longleftrightarrow> (if DISABLE_ALL_PSI Z then True else DISABLE_PSI Z i)"

text \<open>\<open>HAVE_PSI_..._INTERFACE\<close>. Prepared statements and digests are nested in statements; memory is decided first in
  \<open>psi_memory.h\<close>, which \<open>psi.h\<close> includes before the block above.\<close>

definition early_memory_interface :: "psi_options \<Rightarrow> bool" where
  "early_memory_interface Z \<longleftrightarrow> HAVE_PSI_INTERFACE Z \<and> \<not> DISABLE_ALL_PSI Z \<and> \<not> DISABLE_PSI Z MEMORY"

fun have_interface :: "psi_options \<Rightarrow> instrument \<Rightarrow> bool" where
  "have_interface Z PS \<longleftrightarrow> HAVE_PSI_INTERFACE Z \<and> \<not> disabled Z STATEMENT \<and> \<not> disabled Z PS"
| "have_interface Z STATEMENT_DIGEST \<longleftrightarrow> HAVE_PSI_INTERFACE Z \<and> \<not> disabled Z STATEMENT \<and> \<not> disabled Z STATEMENT_DIGEST"
| "have_interface Z MEMORY \<longleftrightarrow> early_memory_interface Z \<or> HAVE_PSI_INTERFACE Z \<and> \<not> disabled Z MEMORY"
| "have_interface Z i \<longleftrightarrow> HAVE_PSI_INTERFACE Z \<and> \<not> disabled Z i"

text \<open>The version of the interface: the first, unless only the second is asked for. A version is compiled in when
  it is used, and \<open>PSI\<close> names it; two definitions of that name are an error of the compiler.\<close>

datatype psi_version = PSI_v1 | PSI_v2 | PSI_none

definition use_psi_1 :: "psi_options \<Rightarrow> bool" where
  "use_psi_1 Z \<longleftrightarrow> (if \<not> USE_PSI_2 Z then (if \<not> USE_PSI_1 Z then True else USE_PSI_1 Z) else USE_PSI_1 Z)"

definition PSI_definitions :: "psi_options \<Rightarrow> psi_version list" where
  "PSI_definitions Z = (if HAVE_PSI_INTERFACE Z
     then (if use_psi_1 Z then [PSI_v1] else []) @ (if USE_PSI_2 Z then [PSI_v2] else []) else [PSI_none])"

section \<open>Facts\<close>

lemma have_interface_disabled: "have_interface Z i \<Longrightarrow> HAVE_PSI_INTERFACE Z \<and> \<not> DISABLE_ALL_PSI Z \<and> \<not> DISABLE_PSI Z i"
  by (cases i) (auto simp: disabled_def early_memory_interface_def split: if_splits)

lemma memory_agrees: "have_interface Z MEMORY = early_memory_interface Z"
  by (auto simp: early_memory_interface_def disabled_def)

lemma nested_interfaces:
  "have_interface Z PS \<Longrightarrow> have_interface Z STATEMENT"
  "have_interface Z STATEMENT_DIGEST \<Longrightarrow> have_interface Z STATEMENT"
  by simp_all

lemma no_interface: "\<not> HAVE_PSI_INTERFACE Z \<or> DISABLE_ALL_PSI Z \<Longrightarrow> \<not> have_interface Z i"
  using have_interface_disabled by blast

lemma one_PSI: "(\<exists>v. PSI_definitions Z = [v]) \<longleftrightarrow> \<not> (HAVE_PSI_INTERFACE Z \<and> USE_PSI_1 Z \<and> USE_PSI_2 Z)"
  by (auto simp: PSI_definitions_def use_psi_1_def)

end
