(* ===== verification/Mysql_Psi_Properties.thy ===== *)
theory Mysql_Psi_Properties
  imports Mysql_Psi Mysql_Thread_Laws Mysql_Socket_Properties Mysql_Events_Properties
begin

text \<open>The options of a build, put together with the headers that depend on them.\<close>

definition thread_build :: "psi_options \<Rightarrow> bool \<Rightarrow> build" where
  "thread_build Z sm = \<lparr>have_mutex = have_interface Z MUTEX, have_rwlock = have_interface Z RWLOCK,
     have_cond = have_interface Z COND, have_thread = have_interface Z THREAD, safe_mutex = sm\<rparr>"

definition socket_build_of :: "psi_options \<Rightarrow> bool \<Rightarrow> 32 word \<Rightarrow> socket_build" where
  "socket_build_of Z win nonblock = \<lparr>have_socket = have_interface Z SOCKET, on_win32 = win, O_NONBLOCK = nonblock\<rparr>"

definition events_build_of :: "psi_options \<Rightarrow> events_build" where
  "events_build_of Z = \<lparr>have_statement = have_interface Z STATEMENT, have_digest = have_interface Z STATEMENT_DIGEST,
     have_transaction = have_interface Z TRANSACTION, have_stage = have_interface Z STAGE, have_ps = have_interface Z PS,
     have_sp = have_interface Z SP, have_table = have_interface Z TABLE, have_metadata = have_interface Z METADATA,
     have_idle = have_interface Z IDLE, have_memory = have_interface Z MEMORY\<rparr>"

text \<open>Calls of the plugin: not what a function does to the member \<open>m_psi\<close>, but the creation of threads, which the plugin does itself.\<close>

fun plugin_event :: "(thread_ask, lock_call, int) event \<Rightarrow> bool" where
  "plugin_event (Asked (Load_psi ob) a) = False"
| "plugin_event (Asked (Store_psi ob p) a) = False"
| "plugin_event (Asked p a) = True"
| "plugin_event (Did (spawn_thread k p1 p2 p3 p4) a) = True"
| "plugin_event (Did s a) = False"

fun asked :: "('p, 's, 'a) event \<Rightarrow> bool" where
  "asked (Asked p a) = True" | "asked (Did s a) = False"

primrec without :: "(('p, 's, 'a) event \<Rightarrow> bool) \<Rightarrow> ('p, 's, 'a, 'r) Mysql_Calls.code \<Rightarrow> bool" where
  "without bad (Return r) = True"
| "without bad (Ask p k) = (\<forall>a. \<not> bad (Asked p a) \<and> without bad (k a))"
| "without bad (Sys s k) = (\<forall>a. \<not> bad (Did s a) \<and> without bad (k a))"

lemma without_quiet: "quiet c \<Longrightarrow> without asked c"
  by (induction c) simp_all

lemma plain_thread:
  "\<not> have_mutex B \<Longrightarrow> \<not> have_rwlock B \<Longrightarrow> \<not> have_cond B \<Longrightarrow> \<not> have_thread B \<Longrightarrow> without plugin_event (expand B (src, m))"
proof (cases m)
  case (Mutex_Macro a)
  assume "\<not> have_mutex B"
  then show ?thesis by (cases a) (simp_all add: Mutex_Macro inline_mutex_defs if_handle_def)
next
  case (Rwlock_Macro a)
  assume "\<not> have_rwlock B"
  then show ?thesis by (cases a) (simp_all add: Rwlock_Macro inline_rwlock_defs if_handle_def)
next
  case (Cond_Macro a)
  assume "\<not> have_cond B"
  then show ?thesis by (cases a) (simp_all add: Cond_Macro inline_cond_defs if_handle_def)
next
  case (Thread_Macro a)
  assume "\<not> have_thread B"
  then show ?thesis by (cases a) (simp_all add: Thread_Macro inline_thread_defs)
qed

lemma quiet_socket: "\<not> have_socket N \<Longrightarrow> quiet (expand_socket N src c)"
  by (cases c) (simp_all add: inline_socket_defs socket_steps)

lemma quiet_socket2: "\<not> have_socket N \<Longrightarrow> quiet (expand_socket2 N src c)"
  by (cases c) (auto simp: inline_socket_defs in_wait_def mapC_def Let_def sys_int_def intro!: quiet_bind split: if_splits)

lemma plain_events:
  "\<not> have_statement B \<Longrightarrow> \<not> have_digest B \<Longrightarrow> without asked (expand_statement B src m1)"
  "\<not> have_transaction B \<Longrightarrow> without asked (expand_transaction B src m2)"
  "\<not> have_stage B \<Longrightarrow> without asked (expand_stage B src m3)"
  "\<not> have_ps B \<Longrightarrow> without asked (expand_ps B m4)" "\<not> have_sp B \<Longrightarrow> without asked (expand_sp B m5)"
  "\<not> have_table B \<Longrightarrow> without asked (expand_table B src m6)" "\<not> have_metadata B \<Longrightarrow> without asked (expand_mdl B src m7)"
  "\<not> have_idle B \<Longrightarrow> without asked (expand_idle B src m8)" "\<not> have_memory B \<Longrightarrow> without asked (inline_mysql_memory_register B p q n)"
  subgoal by (cases m1) simp_all
  subgoal by (cases m2) simp_all
  subgoal by (cases m3) simp_all
  subgoal by (cases m4) simp_all
  subgoal by (cases m5) simp_all
  subgoal by (cases m6) simp_all
  subgoal by (cases m7) simp_all
  subgoal by (cases m8) simp_all
  subgoal by (simp add: inline_mysql_memory_register_def)
  done


definition silent_options :: psi_options where
  "silent_options = \<lparr>HAVE_PSI_INTERFACE = True, DISABLE_ALL_PSI = True, DISABLE_PSI = (\<lambda>_. False), USE_PSI_1 = False, USE_PSI_2 = False\<rparr>"


end
