(* ===== verification/Mysql_Iocache.thy ===== *)
theory Mysql_Iocache
  imports Mym_Prelude
begin

unbundle bit_operations_syntax

text \<open>
  The cache for files of \<open>my_sys.h\<close>: the structure \<open>IO_CACHE\<close> and the macros that read from and write to its buffer. A macro
  copies when the buffer has what is asked for, and calls a function of the cache otherwise. The buffer is
  a region of memory of \<open>buffer_length\<close> bytes; addresses are words of 32 bits, so that the test whether the
  buffer suffices is the one of the code. \<open>current_pos\<close> and \<open>current_end\<close> point to two fields of the structure: those of
  the write buffer, or those of the read buffer. The functions of the cache, which are not in the header, are parameters,
  with their effect on the file.
\<close>

type_synonym addr = "32 word"
type_synonym my_off_t = "64 word"

datatype cache_type = TYPE_NOT_SET | READ_CACHE | WRITE_CACHE | SEQ_READ_APPEND | READ_FIFO | READ_NET | WRITE_NET

record io_cache =
  pos_in_file :: my_off_t
  end_of_file :: my_off_t
  read_pos :: addr
  read_end :: addr
  buffer :: addr
  request_pos :: addr
  write_buffer :: addr
  append_read_pos :: addr
  write_pos :: addr
  write_end :: addr
  current_is_write :: bool
  cache_kind :: cache_type
  buffer_length :: nat

record 'w cache =
  info :: io_cache
  memory :: "addr \<Rightarrow> byte"
  outside :: 'w

text \<open>Memory in the region that starts at an address: \<open>n\<close> bytes from \<open>a\<close> on.\<close>

definition inside :: "addr \<Rightarrow> nat \<Rightarrow> addr \<Rightarrow> nat \<Rightarrow> bool" where
  "inside start len a n \<longleftrightarrow> unat start \<le> unat a \<and> unat a + n \<le> unat start + len"

definition bytes_at :: "(addr \<Rightarrow> byte) \<Rightarrow> addr \<Rightarrow> nat \<Rightarrow> byte list" where
  "bytes_at mem a n = map (\<lambda>i. mem (a + word_of_nat i)) [0..<n]"

primrec store_bytes :: "byte list \<Rightarrow> addr \<Rightarrow> (addr \<Rightarrow> byte) \<Rightarrow> addr \<Rightarrow> byte" where
  "store_bytes [] a mem = mem"
| "store_bytes (b # bs) a mem = store_bytes bs (a + 1) (mem(a := b))"

section \<open>The macros\<close>

definition my_b_EOF :: int where "my_b_EOF = - (2 ^ 31)"

definition my_b_clear :: "'w cache \<Rightarrow> 'w cache" where
  "my_b_clear c = c\<lparr>info := (info c)\<lparr>buffer := 0\<rparr>\<rparr>"

definition my_b_inited :: "'w cache \<Rightarrow> bool" where
  "my_b_inited c \<longleftrightarrow> buffer (info c) \<noteq> 0"

text \<open>What is copied to \<open>Buffer\<close>, and the result.\<close>

definition my_b_read :: "(addr \<Rightarrow> 'w cache \<Rightarrow> ((byte list \<times> int) \<times> 'w cache) res) \<Rightarrow> addr \<Rightarrow> 'w cache \<Rightarrow> ((byte list \<times> int) \<times> 'w cache) res" where
  "my_b_read read_function count c = (let i = info c in
     if read_pos i + count \<le> read_end i
     then bindE (requireE (inside (buffer i) (buffer_length i) (read_pos i) (unat count)) (Undefined Read_out_of_bounds)) (\<lambda>_.
       Inr ((bytes_at (memory c) (read_pos i) (unat count), 0), c\<lparr>info := i\<lparr>read_pos := read_pos i + count\<rparr>\<rparr>))
     else read_function count c)"

definition my_b_write :: "(byte list \<Rightarrow> 'w cache \<Rightarrow> (int \<times> 'w cache) res) \<Rightarrow> byte list \<Rightarrow> 'w cache \<Rightarrow> (int \<times> 'w cache) res" where
  "my_b_write write_function data c = (let i = info c; count = word_of_nat (length data) :: addr in
     if write_pos i + count \<le> write_end i
     then bindE (requireE (inside (write_buffer i) (buffer_length i) (write_pos i) (length data)) (Undefined Write_out_of_bounds)) (\<lambda>_.
       Inr (0, c\<lparr>memory := store_bytes data (write_pos i) (memory c), info := i\<lparr>write_pos := write_pos i + count\<rparr>\<rparr>))
     else write_function data c)"

definition my_b_get :: "('w cache \<Rightarrow> (int \<times> 'w cache) res) \<Rightarrow> 'w cache \<Rightarrow> (int \<times> 'w cache) res" where
  "my_b_get get_function c = (let i = info c in
     if read_pos i \<noteq> read_end i
     then bindE (requireE (inside (buffer i) (buffer_length i) (read_pos i) 1) (Undefined Read_out_of_bounds)) (\<lambda>_.
       Inr (uint (memory c (read_pos i)), c\<lparr>info := i\<lparr>read_pos := read_pos i + 1\<rparr>\<rparr>))
     else get_function c)"

definition current_pos :: "io_cache \<Rightarrow> addr" where
  "current_pos i = (if current_is_write i then write_pos i else read_pos i)"

definition current_end :: "io_cache \<Rightarrow> addr" where
  "current_end i = (if current_is_write i then write_end i else read_end i)"

definition my_b_tell :: "io_cache \<Rightarrow> my_off_t" where
  "my_b_tell i = pos_in_file i + ucast (current_pos i - request_pos i)"

definition my_b_get_buffer_start :: "io_cache \<Rightarrow> addr" where
  "my_b_get_buffer_start i = request_pos i"

definition my_b_get_bytes_in_buffer :: "io_cache \<Rightarrow> int" where
  "my_b_get_bytes_in_buffer i = uint (read_end i) - uint (my_b_get_buffer_start i)"

definition my_b_get_pos_in_file :: "io_cache \<Rightarrow> my_off_t" where
  "my_b_get_pos_in_file i = pos_in_file i"

definition my_b_bytes_in_cache :: "io_cache \<Rightarrow> addr" where
  "my_b_bytes_in_cache i = current_end i - current_pos i"

section \<open>A cache for reading\<close>

text \<open>A cache that is at position \<open>p\<close> of a file: the buffer has the next bytes, the end of its memory is at most \<open>hi\<close>.\<close>

definition reads_at :: "byte list \<Rightarrow> nat \<Rightarrow> nat \<Rightarrow> 'w cache \<Rightarrow> bool" where
  "reads_at file hi p c \<longleftrightarrow> (let i = info c; n = unat (read_end i) - unat (read_pos i) in
     unat (buffer i) \<le> unat (read_pos i) \<and> unat (read_pos i) \<le> unat (read_end i) \<and>
     unat (read_end i) \<le> unat (buffer i) + buffer_length i \<and> unat (buffer i) + buffer_length i \<le> hi \<and>
     request_pos i = buffer i \<and> \<not> current_is_write i \<and>
     p \<le> length file \<and> length file < 2 ^ 64 \<and>
     p = unat (pos_in_file i) + (unat (read_pos i) - unat (buffer i)) \<and>
     n \<le> length file - p \<and> bytes_at (memory c) (read_pos i) n = take n (drop p file))"

text \<open>What the comment on \<open>read_function\<close> says: it fetches the data that is not in the buffer. It is asked for more than the
  buffer has, returns 0 with the bytes when the file has them, and something else otherwise; \<open>_my_b_get\<close> is asked for one.\<close>

definition fetches :: "byte list \<Rightarrow> nat \<Rightarrow> (addr \<Rightarrow> 'w cache \<Rightarrow> ((byte list \<times> int) \<times> 'w cache) res) \<Rightarrow> bool" where
  "fetches file hi R \<longleftrightarrow> (\<forall>c p n. reads_at file hi p c \<longrightarrow> unat (my_b_bytes_in_cache (info c)) < unat n \<longrightarrow>
     (\<exists>bs e c'. R n c = Inr ((bs, e), c') \<and> (if p + unat n \<le> length file
        then e = 0 \<and> bs = take (unat n) (drop p file) \<and> reads_at file hi (p + unat n) c' else e \<noteq> 0)))"

definition fetches_byte :: "byte list \<Rightarrow> nat \<Rightarrow> ('w cache \<Rightarrow> (int \<times> 'w cache) res) \<Rightarrow> bool" where
  "fetches_byte file hi G \<longleftrightarrow> (\<forall>c p. reads_at file hi p c \<longrightarrow> my_b_bytes_in_cache (info c) = 0 \<longrightarrow>
     (\<exists>e c'. G c = Inr (e, c') \<and> (if p < length file then e = uint (file ! p) \<and> reads_at file hi (p + 1) c' else e = my_b_EOF)))"

subsection \<open>Programs\<close>

datatype request = Read addr | Get | Tell

datatype reply = Bytes "byte list" | Byte int | Position my_off_t | Failed

text \<open>A program that stops when a request fails.\<close>

fun cached :: "(addr \<Rightarrow> 'w cache \<Rightarrow> ((byte list \<times> int) \<times> 'w cache) res) \<Rightarrow> ('w cache \<Rightarrow> (int \<times> 'w cache) res) \<Rightarrow>
    request \<Rightarrow> 'w cache \<Rightarrow> (reply \<times> 'w cache) res" where
  "cached R G (Read n) c = bindE (my_b_read R n c) (\<lambda>((bs, e), c). Inr (if e = 0 then Bytes bs else Failed, c))"
| "cached R G Get c = bindE (my_b_get G c) (\<lambda>(e, c). Inr (if e = my_b_EOF then Failed else Byte e, c))"
| "cached R G Tell c = Inr (Position (my_b_tell (info c)), c)"

fun run_cached :: "(addr \<Rightarrow> 'w cache \<Rightarrow> ((byte list \<times> int) \<times> 'w cache) res) \<Rightarrow> ('w cache \<Rightarrow> (int \<times> 'w cache) res) \<Rightarrow>
    request list \<Rightarrow> 'w cache \<Rightarrow> reply list res" where
  "run_cached R G [] c = Inr []"
| "run_cached R G (q # qs) c = bindE (cached R G q c) (\<lambda>(r, c). if r = Failed then Inr [r]
     else bindE (run_cached R G qs c) (\<lambda>rs. Inr (r # rs)))"

text \<open>The same without a cache: a file and a position in it.\<close>

fun from_file :: "byte list \<Rightarrow> request list \<Rightarrow> nat \<Rightarrow> reply list" where
  "from_file file [] p = []"
| "from_file file (Read n # qs) p =
     (if p + unat n \<le> length file then Bytes (take (unat n) (drop p file)) # from_file file qs (p + unat n) else [Failed])"
| "from_file file (Get # qs) p =
     (if p < length file then Byte (uint (file ! p)) # from_file file qs (p + 1) else [Failed])"
| "from_file file (Tell # qs) p = Position (word_of_nat p) # from_file file qs p"

subsection \<open>The cache shows the file\<close>

lemma length_bytes_at [simp]: "length (bytes_at mem a n) = n"
  by (simp add: bytes_at_def)

lemma take_bytes_at: "k \<le> n \<Longrightarrow> take k (bytes_at mem a n) = bytes_at mem a k"
  by (simp add: bytes_at_def take_map)

lemma drop_bytes_at: "k \<le> n \<Longrightarrow> drop k (bytes_at mem a n) = bytes_at mem (a + word_of_nat k) (n - k)"
  by (rule nth_equalityI) (auto simp: bytes_at_def ac_simps less_diff_conv)

lemma addr_less: "unat (x :: addr) < 4294967296"
  by (rule order.strict_trans2 [OF unsigned_less]) simp

lemma bytes_in_cache: "reads_at file hi p c \<Longrightarrow> unat (my_b_bytes_in_cache (info c)) = unat (read_end (info c)) - unat (read_pos (info c))"
  by (simp add: reads_at_def Let_def my_b_bytes_in_cache_def current_pos_def current_end_def unat_sub word_le_nat_alt)

text \<open>The position moves on by what the buffer has.\<close>

lemma reads_at_forward:
  assumes r: "reads_at file hi p c" and n: "unat (read_pos (info c)) + k \<le> unat (read_end (info c))"
  shows "unat (read_pos (info c) + word_of_nat k) = unat (read_pos (info c)) + k"
    and "bytes_at (memory c) (read_pos (info c)) k = take k (drop p file)" and "p + k \<le> length file"
    and "inside (buffer (info c)) (buffer_length (info c)) (read_pos (info c)) k"
    and "reads_at file hi (p + k) (c\<lparr>info := (info c)\<lparr>read_pos := read_pos (info c) + word_of_nat k\<rparr>\<rparr>)"
proof -
  let ?i = "info c" let ?n = "unat (read_end ?i) - unat (read_pos ?i)"
  have k: "k \<le> ?n" using n by simp
  have "k < 4294967296" using n addr_less [of "read_end ?i"] by linarith
  then have "unat (word_of_nat k :: addr) = k" by (simp add: unat_of_nat)
  moreover have "unat (read_pos ?i) + k < 4294967296" using n addr_less [of "read_end ?i"] by linarith
  ultimately show u: "unat (read_pos ?i + word_of_nat k) = unat (read_pos ?i) + k"
    by (simp add: unat_word_ariths)
  from r have m: "bytes_at (memory c) (read_pos ?i) ?n = take ?n (drop p file)" and f: "?n \<le> length file - p" "p \<le> length file"
      and b: "unat (buffer ?i) \<le> unat (read_pos ?i)" "unat (read_end ?i) \<le> unat (buffer ?i) + buffer_length ?i"
        "unat (buffer ?i) + buffer_length ?i \<le> hi" "request_pos ?i = buffer ?i" "\<not> current_is_write ?i" "length file < 2 ^ 64"
      and p: "p = unat (pos_in_file ?i) + (unat (read_pos ?i) - unat (buffer ?i))"
    unfolding reads_at_def Let_def by blast+
  show "bytes_at (memory c) (read_pos ?i) k = take k (drop p file)"
    using arg_cong [OF m, of "take k"] k by (simp add: take_bytes_at min_def)
  show "p + k \<le> length file" using f k by simp
  show "inside (buffer ?i) (buffer_length ?i) (read_pos ?i) k"
    using b n by (simp add: inside_def)
  have "bytes_at (memory c) (read_pos ?i + word_of_nat k) (?n - k) = drop k (take ?n (drop p file))"
    using arg_cong [OF m, of "drop k"] k by (simp add: drop_bytes_at)
  also have "\<dots> = take (?n - k) (drop (p + k) file)" by (simp add: drop_take add.commute)
  finally have tail: "bytes_at (memory c) (read_pos ?i + word_of_nat k) (?n - k) = take (?n - k) (drop (p + k) file)" .
  have "p + k = unat (pos_in_file ?i) + (unat (read_pos ?i) + k - unat (buffer ?i))" "?n - k \<le> length file - (p + k)"
    "p + k \<le> length file"
    using b p f k by simp_all
  then show "reads_at file hi (p + k) (c\<lparr>info := ?i\<lparr>read_pos := read_pos ?i + word_of_nat k\<rparr>\<rparr>)"
    unfolding reads_at_def Let_def using b n u tail by (simp add: diff_diff_add)
qed

lemma my_b_tell_position: "reads_at file hi p c \<Longrightarrow> my_b_tell (info c) = word_of_nat p"
proof -
  assume r: "reads_at file hi p c"
  let ?i = "info c"
  have "unat (read_pos ?i - buffer ?i) = unat (read_pos ?i) - unat (buffer ?i)"
    using r by (simp add: reads_at_def Let_def unat_sub word_le_nat_alt)
  then have "(ucast (read_pos ?i - buffer ?i) :: my_off_t) = word_of_nat (unat (read_pos ?i) - unat (buffer ?i))"
    by (metis of_nat_unat)
  with r show ?thesis by (simp add: reads_at_def Let_def my_b_tell_def current_pos_def)
qed

lemma my_b_read_reads:
  assumes r: "reads_at file hi p c" and R: "fetches file hi R" and n: "hi + unat n < 2 ^ 32"
  shows "\<exists>bs e c'. my_b_read R n c = Inr ((bs, e), c') \<and> (if p + unat n \<le> length file
     then e = 0 \<and> bs = take (unat n) (drop p file) \<and> reads_at file hi (p + unat n) c' else e \<noteq> 0)"
proof -
  let ?i = "info c"
  have rp: "unat (read_pos ?i) \<le> hi" and le: "unat (read_pos ?i) \<le> unat (read_end ?i)"
    using r unfolding reads_at_def Let_def by linarith+
  show ?thesis
  proof (cases "unat (read_pos ?i) + unat n \<le> unat (read_end ?i)")
    case True
    note fw = reads_at_forward [OF r True]
    have "read_pos ?i + n \<le> read_end ?i" using True fw(1) by (simp add: word_le_nat_alt)
    with fw show ?thesis by (simp add: my_b_read_def Let_def requireE_def)
  next
    case False
    have "unat (read_pos ?i + n) = unat (read_pos ?i) + unat n" using n rp by (simp add: unat_word_ariths)
    with False have "\<not> read_pos ?i + n \<le> read_end ?i" by (simp add: word_le_nat_alt)
    moreover have "unat (my_b_bytes_in_cache ?i) < unat n" using False bytes_in_cache [OF r] le by simp
    ultimately show ?thesis using R r unfolding fetches_def my_b_read_def Let_def by simp
  qed
qed

lemma my_b_get_reads:
  assumes r: "reads_at file hi p c" and G: "fetches_byte file hi G"
  shows "\<exists>e c'. my_b_get G c = Inr (e, c') \<and>
    (if p < length file then e = uint (file ! p) \<and> reads_at file hi (p + 1) c' else e = my_b_EOF)"
proof -
  let ?i = "info c"
  have le: "unat (read_pos ?i) \<le> unat (read_end ?i)" using r unfolding reads_at_def Let_def by linarith
  show ?thesis
  proof (cases "read_pos ?i = read_end ?i")
    case True
    then have "my_b_bytes_in_cache ?i = 0"
      using r unfolding reads_at_def Let_def my_b_bytes_in_cache_def current_pos_def current_end_def by simp
    with G r True show ?thesis unfolding fetches_byte_def my_b_get_def Let_def by simp
  next
    case False
    then have "unat (read_pos ?i) + 1 \<le> unat (read_end ?i)" using le by (metis Suc_eq_plus1 Suc_leI le_neq_implies_less unsigned_word_eqI)
    note fw = reads_at_forward [OF r this]
    have "memory c (read_pos ?i) = file ! p"
      using arg_cong [OF fw(2), of hd] fw(3) by (simp add: bytes_at_def hd_drop_conv_nth)
    with fw(3,4,5) False show ?thesis by (simp add: my_b_get_def Let_def requireE_def)
  qed
qed

text \<open>The functions of a cache, as its macros rely on them.\<close>

locale cache_functions =
  fixes content :: "byte list" and hi :: nat
    and R :: "addr \<Rightarrow> 'w cache \<Rightarrow> ((byte list \<times> int) \<times> 'w cache) res" and G :: "'w cache \<Rightarrow> (int \<times> 'w cache) res"
  assumes fetches: "fetches content hi R" and fetches_byte: "fetches_byte content hi G"
begin

lemma run_from_file:
  assumes "reads_at content hi p c" "\<forall>n. Read n \<in> set qs \<longrightarrow> hi + unat n < 2 ^ 32"
  shows "run_cached R G qs c = Inr (from_file content qs p)"
  using assms
proof (induction qs arbitrary: p c)
  case (Cons q qs)
  from Cons.prems(2) have qs: "\<forall>n. Read n \<in> set qs \<longrightarrow> hi + unat n < 2 ^ 32" by simp
  show ?case
  proof (cases q)
    case (Read n)
    with Cons.prems(2) have "hi + unat n < 2 ^ 32" by simp
    from my_b_read_reads [OF Cons.prems(1) fetches this] obtain bs e c' where "my_b_read R n c = Inr ((bs, e), c')"
      "if p + unat n \<le> length content then e = 0 \<and> bs = take (unat n) (drop p content) \<and> reads_at content hi (p + unat n) c' else e \<noteq> 0" by blast
    with Cons.IH [OF _ qs] Read show ?thesis by (auto split: if_splits)
  next
    case Get
    have "my_b_EOF < 0" by (simp add: my_b_EOF_def)
    then have "uint (content ! p) \<noteq> my_b_EOF" using uint_ge_0 [of "content ! p"] by linarith
    with my_b_get_reads [OF Cons.prems(1) fetches_byte] Cons.IH [OF _ qs] Get show ?thesis by (auto split: if_splits)
  next
    case Tell
    with my_b_tell_position [OF Cons.prems(1)] Cons.IH [OF Cons.prems(1) qs] show ?thesis by simp
  qed
qed simp

end

text \<open>C19: A program that reads through the cache, with \<open>my_b_read\<close>, \<open>my_b_get\<close> and \<open>my_b_tell\<close> in any order, gets exactly what it would get
  from the file itself, as long as no request is so long that an address behind the buffer would not fit in 32 bits:
  the cache refines a file with a position. It only rests on what \<open>read_function\<close> and \<open>_my_b_get\<close> promise when the buffer
  has too little; what is in the buffer, and where it ends, does not matter.\<close>

theorem cache_refines_file:
  assumes "reads_at file hi p c" "fetches file hi R" "fetches_byte file hi G"
    and "\<forall>n. Read n \<in> set qs \<longrightarrow> hi + unat n < 2 ^ 32"
  shows "run_cached R G qs c = Inr (from_file file qs p)"
  using cache_functions.run_from_file [OF cache_functions.intro] assms by blast

text \<open>Functions of a cache that go to the file at once.\<close>

definition direct_read :: "byte list \<Rightarrow> addr \<Rightarrow> 'w cache \<Rightarrow> ((byte list \<times> int) \<times> 'w cache) res" where
  "direct_read file n c = (let i = info c; p = unat (my_b_tell i) in
     if p + unat n \<le> length file
     then Inr ((take (unat n) (drop p file), 0), c\<lparr>info := i\<lparr>pos_in_file := word_of_nat (p + unat n), read_pos := buffer i, read_end := buffer i\<rparr>\<rparr>)
     else Inr (([], 1), c))"

definition direct_get :: "byte list \<Rightarrow> 'w cache \<Rightarrow> (int \<times> 'w cache) res" where
  "direct_get file c = bindE (direct_read file 1 c) (\<lambda>((bs, e), c). Inr (if e = 0 then uint (hd bs) else my_b_EOF, c))"

lemma unat_offset: "n \<le> length file \<Longrightarrow> length file < 2 ^ 64 \<Longrightarrow> unat (word_of_nat n :: my_off_t) = n"
  by (simp add: unat_of_nat)

lemma reads_at_size: "reads_at file hi p c \<Longrightarrow> p \<le> length file" "reads_at file hi p c \<Longrightarrow> length file < 2 ^ 64"
  unfolding reads_at_def Let_def by blast+

lemma unat_tell: "reads_at file hi p c \<Longrightarrow> unat (my_b_tell (info c)) = p"
  by (simp only: my_b_tell_position unat_offset [OF reads_at_size])

lemma direct_read_reads:
  assumes "reads_at file hi p c" "p + unat n \<le> length file"
  shows "reads_at file hi (p + unat n) (c\<lparr>info := (info c)\<lparr>pos_in_file := word_of_nat (p + unat n), read_pos := buffer (info c), read_end := buffer (info c)\<rparr>\<rparr>)"
  using assms unat_offset [OF assms(2) reads_at_size(2) [OF assms(1)]]
  unfolding reads_at_def Let_def by (simp add: bytes_at_def del: of_nat_add)

lemma direct_fetches: "fetches file hi (direct_read file)" "fetches_byte file hi (direct_get file)"
proof -
  show "fetches file hi (direct_read file)"
    unfolding fetches_def direct_read_def Let_def
    by (auto simp: unat_tell direct_read_reads simp del: of_nat_add)
  show "fetches_byte file hi (direct_get file)"
    using direct_read_reads [where n = 1]
    by (auto simp: fetches_byte_def direct_get_def direct_read_def Let_def unat_tell hd_drop_conv_nth hd_take)
qed

interpretation direct: cache_functions content hi "direct_read content" "direct_get content" for content hi
  by unfold_locales (rule direct_fetches)+

definition demo_cache :: "unit cache" where
  "demo_cache = \<lparr>info = \<lparr>pos_in_file = 0, end_of_file = 3, read_pos = 4096, read_end = 4098, buffer = 4096, request_pos = 4096,
     write_buffer = 0, append_read_pos = 0, write_pos = 0, write_end = 0, current_is_write = False, cache_kind = READ_CACHE,
     buffer_length = 100\<rparr>, memory = (\<lambda>a. if a = 4096 then 7 else 8), outside = ()\<rparr>"

theorem cache_refines_file_three:
  "run_cached (direct_read [7, 8, 9]) (direct_get [7, 8, 9]) [Get, Read 2, Tell, Get] demo_cache =
     Inr [Byte 7, Bytes [8, 9], Position 3, Failed]"
proof -
  have "reads_at [7, 8, 9] 5000 0 demo_cache"
    by (simp add: reads_at_def demo_cache_def bytes_at_def upt_rec)
  from cache_refines_file [OF this direct_fetches, of "[Get, Read 2, Tell, Get]"] show ?thesis by simp
qed

text \<open>A request that is long enough for the address behind it to exceed 32 bits passes the test of \<open>my_b_read\<close>, and copies
  from behind the buffer: with a buffer at 4096 and 100 bytes in it, a request for 2^32 - 4000 bytes.\<close>

theorem long_read_overflows:
  assumes "read_pos (info c) = 4096" "read_end (info c) = 4196" "buffer (info c) = 4096" "buffer_length (info c) = 100"
  shows "my_b_read R (- 4000) c = undefined_behaviour Read_out_of_bounds"
  using assms by (simp add: my_b_read_def Let_def requireE_def inside_def word_le_nat_alt)

end
