(* ===== verification/Mysql_Ssl.thy ===== *)
theory Mysql_Ssl
  imports Mym_Prelude
begin

text \<open>
  The options of a client for encrypted connections: the variables of \<open>sslopt-vars.h\<close>, the cases of \<open>sslopt-case.h\<close> that
  handle one option each, in the order of the command line, and \<open>set_client_ssl_options\<close>, which hands the outcome to the
  client library. The table of \<open>sslopt-longopts.h\<close> says which variable an option stores its argument in, before its
  case is run. \<open>find_type_or_exit\<close> is a parameter: the number of a name in a list, from 1 on, or the end of the program.
\<close>

section \<open>The variables\<close>

definition SSL_MODE_DISABLED :: nat where "SSL_MODE_DISABLED = 1"
definition SSL_MODE_PREFERRED :: nat where "SSL_MODE_PREFERRED = 2"
definition SSL_MODE_REQUIRED :: nat where "SSL_MODE_REQUIRED = 3"
definition SSL_MODE_VERIFY_CA :: nat where "SSL_MODE_VERIFY_CA = 4"
definition SSL_MODE_VERIFY_IDENTITY :: nat where "SSL_MODE_VERIFY_IDENTITY = 5"

lemmas ssl_mode_defs =
  SSL_MODE_DISABLED_def SSL_MODE_PREFERRED_def SSL_MODE_REQUIRED_def SSL_MODE_VERIFY_CA_def SSL_MODE_VERIFY_IDENTITY_def

definition ssl_mode_names_lib :: "string list" where
  "ssl_mode_names_lib = [''DISABLED'', ''PREFERRED'', ''REQUIRED'', ''VERIFY_CA'', ''VERIFY_IDENTITY'']"

text \<open>A \<open>NULL\<close> is \<open>None\<close>.\<close>

record ssl_options =
  opt_ssl_mode :: nat
  opt_ssl_ca :: "string option"
  opt_ssl_capath :: "string option"
  opt_ssl_cert :: "string option"
  opt_ssl_cipher :: "string option"
  opt_ssl_key :: "string option"
  opt_ssl_crl :: "string option"
  opt_ssl_crlpath :: "string option"
  opt_tls_version :: "string option"
  ssl_mode_set_explicitly :: bool
  opt_use_ssl_arg :: bool
  opt_ssl_verify_server_cert_arg :: bool

definition ssl_defaults :: ssl_options where
  "ssl_defaults = \<lparr>opt_ssl_mode = SSL_MODE_PREFERRED, opt_ssl_ca = None, opt_ssl_capath = None, opt_ssl_cert = None,
     opt_ssl_cipher = None, opt_ssl_key = None, opt_ssl_crl = None, opt_ssl_crlpath = None, opt_tls_version = None,
     ssl_mode_set_explicitly = False, opt_use_ssl_arg = True, opt_ssl_verify_server_cert_arg = False\<rparr>"

section \<open>The options\<close>

datatype ssl_option =
    OPT_SSL_MODE string | OPT_SSL_SSL bool | OPT_SSL_VERIFY_SERVER_CERT bool | OPT_SSL_CA string | OPT_SSL_CAPATH string
  | OPT_SSL_KEY string | OPT_SSL_CERT string | OPT_SSL_CIPHER string | OPT_SSL_CRL string | OPT_SSL_CRLPATH string
  | OPT_TLS_VERSION string

fun store_argument :: "ssl_option \<Rightarrow> ssl_options \<Rightarrow> ssl_options" where
  "store_argument (OPT_SSL_MODE a) v = v"
| "store_argument (OPT_SSL_SSL b) v = v\<lparr>opt_use_ssl_arg := b\<rparr>"
| "store_argument (OPT_SSL_VERIFY_SERVER_CERT b) v = v\<lparr>opt_ssl_verify_server_cert_arg := b\<rparr>"
| "store_argument (OPT_SSL_CA a) v = v\<lparr>opt_ssl_ca := Some a\<rparr>"
| "store_argument (OPT_SSL_CAPATH a) v = v\<lparr>opt_ssl_capath := Some a\<rparr>"
| "store_argument (OPT_SSL_KEY a) v = v\<lparr>opt_ssl_key := Some a\<rparr>"
| "store_argument (OPT_SSL_CERT a) v = v\<lparr>opt_ssl_cert := Some a\<rparr>"
| "store_argument (OPT_SSL_CIPHER a) v = v\<lparr>opt_ssl_cipher := Some a\<rparr>"
| "store_argument (OPT_SSL_CRL a) v = v\<lparr>opt_ssl_crl := Some a\<rparr>"
| "store_argument (OPT_SSL_CRLPATH a) v = v\<lparr>opt_ssl_crlpath := Some a\<rparr>"
| "store_argument (OPT_TLS_VERSION a) v = v\<lparr>opt_tls_version := Some a\<rparr>"

text \<open>\<open>None\<close> when the program has ended.\<close>

fun ssl_case :: "(string \<Rightarrow> string list \<Rightarrow> nat option) \<Rightarrow> bool \<Rightarrow> ssl_option \<Rightarrow> ssl_options \<Rightarrow> ssl_options option" where
  "ssl_case find_type_or_exit yassl (OPT_SSL_MODE argument) v =
     map_option (\<lambda>m. v\<lparr>opt_ssl_mode := m, ssl_mode_set_explicitly := True\<rparr>) (find_type_or_exit argument ssl_mode_names_lib)"
| "ssl_case find_type_or_exit yassl (OPT_SSL_SSL _) v = Some
     (if \<not> opt_use_ssl_arg v then v\<lparr>opt_ssl_mode := SSL_MODE_DISABLED\<rparr>
      else if opt_ssl_mode v < SSL_MODE_REQUIRED then v\<lparr>opt_ssl_mode := SSL_MODE_REQUIRED\<rparr> else v)"
| "ssl_case find_type_or_exit yassl (OPT_SSL_VERIFY_SERVER_CERT _) v = Some
     (if \<not> opt_ssl_verify_server_cert_arg v
      then if opt_ssl_mode v \<ge> SSL_MODE_VERIFY_IDENTITY then v\<lparr>opt_ssl_mode := SSL_MODE_VERIFY_CA\<rparr> else v
      else v\<lparr>opt_ssl_mode := SSL_MODE_VERIFY_IDENTITY\<rparr>)"
| "ssl_case find_type_or_exit yassl (OPT_SSL_CA _) v = Some
     (if \<not> ssl_mode_set_explicitly v then v\<lparr>opt_ssl_mode := SSL_MODE_VERIFY_CA\<rparr> else v)"
| "ssl_case find_type_or_exit yassl (OPT_SSL_CAPATH _) v = Some
     (if \<not> ssl_mode_set_explicitly v then v\<lparr>opt_ssl_mode := SSL_MODE_VERIFY_CA\<rparr> else v)"
| "ssl_case find_type_or_exit yassl _ v = Some
     (if yassl then v\<lparr>opt_ssl_crl := None, opt_ssl_crlpath := None\<rparr> else v)"

primrec read_ssl_options ::
  "(string \<Rightarrow> string list \<Rightarrow> nat option) \<Rightarrow> bool \<Rightarrow> ssl_option list \<Rightarrow> ssl_options \<Rightarrow> ssl_options option" where
  "read_ssl_options find_type_or_exit yassl [] v = Some v"
| "read_ssl_options find_type_or_exit yassl (x # xs) v =
     Option.bind (ssl_case find_type_or_exit yassl x (store_argument x v)) (read_ssl_options find_type_or_exit yassl xs)"

section \<open>The connection\<close>

datatype ssl_call =
    Warn_no_verification
  | mysql_ssl_set "string option" "string option" "string option" "string option" "string option"
  | Mysql_opt_ssl_crl "string option" | Mysql_opt_ssl_crlpath "string option" | Mysql_opt_tls_version "string option"
  | Mysql_opt_ssl_mode nat

definition set_client_ssl_options :: "ssl_options \<Rightarrow> ssl_call list" where
  "set_client_ssl_options v =
     (if ssl_mode_set_explicitly v \<and> opt_ssl_mode v < SSL_MODE_VERIFY_CA \<and> (opt_ssl_ca v \<noteq> None \<or> opt_ssl_capath v \<noteq> None)
      then [Warn_no_verification] else []) @
     [if opt_ssl_mode v \<ge> SSL_MODE_VERIFY_CA
      then mysql_ssl_set (opt_ssl_key v) (opt_ssl_cert v) (opt_ssl_ca v) (opt_ssl_capath v) (opt_ssl_cipher v)
      else mysql_ssl_set (opt_ssl_key v) (opt_ssl_cert v) None None (opt_ssl_cipher v),
      Mysql_opt_ssl_crl (opt_ssl_crl v), Mysql_opt_ssl_crlpath (opt_ssl_crlpath v), Mysql_opt_tls_version (opt_tls_version v),
      Mysql_opt_ssl_mode (opt_ssl_mode v)]"

section \<open>Laws\<close>

text \<open>The options that a later CA cannot undo, those that choose a mode.\<close>

fun sets_mode :: "ssl_option \<Rightarrow> bool" where
  "sets_mode (OPT_SSL_MODE a) = True" | "sets_mode _ = False"

fun turns_off :: "ssl_option \<Rightarrow> bool" where
  "turns_off (OPT_SSL_SSL b) = (\<not> b)" | "turns_off _ = False"

fun gives_ca :: "ssl_option \<Rightarrow> bool" where
  "gives_ca (OPT_SSL_CA a) = True" | "gives_ca (OPT_SSL_CAPATH a) = True" | "gives_ca _ = False"

definition has_ca :: "ssl_options \<Rightarrow> bool" where
  "has_ca v \<longleftrightarrow> opt_ssl_ca v \<noteq> None \<or> opt_ssl_capath v \<noteq> None"

text \<open>What one option does, without \<open>--ssl-mode\<close>: the mode is not explicit, and once it verifies it goes on to do so.\<close>

lemma step_explicit:
  "ssl_case F y x (store_argument x v) = Some w \<Longrightarrow> \<not> sets_mode x \<Longrightarrow> ssl_mode_set_explicitly w = ssl_mode_set_explicitly v"
  by (cases x) (auto split: if_splits)

lemma step_ca: "ssl_case F y x (store_argument x v) = Some w \<Longrightarrow> has_ca v \<or> gives_ca x \<Longrightarrow> has_ca w"
  by (cases x) (auto simp: has_ca_def split: if_splits)

lemma step_mode:
  "ssl_case F y x (store_argument x v) = Some w \<Longrightarrow> \<not> sets_mode x \<Longrightarrow> \<not> ssl_mode_set_explicitly v \<Longrightarrow> \<not> turns_off x \<Longrightarrow>
   SSL_MODE_VERIFY_CA \<le> opt_ssl_mode v \<or> gives_ca x \<Longrightarrow> SSL_MODE_VERIFY_CA \<le> opt_ssl_mode w"
  by (cases x) (auto simp: ssl_mode_defs split: if_splits)

lemma gives_ca_on: "gives_ca x \<Longrightarrow> \<not> sets_mode x \<and> \<not> turns_off x"
  by (cases x) simp_all

lemma read_verifies:
  assumes "read_ssl_options F y xs v = Some w" "\<not> ssl_mode_set_explicitly v" "\<forall>x \<in> set xs. \<not> sets_mode x"
  shows "\<not> ssl_mode_set_explicitly w"
    and "has_ca v \<Longrightarrow> has_ca w"
    and "\<forall>x \<in> set xs. \<not> turns_off x \<Longrightarrow> SSL_MODE_VERIFY_CA \<le> opt_ssl_mode v \<Longrightarrow> SSL_MODE_VERIFY_CA \<le> opt_ssl_mode w"
proof -
  have "\<not> ssl_mode_set_explicitly w \<and> (has_ca v \<longrightarrow> has_ca w) \<and>
    ((\<forall>x \<in> set xs. \<not> turns_off x) \<longrightarrow> SSL_MODE_VERIFY_CA \<le> opt_ssl_mode v \<longrightarrow> SSL_MODE_VERIFY_CA \<le> opt_ssl_mode w)"
    using assms
  proof (induction xs arbitrary: v)
    case (Cons x xs)
    then obtain u where u: "ssl_case F y x (store_argument x v) = Some u" "read_ssl_options F y xs u = Some w"
      by (auto simp: bind_eq_Some_conv)
    from Cons.prems(3) have "\<not> sets_mode x" "\<forall>x \<in> set xs. \<not> sets_mode x" by simp_all
    with step_explicit [OF u(1)] step_ca [OF u(1)] step_mode [OF u(1)] Cons.prems(2) Cons.IH [OF u(2)] show ?case by simp
  qed simp
  then show "\<not> ssl_mode_set_explicitly w" and "has_ca v \<Longrightarrow> has_ca w"
    and "\<forall>x \<in> set xs. \<not> turns_off x \<Longrightarrow> SSL_MODE_VERIFY_CA \<le> opt_ssl_mode v \<Longrightarrow> SSL_MODE_VERIFY_CA \<le> opt_ssl_mode w"
    by blast+
qed

lemma read_append: "read_ssl_options F y (xs @ ys) v = Option.bind (read_ssl_options F y xs v) (read_ssl_options F y ys)"
  by (induction xs arbitrary: v) (simp_all split: bind_split)

section \<open>Properties\<close>


text \<open>The order of the options decides whether the name of the server is checked: \<open>--ssl-verify-server-cert\<close> after \<open>--ssl-ca\<close>
  checks it, but before \<open>--ssl-ca\<close> it is silently undone, since only \<open>--ssl-mode\<close> counts as explicit.\<close>

theorem verify_identity_lost:
  "map_option opt_ssl_mode (read_ssl_options F y [OPT_SSL_CA ca, OPT_SSL_VERIFY_SERVER_CERT True] ssl_defaults) = Some SSL_MODE_VERIFY_IDENTITY \<and>
   map_option opt_ssl_mode (read_ssl_options F y [OPT_SSL_VERIFY_SERVER_CERT True, OPT_SSL_CA ca] ssl_defaults) = Some SSL_MODE_VERIFY_CA \<and>
   map_option (\<lambda>v. Warn_no_verification \<in> set (set_client_ssl_options v))
     (read_ssl_options F y [OPT_SSL_VERIFY_SERVER_CERT True, OPT_SSL_CA ca] ssl_defaults) = Some False"
  by (simp add: ssl_defaults_def set_client_ssl_options_def)

text \<open>The search for a name in a list, as documented: the number of an equal name.\<close>

definition exact_type :: "string \<Rightarrow> string list \<Rightarrow> nat option" where
  "exact_type a names = (if a \<in> set names then Some (Suc (length (takeWhile (\<lambda>n. n \<noteq> a) names))) else None)"


end
