(* ===== verification/Mysql_Dbug.thy ===== *)
theory Mysql_Dbug
  imports Mysql_Calls
begin

text \<open>
  The macros of \<open>my_dbug.h\<close>, in a build with the debug library and in one without (\<open>DBUG_OFF\<close>). The functions of the library
  (\<open>_db_enter_\<close> and the others) are only declared: they are calls with arbitrary answers, in the trees of \<open>Mysql_Calls\<close>.
  A statement ends by going on or by returning from its function. The second part puts the macros together to functions,
  the way the comments ask for: \<open>DBUG_ENTER\<close> first, and \<open>DBUG_RETURN\<close> or \<open>DBUG_VOID_RETURN\<close> in place of every \<open>return\<close>.
\<close>

section \<open>Calls\<close>

datatype dbug_call =
    db_enter string string nat ptr | db_return nat ptr | db_keyword string int
  | dbug_on | set_dbug_on int | db_pargs nat string | db_enabled | db_doprnt "int list" | db_doputs string
  | db_push string | db_pop | db_set string | db_set_init string | db_process string | db_fp | db_setjmp | db_longjmp
  | db_dump nat string ptr nat | db_end | db_lock_file | db_unlock_file | db_explain ptr nat | db_explain_init ptr nat
  | db_flush | db_suicide | db_get_func

text \<open>The program's own steps, and the functions of the system; \<open>abort\<close>, \<open>_exit\<close>, \<open>longjmp\<close> and a failed \<open>assert\<close> do not
  come back.\<close>

datatype 'own os_call =
    Own 'own | Abort | Assert_failed | Exit nat | CrtSetReportMode | CrtSetReportFile | Setjmp ptr | Longjmp ptr int
  | Debug_sync_point string nat

type_synonym ('own, 'r) dcode = "(dbug_call, 'own os_call, int, 'r) code"

datatype 'v completion = Goes_on | Returns 'v

type_synonym ('own, 'v) stmt = "('own, 'v completion) dcode"

abbreviation skip :: "('own, 'v) stmt" where
  "skip \<equiv> Return Goes_on"

fun next_stmt :: "('own, 'v) stmt \<Rightarrow> 'v completion \<Rightarrow> ('own, 'v) stmt" where
  "next_stmt d Goes_on = d"
| "next_stmt d (Returns v) = Return (Returns v)"

definition seq :: "('own, 'v) stmt \<Rightarrow> ('own, 'v) stmt \<Rightarrow> ('own, 'v) stmt" where
  "seq c d = bindC c (next_stmt d)"

definition return_stmt :: "('own, 'v) dcode \<Rightarrow> ('own, 'v) stmt" where
  "return_stmt e = bindC e (\<lambda>v. Return (Returns v))"

section \<open>The macros\<close>

text \<open>\<open>debug\<close> is false with \<open>DBUG_OFF\<close>; \<open>frame\<close> is the address of the local \<open>_db_stack_frame_\<close>.\<close>

definition DBUG_ENTER :: "bool \<Rightarrow> string \<Rightarrow> string \<Rightarrow> nat \<Rightarrow> ptr \<Rightarrow> ('own, 'v) stmt" where
  "DBUG_ENTER debug a file line frame = (if debug then tell (db_enter a file line frame) skip else skip)"

definition DBUG_LEAVE :: "bool \<Rightarrow> nat \<Rightarrow> ptr \<Rightarrow> ('own, 'v) stmt" where
  "DBUG_LEAVE debug line frame = (if debug then tell (db_return line frame) skip else skip)"

text \<open>The value is computed after the function has been left.\<close>

definition DBUG_RETURN :: "bool \<Rightarrow> nat \<Rightarrow> ptr \<Rightarrow> ('own, 'v) dcode \<Rightarrow> ('own, 'v) stmt" where
  "DBUG_RETURN debug line frame a1 = (if debug then seq (DBUG_LEAVE debug line frame) (return_stmt a1) else return_stmt a1)"

definition DBUG_VOID_RETURN :: "bool \<Rightarrow> nat \<Rightarrow> ptr \<Rightarrow> ('own, unit) stmt" where
  "DBUG_VOID_RETURN debug line frame =
     (if debug then seq (DBUG_LEAVE debug line frame) (return_stmt (Return ())) else return_stmt (Return ()))"

definition DBUG_EXECUTE :: "bool \<Rightarrow> string \<Rightarrow> ('own, 'v) stmt \<Rightarrow> ('own, 'v) stmt" where
  "DBUG_EXECUTE debug keyword a1 = (if debug then Ask (db_keyword keyword 0) (\<lambda>r. if r \<noteq> 0 then a1 else skip) else skip)"

definition DBUG_EXECUTE_IF :: "bool \<Rightarrow> string \<Rightarrow> ('own, 'v) stmt \<Rightarrow> ('own, 'v) stmt" where
  "DBUG_EXECUTE_IF debug keyword a1 = (if debug then Ask (db_keyword keyword 1) (\<lambda>r. if r \<noteq> 0 then a1 else skip) else skip)"

definition DBUG_EVALUATE :: "bool \<Rightarrow> string \<Rightarrow> ('own, 'x) dcode \<Rightarrow> ('own, 'x) dcode \<Rightarrow> ('own, 'x) dcode" where
  "DBUG_EVALUATE debug keyword a1 a2 = (if debug then Ask (db_keyword keyword 0) (\<lambda>r. if r \<noteq> 0 then a1 else a2) else a2)"

definition DBUG_EVALUATE_IF :: "bool \<Rightarrow> string \<Rightarrow> ('own, 'x) dcode \<Rightarrow> ('own, 'x) dcode \<Rightarrow> ('own, 'x) dcode" where
  "DBUG_EVALUATE_IF debug keyword a1 a2 = (if debug then Ask (db_keyword keyword 1) (\<lambda>r. if r \<noteq> 0 then a1 else a2) else a2)"

definition DBUG_PRINT :: "bool \<Rightarrow> nat \<Rightarrow> string \<Rightarrow> ('own, int list) dcode \<Rightarrow> ('own, 'v) stmt" where
  "DBUG_PRINT debug line keyword arglist = (if debug
     then Ask dbug_on (\<lambda>on. if on \<noteq> 0
       then tell (db_pargs line keyword) (Ask db_enabled (\<lambda>e. if e \<noteq> 0
         then bindC arglist (\<lambda>args. tell (db_doprnt args) skip) else skip))
       else skip)
     else skip)"

definition DBUG_PUTS :: "bool \<Rightarrow> nat \<Rightarrow> string \<Rightarrow> ('own, string) dcode \<Rightarrow> ('own, 'v) stmt" where
  "DBUG_PUTS debug line keyword arg = (if debug
     then Ask dbug_on (\<lambda>on. if on \<noteq> 0
       then tell (db_pargs line keyword) (Ask db_enabled (\<lambda>e. if e \<noteq> 0
         then bindC arg (\<lambda>s. tell (db_doputs s) skip) else skip))
       else skip)
     else skip)"

text \<open>\<open>sout << v\<close> is evaluated in any case.\<close>

definition DBUG_LOG :: "bool \<Rightarrow> nat \<Rightarrow> string \<Rightarrow> ('own, string) dcode \<Rightarrow> ('own, 'v) stmt" where
  "DBUG_LOG debug line keyword v = (if debug then bindC v (\<lambda>sout. DBUG_PUTS debug line keyword (Return sout)) else skip)"

definition DBUG_PUSH :: "bool \<Rightarrow> string \<Rightarrow> ('own, 'v) stmt" where
  "DBUG_PUSH debug a1 = (if debug then tell (db_push a1) skip else skip)"

definition DBUG_POP :: "bool \<Rightarrow> ('own, 'v) stmt" where
  "DBUG_POP debug = (if debug then tell db_pop skip else skip)"

definition DBUG_SET :: "bool \<Rightarrow> string \<Rightarrow> ('own, 'v) stmt" where
  "DBUG_SET debug a1 = (if debug then tell (db_set a1) skip else skip)"

definition DBUG_SET_INITIAL :: "bool \<Rightarrow> string \<Rightarrow> ('own, 'v) stmt" where
  "DBUG_SET_INITIAL debug a1 = (if debug then tell (db_set_init a1) skip else skip)"

definition DBUG_PROCESS :: "bool \<Rightarrow> string \<Rightarrow> ('own, 'v) stmt" where
  "DBUG_PROCESS debug a1 = (if debug then tell (db_process a1) skip else skip)"

definition DBUG_SETJMP :: "bool \<Rightarrow> ptr \<Rightarrow> ('own, int) dcode" where
  "DBUG_SETJMP debug a1 = (if debug then tell db_setjmp (sys (Setjmp a1)) else sys (Setjmp a1))"

definition DBUG_DUMP :: "bool \<Rightarrow> nat \<Rightarrow> string \<Rightarrow> ptr \<Rightarrow> nat \<Rightarrow> ('own, 'v) stmt" where
  "DBUG_DUMP debug line keyword a1 a2 = (if debug then tell (db_dump line keyword a1 a2) skip else skip)"

definition DBUG_END :: "bool \<Rightarrow> ('own, 'v) stmt" where
  "DBUG_END debug = (if debug then tell db_end skip else skip)"

definition DBUG_LOCK_FILE :: "bool \<Rightarrow> ('own, 'v) stmt" where
  "DBUG_LOCK_FILE debug = (if debug then tell db_lock_file skip else skip)"

definition DBUG_UNLOCK_FILE :: "bool \<Rightarrow> ('own, 'v) stmt" where
  "DBUG_UNLOCK_FILE debug = (if debug then tell db_unlock_file skip else skip)"

definition DEBUGGER_OFF :: "bool \<Rightarrow> ('own, 'v) stmt" where
  "DEBUGGER_OFF debug = (if debug then tell (set_dbug_on 0) skip else skip)"

definition DEBUGGER_ON :: "bool \<Rightarrow> ('own, 'v) stmt" where
  "DEBUGGER_ON debug = (if debug then tell (set_dbug_on 1) skip else skip)"

text \<open>\<open>ndebug\<close> is \<open>NDEBUG\<close>, for which the \<open>assert\<close> of the language is empty.\<close>

definition DBUG_ASSERT :: "bool \<Rightarrow> bool \<Rightarrow> ('own, bool) dcode \<Rightarrow> ('own, 'v) stmt" where
  "DBUG_ASSERT debug ndebug A =
     (if debug \<and> \<not> ndebug then bindC A (\<lambda>ok. if ok then skip else Sys Assert_failed (\<lambda>_. skip)) else skip)"

definition DBUG_ABORT :: "bool \<Rightarrow> bool \<Rightarrow> ('own, 'v) stmt" where
  "DBUG_ABORT debug win = (if debug
     then tell db_flush (if win
       then Sys CrtSetReportMode (\<lambda>_. Sys CrtSetReportFile (\<lambda>_. Sys (Exit 2) (\<lambda>_. skip)))
       else Sys Abort (\<lambda>_. skip))
     else skip)"

definition DBUG_SUICIDE :: "bool \<Rightarrow> bool \<Rightarrow> ('own, 'v) stmt" where
  "DBUG_SUICIDE debug win = (if debug
     then if win then DBUG_ABORT debug win else tell db_flush (tell db_suicide skip)
     else skip)"

text \<open>The keyword is put together in a buffer of 255 bytes, and cut to 254 characters.\<close>

definition DBUG_CHECK_CRASH :: "bool \<Rightarrow> string \<Rightarrow> string \<Rightarrow> ('own, 'v) stmt" where
  "DBUG_CHECK_CRASH win func op = DBUG_EXECUTE_IF True (take 254 (func @ op)) (DBUG_ABORT True win)"

definition DBUG_CRASH_ENTER :: "bool \<Rightarrow> bool \<Rightarrow> string \<Rightarrow> string \<Rightarrow> nat \<Rightarrow> ptr \<Rightarrow> ('own, 'v) stmt" where
  "DBUG_CRASH_ENTER debug win func file line frame = (if debug
     then seq (DBUG_ENTER debug func file line frame) (DBUG_CHECK_CRASH win func ''_crash_enter'')
     else skip)"

text \<open>\<open>names\<close> is the text at the address that \<open>_db_get_func_\<close> returns.\<close>

definition DBUG_CRASH_RETURN :: "bool \<Rightarrow> bool \<Rightarrow> (ptr \<Rightarrow> string) \<Rightarrow> ('own, 'v) dcode \<Rightarrow> ('own, 'v) stmt" where
  "DBUG_CRASH_RETURN debug win names val = (if debug
     then Ask db_get_func (\<lambda>f. DBUG_CHECK_CRASH win (names f) ''_crash_return'')
     else return_stmt val)"

definition DBUG_CRASH_VOID_RETURN :: "bool \<Rightarrow> bool \<Rightarrow> (ptr \<Rightarrow> string) \<Rightarrow> ('own, unit) stmt" where
  "DBUG_CRASH_VOID_RETURN debug win names = (if debug
     then Ask db_get_func (\<lambda>f. DBUG_CHECK_CRASH win (names f) ''_crash_return'')
     else return_stmt (Return ()))"

definition DBUG_SYNC_POINT :: "bool \<Rightarrow> string \<Rightarrow> nat \<Rightarrow> ('own, 'v) stmt" where
  "DBUG_SYNC_POINT extra_debug lock_name lock_timeout =
     (if extra_debug then Sys (Debug_sync_point lock_name lock_timeout) (\<lambda>_. skip) else skip)"

end
