(* ===== verification/Mysql_Dbug_Properties.thy ===== *)
theory Mysql_Dbug_Properties
  imports Mysql_Dbug
begin

text \<open>
  Functions that use the macros of \<open>my_dbug.h\<close>: the stack of frames that the debug library keeps is right
  in every execution, and a build without the library does what one with it does.
\<close>

section \<open>Functions with debug macros\<close>

text \<open>What a body is made of: own steps, branches on their results, the macros, and calls of other functions
  with such bodies. A \<open>return\<close> computes an own value or calls a function. Loops are given as the steps they run through.\<close>

datatype 'own body =
    Step 'own | Then "'own body" "'own body" | Branch 'own "'own body" "'own body"
  | Print nat string 'own | Execute string "'own body" | Execute_if string "'own body"
  | Evaluate_if string 'own 'own "'own body" "'own body" | Assert 'own
  | Call nat string "'own body" | Return_value nat 'own | Return_call nat string "'own body"

fun value_of :: "int completion \<Rightarrow> ('own, int) dcode" where
  "value_of Goes_on = Return 0"
| "value_of (Returns v) = Return v"

text \<open>A function begins with \<open>DBUG_ENTER\<close> and ends with \<open>DBUG_RETURN\<close>; its frame is a local variable, so the frames of
  active functions differ.\<close>

definition dbug_function :: "bool \<Rightarrow> string \<Rightarrow> nat \<Rightarrow> string \<Rightarrow> (ptr \<Rightarrow> ('own, int) stmt) \<Rightarrow> ptr \<Rightarrow> ('own, int) dcode" where
  "dbug_function debug file line f body frame = bindC
     (seq (DBUG_ENTER debug f file line frame) (seq (body frame) (DBUG_RETURN debug line frame (Return 0)))) value_of"

primrec expand_dbug :: "bool \<Rightarrow> bool \<Rightarrow> string \<Rightarrow> 'own body \<Rightarrow> ptr \<Rightarrow> ('own, int) stmt" where
  "expand_dbug debug ndebug file (Step s) fr = Sys (Own s) (\<lambda>_. skip)"
| "expand_dbug debug ndebug file (Then b c) fr = seq (expand_dbug debug ndebug file b fr) (expand_dbug debug ndebug file c fr)"
| "expand_dbug debug ndebug file (Branch s b c) fr =
     Sys (Own s) (\<lambda>r. if r \<noteq> 0 then expand_dbug debug ndebug file b fr else expand_dbug debug ndebug file c fr)"
| "expand_dbug debug ndebug file (Print l k s) fr = DBUG_PRINT debug l k (Sys (Own s) (\<lambda>r. Return [r]))"
| "expand_dbug debug ndebug file (Execute k b) fr = DBUG_EXECUTE debug k (expand_dbug debug ndebug file b fr)"
| "expand_dbug debug ndebug file (Execute_if k b) fr = DBUG_EXECUTE_IF debug k (expand_dbug debug ndebug file b fr)"
| "expand_dbug debug ndebug file (Evaluate_if k s t b c) fr = bindC (DBUG_EVALUATE_IF debug k (sys (Own s)) (sys (Own t)))
     (\<lambda>r. if r \<noteq> 0 then expand_dbug debug ndebug file b fr else expand_dbug debug ndebug file c fr)"
| "expand_dbug debug ndebug file (Assert s) fr = DBUG_ASSERT debug ndebug (Sys (Own s) (\<lambda>r. Return (r \<noteq> 0)))"
| "expand_dbug debug ndebug file (Call l f b) fr =
     bindC (dbug_function debug file l f (expand_dbug debug ndebug file b) (Suc fr)) (\<lambda>_. skip)"
| "expand_dbug debug ndebug file (Return_value l s) fr = DBUG_RETURN debug l fr (sys (Own s))"
| "expand_dbug debug ndebug file (Return_call l f b) fr =
     DBUG_RETURN debug l fr (dbug_function debug file l f (expand_dbug debug ndebug file b) (Suc fr))"

section \<open>The stack of frames\<close>

text \<open>What the library needs: a frame is entered once, the innermost one is left first, and the function that is
  asked for is one that is active. An execution ends with \<open>abort\<close>, \<open>_exit\<close> or a failed \<open>assert\<close>.\<close>

fun frames :: "(dbug_call, 'own os_call, int, ptr list) monitor" where
  "frames st (Asked (db_enter f g l p) a) = (if p \<in> set st then Wrong else Next (p # st))"
| "frames [] (Asked (db_return l p) a) = Wrong"
| "frames (q # st) (Asked (db_return l p) a) = (if p = q then Next st else Wrong)"
| "frames [] (Asked db_get_func a) = Wrong"
| "frames st (Asked p a) = Next st"
| "frames st (Did Abort a) = Ruled_Out"
| "frames st (Did Assert_failed a) = Ruled_Out"
| "frames st (Did (Exit n) a) = Ruled_Out"
| "frames st (Did s a) = Next st"

fun framed :: "ptr \<Rightarrow> ptr list \<Rightarrow> 'v completion \<Rightarrow> ptr list \<Rightarrow> bool" where
  "framed fr st Goes_on m = (m = fr # st)"
| "framed fr st (Returns v) m = (m = st)"

definition in_frame :: "ptr \<Rightarrow> ptr list \<Rightarrow> ('own, 'v) stmt \<Rightarrow> bool" where
  "in_frame fr st c = obeys frames c (framed fr st) (fr # st)"

definition at_level :: "ptr list \<Rightarrow> ('own, 'r) dcode \<Rightarrow> bool" where
  "at_level st c = obeys frames c (\<lambda>r m. m = st) st"

named_theorems in_frame_intros

lemma in_frame_skip [in_frame_intros]: "in_frame fr st skip"
  by (simp add: in_frame_def)

lemma in_frame_seq [in_frame_intros]: "in_frame fr st c \<Longrightarrow> in_frame fr st d \<Longrightarrow> in_frame fr st (seq c d)"
  unfolding in_frame_def seq_def obeys_bind
proof (erule obeys_mono)
  fix r m
  show "obeys frames d (framed fr st) (fr # st) \<Longrightarrow> framed fr st r m \<Longrightarrow> obeys frames (next_stmt d r) (framed fr st) m"
    by (cases r) simp_all
qed

lemma in_frame_bind:
  "at_level (fr # st) e \<Longrightarrow> (\<And>r. in_frame fr st (c r)) \<Longrightarrow> in_frame fr st (bindC e c)"
  unfolding in_frame_def at_level_def obeys_bind by (erule obeys_mono) simp

lemma in_frame_RETURN [in_frame_intros]: "at_level st e \<Longrightarrow> in_frame fr st (DBUG_RETURN True l fr e)"
  by (simp add: in_frame_def at_level_def DBUG_RETURN_def DBUG_LEAVE_def seq_def return_stmt_def obeys_bind obeys_mono)

lemma in_frame_own [in_frame_intros]: "(\<And>r. in_frame fr st (c r)) \<Longrightarrow> in_frame fr st (Sys (Own s) c)"
  by (simp add: in_frame_def)

lemma in_frame_if [in_frame_intros]: "in_frame fr st c \<Longrightarrow> in_frame fr st d \<Longrightarrow> in_frame fr st (if b then c else d)"
  by simp

lemma in_frame_macros [in_frame_intros]:
  "at_level (fr # st) e \<Longrightarrow> in_frame fr st (DBUG_PRINT True l k e)"
  "in_frame fr st c \<Longrightarrow> in_frame fr st (DBUG_EXECUTE True k c)"
  "in_frame fr st c \<Longrightarrow> in_frame fr st (DBUG_EXECUTE_IF True k c)"
  "at_level (fr # st) a \<Longrightarrow> in_frame fr st (DBUG_ASSERT True nd a)"
  by (auto simp: in_frame_def at_level_def DBUG_PRINT_def DBUG_EXECUTE_def DBUG_EXECUTE_IF_def DBUG_ASSERT_def obeys_bind
      elim!: obeys_mono)

lemma at_level_own [in_frame_intros]: "at_level st (Sys (Own s) (\<lambda>r. Return (f r)))"
  by (simp add: at_level_def)

lemma at_level_EVALUATE_IF: "at_level st a \<Longrightarrow> at_level st b \<Longrightarrow> at_level st (DBUG_EVALUATE_IF True k a b)"
  by (simp add: at_level_def DBUG_EVALUATE_IF_def)

text \<open>A body that is followed by a \<open>DBUG_RETURN\<close> leaves its frame.\<close>

definition leaves :: "ptr \<Rightarrow> ptr list \<Rightarrow> ('own, 'v) stmt \<Rightarrow> bool" where
  "leaves fr st c = obeys frames c (\<lambda>r m. m = st \<and> r \<noteq> Goes_on) (fr # st)"

lemma leaves_RETURN: "at_level st e \<Longrightarrow> leaves fr st (DBUG_RETURN True l fr e)"
  by (simp add: leaves_def at_level_def DBUG_RETURN_def DBUG_LEAVE_def seq_def return_stmt_def obeys_bind obeys_mono)

lemma leaves_seq: "in_frame fr st c \<Longrightarrow> leaves fr st d \<Longrightarrow> leaves fr st (seq c d)"
  unfolding in_frame_def leaves_def seq_def obeys_bind
proof (erule obeys_mono)
  fix r m
  show "obeys frames d (\<lambda>r m. m = st \<and> r \<noteq> Goes_on) (fr # st) \<Longrightarrow> framed fr st r m \<Longrightarrow>
      obeys frames (next_stmt d r) (\<lambda>r m. m = st \<and> r \<noteq> Goes_on) m"
    by (cases r) simp_all
qed

lemma obeys_value_of: "m = st \<and> r \<noteq> Goes_on \<Longrightarrow> obeys frames (value_of r) (\<lambda>r m. m = st) m"
  by (cases r) simp_all

lemma at_level_function:
  assumes "fr \<notin> set st" "in_frame fr st (body fr)"
  shows "at_level st (dbug_function True fl l f body fr)"
proof -
  have "at_level st (Return (0 :: int))" by (simp add: at_level_def)
  with assms(2) have "leaves fr st (seq (body fr) (DBUG_RETURN True l fr (Return 0)))"
    by (intro leaves_seq leaves_RETURN)
  then have "obeys frames (seq (body fr) (DBUG_RETURN True l fr (Return 0))) (\<lambda>r. obeys frames (value_of r) (\<lambda>r m. m = st)) (fr # st)"
    unfolding leaves_def by (rule obeys_mono) (rule obeys_value_of)
  with assms(1) show ?thesis
    by (simp add: at_level_def dbug_function_def DBUG_ENTER_def seq_def [of "tell _ _"] obeys_bind)
qed

lemma in_frame_expand: "(\<And>p. p \<in> set st \<Longrightarrow> p < fr) \<Longrightarrow> in_frame fr st (expand_dbug True nd fl b fr)"
proof (induction b arbitrary: fr st)
  case (Evaluate_if k s t b c)
  then show ?case by (auto intro!: in_frame_bind at_level_EVALUATE_IF in_frame_intros)
next
  case (Call l f b)
  have "at_level (fr # st) (dbug_function True fl l f (expand_dbug True nd fl b) (Suc fr))"
    using Call.prems by (intro at_level_function Call.IH) (auto dest: less_SucI)
  then show ?case by (auto intro!: in_frame_bind in_frame_intros)
next
  case (Return_call l f b)
  have "at_level st (dbug_function True fl l f (expand_dbug True nd fl b) (Suc fr))"
    using Return_call.prems by (intro at_level_function Return_call.IH) (auto dest: less_SucI)
  then show ?case by (auto intro!: in_frame_intros)
qed (auto intro!: in_frame_intros)

section \<open>Properties\<close>

text \<open>C21: However functions with debug macros call each other, branch, print, run code for a keyword and return, from within
  calls and from within the code of a macro, and whatever the library answers: it is told to leave the innermost frame,
  which was entered before, once for each frame, and has none left at the end.\<close>

theorem frames_balanced:
  "obeys frames (dbug_function True file l f (expand_dbug True ndebug file b) 0) (\<lambda>r st. st = []) []"
proof -
  have "at_level [] (dbug_function True file l f (expand_dbug True ndebug file b) 0)"
    by (intro at_level_function in_frame_expand) simp_all
  then show ?thesis by (simp add: at_level_def)
qed

lemma silence_if [simp]: "silence (if b then c else d) = (if b then silence c else silence d)"
  by simp

lemma silence_seq [simp]: "silence (seq c d) = seq (silence c) (silence d)"
proof -
  have "(\<lambda>r. silence (next_stmt d r)) = next_stmt (silence d)"
  proof
    fix r show "silence (next_stmt d r) = next_stmt (silence d) r" by (cases r) simp_all
  qed
  then show ?thesis by (simp add: seq_def)
qed

lemma seq_skip [simp]: "seq skip d = d"
  by (simp add: seq_def)

lemmas macro_defs = DBUG_ENTER_def DBUG_LEAVE_def DBUG_RETURN_def DBUG_PRINT_def DBUG_EXECUTE_def DBUG_EXECUTE_IF_def
  DBUG_EVALUATE_IF_def DBUG_ASSERT_def return_stmt_def

lemma silence_value_of [simp]: "silence (value_of r) = value_of r"
  by (cases r) simp_all

lemma silence_function:
  assumes "silence (body fr) = body' fr"
  shows "silence (dbug_function True file l f body fr) = dbug_function False file l f body' fr"
  using assms by (simp add: dbug_function_def macro_defs)

lemma silence_expand: "silence (expand_dbug True True file b fr) = expand_dbug False ndebug file b fr"
proof (induction b arbitrary: fr)
  case (Call l f b)
  then show ?case by (simp add: silence_function)
next
  case (Return_call l f b)
  then show ?case by (simp add: silence_function macro_defs)
qed (simp_all add: macro_defs cong: if_cong)


text \<open>In a debug build \<open>DBUG_CRASH_RETURN\<close> neither computes its value nor returns, and leaves the frame of its function on the
  stack, unless the function is to crash; without the library it returns the value.\<close>

theorem crash_return_does_not_return:
  "silence (DBUG_CRASH_RETURN True win names e) = skip \<and>
   obeys frames (DBUG_CRASH_RETURN True win names e) (\<lambda>r st. r = Goes_on \<and> st = [fr]) [fr] \<and>
   DBUG_CRASH_RETURN False win names e = bindC e (\<lambda>v. Return (Returns v))"
  by (simp add: DBUG_CRASH_RETURN_def DBUG_CHECK_CRASH_def DBUG_EXECUTE_IF_def DBUG_ABORT_def return_stmt_def)

end
