(* ===== verification/Mysql_Ctype.thy ===== *)
theory Mysql_Ctype
  imports Mym_Prelude
begin

unbundle bit_operations_syntax

text \<open>
  Character classes and flags of \<open>m_ctype.h\<close>. The tables of a character set are data of its definition: \<open>ctype\<close> has an entry for
  the end of a file before those for the 256 bytes, \<open>to_lower\<close> and \<open>to_upper\<close> have 256 entries. Reading behind a table is
  an error value. The functions of a character set are parameters.
\<close>

section \<open>Classes\<close>

definition MY_U :: byte where "MY_U = 1"
definition MY_L :: byte where "MY_L = 2"
definition MY_NMR :: byte where "MY_NMR = 4"
definition MY_SPC :: byte where "MY_SPC = 8"
definition MY_PNT :: byte where "MY_PNT = 16"
definition MY_CTR :: byte where "MY_CTR = 32"
definition MY_B :: byte where "MY_B = 64"
definition MY_X :: byte where "MY_X = 128"

lemmas class_bits = MY_U_def MY_L_def MY_NMR_def MY_SPC_def MY_PNT_def MY_CTR_def MY_B_def MY_X_def

record 'h charset_info =
  state :: "32 word"
  ctype :: "byte list"
  to_lower :: "byte list"
  to_upper :: "byte list"
  mbmaxlenlen :: "32 word"
  ismbchar :: "('h \<Rightarrow> byte list \<Rightarrow> 32 word) option"
  mbcharlen :: "'h \<Rightarrow> 32 word \<Rightarrow> 32 word"
  handler :: 'h

definition at_byte :: "byte list \<Rightarrow> nat \<Rightarrow> byte res" where
  "at_byte table i = (if i < length table then Inr (table ! i) else undefined_behaviour Read_out_of_bounds)"

text \<open>The cast of an \<open>int\<close> to \<open>uchar\<close>.\<close>

definition uchar :: "32 word \<Rightarrow> byte" where
  "uchar c = ucast c"

definition my_isascii :: "32 word \<Rightarrow> bool" where "my_isascii c \<longleftrightarrow> c AND NOT 127 = 0"
definition my_toascii :: "32 word \<Rightarrow> 32 word" where "my_toascii c = c AND 127"
definition my_tocntrl :: "32 word \<Rightarrow> 32 word" where "my_tocntrl c = c AND 31"
definition my_toprint :: "32 word \<Rightarrow> 32 word" where "my_toprint c = c OR 64"

definition my_toupper :: "'h charset_info \<Rightarrow> 32 word \<Rightarrow> byte res" where
  "my_toupper s c = at_byte (to_upper s) (unat (uchar c))"

definition my_tolower :: "'h charset_info \<Rightarrow> 32 word \<Rightarrow> byte res" where
  "my_tolower s c = at_byte (to_lower s) (unat (uchar c))"

definition in_class :: "byte \<Rightarrow> 'h charset_info \<Rightarrow> 32 word \<Rightarrow> byte res" where
  "in_class m s c = bindE (at_byte (ctype s) (1 + unat (uchar c))) (\<lambda>t. Inr (t AND m))"

definition my_isalpha :: "'h charset_info \<Rightarrow> 32 word \<Rightarrow> byte res" where
  "my_isalpha = in_class (MY_U OR MY_L)"

definition my_isupper :: "'h charset_info \<Rightarrow> 32 word \<Rightarrow> byte res" where
  "my_isupper = in_class (MY_U)"

definition my_islower :: "'h charset_info \<Rightarrow> 32 word \<Rightarrow> byte res" where
  "my_islower = in_class (MY_L)"

definition my_isdigit :: "'h charset_info \<Rightarrow> 32 word \<Rightarrow> byte res" where
  "my_isdigit = in_class (MY_NMR)"

definition my_isxdigit :: "'h charset_info \<Rightarrow> 32 word \<Rightarrow> byte res" where
  "my_isxdigit = in_class (MY_X)"

definition my_isalnum :: "'h charset_info \<Rightarrow> 32 word \<Rightarrow> byte res" where
  "my_isalnum = in_class (MY_U OR MY_L OR MY_NMR)"

definition my_isspace :: "'h charset_info \<Rightarrow> 32 word \<Rightarrow> byte res" where
  "my_isspace = in_class (MY_SPC)"

definition my_ispunct :: "'h charset_info \<Rightarrow> 32 word \<Rightarrow> byte res" where
  "my_ispunct = in_class (MY_PNT)"

definition my_isprint :: "'h charset_info \<Rightarrow> 32 word \<Rightarrow> byte res" where
  "my_isprint = in_class (MY_PNT OR MY_U OR MY_L OR MY_NMR OR MY_B)"

definition my_isgraph :: "'h charset_info \<Rightarrow> 32 word \<Rightarrow> byte res" where
  "my_isgraph = in_class (MY_PNT OR MY_U OR MY_L OR MY_NMR)"

definition my_iscntrl :: "'h charset_info \<Rightarrow> 32 word \<Rightarrow> byte res" where
  "my_iscntrl = in_class (MY_CTR)"

lemmas class_defs = my_isalpha_def my_isupper_def my_islower_def my_isdigit_def my_isxdigit_def my_isalnum_def my_isspace_def
  my_ispunct_def my_isprint_def my_isgraph_def my_iscntrl_def

text \<open>The second operand is not evaluated when the first is not zero.\<close>

definition my_isvar :: "'h charset_info \<Rightarrow> 32 word \<Rightarrow> bool res" where
  "my_isvar s c = bindE (my_isalnum s c) (\<lambda>r. Inr (r \<noteq> 0 \<or> c = 95))"

definition my_isvar_start :: "'h charset_info \<Rightarrow> 32 word \<Rightarrow> bool res" where
  "my_isvar_start s c = bindE (my_isalpha s c) (\<lambda>r. Inr (r \<noteq> 0 \<or> c = 95))"

section \<open>Characters of several bytes\<close>

definition MY_CS_BINSORT :: "32 word" where "MY_CS_BINSORT = 16"
definition MY_CS_STRNXFRM :: "32 word" where "MY_CS_STRNXFRM = 64"

definition my_binary_compare :: "'h charset_info \<Rightarrow> 32 word" where "my_binary_compare s = state s AND MY_CS_BINSORT"
definition use_strnxfrm :: "'h charset_info \<Rightarrow> 32 word" where "use_strnxfrm s = state s AND MY_CS_STRNXFRM"
definition use_mb :: "'h charset_info \<Rightarrow> bool" where "use_mb s \<longleftrightarrow> ismbchar s \<noteq> None"

definition my_mbcharlen :: "'h charset_info \<Rightarrow> 32 word \<Rightarrow> 32 word" where
  "my_mbcharlen s a = mbcharlen s (handler s) a"

definition my_mbcharlen_2 :: "'h charset_info \<Rightarrow> 32 word \<Rightarrow> 32 word \<Rightarrow> 32 word" where
  "my_mbcharlen_2 s a b = mbcharlen s (handler s) (push_bit 8 (a AND 0xFF) + (b AND 0xFF))"

definition my_mbmaxlenlen :: "'h charset_info \<Rightarrow> 32 word" where
  "my_mbmaxlenlen s = mbmaxlenlen s"

definition my_ismb1st :: "'h charset_info \<Rightarrow> 32 word \<Rightarrow> bool" where
  "my_ismb1st s i \<longleftrightarrow> my_mbcharlen s i > 1 \<or> my_mbmaxlenlen s = 2 \<and> my_mbcharlen s i = 0"

section \<open>Flags of \<open>strxfrm\<close>\<close>

definition MY_STRXFRM_LEVEL1 :: "32 word" where "MY_STRXFRM_LEVEL1 = 0x00000001"
definition MY_STRXFRM_LEVEL2 :: "32 word" where "MY_STRXFRM_LEVEL2 = 0x00000002"
definition MY_STRXFRM_LEVEL3 :: "32 word" where "MY_STRXFRM_LEVEL3 = 0x00000004"
definition MY_STRXFRM_LEVEL4 :: "32 word" where "MY_STRXFRM_LEVEL4 = 0x00000008"
definition MY_STRXFRM_LEVEL5 :: "32 word" where "MY_STRXFRM_LEVEL5 = 0x00000010"
definition MY_STRXFRM_LEVEL6 :: "32 word" where "MY_STRXFRM_LEVEL6 = 0x00000020"
definition MY_STRXFRM_LEVEL_ALL :: "32 word" where "MY_STRXFRM_LEVEL_ALL = 0x0000003F"
definition MY_STRXFRM_DESC_LEVEL1 :: "32 word" where "MY_STRXFRM_DESC_LEVEL1 = 0x00000100"
definition MY_STRXFRM_DESC_LEVEL2 :: "32 word" where "MY_STRXFRM_DESC_LEVEL2 = 0x00000200"
definition MY_STRXFRM_DESC_LEVEL3 :: "32 word" where "MY_STRXFRM_DESC_LEVEL3 = 0x00000300"
definition MY_STRXFRM_DESC_LEVEL4 :: "32 word" where "MY_STRXFRM_DESC_LEVEL4 = 0x00000800"
definition MY_STRXFRM_DESC_LEVEL5 :: "32 word" where "MY_STRXFRM_DESC_LEVEL5 = 0x00001000"
definition MY_STRXFRM_DESC_LEVEL6 :: "32 word" where "MY_STRXFRM_DESC_LEVEL6 = 0x00002000"
definition MY_STRXFRM_DESC_SHIFT :: nat where "MY_STRXFRM_DESC_SHIFT = 8"

lemmas level_flags = MY_STRXFRM_LEVEL1_def MY_STRXFRM_LEVEL2_def MY_STRXFRM_LEVEL3_def MY_STRXFRM_LEVEL4_def
  MY_STRXFRM_LEVEL5_def MY_STRXFRM_LEVEL6_def MY_STRXFRM_LEVEL_ALL_def

lemmas desc_flags = MY_STRXFRM_DESC_LEVEL1_def MY_STRXFRM_DESC_LEVEL2_def MY_STRXFRM_DESC_LEVEL3_def MY_STRXFRM_DESC_LEVEL4_def
  MY_STRXFRM_DESC_LEVEL5_def MY_STRXFRM_DESC_LEVEL6_def MY_STRXFRM_DESC_SHIFT_def

section \<open>Facts\<close>

text \<open>Whatever \<open>int\<close> is asked for, also the end of a file and a negative \<open>char\<close>, a table of 257 entries is enough.\<close>

lemma in_class_table:
  assumes "length (ctype s) = 257"
  shows "in_class m s c = Inr (ctype s ! (1 + unat (uchar c)) AND m)"
proof -
  have "unat (uchar c) < 2 ^ 8" using unsigned_less [of "uchar c"] by simp
  with assms show ?thesis by (simp add: in_class_def at_byte_def)
qed

lemma and_or_zero: "(t :: byte) AND (m OR n) = 0 \<longleftrightarrow> t AND m = 0 \<and> t AND n = 0"
  by (auto simp: bit_eq_iff bit_simps)

text \<open>The classes that combine others are the unions of these, and a byte of a name is a letter, a digit or an
  underscore; the table needs 257 entries.\<close>

lemma classes_combine:
  fixes s :: "'h charset_info"
  defines "has \<equiv> \<lambda>(f :: 'h charset_info \<Rightarrow> 32 word \<Rightarrow> byte res) c. \<exists>v. f s c = Inr v \<and> v \<noteq> 0"
  assumes "length (ctype s) = 257"
  shows "has my_isalpha c \<longleftrightarrow> has my_isupper c \<or> has my_islower c"
    and "has my_isalnum c \<longleftrightarrow> has my_isalpha c \<or> has my_isdigit c"
    and "has my_isgraph c \<longleftrightarrow> has my_isalnum c \<or> has my_ispunct c"
    and "has my_isprint c \<longleftrightarrow> has my_isgraph c \<or> (\<exists>v. in_class MY_B s c = Inr v \<and> v \<noteq> 0)"
    and "my_isvar s c = Inr (has my_isalnum c \<or> c = 95)"
    and "my_isvar_start s c = Inr (has my_isalpha c \<or> c = 95)"
  by (auto simp: has_def class_defs my_isvar_def my_isvar_start_def in_class_table [OF assms(2)] and_or_zero)

text \<open>The flags for a descending order are those of the levels, shifted, except for the third, which stands for the first two:
  an order that is descending on the third level is taken for one that is on the first and second.\<close>

lemma desc_levels:
  "MY_STRXFRM_DESC_LEVEL1 = push_bit MY_STRXFRM_DESC_SHIFT MY_STRXFRM_LEVEL1"
  "MY_STRXFRM_DESC_LEVEL2 = push_bit MY_STRXFRM_DESC_SHIFT MY_STRXFRM_LEVEL2"
  "MY_STRXFRM_DESC_LEVEL4 = push_bit MY_STRXFRM_DESC_SHIFT MY_STRXFRM_LEVEL4"
  "MY_STRXFRM_DESC_LEVEL5 = push_bit MY_STRXFRM_DESC_SHIFT MY_STRXFRM_LEVEL5"
  "MY_STRXFRM_DESC_LEVEL6 = push_bit MY_STRXFRM_DESC_SHIFT MY_STRXFRM_LEVEL6"
  "MY_STRXFRM_DESC_LEVEL3 \<noteq> push_bit MY_STRXFRM_DESC_SHIFT MY_STRXFRM_LEVEL3"
  "MY_STRXFRM_DESC_LEVEL3 = MY_STRXFRM_DESC_LEVEL1 OR MY_STRXFRM_DESC_LEVEL2"
  by (simp_all add: level_flags desc_flags)

end
