(* ===== verification/Mysql_Util.thy ===== *)
theory Mysql_Util
  imports Mym_Prelude "HOL-Library.Signed_Division"
begin

unbundle bit_operations_syntax

text \<open>
  Small routines of \<open>my_global.h\<close> and \<open>my_sys.h\<close>: rounding up to an alignment, the text of an error of the dynamic linker on
  Windows, and \<open>my_sleep\<close>.
\<close>

section \<open>Alignment\<close>

definition MY_ALIGN :: "'a::len word \<Rightarrow> 'a word \<Rightarrow> 'a word" where
  "MY_ALIGN A L = (A + L - 1) AND NOT (L - 1)"

text \<open>\<open>sizeof(double)\<close> is 8.\<close>

definition ALIGN_SIZE :: "'a::len word \<Rightarrow> 'a word" where
  "ALIGN_SIZE A = MY_ALIGN A 8"

lemma and_not_mask_unat: "unat ((x :: 'a::len word) AND NOT (mask k)) = unat x div 2 ^ k * 2 ^ k"
proof -
  have "x AND NOT (mask k) = push_bit k (drop_bit k x)"
    by (rule bit_word_eqI) (auto simp: bit_simps)
  then have "unat (x AND NOT (mask k)) = take_bit LENGTH('a) (push_bit k (drop_bit k (unat x)))"
    by (simp only: unsigned_push_bit_eq unsigned_drop_bit_eq) (simp add: take_bit_nat_eq_self)
  also have "push_bit k (drop_bit k (unat x)) = unat x div 2 ^ k * 2 ^ k"
    by (simp only: push_bit_eq_mult drop_bit_eq_div)
  also have "take_bit LENGTH('a) (unat x div 2 ^ k * 2 ^ k) = unat x div 2 ^ k * 2 ^ k"
  proof (rule take_bit_nat_eq_self)
    have "unat x div 2 ^ k * 2 ^ k \<le> unat x" by simp
    also have "\<dots> < 2 ^ LENGTH('a)" by (rule unsigned_less)
    finally show "unat x div 2 ^ k * 2 ^ k < 2 ^ LENGTH('a)" .
  qed
  finally show ?thesis .
qed

text \<open>\<open>MY_ALIGN\<close> rounds up to the next multiple of an alignment that is a power of two, unless that does not fit in the
  type: a multiple that is not smaller than the value, and the least one.\<close>

theorem align_least_multiple:
  fixes A :: "'a::len word"
  assumes "unat A + 2 ^ k \<le> 2 ^ LENGTH('a)"
  shows "2 ^ k dvd unat (MY_ALIGN A (2 ^ k)) \<and> unat A \<le> unat (MY_ALIGN A (2 ^ k)) \<and>
    (\<forall>m. 2 ^ k dvd m \<longrightarrow> unat A \<le> m \<longrightarrow> unat (MY_ALIGN A (2 ^ k)) \<le> m)"
proof -
  let ?n = "unat A + (2 ^ k - 1)"
  have "?n < 2 ^ LENGTH('a)" using assms zero_less_power [of "2 :: nat" k] by linarith
  have "(2 :: 'a word) ^ k - 1 = mask k" by (simp add: mask_eq_exp_minus_1)
  then have "A + 2 ^ k - 1 = A + mask k" by (simp add: algebra_simps)
  moreover have "(2 ^ k - 1 :: 'a word) = word_of_nat (2 ^ k - 1)" by (subst of_nat_diff) simp_all
  then have "A + mask k = word_of_nat ?n" by (simp only: mask_eq_exp_minus_1 of_nat_add of_nat_unat ucast_id)
  ultimately have "unat (A + 2 ^ k - 1) = ?n" using \<open>?n < 2 ^ LENGTH('a)\<close> by (simp add: unat_of_nat del: of_nat_add)
  then have u: "unat (MY_ALIGN A (2 ^ k)) = ?n div 2 ^ k * 2 ^ k"
    by (simp add: MY_ALIGN_def \<open>2 ^ k - 1 = mask k\<close> and_not_mask_unat)
  have "unat A \<le> ?n div 2 ^ k * 2 ^ k"
    using div_mult_mod_eq [of ?n "2 ^ k"] mod_less_divisor [of "2 ^ k" ?n] zero_less_power [of "2 :: nat" k] by linarith
  moreover have "?n div 2 ^ k * 2 ^ k \<le> m" if "2 ^ k dvd m" "unat A \<le> m" for m
  proof -
    obtain q where q: "m = 2 ^ k * q" using \<open>2 ^ k dvd m\<close> by (rule dvdE)
    have "?n < unat A + 2 ^ k" using zero_less_power [of "2 :: nat" k] by linarith
    also have "\<dots> \<le> Suc q * 2 ^ k" using that q by (simp add: mult.commute)
    finally have "?n < Suc q * 2 ^ k" .
    then have "?n div 2 ^ k < Suc q" by (subst div_less_iff_less_mult) simp_all
    then show ?thesis by (simp add: q)
  qed
  ultimately show ?thesis by (simp add: u)
qed

theorem align_least_multiple_13:
  "8 dvd unat (ALIGN_SIZE (13 :: 32 word)) \<and> unat (ALIGN_SIZE (13 :: 32 word)) \<ge> 13"
  using align_least_multiple [of "13 :: 32 word" 3] by (simp add: ALIGN_SIZE_def)

section \<open>Errors of the dynamic linker\<close>

text \<open>The literal of the source as the compiler reads it: an octal escape ends the string before the \<open>x20\<close>.\<close>

definition blanks_literal :: "byte list" where
  "blanks_literal = [13, 10, 9, 0, 0x78, 0x32, 0x30, 0]"

fun strchr :: "byte list \<Rightarrow> byte \<Rightarrow> bool" where
  "strchr [] c = False"
| "strchr (b # bs) c = (b = c \<or> b \<noteq> 0 \<and> strchr bs c)"

text \<open>The loop, with the position behind \<open>ptr\<close>.\<close>

fun trim_loop :: "byte list \<Rightarrow> nat \<Rightarrow> byte list" where
  "trim_loop buf 0 = buf"
| "trim_loop buf (Suc p) = (if strchr blanks_literal (buf ! p) then trim_loop (buf[p := 0]) p else buf)"

definition c_text :: "byte list \<Rightarrow> byte list" where
  "c_text buf = takeWhile (\<lambda>b. b \<noteq> 0) buf"

text \<open>\<open>FormatMessage\<close> returns the message, which it has stored with a NUL, or fails.\<close>

definition DLERROR_GENERATE :: "byte list option \<Rightarrow> byte list" where
  "DLERROR_GENERATE format_message = (case format_message of
     Some msg \<Rightarrow> c_text (trim_loop (msg @ [0]) (length msg))
   | None \<Rightarrow> [])"

lemma strchr_blanks: "strchr blanks_literal b \<longleftrightarrow> b \<in> {0, 9, 10, 13}"
  by (auto simp: blanks_literal_def)

lemma c_text_append: "0 \<notin> set m \<Longrightarrow> c_text (m @ 0 # z) = m"
  by (induction m) (simp_all add: c_text_def)

lemma trim_loop_message:
  "0 \<notin> set m \<Longrightarrow> c_text (trim_loop (m @ 0 # z) (length m)) = rev (dropWhile (\<lambda>b. b \<in> {9, 10, 13}) (rev m))"
proof (induction m arbitrary: z rule: rev_induct)
  case (snoc b m)
  have "(m @ [b]) @ 0 # z = m @ b # 0 # z" "(m @ b # 0 # z)[length m := 0] = m @ 0 # 0 # z" by simp_all
  with snoc.IH [of "0 # z"] snoc.prems c_text_append [of "m @ [b]" z] show ?case by (auto simp: strchr_blanks)
qed (simp add: c_text_def)

text \<open>The error message loses the line ends and tabs at its end, and nothing else: blanks before them stay, which the code
  means to remove too, with an escape that ends its string.\<close>

theorem dlerror_trims:
  assumes "0 \<notin> set msg"
  shows "DLERROR_GENERATE (Some msg) = rev (dropWhile (\<lambda>b. b \<in> {9, 10, 13}) (rev msg))"
    and "DLERROR_GENERATE (Some (msg @ [32, 13, 10])) = msg @ [32]"
  using trim_loop_message [of msg "[]"] trim_loop_message [of "msg @ [32, 13, 10]" "[]"] assms by (simp_all add: DLERROR_GENERATE_def)

section \<open>Waiting\<close>

datatype sleep_call = Sleep "32 word" | Select_timeval int int

text \<open>\<open>time_t\<close> has 64 bits. The cast to \<open>DWORD\<close> comes before the division.\<close>

definition my_sleep :: "bool \<Rightarrow> 64 word \<Rightarrow> sleep_call" where
  "my_sleep win m_seconds = (if win then Sleep (ucast m_seconds div 1000 + 1)
     else Select_timeval (sint m_seconds sdiv 1000000) (sint m_seconds smod 1000000))"

text \<open>The microseconds that a call waits for.\<close>

fun waits_for :: "sleep_call \<Rightarrow> int" where
  "waits_for (Sleep ms) = 1000 * uint ms"
| "waits_for (Select_timeval s us) = 1000000 * s + us"

lemma sint_small: "unat (m :: 64 word) < 2 ^ 63 \<Longrightarrow> sint m = int (unat m)"
proof -
  assume "unat m < 2 ^ 63"
  then have "uint m < 2 ^ 63" by (metis of_nat_less_iff of_nat_numeral of_nat_power uint_nat)
  moreover have "- (2 ^ 63) \<le> uint m" by (rule order.trans [OF _ uint_ge_0]) simp
  ultimately have "signed_take_bit 63 (uint m) = uint m" by (intro signed_take_bit_int_eq_self)
  then show ?thesis by (simp add: sint_uint)
qed

lemma wait_bounds: "n < 2 ^ 32 \<Longrightarrow> int n < int (1000 * (n mod 2 ^ 32 div 1000 + 1)) \<and> int (1000 * (n mod 2 ^ 32 div 1000 + 1)) \<le> int n + 1000"
  by simp linarith

text \<open>\<open>my_sleep\<close> waits for the microseconds asked for: exactly on POSIX, up to a millisecond longer on Windows, for less than
  2^32 microseconds there. From then on, an hour and twelve minutes, the wait starts from 0 again.\<close>

theorem sleep_long_enough:
  assumes "unat m < 2 ^ 63"
  shows "waits_for (my_sleep False m) = int (unat m)"
    and "waits_for (my_sleep True m) = int (1000 * (unat m mod 2 ^ 32 div 1000 + 1))"
    and "unat m < 2 ^ 32 \<Longrightarrow> int (unat m) < waits_for (my_sleep True m) \<and> waits_for (my_sleep True m) \<le> int (unat m) + 1000"
    and "waits_for (my_sleep True 0x100000000) = 1000"
proof -
  show "waits_for (my_sleep False m) = int (unat m)"
    by (simp add: my_sleep_def sint_small [OF assms] mult_sdiv_smod_eq)
  have u: "unat (ucast m :: 32 word) = unat m mod 2 ^ 32" by (simp add: unsigned_ucast_eq take_bit_eq_mod)
  have "unat (ucast m div 1000 + 1 :: 32 word) = unat m mod 2 ^ 32 div 1000 + 1"
  proof -
    have "unat (ucast m div 1000 :: 32 word) = unat m mod 2 ^ 32 div 1000" by (simp add: unat_div u)
    moreover have "unat m mod 2 ^ 32 div 1000 + 1 < 2 ^ 32" by (simp add: div_less_iff_less_mult less_mult_imp_div_less)
    ultimately show ?thesis by (simp add: unat_word_ariths)
  qed
  then have w: "uint (ucast m div 1000 + 1 :: 32 word) = int (unat m mod 2 ^ 32 div 1000 + 1)" by (simp only: uint_nat)
  then show t: "waits_for (my_sleep True m) = int (1000 * (unat m mod 2 ^ 32 div 1000 + 1))" by (simp add: my_sleep_def)
  show "unat m < 2 ^ 32 \<Longrightarrow> int (unat m) < waits_for (my_sleep True m) \<and> waits_for (my_sleep True m) \<le> int (unat m) + 1000"
    unfolding t by (rule wait_bounds)
  show "waits_for (my_sleep True 0x100000000) = 1000" by (simp add: my_sleep_def)
qed

end
