(* ===== verification/Mysql_Client.thy ===== *)
theory Mysql_Client
  imports Mysql_Calls
begin

unbundle bit_operations_syntax

text \<open>
  Small macros and functions of the client library's own headers: commands and the extension of a connection
  (\<open>sql_common.h\<close>), packet numbers and types of session state (\<open>mysql_com.h\<close>), the size of the text
  of a decimal (\<open>decimal.h\<close>), and memory (\<open>my_sys.h\<close>). The functions that they call are only declared: they are calls in the
  trees of \<open>Mysql_Calls\<close>, here all of them calls of the system.
\<close>

section \<open>Connections\<close>

type_synonym ('s, 'r) calls_of = "(unit, 's, nat, 'r) code"

datatype client_call =
    advanced_command ptr nat "byte list" "byte list" bool ptr
  | set_mysql_error ptr nat string
  | mysql_extension_init ptr
  | strdup_root ptr "byte list"
  | alloca nat | my_malloc nat | my_free ptr

record connection =
  self :: ptr
  methods :: bool
  extension :: ptr
  server_capabilities :: "32 word"

definition CR_COMMANDS_OUT_OF_SYNC :: nat where "CR_COMMANDS_OUT_OF_SYNC = 2014"
definition CLIENT_PROTOCOL_41 :: "32 word" where "CLIENT_PROTOCOL_41 = 512"

text \<open>\<open>unknown_sqlstate\<close>, a variable of the library, is a parameter; a null pointer is 0.\<close>

definition simple_command :: "string \<Rightarrow> connection \<Rightarrow> nat \<Rightarrow> byte list \<Rightarrow> bool \<Rightarrow> (client_call, nat) calls_of" where
  "simple_command unknown_sqlstate m command arg skip_check = (if methods m
     then sys (advanced_command (self m) command [] arg skip_check 0)
     else Sys (set_mysql_error (self m) CR_COMMANDS_OUT_OF_SYNC unknown_sqlstate) (\<lambda>_. Return 1))"

definition stmt_command :: "string \<Rightarrow> connection \<Rightarrow> nat \<Rightarrow> byte list \<Rightarrow> ptr \<Rightarrow> (client_call, nat) calls_of" where
  "stmt_command unknown_sqlstate m command arg stmt = (if methods m
     then sys (advanced_command (self m) command [] arg True stmt)
     else Sys (set_mysql_error (self m) CR_COMMANDS_OUT_OF_SYNC unknown_sqlstate) (\<lambda>_. Return 1))"

definition MYSQL_EXTENSION_PTR :: "connection \<Rightarrow> (client_call, ptr \<times> connection) calls_of" where
  "MYSQL_EXTENSION_PTR H = (if extension H \<noteq> 0 then Return (extension H, H)
     else Sys (mysql_extension_init (self H)) (\<lambda>p. Return (p, H\<lparr>extension := p\<rparr>)))"

definition protocol_41 :: "connection \<Rightarrow> 32 word" where
  "protocol_41 A = (server_capabilities A AND CLIENT_PROTOCOL_41)"

record net = pkt_nr :: "32 word"

definition net_new_transaction :: "net \<Rightarrow> net" where
  "net_new_transaction n = n\<lparr>pkt_nr := 0\<rparr>"

definition SESSION_TRACK_BEGIN :: int where "SESSION_TRACK_BEGIN = 0"
definition SESSION_TRACK_END :: int where "SESSION_TRACK_END = 5"

definition IS_SESSION_STATE_TYPE :: "int \<Rightarrow> bool" where
  "IS_SESSION_STATE_TYPE T \<longleftrightarrow> SESSION_TRACK_BEGIN \<le> T \<and> T \<le> SESSION_TRACK_END"

section \<open>Decimals\<close>

record decimal_t =
  intg :: int
  frac :: int
  sign :: bool
  buf :: "32 word list"

definition decimal_make_zero :: "decimal_t \<Rightarrow> decimal_t res" where
  "decimal_make_zero dec = (if buf dec = [] then undefined_behaviour Write_out_of_bounds
     else Inr (dec\<lparr>buf := (buf dec)[0 := 0], intg := 1, frac := 0, sign := False\<rparr>))"

definition decimal_string_size :: "decimal_t \<Rightarrow> int" where
  "decimal_string_size dec = (if intg dec \<noteq> 0 then intg dec else 1) + frac dec + of_bool (frac dec > 0) + 2"

section \<open>Memory\<close>

record dynamic_array =
  elements :: "32 word"
  max_element :: "32 word"

definition reset_dynamic :: "dynamic_array \<Rightarrow> dynamic_array" where
  "reset_dynamic a = a\<lparr>elements := 0\<rparr>"

record mem_root =
  free :: ptr
  used :: ptr
  pre_alloc :: ptr
  min_malloc :: nat

definition alloc_root_inited :: "mem_root \<Rightarrow> bool" where
  "alloc_root_inited A \<longleftrightarrow> min_malloc A \<noteq> 0"

definition clear_alloc_root :: "mem_root \<Rightarrow> mem_root" where
  "clear_alloc_root A = A\<lparr>free := 0, used := 0, pre_alloc := 0, min_malloc := 0\<rparr>"

definition safe_strdup_root :: "ptr \<Rightarrow> byte list option \<Rightarrow> (client_call, ptr) calls_of" where
  "safe_strdup_root root str = (case str of Some s \<Rightarrow> sys (strdup_root root s) | None \<Rightarrow> Return 0)"

definition my_safe_alloca :: "nat \<Rightarrow> nat \<Rightarrow> (client_call, ptr) calls_of" where
  "my_safe_alloca sz max_alloca_sz = (if sz \<le> max_alloca_sz then sys (alloca sz) else sys (my_malloc sz))"

definition my_safe_afree :: "ptr \<Rightarrow> nat \<Rightarrow> nat \<Rightarrow> (client_call, unit) calls_of" where
  "my_safe_afree p sz max_alloca_sz = (if sz > max_alloca_sz then Sys (my_free p) (\<lambda>_. Return ()) else Return ())"

section \<open>Facts\<close>

text \<open>A monitor of the heap: \<open>my_free\<close> gets a block that \<open>my_malloc\<close> gave and that was not freed since. A block that
  is given is not NULL and not in use.\<close>

fun heap_monitor :: "(unit, client_call, nat, ptr list) monitor" where
  "heap_monitor m (Did (my_malloc n) p) = (if p = 0 \<or> p \<in> set m then Ruled_Out else Next (p # m))"
| "heap_monitor m (Did (my_free p) a) = (if p \<in> set m then Next (remove1 p m) else Wrong)"
| "heap_monitor m e = Next m"

text \<open>Memory taken by \<open>my_safe_alloca\<close> and given back with the same sizes: what came from the heap goes back to it, what came from
  the stack does not, and nothing is lost, also when the program between uses such memory itself.\<close>

lemma safe_alloca_balanced:
  assumes "\<And>p m. obeys heap_monitor (c p) (\<lambda>r m'. m' = m) m"
  shows "obeys heap_monitor (bindC (my_safe_alloca n k) (\<lambda>p. bindC (c p) (\<lambda>r. bindC (my_safe_afree p n k) (\<lambda>_. Return r))))
    (\<lambda>r m'. m' = m) m"
proof -
  have "obeys heap_monitor (bindC (c p) (\<lambda>r. Sys (my_free p) (\<lambda>_. Return r))) (\<lambda>r m'. m' = m) (p # m)" for p
    unfolding obeys_bind by (rule obeys_mono [OF assms]) simp
  moreover have "obeys heap_monitor (c p) (\<lambda>r m'. m' = m) m" for p by (rule assms)
  ultimately show ?thesis by (simp add: my_safe_alloca_def my_safe_afree_def)
qed

text \<open>The extension of a connection is made once: the second use finds what the first has stored, if it was not NULL.\<close>

lemma extension_once:
  "bindC (MYSQL_EXTENSION_PTR H) (\<lambda>(p, H'). bindC (MYSQL_EXTENSION_PTR H') (\<lambda>(q, H''). Return (p, q, H''))) =
   (if extension H \<noteq> 0 then Return (extension H, extension H, H)
    else Sys (mysql_extension_init (self H)) (\<lambda>p. let H' = H\<lparr>extension := p\<rparr> in
      if p \<noteq> 0 then Return (p, p, H') else Sys (mysql_extension_init (self H)) (\<lambda>q. Return (0, q, H\<lparr>extension := q\<rparr>))))"
  by (auto simp: MYSQL_EXTENSION_PTR_def Let_def fun_eq_iff)

text \<open>The text of a decimal: a sign, the digits before the point or a zero, and a point with the digits behind it if there
  are any. It fits in the buffer with its end.\<close>

definition decimal_text :: "bool \<Rightarrow> string \<Rightarrow> string \<Rightarrow> string" where
  "decimal_text negative ds fs = (if negative then ''-'' else []) @ (if ds = [] then ''0'' else ds) @ (if fs = [] then [] else CHR 0x2E # fs)"

lemma decimal_text_fits:
  assumes "length ds = nat (intg dec)" "length fs = nat (frac dec)" "0 \<le> intg dec" "0 \<le> frac dec"
  shows "int (length (decimal_text (sign dec) ds fs)) + 1 \<le> decimal_string_size dec"
    and "sign dec \<Longrightarrow> int (length (decimal_text (sign dec) ds fs)) + 1 = decimal_string_size dec"
  using assms by (auto simp: decimal_text_def decimal_string_size_def)

end
