(* ===== verification/Mym_Store.thy ===== *)
theory Mym_Store
  imports Mym_Behaviour
begin

text \<open>
  Calls in sequence: values written by {M} placeholders of one query and read back by another one. What the server does with
  the two queries is a hypothesis on the client library, \<open>blob_table\<close>; everything between the values and the text of the queries,
  and between the result sets and the values, is the model of \<open>mexFunction\<close>. The abstract store is a list of values.
\<close>

section \<open>The table\<close>

text \<open>A table with one column of binary blobs, as SQL promises it: the query \<open>pre\<close>, an escaped text, \<open>post\<close> adds a row with the
  text, and the query \<open>sel\<close> returns the rows. \<open>rows\<close> is what the table has in a state of the world; a cell of the
  client library has a NUL behind its bytes.\<close>

definition row_of :: "byte list \<Rightarrow> cell list" where
  "row_of b = [(Some (b @ [0]), length b)]"

definition rows_result :: "mysql_field \<Rightarrow> byte list list \<Rightarrow> mysql_res" where
  "rows_result f bs = \<lparr>r_fields = [f], r_nrow = length bs, r_rows = map row_of bs\<rparr>"

text \<open>What a query that is sent leads to: whether it fails, the result set, and the world behind it.\<close>

definition outcome_of :: "'w client \<Rightarrow> handle \<Rightarrow> bool \<Rightarrow> byte list \<Rightarrow> 'w \<Rightarrow> bool \<times> mysql_res option \<times> 'w" where
  "outcome_of C h real q w = (let sent = mysql_send C h real q w in (fst sent, mysql_store_result C h (snd sent)))"

definition blob_table ::
  "'w client \<Rightarrow> handle \<Rightarrow> byte list \<Rightarrow> byte list \<Rightarrow> byte list \<Rightarrow> mysql_field \<Rightarrow> ('w \<Rightarrow> byte list list) \<Rightarrow> bool" where
  "blob_table C h pre post sel f rows \<longleftrightarrow> blob_field f
   \<and> (\<forall>w. escape_api (mysql_real_escape_string C h w))
   \<and> (\<forall>w. \<not> fst (mysql_ping C h w) \<and> rows (snd (mysql_ping C h w)) = rows w)
   \<and> (\<forall>w b. \<exists>w2. outcome_of C h True (pre @ mysql_real_escape_string C h w b @ post) w = (False, None, w2)
        \<and> mysql_field_count C h w2 = 0 \<and> rows w2 = rows w @ [b])
   \<and> (\<forall>w. \<exists>w2. outcome_of C h False sel w = (False, Some (rows_result f (rows w)), w2) \<and> rows w2 = rows w)"

lemma blob_tableD:
  assumes "blob_table C h pre post sel f rows"
  shows "blob_field f" "escape_api (mysql_real_escape_string C h w)"
    and "\<not> fst (mysql_ping C h w)" "rows (snd (mysql_ping C h w)) = rows w"
    and "\<exists>w2. outcome_of C h True (pre @ mysql_real_escape_string C h w b @ post) w = (False, None, w2)
      \<and> mysql_field_count C h w2 = 0 \<and> rows w2 = rows w @ [b]"
    and "\<exists>w2. outcome_of C h False sel w = (False, Some (rows_result f (rows w)), w2) \<and> rows w2 = rows w"
  using assms unfolding blob_table_def by blast+

section \<open>The query with one {M}\<close>

text \<open>A text argument may be a flag, so it is read as one first, which can fail.\<close>

definition readable :: "host \<Rightarrow> mxArray \<Rightarrow> bool" where
  "readable H a \<longleftrightarrow> mxIsChar a \<longrightarrow> (\<exists>t. getstring H a = Inr t)"

text \<open>The text in front of the placeholder: long enough to tell that the query is no CREATE or ALTER.\<close>

definition query_start :: "byte list \<Rightarrow> bool" where
  "query_start pre \<longleftrightarrow> no_nul pre \<and> 123 \<notin> set pre \<and> 6 \<le> length pre \<and> \<not> isspace (hd pre) \<and> \<not> create_or_alter pre"

lemma create_or_alter_append: "6 \<le> length pre \<Longrightarrow> create_or_alter (pre @ x) = create_or_alter pre"
proof -
  assume "6 \<le> length pre"
  then have "isSubstringFountAtTheBeginningCaseInsenstive (pre @ x) (bytes_of l) =
      isSubstringFountAtTheBeginningCaseInsenstive pre (bytes_of l)" if "no_nul (bytes_of l)" "length l \<le> 6" for l
    using that by (simp add: prefix_ci bytes_of_def)
  from this [of "''CREATE''"] this [of "''ALTER''"] show ?thesis by (simp add: create_or_alter_def no_nul_def bytes_of_def)
qed

lemma count_one_flag:
  assumes "readable H a"
  shows "\<exists>n flag. count_flags E H [a] = Inr n \<and> n \<le> 1 \<and> process_flags E H (drop (1 - n) [a]) = Inr flag"
proof (cases "mxIsChar a")
  case False
  then show ?thesis by (intro exI [of _ 0] exI [of _ False]) simp
next
  case True
  with assms obtain t where t: "getstring H a = Inr t" by (auto simp: readable_def)
  then have "is_flag E H a = Inr (strcasecmp_words (on_windows E) t ML_FLAG_BIGINT_TO_DOUBLE)" by (simp add: is_flag_def)
  with True show ?thesis
    by (cases "strcasecmp_words (on_windows E) t ML_FLAG_BIGINT_TO_DOUBLE")
      (auto intro: exI [of _ "0 :: nat"] exI [of _ "Suc 0"])
qed

lemma prepare_M:
  assumes esc: "escape_api esc" and Z: "zlib_api Z" and a: "plain_value E a" "readable H a"
    and pre: "query_start pre" and post: "no_nul post"
  obtains blob flag where "prepare E H Z esc (query_text [(pre, [PH_MATLAB])] post) [a] =
      Inr \<lparr>sql = pre @ esc blob @ post, real_query = True, bigint_to_double = flag\<rparr>" "blob_for E Z a blob"
proof -
  let ?ps = "[(pre, [PH_MATLAB])]" let ?q = "query_text ?ps post"
  obtain n flag where n: "count_flags E H (rev [a]) = Inr n" "n \<le> 1" "process_flags E H (drop (1 - n) [a]) = Inr flag"
    using count_one_flag [OF a(2), of E] by auto
  have M: "(125 :: byte) \<noteq> PH_MATLAB" by (simp add: ph_values)
  have pos: "find_placeholders not_closed ?q 1 0 = Inr (positions 0 ?ps)"
    using find_placeholders_parts [of ?ps post 1 not_closed "[]"] pre M by (simp add: query_start_def)
  have "list_all (\<lambda>a. mx_ok E a \<and> \<not> mxIsSparse a) [a]" using a(1) by (simp add: plain_value_def storable_def)
  then obtain phs where phs: "read_placeholders ?q (positions 0 ?ps) [a] = Inr phs"
      "list_all2 (\<lambda>ph a. ph_pec ph \<and> (\<forall>H. run_serial E H (ph_pf ph) a (ph_pa ph) = Inr (stored E a))) phs [a]"
    using read_all_M [of ?ps E "[a]" "[]" post] by (auto simp: all_M_def)
  obtain blob where blob: "serialize_fields_of E H Z compression_failed cmp_buf_len0 phs [a] = Inr [blob]" "blob_for E Z a blob"
    using serialize_all_M [OF Z phs(2), of H compression_failed cmp_buf_len0] a(1) by (auto simp: list_all2_Cons1)
  have nn: "no_nul ?q" using pre post by (simp add: query_start_def no_nul_def ph_values)
  have "bindE (new_query esc ?q phs [blob]) cstr = Inr (expanded esc ?q 0 phs [blob])"
    using new_query_fits [OF esc nn pos _ phs(1) blob(1)] by simp
  moreover have "expanded esc ?q 0 phs [blob] = pre @ esc blob @ post"
    using phs(1) by (auto simp: read_placeholder_def ph_values bindE_eq_Inr)
  ultimately have new: "bindE (new_query esc ?q phs [blob]) cstr = Inr (pre @ esc blob @ post)" by simp
  have "adjust_flags 1 1 n = Inr n" by (simp add: adjust_flags_def)
  with n pos phs blob new have sub: "substitute E H Z esc ?q [a] = Inr (1, n, pre @ esc blob @ post)"
    by (auto simp: substitute_def Let_def bindE_def split: sum.splits)
  have "pre \<noteq> []" using pre by (auto simp: query_start_def)
  then have "hd (pre @ esc blob @ post) = hd pre" by (rule hd_append2)
  moreover note \<open>pre \<noteq> []\<close>
  moreover have "\<not> create_or_alter (pre @ esc blob @ post)" using pre by (simp add: query_start_def create_or_alter_append)
  ultimately have "prepare E H Z esc ?q [a] = Inr \<lparr>sql = pre @ esc blob @ post, real_query = True, bigint_to_double = flag\<rparr>"
    using sub n(3) pre by (simp add: prepare_def strlen_after_removal brackets_def query_start_def)
  then show ?thesis using that blob(2) by blast
qed

section \<open>One call\<close>

text \<open>A query string that is sent to the server.\<close>

definition query_arg :: "'w setting \<Rightarrow> mxArray \<Rightarrow> byte list \<Rightarrow> bool" where
  "query_arg S q query \<longleftrightarrow> mxIsChar q \<and> getstring (s_host S) q = Inr query \<and> querytype_of (s_env S) query = CMD"

lemma char_not_numeric: "mxIsChar q \<Longrightarrow> \<not> mxIsNumeric q"
  by (auto simp: mxIsNumeric_def mxIsClass_def numeric_class_def)

lemma mexFunction_query:
  assumes "query_arg S q query"
  shows "mexFunction S nlhs (q # args) s = mysql_command S nlhs (q # args) 0 query 0 s"
  using assms char_not_numeric [of q]
  by (simp add: query_arg_def mexFunction_def parse_id_def parse_command_def check_strings_def resolve_id_def run_command_def
      prog_simps bindE_def)

text \<open>The table holds the values: connection 0 is open, and every row reads back as its value.\<close>

definition holds :: "'w setting \<Rightarrow> handle \<Rightarrow> ('w \<Rightarrow> byte list list) \<Rightarrow> mxArray list \<Rightarrow> 'w mex \<Rightarrow> bool" where
  "holds S h rows vs s \<longleftrightarrow> 0 < length (slots s) \<and> isopen (slots s ! 0) \<and> conn (slots s ! 0) = Some h
     \<and> list_all2 (blob_for (s_env S) (s_zlib S)) vs (rows (world s))"

lemma live_connection_ok:
  assumes "holds S h rows vs s" "\<not> fst (mysql_ping (s_client S) h (world s))"
  shows "bindS (live_connection S 0) g s = g h (s\<lparr>world := snd (mysql_ping (s_client S) h (world s))\<rparr>)"
  using assms by (simp add: holds_def live_connection_def handle_of_def prog_simps bindS_assoc)

lemma insert_call:
  assumes T: "blob_table (s_client S) h pre post sel f rows" and s: "holds S h rows vs s"
    and Z: "zlib_api (s_zlib S)" and q: "query_start pre" "no_nul post" "query_arg S qi (query_text [(pre, [PH_MATLAB])] post)"
    and a: "plain_value (s_env S) a" "readable (s_host S) a"
  shows "\<exists>s'. mexFunction S 0 [qi, a] s = (Inr None, s') \<and> holds S h rows (vs @ [a]) s'"
proof -
  let ?C = "s_client S" let ?w = "snd (mysql_ping ?C h (world s))" let ?esc = "mysql_real_escape_string ?C h ?w"
  obtain blob flag where p: "prepare (s_env S) (s_host S) (s_zlib S) ?esc (query_text [(pre, [PH_MATLAB])] post) [a] =
      Inr \<lparr>sql = pre @ ?esc blob @ post, real_query = True, bigint_to_double = flag\<rparr>"
      and blob: "blob_for (s_env S) (s_zlib S) a blob"
    using prepare_M [OF blob_tableD(2) [OF T] Z a q(1,2)] by blast
  obtain w2 where w2: "outcome_of ?C h True (pre @ ?esc blob @ post) ?w = (False, None, w2)"
      "mysql_field_count ?C h w2 = 0" "rows w2 = rows ?w @ [blob]"
    using blob_tableD(5) [OF T] by blast
  have "mexFunction S 0 [qi, a] s = (Inr None, s\<lparr>world := w2\<rparr>)"
    using w2(1,2) p
    by (simp add: mexFunction_query [OF q(3)] mysql_command_def live_connection_ok [OF s blob_tableD(3) [OF T]] execute_query_def
        outcome_of_def Let_def prog_simps retS_def)
  moreover have "holds S h rows (vs @ [a]) (s\<lparr>world := w2\<rparr>)"
    using s blob w2(3) blob_tableD(4) [OF T, of "world s"] by (simp add: holds_def list_all2_appendI)
  ultimately show ?thesis by blast
qed

text \<open>What a SELECT of the values returns.\<close>

definition values_struct :: "mysql_field \<Rightarrow> mxArray list \<Rightarrow> mxArray" where
  "values_struct f vs = MxStruct [1, 1] [f_name f] [Some (MxCell [word_of_nat (length vs), 1] (map (\<lambda>a. Some (canon a)) vs))]"

lemma select_call:
  assumes T: "blob_table (s_client S) h pre post sel f rows" and s: "holds S h rows vs s"
    and E: "matlab_api (s_env S)" and q: "sel = [] \<or> \<not> isspace (hd sel)" "\<not> create_or_alter sel" "query_arg S qs sel"
    and n: "length vs \<le> INT_MAX"
  shows "\<exists>s'. mexFunction S 1 [qs] s = (Inr (Some (values_struct f vs)), s') \<and> holds S h rows vs s'"
proof -
  let ?C = "s_client S" let ?w = "snd (mysql_ping ?C h (world s))"
  obtain w2 where w2: "outcome_of ?C h False sel ?w = (False, Some (rows_result f (rows ?w)), w2)" "rows w2 = rows ?w"
    using blob_tableD(6) [OF T] by blast
  let ?r = "rows_result f (rows ?w)"
  have vs: "list_all2 (blob_for (s_env S) (s_zlib S)) vs (rows ?w)"
    using s blob_tableD(4) [OF T] by (simp add: holds_def)
  then have l: "length (rows ?w) = length vs" by (simp add: list_all2_lengthD)
  have "list_all2 (\<lambda>row a. \<exists>blob tail. row ! 0 = (Some (blob @ tail), length blob) \<and> blob_for (s_env S) (s_zlib S) a blob)
      (r_rows ?r) vs"
    using vs by (force simp: rows_result_def row_of_def list_all2_map1 list_all2_conv_all_nth)
  moreover have "result_ok ?r" using n l by (auto simp: result_ok_def rows_result_def row_of_def)
  moreover have "r_fields ?r = [f]" "r_nrow ?r = length vs" using l by (simp_all add: rows_result_def)
  ultimately have "fetch_result (s_env S) (s_host S) (s_zlib S) (s_nan S) False ?r = Inr (values_struct f vs)"
    using fetch_single_blobs [OF E _ blob_tableD(1) [OF T], of ?r "s_zlib S" vs "s_host S" "s_nan S" False]
    by (simp add: values_struct_def)
  then have "mexFunction S 1 [qs] s = (Inr (Some (values_struct f vs)), s\<lparr>world := w2\<rparr>)"
    using w2(1)
    by (simp add: mexFunction_query [OF q(3)] mysql_command_def live_connection_ok [OF s blob_tableD(3) [OF T]] execute_query_def
        outcome_of_def Let_def prog_simps retS_def prepare_plain [OF q(1,2)])
  moreover have "holds S h rows vs (s\<lparr>world := w2\<rparr>)"
    using s w2(2) vs by (simp add: holds_def)
  ultimately show ?thesis by blast
qed

section \<open>Calls in sequence\<close>

datatype request = Insert mxArray | Select

fun request_call :: "'w setting \<Rightarrow> mxArray \<Rightarrow> mxArray \<Rightarrow> request \<Rightarrow> ('w, mxArray option) prog" where
  "request_call S qi qs (Insert a) = mexFunction S 0 [qi, a]"
| "request_call S qi qs Select = mexFunction S 1 [qs]"

primrec calls :: "'w setting \<Rightarrow> mxArray \<Rightarrow> mxArray \<Rightarrow> request list \<Rightarrow> 'w mex \<Rightarrow> mxArray option res list" where
  "calls S qi qs [] s = []"
| "calls S qi qs (x # xs) s = (case request_call S qi qs x s of (r, s') \<Rightarrow> r # calls S qi qs xs s')"

text \<open>The same requests to a list of values.\<close>

fun list_store :: "mysql_field \<Rightarrow> request list \<Rightarrow> mxArray list \<Rightarrow> mxArray option list" where
  "list_store f [] vs = []"
| "list_store f (Insert a # xs) vs = None # list_store f xs (vs @ [a])"
| "list_store f (Select # xs) vs = Some (values_struct f vs) # list_store f xs vs"

fun request_ok :: "mexenv \<Rightarrow> host \<Rightarrow> request \<Rightarrow> bool" where
  "request_ok E H (Insert a) = (plain_value E a \<and> readable H a)"
| "request_ok E H Select = True"

lemma calls_list_store:
  assumes T: "blob_table (s_client S) h pre post sel f rows" and E: "matlab_api (s_env S)" and Z: "zlib_api (s_zlib S)"
    and qi: "query_start pre" "no_nul post" "query_arg S qi (query_text [(pre, [PH_MATLAB])] post)"
    and qs: "sel = [] \<or> \<not> isspace (hd sel)" "\<not> create_or_alter sel" "query_arg S qs sel"
  shows "holds S h rows vs s \<Longrightarrow> list_all (request_ok (s_env S) (s_host S)) xs \<Longrightarrow> length vs + length xs \<le> INT_MAX \<Longrightarrow>
    calls S qi qs xs s = map Inr (list_store f xs vs)"
proof (induction xs arbitrary: vs s)
  case (Cons x xs)
  show ?case
  proof (cases x)
    case (Insert a)
    then have "plain_value (s_env S) a" "readable (s_host S) a" using Cons.prems by simp_all
    from insert_call [OF T Cons.prems(1) Z qi this] obtain s' where
      "mexFunction S 0 [qi, a] s = (Inr None, s')" "holds S h rows (vs @ [a]) s'" by blast
    with Insert Cons.IH [of "vs @ [a]" s'] Cons.prems show ?thesis by simp
  next
    case Select
    have "length vs \<le> INT_MAX" using Cons.prems by simp
    from select_call [OF T Cons.prems(1) E qs this] obtain s' where
      "mexFunction S 1 [qs] s = (Inr (Some (values_struct f vs)), s')" "holds S h rows vs s'" by blast
    with Select Cons.IH [of vs s'] Cons.prems show ?thesis by simp
  qed
qed simp

end
