(* ===== verification/Mym_Store_Properties.thy ===== *)
theory Mym_Store_Properties
  imports Mym_Store Mym_Result_Properties
begin

text \<open>
  The composition of writing and reading: a session of INSERT and SELECT calls behaves like a list of MATLAB values. A small
  client library with a table of its own shows that the hypotheses can be met.
\<close>


section \<open>A client library with a table\<close>

definition insert_start :: string where "insert_start = ''INSERT INTO t VALUES('' @ [CHR 0x27]"
definition insert_end :: string where "insert_end = CHR 0x27 # '')''"
definition select_text :: string where "select_text = ''SELECT b FROM t''"

fun doc_unescape :: "byte list \<Rightarrow> byte list" where
  "doc_unescape [] = []"
| "doc_unescape [b] = [b]"
| "doc_unescape (b # c # s) = (if b = 92
     then (if c = 48 then 0 else if c = 110 then 10 else if c = 114 then 13 else if c = 90 then 26 else c) # doc_unescape s
     else b # doc_unescape (c # s))"

lemma doc_unescape_escape: "doc_unescape (doc_escape x) = x"
proof (induction x)
  case (Cons b x)
  have plain: "doc_unescape (b # s) = b # doc_unescape s" if "b \<noteq> 92" for s using that by (cases s) simp_all
  show ?case using Cons plain by auto
qed simp

text \<open>The world: the rows, and the result of the last query.\<close>

type_synonym table_world = "byte list list \<times> mysql_res option"

definition table_send :: "byte list \<Rightarrow> table_world \<Rightarrow> bool \<times> table_world" where
  "table_send q w = (let pre = bytes_of insert_start; post = bytes_of insert_end in
     if q = bytes_of select_text then (False, fst w, Some (rows_result doc_blob (fst w)))
     else if take (length pre) q = pre
     then (False, fst w @ [doc_unescape (take (length q - length pre - length post) (drop (length pre) q))], None)
     else (True, fst w, None))"

definition table_client :: "table_world client" where
  "table_client = \<lparr>mysql_init = (\<lambda>h w. (Some 0, w)), mysql_close = (\<lambda>h w. w), mysql_ping = (\<lambda>h w. (False, w)),
     mysql_error = (\<lambda>h w. ''You have an error in your SQL syntax''), mysql_options = (\<lambda>h m w. w),
     mysql_real_connect = (\<lambda>h host user pass port w. (False, w)), mysql_stat = (\<lambda>h w. (None, w)),
     mysql_select_db = (\<lambda>h d w. (False, w)), mysql_get_ssl_cipher = (\<lambda>h w. False),
     mysql_get_host_info = (\<lambda>h w. bytes_of ''localhost''), mysql_get_server_info = (\<lambda>h w. bytes_of ''8.0''),
     mysql_send = (\<lambda>h real q w. table_send q w), mysql_store_result = (\<lambda>h w. (snd w, fst w, None)),
     mysql_field_count = (\<lambda>h w. 0), mysql_affected_rows = (\<lambda>h w. 1), mysql_real_escape_string = (\<lambda>h w. doc_escape)\<rparr>"

definition table_setting :: "table_world setting" where
  "table_setting = \<lparr>s_env = doc_env, s_host = doc_host, s_zlib = unary_zlib, s_client = table_client,
     s_nan = 0x7FF8000000000000, s_mym_directory = bytes_of ''/mym''\<rparr>"

definition table_open :: "table_world mex" where
  "table_open = (let s = initial ([], None) in s\<lparr>slots := (slots s)[0 := \<lparr>conn = Some 0, isopen = True\<rparr>]\<rparr>)"

lemma table_client_blobs:
  "blob_table table_client 0 (bytes_of insert_start) (bytes_of insert_end) (bytes_of select_text) doc_blob fst"
proof -
  let ?pre = "bytes_of insert_start" and ?post = "bytes_of insert_end"
  have "blob_field doc_blob" by (simp add: blob_field_def doc_blob_def)
  moreover have "table_send (?pre @ doc_escape b @ ?post) w = (False, fst w @ [b], None)" for b w
    by (simp add: table_send_def Let_def doc_unescape_escape insert_start_def select_text_def bytes_of_def)
  ultimately show ?thesis
    by (simp add: blob_table_def outcome_of_def Let_def table_client_def doc_escape_api table_send_def [of "bytes_of select_text"])
qed

lemma char_row_text:
  assumes "getstring doc_host (char_row t) = Inr (bytes_of t)" "querytype_of doc_env (bytes_of t) = CMD"
  shows "query_arg table_setting (char_row t) (bytes_of t)"
  using assms by (simp add: query_arg_def table_setting_def) (simp add: char_row_def mxIsClass_def)

lemmas text_eval = getstring_def string_room_def char_row_def to_int_def mxGetM_def mxGetN_def in_int_def
  doc_host_def doc_text_def bytes_of_def utf8_def utf8_encode_def

lemmas type_eval = querytype_of_def Let_def strcasestr_def strncasecmp_words_def strcasecmp_words_def bytes_of_def tolower_def

lemma insert_query:
  "query_arg table_setting (char_row (insert_start @ ''{M}'' @ insert_end))
     (query_text [(bytes_of insert_start, [PH_MATLAB])] (bytes_of insert_end))"
proof -
  have "query_text [(bytes_of insert_start, [PH_MATLAB])] (bytes_of insert_end) = bytes_of (insert_start @ ''{M}'' @ insert_end)"
    by (simp add: bytes_of_def ph_values)
  moreover have "query_arg table_setting (char_row (insert_start @ ''{M}'' @ insert_end)) (bytes_of (insert_start @ ''{M}'' @ insert_end))"
  proof (rule char_row_text)
    show "getstring doc_host (char_row (insert_start @ ''{M}'' @ insert_end)) = Inr (bytes_of (insert_start @ ''{M}'' @ insert_end))"
      by (simp add: text_eval insert_start_def insert_end_def)
    show "querytype_of doc_env (bytes_of (insert_start @ ''{M}'' @ insert_end)) = CMD"
      by (simp add: type_eval insert_start_def insert_end_def)
  qed
  ultimately show ?thesis by simp
qed

lemma select_query: "query_arg table_setting (char_row select_text) (bytes_of select_text)"
proof (rule char_row_text)
  show "getstring doc_host (char_row select_text) = Inr (bytes_of select_text)"
    by (simp add: text_eval select_text_def)
  show "querytype_of doc_env (bytes_of select_text) = CMD"
    by (simp add: type_eval select_text_def)
qed


end
