(* ===== verification/Spec2Isabelle.thy ===== *)
theory Spec2Isabelle
  imports Mym_Types Mym_Format_Properties Mym_Text_Properties Mym_Query_Properties Mym_Result_Properties
    Mym_Session_Properties Mysql_String Mysql_File_Properties Mysql_Rwlock Mysql_Time Mysql_Native
    Mysql_Thread_Properties Mysql_Socket_Properties Mysql_Events_Properties Mysql_Psi_Properties
    Mysql_Iocache Mysql_Ssl Mysql_Dbug_Properties Mysql_Ctype Mysql_Util Mysql_Client
    Mym_Store_Properties
begin

text \<open>
  mYm, the MATLAB interface to MySQL, in Isabelle/HOL.

  The program. \<open>src/src/mym.cpp\<close> is one MEX function. A call \<open>mym(id, command, ...)\<close> opens, closes, selects or reports
  connections, which are kept in a table between the calls, or sends a query. The placeholders in a query take the
  arguments that follow it: {S} as text, {B} and {F} as bytes, {M} as any MATLAB value in a binary format,
  which may be compressed. A SELECT returns a structure with a column per field, in which blobs of that
  format have become MATLAB values again, or prints a table. The rest of the C code are headers: those of the client
  library, and those of the MySQL connector, which have inline functions for byte orders, strings, points in time, locks and
  threads, and for the same things and more once again with reports to a plugin, the performance schema.

  The model of the program, from the bottom up. An error of MATLAB, memory that runs out and undefined behaviour (a read
  or a write outside an object, use after free, signed overflow) are values of one error type, so that a theorem about
  a result says that none of them happens. Buffers have the size that the code computes.
    \<open>Mym_Prelude\<close>, \<open>Mym_CString\<close>, \<open>Mym_Decimal\<close>: errors, C strings, numbers as text.
    \<open>Mym_Bytes\<close>: \<open>READ_UINT\<close>, \<open>WRITE_UINT64\<close> and their kin, with the locales \<open>codec\<close>, \<open>fixed_codec\<close> and \<open>prefix_codec\<close>.
    \<open>Mym_MxArray\<close>: MATLAB values and the routines of MATLAB that make them; a parameter with documented promises.
    \<open>Mym_Serialize\<close>, \<open>Mym_Deserialize\<close>, \<open>Mym_Zlib\<close>, \<open>Mym_Blob\<close>: the binary format, compression, the entry point \<open>deserialize\<close>.
    \<open>Mym_Utf8\<close>, \<open>Mym_Text\<close>: \<open>hex2char\<close>, \<open>char2hex\<close>, \<open>serializeString\<close>, \<open>serializeBinary\<close>, \<open>serializeFile\<close>.
    \<open>Mym_Placeholder\<close>, \<open>Mym_Query\<close>, \<open>Mym_Commands\<close>: the scan for placeholders, the substitution, the flags, the brackets of CREATE,
      and the commands that need no server.
    \<open>Mym_Field\<close>, \<open>Mym_Result\<close>, \<open>Mym_Fetch\<close>: types of columns and their conversion, \<open>fancyprint\<close>, and the structure of a SELECT.
    \<open>Mym_Session\<close>, \<open>Mym_Connect\<close>, \<open>Mym_Main\<close>: the table \<open>c[MAXCONN]\<close>, the commands on connections, \<open>mexFunction\<close>.
  What is proved of it:
    \<open>Mym_BlobLaws\<close>, \<open>Mym_Format_Properties\<close>: what is written is the format, what is written is read back, in both sizes and
      compressed or not, and truncated blobs are read too far; \<open>Mym_Types\<close>: what is read is well-shaped, whatever the bytes.
    \<open>Mym_Text_Properties\<close>, \<open>Mym_Query_Properties\<close>, \<open>Mym_Result_Properties\<close>: round trips of texts, the scan, the substitution in its
      buffer, columns, tables, and inputs for which the code is wrong.
    \<open>Mym_Invariant\<close>, \<open>Mym_Behaviour\<close>, \<open>Mym_Session_Properties\<close>: the invariant of the table of connections over all sequences of
      calls, and what one command leaves alone.
    \<open>Mym_Store\<close>, \<open>Mym_Store_Properties\<close>: the composition: sessions of INSERT and SELECT calls of \<open>mexFunction\<close> refine a list of
      values, with what SQL promises for the two queries as the hypothesis \<open>blob_table\<close>.
    \<open>Mym_Instances\<close>: concrete surroundings that meet the hypotheses, on which the witnesses are evaluated.

  The model of the connector's headers (\<open>src/mysql-connector/include\<close>):
    \<open>Mysql_Byteorder\<close>: \<open>my_byteorder.h\<close> and the four files that it includes; both byte orders share a locale.
    \<open>Mysql_String\<close>: \<open>m_string.h\<close>. \<open>Mysql_Time\<close>: points in time of \<open>my_global.h\<close> and \<open>get_milliseconds\<close> of \<open>thr_cond.h\<close>.
    \<open>Mysql_Mutex\<close>, \<open>Mysql_Rwlock\<close>: \<open>thr_mutex.h\<close> and \<open>thr_rwlock.h\<close>, the latter with all interleavings of threads and a
      refinement of an abstract lock. \<open>Mysql_Native\<close>: \<open>my_thread.h\<close>, \<open>my_thread_local.h\<close>, \<open>thr_cond.h\<close>.
    \<open>Mysql_File\<close>, \<open>Mysql_File_Calls\<close>, \<open>Mysql_File_Laws\<close>, \<open>Mysql_File_Properties\<close>: \<open>mysql/psi/mysql_file.h\<close>.
    \<open>Mysql_Calls\<close>: functions as trees of their calls of the plugin and of the system, monitors over the calls, and the machine
      that interleaves the calls of threads.
    \<open>Mysql_Thread\<close>, \<open>Mysql_Socket\<close>, \<open>Mysql_Events\<close>: the other headers of \<open>mysql/psi\<close> as such trees, one definition per inline
      function and one function \<open>expand_...\<close> per group of macros.
    \<open>Mysql_Thread_Laws\<close>, \<open>Mysql_Thread_Owner\<close>, \<open>Mysql_Thread_Properties\<close>, \<open>Mysql_Socket_Properties\<close>, \<open>Mysql_Events_Properties\<close>: a program
      cannot tell that the plugin is there; waits are complete; handles and lockers are used in the right order;
      the plugin's picture of who owns a mutex is right, where \<open>Mysql_Mutex\<close> is the system below.
    \<open>Mysql_Psi\<close>, \<open>Mysql_Psi_Properties\<close>: the options of \<open>psi.h\<close>, and that a build with all of it disabled never calls the plugin.
    \<open>Mysql_Iocache\<close>: the cache for files of \<open>my_sys.h\<close>, which refines a file with a position; its functions are the locale
      \<open>cache_functions\<close>. \<open>Mysql_Ssl\<close>: the options of a client for encrypted connections (\<open>sslopt-*.h\<close>).
    \<open>Mysql_Dbug\<close>, \<open>Mysql_Dbug_Properties\<close>: the macros of \<open>my_dbug.h\<close> in both builds, and functions that use them.
    \<open>Mysql_Ctype\<close>: character classes of \<open>m_ctype.h\<close>. \<open>Mysql_Util\<close>: alignment, errors of the linker, \<open>my_sleep\<close>.
    \<open>Mysql_Client\<close>: macros of \<open>sql_common.h\<close>, \<open>mysql_com.h\<close>, \<open>decimal.h\<close> and for memory in \<open>my_sys.h\<close>.

  Interfaces. The contract between a writer and a reader of the format is the locale \<open>codec\<close> with its extensions, \<open>size_reader\<close> is that
  of the sizes, and \<open>lossy_codec\<close> that of whole blobs; \<open>command_frame\<close> and \<open>session_frame\<close> say what a command may change;
  \<open>byte_order\<close> relates readers and writers of integers; \<open>locker_protocol\<close> relates the start, the use and the end of a
  statement, a transaction, a stored program or a wait. Each is interpreted on the definitions of the model.

  Termination. No fuel is used. The readers and writers of nested values recurse on the value or on the rest of the buffer, which
  each call shortens; the scans on the rest of the query; loops over \<open>int\<close> counters stop with an error where the counter would
  overflow. A function of \<open>mysql_thread.h\<close> makes at most six calls.

  Parameters. MATLAB's routines (\<open>mexenv\<close>, \<open>host\<close>), zlib, \<open>mysql_real_escape_string\<close> and the client library, the plugin, the functions of
  Windows and POSIX and of \<open>mysys\<close>, and the clock are arguments; what their documentation promises is a named
  hypothesis where a theorem needs it.

  Not modelled. Structures of the client library and of the plugin that are only declared, prototypes, tables of error numbers and
  of character sets, the headers of zlib, and those of the client library that repeat the connector's (\<open>src/mysqlclient\<close>, \<open>src/zlib\<close>,
  \<open>mysqld_error.h\<close>, the structures of \<open>mysql_com.h\<close>, the argument structures of \<open>psi.h\<close>): there is nothing in them that runs. The MATLAB code (help,
  tests, build scripts), the contents of files and the output device, and what the server does with a query.
\<close>

end
